(* ===== verification/Prelude.thy ===== *)
theory Prelude
  imports Main "HOL-Library.AList"
begin

text \<open>
  Shared vocabulary of the development: the exceptions the Python code raises, results
  that are either an exception or a value, and the relational tables the code keeps in
  SQLite.  A table is the list of its rows in rowid order.  The operations are the shapes
  of SQL statement the code issues: \<open>find_row\<close> (a SELECT by key followed by
  \<open>fetchone\<close>), \<open>update_where\<close> (UPDATE ... WHERE) and \<open>rowcount\<close> (the number of rows
  an UPDATE touches).  The interface locale \<open>keyed_table\<close> collects the laws that every
  table with a primary key enjoys; it is interpreted once per table of the schema.
\<close>

section \<open>Exceptions and results\<close>

text \<open>
  \<open>BillingError\<close>, \<open>CRMError\<close>, \<open>HTTPException\<close> and \<open>ProtocolError\<close> are the program's own
  exceptions; their human readable message is not modelled, their machine readable code
  and HTTP status are.  \<open>PurchaseError\<close> is \<open>ProxyPurchaseError\<close> and \<open>ProviderError\<close> the
  \<open>ProxyProviderError\<close> hierarchy of webapp/proxy_providers/base.py, one constructor of
  \<open>provider_failure\<close> per class.  The others are the interpreter's and those of \<open>decimal\<close>.
\<close>

datatype provider_failure =
    ProviderUnspecified
  | ProviderConfigurationError
  | ProviderAuthenticationError
  | ProviderRejectedError
  | ProviderUnavailableError
  | ProviderOutcomeUnknown
  | ProviderResponseError

datatype pyexc =
    BillingError string int
  | CRMError string int
  | HTTPException int string
  | ProtocolError string
  | RuntimeError
  | IntegrityError
  | AttributeError
  | KeyError
  | TypeError
  | ValueError
  | OverflowError
  | StopIteration
  | InvalidOperation
  | PurchaseError string int
  | ProviderError provider_failure

type_synonym 'a res = "pyexc + 'a"

named_theorems table_simps \<open>rewriting of table operations\<close>

abbreviation is_ok :: "'a res \<Rightarrow> bool" where
  "is_ok r \<equiv> (\<exists>x. r = Inr x)"

text \<open>
  Sequencing: \<open>bindr r k\<close> runs \<open>k\<close> on the value of \<open>r\<close>, an exception skips it.  A raised
  exception carries no state: the \<open>db()\<close> context manager (webapp/db.py) rolls the
  transaction back, so the database is the one before the call.
\<close>

definition bindr :: "'a res \<Rightarrow> ('a \<Rightarrow> 'b res) \<Rightarrow> 'b res" where
  "bindr r k = (case r of Inl e \<Rightarrow> Inl e | Inr x \<Rightarrow> k x)"

lemma bindr_Inl [simp]: "bindr (Inl e) k = Inl e"
  by (simp add: bindr_def)

lemma bindr_Inr [simp]: "bindr (Inr x) k = k x"
  by (simp add: bindr_def)

lemma bindr_eq_Inr: "bindr r k = Inr y \<longleftrightarrow> (\<exists>x. r = Inr x \<and> k x = Inr y)"
  by (cases r) auto

lemma bindr_eq_Inl: "bindr r k = Inl e \<longleftrightarrow> r = Inl e \<or> (\<exists>x. r = Inr x \<and> k x = Inl e)"
  by (cases r) auto

lemma bindr_cong [fundef_cong]:
  "r = r' \<Longrightarrow> (\<And>x. r' = Inr x \<Longrightarrow> k x = k' x) \<Longrightarrow> bindr r k = bindr r' k'"
  by (cases r') auto

definition map_res :: "('a \<Rightarrow> 'b) \<Rightarrow> 'a res \<Rightarrow> 'b res" where
  "map_res f r = bindr r (\<lambda>x. Inr (f x))"

lemma map_res_simps [simp]: "map_res f (Inl e) = Inl e" "map_res f (Inr x) = Inr (f x)"
  by (simp_all add: map_res_def)

text \<open>A \<open>for\<close> loop that may raise, and a state-passing one.\<close>

fun foldr_res :: "('s \<Rightarrow> 'a \<Rightarrow> 's res) \<Rightarrow> 's \<Rightarrow> 'a list \<Rightarrow> 's res" where
  "foldr_res f s [] = Inr s"
| "foldr_res f s (x # xs) = bindr (f s x) (\<lambda>s'. foldr_res f s' xs)"

fun map_all :: "('a \<Rightarrow> 'b res) \<Rightarrow> 'a list \<Rightarrow> 'b list res" where
  "map_all f [] = Inr []"
| "map_all f (x # xs) = bindr (f x) (\<lambda>y. bindr (map_all f xs) (\<lambda>ys. Inr (y # ys)))"

text \<open>\<open>any(...)\<close> over a generator whose test may raise: it stops at the first \<open>True\<close>.\<close>

fun any_res :: "('a \<Rightarrow> bool res) \<Rightarrow> 'a list \<Rightarrow> bool res" where
  "any_res f [] = Inr False"
| "any_res f (x # xs) = bindr (f x) (\<lambda>b. if b then Inr True else any_res f xs)"

text \<open>\<open>a or b\<close> where \<open>b\<close> may raise.\<close>

definition or_res :: "bool res \<Rightarrow> bool res \<Rightarrow> bool res" where
  "or_res a b = bindr a (\<lambda>x. if x then Inr True else b)"

lemma foldr_res_invariant:
  assumes "foldr_res f s xs = Inr s'" and "P s"
    and "\<And>s x s'. x \<in> set xs \<Longrightarrow> P s \<Longrightarrow> f s x = Inr s' \<Longrightarrow> P s'"
  shows "P s'"
  using assms by (induction xs arbitrary: s) (auto simp: bindr_eq_Inr)

section \<open>Tables\<close>

definition find_row :: "('r \<Rightarrow> bool) \<Rightarrow> 'r list \<Rightarrow> 'r option" where
  "find_row P rows = List.find P rows"

definition update_where :: "('r \<Rightarrow> bool) \<Rightarrow> ('r \<Rightarrow> 'r) \<Rightarrow> 'r list \<Rightarrow> 'r list" where
  "update_where P f rows = map (\<lambda>r. if P r then f r else r) rows"

definition rowcount :: "('r \<Rightarrow> bool) \<Rightarrow> 'r list \<Rightarrow> nat" where
  "rowcount P rows = length (filter P rows)"

lemma find_row_Nil [simp]: "find_row P [] = None"
  by (simp add: find_row_def)

lemma find_row_Cons [simp]:
  "find_row P (r # rows) = (if P r then Some r else find_row P rows)"
  by (simp add: find_row_def)

lemma find_row_None: "find_row P rows = None \<longleftrightarrow> (\<forall>r \<in> set rows. \<not> P r)"
  by (induction rows) auto

lemma find_row_SomeD: "find_row P rows = Some r \<Longrightarrow> r \<in> set rows \<and> P r"
  by (induction rows) (auto split: if_splits)

lemma find_row_append:
  "find_row P (xs @ ys) = (case find_row P xs of None \<Rightarrow> find_row P ys | Some r \<Rightarrow> Some r)"
  by (induction xs) auto

lemma update_where_Nil [simp]: "update_where P f [] = []"
  by (simp add: update_where_def)

lemma update_where_Cons [simp]:
  "update_where P f (r # rows) = (if P r then f r else r) # update_where P f rows"
  by (simp add: update_where_def)

lemma update_where_append [simp]:
  "update_where P f (xs @ ys) = update_where P f xs @ update_where P f ys"
  by (simp add: update_where_def)

lemma length_update_where [simp]: "length (update_where P f rows) = length rows"
  by (simp add: update_where_def)

lemma set_update_where:
  "set (update_where P f rows) = (\<lambda>r. if P r then f r else r) ` set rows"
  by (simp add: update_where_def)

lemma map_update_where_cong:
  "(\<And>r. P r \<Longrightarrow> g (f r) = g r) \<Longrightarrow> map g (update_where P f rows) = map g rows"
  by (auto simp: update_where_def)

lemma update_where_none: "\<forall>r \<in> set rows. \<not> P r \<Longrightarrow> update_where P f rows = rows"
  by (induction rows) auto

text \<open>
  The interface of a table with a primary key: a lookup by key, an update of the row with
  a key, an insertion that refuses a key already present.  \<open>distinct_keys\<close> is the table's
  primary key constraint.
\<close>

locale keyed_table =
  fixes key :: "'r \<Rightarrow> 'k"
    and get :: "'k \<Rightarrow> 'r list \<Rightarrow> 'r option"
    and modify :: "'k \<Rightarrow> ('r \<Rightarrow> 'r) \<Rightarrow> 'r list \<Rightarrow> 'r list"
  assumes get_modify: "(\<And>r. key (f r) = key r) \<Longrightarrow>
      get k (modify k' f t) = (if k = k' then map_option f (get k t) else get k t)"
    and get_append: "get k (t @ [r]) = (case get k t of None \<Rightarrow> if key r = k then Some r else None | Some x \<Rightarrow> Some x)"
    and get_key: "get k t = Some r \<Longrightarrow> key r = k \<and> r \<in> set t"
    and get_in: "distinct (map key t) \<Longrightarrow> r \<in> set t \<Longrightarrow> get (key r) t = Some r"
    and keys_modify: "(\<And>r. key (f r) = key r) \<Longrightarrow> map key (modify k f t) = map key t"
    and get_None: "get k t = None \<longleftrightarrow> k \<notin> key ` set t"
begin

lemma get_modify_same:
  "(\<And>r. key (f r) = key r) \<Longrightarrow> get k t = Some r \<Longrightarrow> get k (modify k f t) = Some (f r)"
  by (simp add: get_modify)

lemma get_modify_other:
  "(\<And>r. key (f r) = key r) \<Longrightarrow> k \<noteq> k' \<Longrightarrow> get k (modify k' f t) = get k t"
  by (simp add: get_modify)

lemma get_fresh: "k \<notin> key ` set t \<Longrightarrow> key r = k \<Longrightarrow> get k (t @ [r]) = Some r"
  using get_None [of k t] by (simp add: get_append)

lemma get_append_other: "key r \<noteq> k \<Longrightarrow> get k (t @ [r]) = get k t"
  by (simp add: get_append split: option.splits)

lemma get_append_old: "get k t = Some x \<Longrightarrow> get k (t @ [r]) = Some x"
  by (simp add: get_append)

lemma distinct_append:
  "distinct (map key t) \<Longrightarrow> get (key r) t = None \<Longrightarrow> distinct (map key (t @ [r]))"
  by (simp add: get_None image_iff)

lemma get_unique:
  "distinct (map key t) \<Longrightarrow> r \<in> set t \<Longrightarrow> r' \<in> set t \<Longrightarrow> key r = key r' \<Longrightarrow> r = r'"
  by (metis get_in option.inject)

end

text \<open>The list operations the SQL statements compile to, at a key.\<close>

definition row_get :: "('r \<Rightarrow> 'k) \<Rightarrow> 'k \<Rightarrow> 'r list \<Rightarrow> 'r option" where
  "row_get key k t = find_row (\<lambda>r. key r = k) t"

definition row_modify :: "('r \<Rightarrow> 'k) \<Rightarrow> 'k \<Rightarrow> ('r \<Rightarrow> 'r) \<Rightarrow> 'r list \<Rightarrow> 'r list" where
  "row_modify key k f t = update_where (\<lambda>r. key r = k) f t"

lemma row_get_Nil [simp]: "row_get key k [] = None"
  by (simp add: row_get_def)

lemma row_get_Cons [simp]:
  "row_get key k (r # rows) = (if key r = k then Some r else row_get key k rows)"
  by (simp add: row_get_def)

lemma row_modify_Nil [simp]: "row_modify key k f [] = []"
  by (simp add: row_modify_def)

lemma row_modify_Cons [simp]:
  "row_modify key k f (r # rows) = (if key r = k then f r else r) # row_modify key k f rows"
  by (simp add: row_modify_def)

lemma row_tables: "keyed_table key (row_get key) (row_modify key)"
proof
  show "row_get key k (row_modify key k' f t) =
      (if k = k' then map_option f (row_get key k t) else row_get key k t)"
    if "\<And>r. key (f r) = key r" for f k k' t
    by (induction t) (auto simp: that)
  show "row_get key k (t @ [r]) =
      (case row_get key k t of None \<Rightarrow> if key r = k then Some r else None | Some x \<Rightarrow> Some x)" for k t r
    by (induction t) auto
  show "key r = k \<and> r \<in> set t" if "row_get key k t = Some r" for k t r
    using that by (induction t) (auto split: if_splits)
  show "row_get key (key r) t = Some r" if "distinct (map key t)" "r \<in> set t" for t r
    using that by (induction t) (auto simp: image_iff)
  show "map key (row_modify key k f t) = map key t" if "\<And>r. key (f r) = key r" for f k t
    by (induction t) (auto simp: that)
  show "row_get key k t = None \<longleftrightarrow> k \<notin> key ` set t" for k t
    by (induction t) auto
qed

lemma row_get_update_where:
  assumes "\<And>r. key (f r) = key r"
  shows "row_get key k (update_where P f t) =
    map_option (\<lambda>r. if P r then f r else r) (row_get key k t)"
  by (induction t) (auto simp: assms)

lemma row_get_map:
  assumes "\<And>r. key (f r) = key r"
  shows "row_get key k (map f t) = map_option f (row_get key k t)"
  by (induction t) (auto simp: assms)

section \<open>Sums over the rows of a table\<close>

lemma sum_list_update_key:
  fixes v :: "'r \<Rightarrow> int"
  assumes "distinct (map key t)" and "row_get key k t = Some r"
  shows "sum_list (map v (row_modify key k f t)) = sum_list (map v t) - v r + v (f r)"
  using assms
proof (induction t)
  case Nil
  then show ?case by simp
next
  case (Cons a t)
  show ?case
  proof (cases "key a = k")
    case True
    with Cons.prems have "\<forall>x \<in> set t. key x \<noteq> k" by (simp add: image_iff) metis
    then have "row_modify key k f t = t"
      by (simp add: row_modify_def update_where_none)
    with True Cons.prems show ?thesis by simp
  next
    case False
    with Cons show ?thesis by simp
  qed
qed

lemma sum_list_filter_nonneg:
  fixes v :: "'r \<Rightarrow> int"
  shows "(\<And>r. r \<in> set t \<Longrightarrow> 0 \<le> v r) \<Longrightarrow> 0 \<le> sum_list (map v t)"
  by (induction t) auto

end
