(* ===== verification/Binary64.thy ===== *)
theory Binary64
  imports Complex_Main
begin

text \<open>
  Python's floats, as exact values: a finite \<open>float\<close> is a rational number, and every
  arithmetic operation of the code rounds its exact result to 53 significant bits, ties
  to even.  \<open>b64\<close> is that rounding, with an unbounded exponent range (the amounts, points
  and seconds of this program are far from the subnormal and the overflow range).
  \<open>rhe\<close> is Python's one-argument \<open>round\<close>; \<open>py_round2\<close> is \<open>round(x, 2)\<close>, which rounds
  the exact value of the double to two decimals and then to the nearest double.
\<close>

section \<open>Round half to even\<close>

definition rhe :: "rat \<Rightarrow> int" where
  "rhe x = (let f = \<lfloor>x\<rfloor>; d = x - of_int f in
     if d < 1/2 then f else if 1/2 < d then f + 1 else if even f then f else f + 1)"

lemma rhe_of_int [simp]: "rhe (of_int n) = n"
  by (simp add: rhe_def)

lemma rhe_numeral [simp]: "rhe (numeral n) = numeral n"
  using rhe_of_int [of "numeral n"] by simp

lemma rhe_zero [simp]: "rhe 0 = 0"
  using rhe_of_int [of 0] by simp

lemma rhe_one [simp]: "rhe 1 = 1"
  using rhe_of_int [of 1] by simp

lemma rhe_error: "\<bar>of_int (rhe x) - x\<bar> \<le> 1/2"
proof -
  have "of_int \<lfloor>x\<rfloor> \<le> x" "x < of_int \<lfloor>x\<rfloor> + 1"
    by linarith+
  then show ?thesis by (auto simp: rhe_def Let_def abs_le_iff)
qed

lemma rhe_unique: "\<bar>x - of_int n\<bar> < 1/2 \<Longrightarrow> rhe x = n"
proof -
  assume a: "\<bar>x - of_int n\<bar> < 1/2"
  have "\<bar>of_int (rhe x) - of_int n :: rat\<bar> \<le> \<bar>of_int (rhe x) - x\<bar> + \<bar>x - of_int n\<bar>"
    by linarith
  also have "\<dots> < 1" using a rhe_error [of x] by linarith
  finally have "\<bar>of_int (rhe x - n) :: rat\<bar> < 1" by simp
  then have "\<bar>rhe x - n\<bar> < 1" by linarith
  then show ?thesis by simp
qed

lemma rhe_mono: "x \<le> y \<Longrightarrow> rhe x \<le> rhe y"
proof -
  assume le: "x \<le> y"
  have fl: "\<lfloor>x\<rfloor> \<le> \<lfloor>y\<rfloor>" using le by (rule floor_mono)
  show ?thesis
  proof (cases "\<lfloor>x\<rfloor> = \<lfloor>y\<rfloor>")
    case True
    with le show ?thesis by (auto simp: rhe_def Let_def)
  next
    case False
    with fl have "\<lfloor>x\<rfloor> + 1 \<le> \<lfloor>y\<rfloor>" by linarith
    then show ?thesis by (auto simp: rhe_def Let_def)
  qed
qed

lemma rhe_nonneg: "0 \<le> x \<Longrightarrow> 0 \<le> rhe x"
  using rhe_mono [of 0 x] by simp

lemma rhe_minus: "rhe (- x) = - rhe x"
proof (cases "x = of_int \<lfloor>x\<rfloor>")
  case True
  then have "rhe x = \<lfloor>x\<rfloor>" by (metis rhe_of_int)
  moreover have "rhe (- x) = - \<lfloor>x\<rfloor>" using True by (metis of_int_minus rhe_of_int)
  ultimately show ?thesis by simp
next
  case False
  then have c: "\<lfloor>- x\<rfloor> = - \<lfloor>x\<rfloor> - 1" by linarith
  show ?thesis using False by (auto simp: rhe_def Let_def c)
qed

section \<open>Rounding to 53 bits\<close>

text \<open>
  \<open>binexp x\<close> is the exponent \<open>e\<close> with \<open>2^e \<le> x < 2^(e+1)\<close> of a positive rational, found by
  comparing \<open>x\<close> with the powers of two (halving or doubling until it lies in \<open>[1, 2)\<close>).
\<close>

function exp_up :: "rat \<Rightarrow> int \<Rightarrow> int" where
  "exp_up x e = (if x < 2 then e else exp_up (x / 2) (e + 1))"
  by pat_completeness auto
termination
proof (relation "measure (\<lambda>(x, e). nat \<lfloor>x\<rfloor>)")
  fix x :: rat and e :: int
  assume "\<not> x < 2"
  then have "\<lfloor>x / 2\<rfloor> < \<lfloor>x\<rfloor>" and "0 < \<lfloor>x\<rfloor>" by linarith+
  then show "((x / 2, e + 1), x, e) \<in> measure (\<lambda>(x, e). nat \<lfloor>x\<rfloor>)" by simp
qed simp

lemma ceiling_half: "1 < (y::rat) \<Longrightarrow> \<lceil>y / 2\<rceil> < \<lceil>y\<rceil>"
proof (cases "y < 2")
  case True
  assume one: "1 < y"
  from True have "\<lceil>y / 2\<rceil> \<le> 1" by (simp add: ceiling_le_iff)
  moreover from one have "1 < \<lceil>y\<rceil>" by (simp add: less_ceiling_iff)
  ultimately show ?thesis by linarith
next
  case False
  then show ?thesis by linarith
qed

function exp_down :: "rat \<Rightarrow> int \<Rightarrow> int" where
  "exp_down x e = (if x \<le> 0 \<or> 1 \<le> x then e else exp_down (x * 2) (e - 1))"
  by pat_completeness auto
termination
proof (relation "measure (\<lambda>(x, e). nat \<lceil>1 / x\<rceil>)")
  fix x :: rat and e :: int
  assume "\<not> (x \<le> 0 \<or> 1 \<le> x)"
  then have x: "0 < x" "x < 1" by auto
  then have one: "1 < 1 / x" by simp
  have eq: "1 / (x * 2) = (1 / x) / 2" by simp
  have lt: "\<lceil>(1 / x) / 2\<rceil> < \<lceil>1 / x\<rceil>" using one by (rule ceiling_half)
  have pos: "0 < \<lceil>1 / x\<rceil>" using one by linarith
  then show "((x * 2, e - 1), x, e) \<in> measure (\<lambda>(x, e). nat \<lceil>1 / x\<rceil>)"
    using lt pos by (simp add: eq del: divide_divide_eq_left)
qed simp

declare exp_up.simps [simp del] exp_down.simps [simp del]

definition binexp :: "rat \<Rightarrow> int" where
  "binexp x = (if 1 \<le> x then exp_up x 0 else exp_down x 0)"

lemma pow2_step: "(2::rat) powi (k + 1) = 2 * 2 powi k"
  by (simp add: power_int_add_1 mult.commute)

lemma exp_up_bounds:
  "1 \<le> x \<Longrightarrow> 2 powi (exp_up x e - e) \<le> x \<and> x < 2 powi (exp_up x e - e + 1) \<and> e \<le> exp_up x e"
proof (induction x e rule: exp_up.induct)
  case (1 x e)
  show ?case
  proof (cases "x < 2")
    case True
    with 1 show ?thesis by (simp add: exp_up.simps [of x e])
  next
    case False
    with 1 have ih: "2 powi (exp_up (x / 2) (e + 1) - (e + 1)) \<le> x / 2"
      "x / 2 < 2 powi (exp_up (x / 2) (e + 1) - (e + 1) + 1)" "e + 1 \<le> exp_up (x / 2) (e + 1)"
      by auto
    let ?k = "exp_up (x / 2) (e + 1) - (e + 1)"
    have "(2::rat) powi (?k + 1) = 2 * 2 powi ?k" "(2::rat) powi (?k + 1 + 1) = 2 * 2 powi (?k + 1)"
      by (rule pow2_step)+
    with ih False show ?thesis
      by (simp add: exp_up.simps [of x e] algebra_simps)
  qed
qed

lemma exp_down_bounds:
  "0 < x \<Longrightarrow> x < 2 \<Longrightarrow> 2 powi (exp_down x e - e) \<le> x \<and> x < 2 powi (exp_down x e - e + 1)"
proof (induction x e rule: exp_down.induct)
  case (1 x e)
  show ?case
  proof (cases "x \<le> 0 \<or> 1 \<le> x")
    case True
    with 1 show ?thesis by (simp add: exp_down.simps [of x e])
  next
    case False
    with 1 have ih: "2 powi (exp_down (x * 2) (e - 1) - (e - 1)) \<le> x * 2"
      "x * 2 < 2 powi (exp_down (x * 2) (e - 1) - (e - 1) + 1)"
      by auto
    let ?k = "exp_down (x * 2) (e - 1) - e"
    have "(2::rat) powi (?k + 1) = 2 * 2 powi ?k" "(2::rat) powi (?k + 1 + 1) = 2 * 2 powi (?k + 1)"
      by (rule pow2_step)+
    with ih False show ?thesis
      by (simp add: exp_down.simps [of x e] algebra_simps)
  qed
qed

lemma binexp_bounds: "0 < x \<Longrightarrow> 2 powi (binexp x) \<le> x \<and> x < 2 powi (binexp x + 1)"
  using exp_up_bounds [of x 0] exp_down_bounds [of x 0] by (auto simp: binexp_def)

definition ulp :: "rat \<Rightarrow> rat" where
  "ulp x = 2 powi (binexp \<bar>x\<bar> - 52)"

definition b64 :: "rat \<Rightarrow> rat" where
  "b64 x = (if x = 0 then 0 else of_int (rhe (x / ulp x)) * ulp x)"

lemma ulp_pos [simp]: "0 < ulp x"
  by (simp add: ulp_def)

lemma ulp_nonzero [simp]: "ulp x \<noteq> 0"
  using ulp_pos [of x] by linarith

lemma b64_zero [simp]: "b64 0 = 0"
  by (simp add: b64_def)

lemma b64_abs_error: "\<bar>b64 x - x\<bar> \<le> ulp x / 2"
proof (cases "x = 0")
  case False
  have "b64 x - x = (of_int (rhe (x / ulp x)) - x / ulp x) * ulp x"
    using False ulp_pos [of x] by (simp add: b64_def field_simps)
  then have "\<bar>b64 x - x\<bar> = \<bar>of_int (rhe (x / ulp x)) - x / ulp x\<bar> * ulp x"
    using ulp_pos [of x] by (simp add: abs_mult less_imp_le)
  also have "\<dots> \<le> (1/2) * ulp x"
    using rhe_error [of "x / ulp x"] less_imp_le [OF ulp_pos [of x]] by (intro mult_right_mono) auto
  finally show ?thesis by simp
qed (simp add: less_imp_le)

lemma ulp_le: "x \<noteq> 0 \<Longrightarrow> ulp x \<le> \<bar>x\<bar> / 2 ^ 52"
proof -
  assume "x \<noteq> 0"
  then have "2 powi (binexp \<bar>x\<bar>) \<le> \<bar>x\<bar>" using binexp_bounds [of "\<bar>x\<bar>"] by simp
  moreover have "ulp x = 2 powi (binexp \<bar>x\<bar>) / 2 ^ 52"
    by (simp add: ulp_def power_int_diff)
  ultimately show ?thesis by (simp add: divide_right_mono)
qed

text \<open>The relative error of one rounding: half a unit in the last place, at most \<open>2^-53\<close>.\<close>

lemma b64_rel_error: "\<bar>b64 x - x\<bar> \<le> \<bar>x\<bar> / 2 ^ 53"
proof (cases "x = 0")
  case False
  have "\<bar>b64 x - x\<bar> \<le> ulp x / 2" by (rule b64_abs_error)
  also have "\<dots> \<le> (\<bar>x\<bar> / 2 ^ 52) / 2" using ulp_le [OF False] by simp
  finally show ?thesis by simp
qed simp

lemma b64_nonneg: "0 \<le> x \<Longrightarrow> 0 \<le> b64 x"
proof -
  assume "0 \<le> x"
  then have "0 \<le> x / ulp x" using less_imp_le [OF ulp_pos [of x]] by (rule divide_nonneg_nonneg)
  then have "0 \<le> (of_int (rhe (x / ulp x)) :: rat)" by (simp add: rhe_nonneg)
  then show ?thesis using less_imp_le [OF ulp_pos [of x]] by (simp add: b64_def)
qed

text \<open>Integers of at most 53 bits are doubles: they are not rounded.\<close>

lemma b64_of_int: "\<bar>n\<bar> \<le> 2 ^ 53 \<Longrightarrow> b64 (of_int n) = of_int n"
proof (cases "n = 0")
  case False
  assume b: "\<bar>n\<bar> \<le> 2 ^ 53"
  let ?e = "binexp \<bar>of_int n\<bar>"
  have bd: "2 powi ?e \<le> (\<bar>of_int n\<bar> :: rat)" using False binexp_bounds [of "\<bar>of_int n\<bar>"] by simp
  have "(\<bar>of_int n\<bar> :: rat) \<le> 2 ^ 53" using b by (metis of_int_abs of_int_le_iff of_int_numeral of_int_power)
  with bd have "(2::rat) powi ?e < 2 powi 54" by (simp add: power_int_numeral)
  then have "?e < 54" by (meson linorder_not_le one_le_numeral power_int_increasing zero_neq_numeral)
  then have "?e \<le> 53" by simp
  show ?thesis
  proof (cases "?e \<le> 52")
    case True
    then obtain k :: nat where k: "52 - ?e = int k" by (metis diff_ge_0_iff_ge zero_le_imp_eq_int)
    have "ulp (of_int n) = inverse (2 powi (52 - ?e))"
      by (metis ulp_def minus_diff_eq power_int_minus)
    then have u: "ulp (of_int n) = inverse (2 ^ k)" by (simp add: k)
    have "(of_int n :: rat) / ulp (of_int n) = of_int (n * 2 ^ k)" by (simp add: u divide_inverse)
    then have "rhe (of_int n / ulp (of_int n)) = n * 2 ^ k" by (metis rhe_of_int)
    then show ?thesis using False by (simp add: b64_def u divide_inverse)
  next
    case False2: False
    with \<open>?e \<le> 53\<close> have e: "?e = 53" by simp
    with bd \<open>(\<bar>of_int n\<bar> :: rat) \<le> 2 ^ 53\<close> have "\<bar>of_int n\<bar> = (2::rat) ^ 53"
      by (simp add: power_int_numeral)
    then have "(of_int \<bar>n\<bar> :: rat) = of_int (2 ^ 53)" by simp
    then have n: "\<bar>n\<bar> = 2 ^ 53" by (simp only: of_int_eq_iff)
    have u: "ulp (of_int n) = 2" by (simp add: ulp_def e)
    have "n = 2 ^ 53 \<or> n = - (2 ^ 53)" using n by linarith
    then have "n = 2 * (n div 2)" by (elim disjE) simp_all
    then obtain m where m: "n = 2 * m" by blast
    then have "rhe (of_int n / 2) = m" and "(of_int m :: rat) * 2 = of_int n" by simp_all
    then show ?thesis by (simp add: b64_def u)
  qed
qed simp

section \<open>Rounding to two decimals\<close>

definition py_round2 :: "rat \<Rightarrow> rat" where
  "py_round2 x = b64 (of_int (rhe (x * 100)) / 100)"

end
