(* ===== verification/PyValue.thy ===== *)
theory PyValue
  imports Prelude Binary64
begin

text \<open>
  The dynamic values the program handles as JSON: catalogs, price snapshots, reservation
  metadata.  Strings are lists of bytes (UTF-8), a dict is an association list in
  insertion order, floats are exact rationals (see \<open>Binary64\<close>) or one of the three
  special values.  The functions are Python's built-ins, as the code calls them:
  truthiness and \<open>or\<close>, \<open>dict.get\<close>, \<open>dict.update\<close>, \<open>int\<close>, \<open>float\<close>, \<open>str\<close>, \<open>==\<close>,
  \<open>str.strip\<close>.  A JSON round trip (\<open>_loads(_dumps(x), d)\<close>, the code's deep copy) is the
  identity on these values and is not written.  White space is ASCII white space, and a
  string in the output of \<open>repr\<close> keeps its bytes above 126.
\<close>

datatype pyval =
    PNone
  | PBool bool
  | PInt int
  | PFloat rat
  | PNan
  | PInf bool
  | PStr string
  | PList "pyval list"
  | PDict "(string \<times> pyval) list"

section \<open>Truth, dicts and lists\<close>

fun truthy :: "pyval \<Rightarrow> bool" where
  "truthy PNone = False"
| "truthy (PBool b) = b"
| "truthy (PInt i) = (i \<noteq> 0)"
| "truthy (PFloat x) = (x \<noteq> 0)"
| "truthy PNan = True"
| "truthy (PInf _) = True"
| "truthy (PStr s) = (s \<noteq> [])"
| "truthy (PList xs) = (xs \<noteq> [])"
| "truthy (PDict d) = (d \<noteq> [])"

definition py_or :: "pyval \<Rightarrow> pyval \<Rightarrow> pyval" where
  "py_or v w = (if truthy v then v else w)"

fun is_dict :: "pyval \<Rightarrow> bool" where
  "is_dict (PDict _) = True"
| "is_dict _ = False"

fun is_list :: "pyval \<Rightarrow> bool" where
  "is_list (PList _) = True"
| "is_list _ = False"

text \<open>\<open>x if isinstance(x, list) else []\<close> and its dict counterpart.\<close>

fun list_or_empty :: "pyval \<Rightarrow> pyval list" where
  "list_or_empty (PList xs) = xs"
| "list_or_empty _ = []"

fun dict_or_empty :: "pyval \<Rightarrow> pyval" where
  "dict_or_empty (PDict d) = PDict d"
| "dict_or_empty _ = PDict []"

type_synonym pydict = "(string \<times> pyval) list"

definition dget :: "pydict \<Rightarrow> string \<Rightarrow> pyval" where
  "dget d k = (case map_of d k of None \<Rightarrow> PNone | Some v \<Rightarrow> v)"

definition dset :: "string \<Rightarrow> pyval \<Rightarrow> pydict \<Rightarrow> pydict" where
  "dset k v d = AList.update k v d"

definition dupdate :: "pydict \<Rightarrow> pydict \<Rightarrow> pydict" where
  "dupdate d e = foldl (\<lambda>acc (k, v). dset k v acc) d e"

definition has_key :: "string \<Rightarrow> pydict \<Rightarrow> bool" where
  "has_key k d = (map_of d k \<noteq> None)"

text \<open>\<open>value.get(key)\<close>: only a dict has \<open>get\<close>; \<open>vget\<close> is the lookup where the code has
  already checked \<open>isinstance(value, dict)\<close> and yields \<open>None\<close> otherwise.\<close>

fun py_get :: "pyval \<Rightarrow> string \<Rightarrow> pyval res" where
  "py_get (PDict d) k = Inr (dget d k)"
| "py_get _ k = Inl AttributeError"

fun vget :: "pyval \<Rightarrow> string \<Rightarrow> pyval" where
  "vget (PDict d) k = dget d k"
| "vget _ k = PNone"

fun vset :: "string \<Rightarrow> pyval \<Rightarrow> pyval \<Rightarrow> pyval" where
  "vset k v (PDict d) = PDict (dset k v d)"
| "vset k v x = x"

fun vupdate :: "pyval \<Rightarrow> pyval \<Rightarrow> pyval" where
  "vupdate (PDict d) (PDict e) = PDict (dupdate d e)"
| "vupdate x _ = x"

lemma dget_dset [simp]: "dget (dset k v d) k' = (if k = k' then v else dget d k')"
  by (simp add: dget_def dset_def update_conv')

lemma dget_Nil [simp]: "dget [] k = PNone"
  by (simp add: dget_def)

lemma dget_Cons [simp]: "dget ((k, v) # d) k' = (if k = k' then v else dget d k')"
  by (simp add: dget_def)

lemma dset_keys: "distinct (map fst d) \<Longrightarrow> distinct (map fst (dset k v d))"
  by (simp add: dset_def distinct_update)

lemma map_of_dset: "map_of (dset k v d) = (map_of d)(k \<mapsto> v)"
  by (simp add: dset_def update_conv')

lemma map_of_dupdate: "distinct (map fst e) \<Longrightarrow> map_of (dupdate d e) = map_of d ++ map_of e"
proof (induction e arbitrary: d)
  case Nil
  then show ?case by (simp add: dupdate_def)
next
  case (Cons kv e)
  obtain k v where kv: "kv = (k, v)" by (cases kv)
  have "map_of (dupdate d (kv # e)) = map_of (dupdate (dset k v d) e)"
    by (simp add: dupdate_def kv)
  also have "\<dots> = (map_of d)(k \<mapsto> v) ++ map_of e"
    using Cons by (simp add: map_of_dset kv)
  also have "\<dots> = map_of d ++ map_of (kv # e)"
  proof (rule ext)
    fix j
    have "map_of e k = None" using Cons.prems kv by (simp add: map_of_eq_None_iff)
    then show "((map_of d)(k \<mapsto> v) ++ map_of e) j = (map_of d ++ map_of (kv # e)) j"
      by (auto simp: map_add_def kv split: option.splits)
  qed
  finally show ?case .
qed

section \<open>Strings\<close>

definition is_space :: "char \<Rightarrow> bool" where
  "is_space c = (let n = (of_char c :: nat) in n \<in> {9, 10, 11, 12, 13, 28, 29, 30, 31, 32})"

definition lstrip :: "string \<Rightarrow> string" where
  "lstrip s = dropWhile is_space s"

definition strip :: "string \<Rightarrow> string" where
  "strip s = rev (lstrip (rev (lstrip s)))"

definition lower_char :: "char \<Rightarrow> char" where
  "lower_char c = (let n = (of_char c :: nat) in if 65 \<le> n \<and> n \<le> 90 then char_of (n + 32) else c)"

definition lower :: "string \<Rightarrow> string" where
  "lower s = map lower_char s"

definition is_digit :: "char \<Rightarrow> bool" where
  "is_digit c = (let n = (of_char c :: nat) in 48 \<le> n \<and> n \<le> 57)"

definition digit_val :: "char \<Rightarrow> int" where
  "digit_val c = int (of_char c) - 48"

definition digit_char :: "int \<Rightarrow> char" where
  "digit_char n = char_of (nat (48 + n))"

fun show_nonneg :: "int \<Rightarrow> string" where
  "show_nonneg n = (if n < 10 then [digit_char n] else show_nonneg (n div 10) @ [digit_char (n mod 10)])"

declare show_nonneg.simps [simp del]

definition show_int :: "int \<Rightarrow> string" where
  "show_int i = (if i < 0 then CHR ''-'' # show_nonneg (- i) else show_nonneg i)"

definition starts_with :: "string \<Rightarrow> string \<Rightarrow> bool" where
  "starts_with p s = (take (length p) s = p)"

text \<open>\<open>m in s\<close>.\<close>

fun contains :: "string \<Rightarrow> string \<Rightarrow> bool" where
  "contains s m = (starts_with m s \<or> (case s of [] \<Rightarrow> False | _ # t \<Rightarrow> contains t m))"

declare contains.simps [simp del]

section \<open>Reading numbers: \<open>int\<close> and \<open>float\<close>\<close>

fun read_digits :: "string \<Rightarrow> int \<Rightarrow> bool \<Rightarrow> int option" where
  "read_digits [] acc prev = (if prev then Some acc else None)"
| "read_digits (c # cs) acc prev =
     (if is_digit c then read_digits cs (acc * 10 + digit_val c) True
      else if c = CHR ''_'' \<and> prev then read_digits cs acc False else None)"

fun signed :: "(string \<Rightarrow> 'a option) \<Rightarrow> ('a \<Rightarrow> 'a) \<Rightarrow> string \<Rightarrow> 'a option" where
  "signed p neg [] = p []"
| "signed p neg (c # cs) =
     (if c = CHR ''-'' then map_option neg (p cs) else if c = CHR ''+'' then p cs else p (c # cs))"

definition parse_int :: "string \<Rightarrow> int option" where
  "parse_int s = signed (\<lambda>t. read_digits t 0 False) uminus (strip s)"

text \<open>\<open>int(x)\<close>: truncation towards zero on floats, no value for infinities, NaN, \<open>None\<close>
  and containers.\<close>

fun py_int :: "pyval \<Rightarrow> int res" where
  "py_int PNone = Inl TypeError"
| "py_int (PBool b) = Inr (if b then 1 else 0)"
| "py_int (PInt i) = Inr i"
| "py_int (PFloat x) = Inr (if 0 \<le> x then \<lfloor>x\<rfloor> else \<lceil>x\<rceil>)"
| "py_int PNan = Inl ValueError"
| "py_int (PInf _) = Inl OverflowError"
| "py_int (PStr s) = (case parse_int s of None \<Rightarrow> Inl ValueError | Some i \<Rightarrow> Inr i)"
| "py_int (PList _) = Inl TypeError"
| "py_int (PDict _) = Inl TypeError"

datatype pyfloat = Fin rat | Nan | Inf bool

fun fneg :: "pyfloat \<Rightarrow> pyfloat" where
  "fneg (Fin x) = Fin (- x)"
| "fneg Nan = Nan"
| "fneg (Inf b) = Inf (\<not> b)"

definition count_digits :: "string \<Rightarrow> nat" where
  "count_digits s = length (filter is_digit s)"

definition read_mantissa :: "string \<Rightarrow> rat option" where
  "read_mantissa s =
     (let ip = takeWhile (\<lambda>c. c \<noteq> CHR ''.'') s; rest = dropWhile (\<lambda>c. c \<noteq> CHR ''.'') s in
      if rest = [] then map_option of_int (read_digits ip 0 False)
      else let fp = tl rest in
        if ip = [] \<and> fp = [] then None
        else case (if ip = [] then Some 0 else read_digits ip 0 False,
                   if fp = [] then Some 0 else read_digits fp 0 False) of
          (Some a, Some b) \<Rightarrow> Some (of_int a + of_int b / 10 ^ count_digits fp)
        | _ \<Rightarrow> None)"

definition read_unsigned_float :: "string \<Rightarrow> pyfloat option" where
  "read_unsigned_float s =
     (let l = lower s in
      if l = ''inf'' \<or> l = ''infinity'' then Some (Inf True)
      else if l = ''nan'' then Some Nan
      else let m = takeWhile (\<lambda>c. c \<noteq> CHR ''e'') l; rest = dropWhile (\<lambda>c. c \<noteq> CHR ''e'') l in
        case read_mantissa m of None \<Rightarrow> None
        | Some x \<Rightarrow>
          (if rest = [] then Some (Fin (b64 x))
           else case signed (\<lambda>t. read_digits t 0 False) uminus (tl rest) of
             None \<Rightarrow> None | Some e \<Rightarrow> Some (Fin (b64 (x * 10 powi e)))))"

definition parse_float :: "string \<Rightarrow> pyfloat option" where
  "parse_float s = signed read_unsigned_float fneg (strip s)"

fun py_float :: "pyval \<Rightarrow> pyfloat res" where
  "py_float PNone = Inl TypeError"
| "py_float (PBool b) = Inr (Fin (if b then 1 else 0))"
| "py_float (PInt i) = Inr (Fin (b64 (of_int i)))"
| "py_float (PFloat x) = Inr (Fin x)"
| "py_float PNan = Inr Nan"
| "py_float (PInf b) = Inr (Inf b)"
| "py_float (PStr s) = (case parse_float s of None \<Rightarrow> Inl ValueError | Some x \<Rightarrow> Inr x)"
| "py_float (PList _) = Inl TypeError"
| "py_float (PDict _) = Inl TypeError"

section \<open>Writing values: \<open>str\<close> and \<open>repr\<close>\<close>

text \<open>
  \<open>repr\<close> of a float: the shortest decimal that rounds to the double, in fixed notation when
  the decimal exponent is in \<open>[-4, 16)\<close>, else in scientific notation.
\<close>

function dec_up :: "rat \<Rightarrow> int \<Rightarrow> int" where
  "dec_up x e = (if x < 10 then e else dec_up (x / 10) (e + 1))"
  by pat_completeness auto
termination
proof (relation "measure (\<lambda>(x, e). nat \<lfloor>x\<rfloor>)")
  fix x :: rat and e :: int
  assume "\<not> x < 10"
  then have "\<lfloor>x / 10\<rfloor> < \<lfloor>x\<rfloor>" and "0 < \<lfloor>x\<rfloor>" by linarith+
  then show "((x / 10, e + 1), x, e) \<in> measure (\<lambda>(x, e). nat \<lfloor>x\<rfloor>)" by simp
qed simp

lemma ceiling_tenth: "1 < (y::rat) \<Longrightarrow> \<lceil>y / 10\<rceil> < \<lceil>y\<rceil>"
proof (cases "y < 2")
  case True
  assume one: "1 < y"
  from True have "\<lceil>y / 10\<rceil> \<le> 1" by (simp add: ceiling_le_iff)
  moreover from one have "1 < \<lceil>y\<rceil>" by (simp add: less_ceiling_iff)
  ultimately show ?thesis by linarith
next
  case False
  then show ?thesis by linarith
qed

function dec_down :: "rat \<Rightarrow> int \<Rightarrow> int" where
  "dec_down x e = (if x \<le> 0 \<or> 1 \<le> x then e else dec_down (x * 10) (e - 1))"
  by pat_completeness auto
termination
proof (relation "measure (\<lambda>(x, e). nat \<lceil>1 / x\<rceil>)")
  fix x :: rat and e :: int
  assume "\<not> (x \<le> 0 \<or> 1 \<le> x)"
  then have one: "1 < 1 / x" by simp
  have eq: "1 / (x * 10) = (1 / x) / 10" by simp
  have lt: "\<lceil>(1 / x) / 10\<rceil> < \<lceil>1 / x\<rceil>" using one by (rule ceiling_tenth)
  have "0 < \<lceil>1 / x\<rceil>" using one by linarith
  then show "((x * 10, e - 1), x, e) \<in> measure (\<lambda>(x, e). nat \<lceil>1 / x\<rceil>)"
    using lt by (simp add: eq del: divide_divide_eq_left)
qed simp

declare dec_up.simps [simp del] dec_down.simps [simp del]

definition dec_exp :: "rat \<Rightarrow> int" where
  "dec_exp x = (if 1 \<le> x then dec_up x 0 else dec_down x 0)"

fun shortest_digits :: "nat \<Rightarrow> rat \<Rightarrow> nat \<Rightarrow> int \<times> int" where
  "shortest_digits 0 x n = (rhe (x / 10 powi (dec_exp x - int n + 1)), dec_exp x - int n + 1)"
| "shortest_digits (Suc fuel) x n =
     (let s = dec_exp x - int n + 1; m = rhe (x / 10 powi s) in
      if b64 (of_int m * 10 powi s) = x then (m, s) else shortest_digits fuel x (Suc n))"

definition rstrip_zeros :: "string \<Rightarrow> string" where
  "rstrip_zeros s = rev (dropWhile (\<lambda>c. c = CHR ''0'') (rev s))"

definition repr_positive :: "rat \<Rightarrow> string" where
  "repr_positive x =
     (let (m, s) = shortest_digits 16 x 1; ds0 = show_nonneg m;
          e = s + int (length ds0) - 1; ds = rstrip_zeros ds0 in
      if -4 \<le> e \<and> e < 16 then
        (if e < 0 then ''0.'' @ replicate (nat (- e - 1)) (CHR ''0'') @ ds
         else let ip = take (nat e + 1) ds; fp = drop (nat e + 1) ds in
           ip @ replicate (nat e + 1 - length ip) (CHR ''0'') @ ''.'' @ (if fp = [] then ''0'' else fp))
      else
        (hd ds # (if tl ds = [] then [] else CHR ''.'' # tl ds)) @ ''e'' @
        (if e < 0 then ''-'' else ''+'') @
        (let es = show_nonneg \<bar>e\<bar> in if length es < 2 then CHR ''0'' # es else es))"

definition repr_float :: "rat \<Rightarrow> string" where
  "repr_float x = (if x = 0 then ''0.0''
     else if x < 0 then CHR ''-'' # repr_positive (- x) else repr_positive x)"

definition hex_digit :: "nat \<Rightarrow> char" where
  "hex_digit n = (if n < 10 then char_of (48 + n) else char_of (87 + n))"

definition repr_char :: "char \<Rightarrow> char \<Rightarrow> string" where
  "repr_char q c = (let n = (of_char c :: nat) in
     if c = q \<or> n = 92 then [char_of (92::nat), c]
     else if n = 10 then [char_of (92::nat), CHR ''n'']
     else if n = 13 then [char_of (92::nat), CHR ''r'']
     else if n = 9 then [char_of (92::nat), CHR ''t'']
     else if n < 32 \<or> n = 127
       then [char_of (92::nat), CHR ''x'', hex_digit (n div 16), hex_digit (n mod 16)]
     else [c])"

definition repr_str :: "string \<Rightarrow> string" where
  "repr_str s =
     (let q = (if CHR 0x27 \<in> set s \<and> CHR 0x22 \<notin> set s then CHR 0x22 else CHR 0x27) in
      q # concat (map (repr_char q) s) @ [q])"

fun join :: "string \<Rightarrow> string list \<Rightarrow> string" where
  "join sep [] = []"
| "join sep [x] = x"
| "join sep (x # y # zs) = x @ sep @ join sep (y # zs)"

fun py_repr :: "pyval \<Rightarrow> string" where
  "py_repr PNone = ''None''"
| "py_repr (PBool b) = (if b then ''True'' else ''False'')"
| "py_repr (PInt i) = show_int i"
| "py_repr (PFloat x) = repr_float x"
| "py_repr PNan = ''nan''"
| "py_repr (PInf b) = (if b then ''inf'' else ''-inf'')"
| "py_repr (PStr s) = repr_str s"
| "py_repr (PList xs) = ''['' @ join '', '' (map py_repr xs) @ '']''"
| "py_repr (PDict d) =
     ''{'' @ join '', '' (map (\<lambda>kv. repr_str (fst kv) @ '': '' @ py_repr (snd kv)) d) @ ''}''"

fun py_str :: "pyval \<Rightarrow> string" where
  "py_str (PStr s) = s"
| "py_str v = py_repr v"

text \<open>The two idioms of the code on every field it reads: \<open>str(x or "")\<close> and \<open>int(x or 0)\<close>.\<close>

definition str_field :: "pyval \<Rightarrow> string" where
  "str_field v = py_str (py_or v (PStr []))"

definition int_field :: "pyval \<Rightarrow> int res" where
  "int_field v = py_int (py_or v (PInt 0))"

lemma str_field_simps [simp]:
  "str_field PNone = []" "str_field (PStr s) = s"
  by (simp_all add: str_field_def py_or_def)

lemma int_field_simps [simp]:
  "int_field PNone = Inr 0" "int_field (PInt i) = Inr i"
  by (simp_all add: int_field_def py_or_def)

section \<open>Equality\<close>

fun num_val :: "pyval \<Rightarrow> rat option" where
  "num_val (PBool b) = Some (if b then 1 else 0)"
| "num_val (PInt i) = Some (of_int i)"
| "num_val (PFloat x) = Some x"
| "num_val _ = None"

fun py_eq :: "pyval \<Rightarrow> pyval \<Rightarrow> bool"
  and py_eq_list :: "pyval list \<Rightarrow> pyval list \<Rightarrow> bool"
  and py_eq_items :: "pydict \<Rightarrow> pydict \<Rightarrow> bool" where
  "py_eq PNone w = (w = PNone)"
| "py_eq (PInf a) w = (w = PInf a)"
| "py_eq (PStr s) w = (w = PStr s)"
| "py_eq (PList xs) w = (case w of PList ys \<Rightarrow> py_eq_list xs ys | _ \<Rightarrow> False)"
| "py_eq (PDict d) w = (case w of PDict e \<Rightarrow> length d = length e \<and> py_eq_items d e | _ \<Rightarrow> False)"
| "py_eq PNan w = False"
| "py_eq (PBool b) w = (num_val w = Some (if b then 1 else 0))"
| "py_eq (PInt i) w = (num_val w = Some (of_int i))"
| "py_eq (PFloat x) w = (num_val w = Some x)"
| "py_eq_list [] ys = (ys = [])"
| "py_eq_list (x # xs) ys = (case ys of [] \<Rightarrow> False | y # ys' \<Rightarrow> py_eq x y \<and> py_eq_list xs ys')"
| "py_eq_items [] e = True"
| "py_eq_items ((k, x) # d) e =
     ((case map_of e k of None \<Rightarrow> False | Some y \<Rightarrow> py_eq x y) \<and> py_eq_items d e)"

text \<open>A JSON value: no NaN inside, and no dict with a repeated key.\<close>

fun json_ok :: "pyval \<Rightarrow> bool" where
  "json_ok PNan = False"
| "json_ok (PList xs) = (\<forall>x \<in> set xs. json_ok x)"
| "json_ok (PDict d) = (distinct (map fst d) \<and> (\<forall>kv \<in> set d. json_ok (snd kv)))"
| "json_ok _ = True"

lemma py_eq_items_sub:
  "(\<And>k x. (k, x) \<in> set d \<Longrightarrow> map_of e k = Some x \<and> py_eq x x) \<Longrightarrow> py_eq_items d e"
proof (induction d)
  case (Cons kv d)
  obtain k x where kv: "kv = (k, x)" by (cases kv)
  have "map_of e k = Some x \<and> py_eq x x" using Cons.prems [of k x] kv by simp
  moreover have "py_eq_items d e" by (rule Cons.IH) (rule Cons.prems, simp)
  ultimately show ?case by (simp add: kv)
qed simp

lemma py_eq_refl: "json_ok v \<Longrightarrow> py_eq v v"
proof (induction v)
  case (PList xs)
  have "(\<And>x. x \<in> set xs \<Longrightarrow> py_eq x x) \<Longrightarrow> py_eq_list xs xs" for xs
    by (induction xs) auto
  with PList show ?case by auto
next
  case (PDict d)
  have "py_eq_items d d"
  proof (rule py_eq_items_sub)
    fix k x assume kx: "(k, x) \<in> set d"
    from kx PDict.prems have "map_of d k = Some x" by simp
    moreover have "json_ok x" using kx PDict.prems by auto
    then have "py_eq x x" using PDict.IH kx by fastforce
    ultimately show "map_of d k = Some x \<and> py_eq x x" by simp
  qed
  then show ?case by simp
qed auto

end
