(* ===== verification/BillingSchema.thy ===== *)
theory BillingSchema
  imports PyValue
begin

text \<open>
  The billing database (\<open>_ensure_commercial_billing_schema\<close> in webapp/db.py): one record
  per table row, the database as a record of tables, and the SQL statements the billing
  code issues, with the constraints and triggers that SQLite enforces on them.  A JSON
  column holds the value it encodes.  \<open>uuids\<close> is the sequence of \<open>uuid4().hex\<close> values the
  process draws, \<open>draws\<close> how many it has drawn; \<open>environ\<close> is \<open>os.getenv\<close>.  The clock does
  not appear: every operation takes \<open>current\<close>, the resolved value of \<open>int(now or _now())\<close>.
\<close>

section \<open>Rows\<close>

datatype billing_mode = Legacy | Enforced
datatype catalog_status = Draft | Active | Retired
datatype order_kind = SubscriptionOrder | CreditPack
datatype order_status = Pending | Approved | Rejected | Cancelled | Refunded
datatype subscription_status = SubActive | SubExpired | SubCancelled
datatype period_status = Scheduled | PeriodActive | PeriodExpired | PeriodCancelled
datatype grant_source = SubscriptionMonthly | CreditPackBonus | AdminGrant
datatype reservation_status = Held | Settled | Released | Waived
datatype asset_type = Credit | Image | SubscriptionAsset | Audit

record user_row =
  u_id :: int
  u_username :: string
  u_is_admin :: bool
  u_balance_cents :: int

record wallet =
  w_user_id :: int
  w_credit :: int
  w_cash :: int
  w_mode :: billing_mode
  w_unlimited :: bool
  w_migrated :: int
  w_created_at :: int
  w_updated_at :: int

record catalog_row =
  c_id :: string
  c_version :: int
  c_status :: catalog_status
  c_catalog :: pyval
  c_effective_at :: int
  c_created_by :: int
  c_created_at :: int
  c_published_at :: int

record order_row =
  o_id :: string
  o_user_id :: int
  o_kind :: order_kind
  o_sku :: string
  o_quantity :: int
  o_renewals :: "string list"
  o_amount_cents :: int
  o_catalog_version_id :: string
  o_snapshot :: pyval
  o_payer_name :: string
  o_payment_reference :: string
  o_paid_at :: int
  o_note :: string
  o_proof_path :: string
  o_status :: order_status
  o_idem :: string
  o_reviewed_by :: int
  o_reviewed_at :: int
  o_review_note :: string
  o_refunded_by :: int
  o_refunded_at :: int
  o_refund_note :: string
  o_created_at :: int
  o_updated_at :: int

record subscription_row =
  s_id :: string
  s_user_id :: int
  s_plan_sku :: string
  s_status :: subscription_status
  s_period_end :: int
  s_created_at :: int
  s_updated_at :: int

record period_row =
  p_id :: string
  p_subscription_id :: string
  p_user_id :: int
  p_source_order_id :: string
  p_start_at :: int
  p_end_at :: int
  p_status :: period_status
  p_created_at :: int

record grant_row =
  g_id :: string
  g_user_id :: int
  g_source_type :: grant_source
  g_source_ref :: string
  g_total :: int
  g_remaining :: int
  g_available_at :: int
  g_expires_at :: int
  g_created_at :: int
  g_updated_at :: int

record reservation_row =
  r_id :: string
  r_user_id :: int
  r_ref_type :: string
  r_ref_id :: string
  r_sku :: string
  r_status :: reservation_status
  r_reserved_credit :: int
  r_reserved_cash :: int
  r_reserved_images :: int
  r_settled_credit :: int
  r_settled_cash :: int
  r_refunded_cash :: int
  r_settled_images :: int
  r_catalog_version_id :: string
  r_meta :: pyval
  r_idem :: string
  r_created_at :: int
  r_updated_at :: int

record ledger_row =
  l_id :: string
  l_user_id :: int
  l_asset :: asset_type
  l_event :: string
  l_amount :: int
  l_balance_after :: int
  l_cash_amount :: int
  l_cash_after :: int
  l_ref_type :: string
  l_ref_id :: string
  l_order_id :: string
  l_reservation_id :: string
  l_meta :: pyval
  l_idem :: string
  l_created_at :: int

record bdb =
  db_users :: "user_row list"
  db_wallets :: "wallet list"
  db_catalogs :: "catalog_row list"
  db_orders :: "order_row list"
  db_subscriptions :: "subscription_row list"
  db_periods :: "period_row list"
  db_grants :: "grant_row list"
  db_reservations :: "reservation_row list"
  db_ledger :: "ledger_row list"
  db_config :: "(string \<times> pyval) list"
  uuids :: "nat \<Rightarrow> string"
  draws :: nat
  environ :: "string \<Rightarrow> string option"

section \<open>Primary keys\<close>

interpretation users_tbl: keyed_table u_id "row_get u_id" "row_modify u_id"
  by (rule row_tables)

interpretation wallets_tbl: keyed_table w_user_id "row_get w_user_id" "row_modify w_user_id"
  by (rule row_tables)

interpretation catalogs_tbl: keyed_table c_id "row_get c_id" "row_modify c_id"
  by (rule row_tables)

interpretation orders_tbl: keyed_table o_id "row_get o_id" "row_modify o_id"
  by (rule row_tables)

interpretation subscriptions_tbl: keyed_table s_id "row_get s_id" "row_modify s_id"
  by (rule row_tables)

interpretation periods_tbl: keyed_table p_id "row_get p_id" "row_modify p_id"
  by (rule row_tables)

interpretation grants_tbl: keyed_table g_id "row_get g_id" "row_modify g_id"
  by (rule row_tables)

interpretation reservations_tbl: keyed_table r_id "row_get r_id" "row_modify r_id"
  by (rule row_tables)

definition get_user :: "int \<Rightarrow> bdb \<Rightarrow> user_row option" where
  "get_user uid st = row_get u_id uid (db_users st)"

definition get_wallet :: "int \<Rightarrow> bdb \<Rightarrow> wallet option" where
  "get_wallet uid st = row_get w_user_id uid (db_wallets st)"

definition get_catalog_row :: "string \<Rightarrow> bdb \<Rightarrow> catalog_row option" where
  "get_catalog_row cid st = row_get c_id cid (db_catalogs st)"

definition get_order :: "string \<Rightarrow> bdb \<Rightarrow> order_row option" where
  "get_order oid st = row_get o_id oid (db_orders st)"

definition get_subscription :: "string \<Rightarrow> bdb \<Rightarrow> subscription_row option" where
  "get_subscription sid st = row_get s_id sid (db_subscriptions st)"

definition get_grant :: "string \<Rightarrow> bdb \<Rightarrow> grant_row option" where
  "get_grant gid st = row_get g_id gid (db_grants st)"

definition get_reservation :: "string \<Rightarrow> bdb \<Rightarrow> reservation_row option" where
  "get_reservation rid st = row_get r_id rid (db_reservations st)"

definition get_config :: "string \<Rightarrow> bdb \<Rightarrow> pyval option" where
  "get_config k st = map_of (db_config st) k"

section \<open>Fresh identifiers and the environment\<close>

text \<open>\<open>_id(prefix)\<close>: the prefix, an underscore and the next random hex string.\<close>

definition new_id :: "string \<Rightarrow> bdb \<Rightarrow> string \<times> bdb" where
  "new_id prefix st = (prefix @ ''_'' @ uuids st (draws st), st\<lparr>draws := Suc (draws st)\<rparr>)"

definition env_enabled :: "bdb \<Rightarrow> string \<Rightarrow> string \<Rightarrow> bool" where
  "env_enabled st name dflt =
     (let v = (case environ st name of None \<Rightarrow> dflt | Some s \<Rightarrow> if s = [] then dflt else s)
      in lower (strip v) \<notin> {''0'', ''false'', ''no'', ''off''})"

definition enforcement_enabled :: "bdb \<Rightarrow> bool" where
  "enforcement_enabled st = env_enabled st ''COMMERCIAL_BILLING_ENABLED'' ''1''"

section \<open>Wallets\<close>

text \<open>
  \<open>CHECK(credit_units >= 0)\<close>, \<open>CHECK(cash_backed_credit_units >= 0)\<close>, and the two triggers
  that clamp the cash-backed bucket into \<open>[0, credit_units]\<close> after every write of it.
\<close>

definition wallet_check :: "wallet \<Rightarrow> bool" where
  "wallet_check w = (0 \<le> w_credit w \<and> 0 \<le> w_cash w)"

definition cash_trigger :: "wallet \<Rightarrow> wallet" where
  "cash_trigger w =
     (if w_cash w < 0 \<or> w_credit w < w_cash w
      then w\<lparr>w_cash := min (max (w_cash w) 0) (max (w_credit w) 0)\<rparr> else w)"

text \<open>\<open>INSERT INTO billing_wallets\<close>, and its \<open>OR IGNORE\<close> form, which skips a row that
  violates a constraint.\<close>

definition insert_wallet :: "wallet \<Rightarrow> bdb \<Rightarrow> bdb res" where
  "insert_wallet w st =
     (if get_wallet (w_user_id w) st \<noteq> None \<or> \<not> wallet_check w then Inl IntegrityError
      else Inr (st\<lparr>db_wallets := db_wallets st @ [cash_trigger w]\<rparr>))"

definition insert_wallet_or_ignore :: "wallet \<Rightarrow> bdb \<Rightarrow> bdb" where
  "insert_wallet_or_ignore w st = (case insert_wallet w st of Inl _ \<Rightarrow> st | Inr st' \<Rightarrow> st')"

text \<open>\<open>UPDATE billing_wallets SET ... WHERE user_id = ? AND guard\<close>, writing a balance.\<close>

definition update_wallet :: "int \<Rightarrow> (wallet \<Rightarrow> bool) \<Rightarrow> (wallet \<Rightarrow> wallet) \<Rightarrow> bdb \<Rightarrow> bdb res" where
  "update_wallet uid guard f st =
     (case get_wallet uid st of
        None \<Rightarrow> Inr st
      | Some w \<Rightarrow>
        (if \<not> guard w then Inr st
         else if \<not> wallet_check (f w) then Inl IntegrityError
         else Inr (st\<lparr>db_wallets := row_modify w_user_id uid (\<lambda>w. cash_trigger (f w)) (db_wallets st)\<rparr>)))"

text \<open>An update of the columns no trigger watches: mode, unlimited flag, time stamp.\<close>

definition touch_wallet :: "int \<Rightarrow> (wallet \<Rightarrow> wallet) \<Rightarrow> bdb \<Rightarrow> bdb" where
  "touch_wallet uid f st = st\<lparr>db_wallets := row_modify w_user_id uid f (db_wallets st)\<rparr>"

section \<open>The other tables\<close>

definition insert_catalog :: "catalog_row \<Rightarrow> bdb \<Rightarrow> bdb res" where
  "insert_catalog c st =
     (if (\<exists>x \<in> set (db_catalogs st). c_id x = c_id c \<or> c_version x = c_version c
           \<or> (c_status c = Active \<and> c_status x = Active)) then Inl IntegrityError
      else Inr (st\<lparr>db_catalogs := db_catalogs st @ [c]\<rparr>))"

definition insert_order :: "order_row \<Rightarrow> bdb \<Rightarrow> bdb res" where
  "insert_order ord st =
     (if (\<exists>x \<in> set (db_orders st). o_id x = o_id ord
           \<or> (o_user_id x = o_user_id ord \<and> o_idem x = o_idem ord))
         \<or> o_quantity ord \<le> 0 \<or> o_amount_cents ord < 0 then Inl IntegrityError
      else Inr (st\<lparr>db_orders := db_orders st @ [ord]\<rparr>))"

definition update_order :: "string \<Rightarrow> (order_row \<Rightarrow> bool) \<Rightarrow> (order_row \<Rightarrow> order_row) \<Rightarrow> bdb \<Rightarrow> bdb" where
  "update_order oid guard f st =
     st\<lparr>db_orders := row_modify o_id oid (\<lambda>x. if guard x then f x else x) (db_orders st)\<rparr>"

definition insert_subscription :: "subscription_row \<Rightarrow> bdb \<Rightarrow> bdb res" where
  "insert_subscription s st =
     (if get_subscription (s_id s) st \<noteq> None then Inl IntegrityError
      else Inr (st\<lparr>db_subscriptions := db_subscriptions st @ [s]\<rparr>))"

definition update_subscription :: "string \<Rightarrow> (subscription_row \<Rightarrow> subscription_row) \<Rightarrow> bdb \<Rightarrow> bdb" where
  "update_subscription sid f st =
     st\<lparr>db_subscriptions := row_modify s_id sid f (db_subscriptions st)\<rparr>"

definition insert_period :: "period_row \<Rightarrow> bdb \<Rightarrow> bdb res" where
  "insert_period p st =
     (if (\<exists>x \<in> set (db_periods st). p_id x = p_id p
           \<or> (p_subscription_id x = p_subscription_id p \<and> p_start_at x = p_start_at p))
      then Inl IntegrityError
      else Inr (st\<lparr>db_periods := db_periods st @ [p]\<rparr>))"

definition update_period :: "string \<Rightarrow> (period_row \<Rightarrow> period_row) \<Rightarrow> bdb \<Rightarrow> bdb" where
  "update_period pid f st = st\<lparr>db_periods := row_modify p_id pid f (db_periods st)\<rparr>"

definition insert_grant :: "grant_row \<Rightarrow> bdb \<Rightarrow> bdb res" where
  "insert_grant g st =
     (if (\<exists>x \<in> set (db_grants st). g_id x = g_id g
           \<or> (g_source_type x = g_source_type g \<and> g_source_ref x = g_source_ref g))
         \<or> g_total g < 0 \<or> g_remaining g < 0 then Inl IntegrityError
      else Inr (st\<lparr>db_grants := db_grants st @ [g]\<rparr>))"

definition insert_grant_or_ignore :: "grant_row \<Rightarrow> bdb \<Rightarrow> bdb" where
  "insert_grant_or_ignore g st = (case insert_grant g st of Inl _ \<Rightarrow> st | Inr st' \<Rightarrow> st')"

definition update_grant :: "string \<Rightarrow> (grant_row \<Rightarrow> grant_row) \<Rightarrow> bdb \<Rightarrow> bdb res" where
  "update_grant gid f st =
     (case get_grant gid st of
        None \<Rightarrow> Inr st
      | Some g \<Rightarrow>
        (if g_remaining (f g) < 0 then Inl IntegrityError
         else Inr (st\<lparr>db_grants := row_modify g_id gid f (db_grants st)\<rparr>)))"

definition insert_reservation :: "reservation_row \<Rightarrow> bdb \<Rightarrow> bdb res" where
  "insert_reservation r st =
     (if (\<exists>x \<in> set (db_reservations st). r_id x = r_id r \<or> r_idem x = r_idem r
           \<or> (r_ref_type x = r_ref_type r \<and> r_ref_id x = r_ref_id r \<and> r_sku x = r_sku r))
      then Inl IntegrityError
      else Inr (st\<lparr>db_reservations := db_reservations st @ [r]\<rparr>))"

definition update_reservation ::
  "string \<Rightarrow> (reservation_row \<Rightarrow> bool) \<Rightarrow> (reservation_row \<Rightarrow> reservation_row) \<Rightarrow> bdb \<Rightarrow> bdb" where
  "update_reservation rid guard f st =
     st\<lparr>db_reservations := row_modify r_id rid (\<lambda>x. if guard x then f x else x) (db_reservations st)\<rparr>"

text \<open>\<open>INSERT OR IGNORE INTO billing_ledger\<close>: a row whose id or idempotency key is taken is dropped.\<close>

definition insert_ledger_row :: "ledger_row \<Rightarrow> bdb \<Rightarrow> bdb" where
  "insert_ledger_row l st =
     (if (\<exists>x \<in> set (db_ledger st). l_id x = l_id l \<or> l_idem x = l_idem l) then st
      else st\<lparr>db_ledger := db_ledger st @ [l]\<rparr>)"

definition insert_config :: "string \<Rightarrow> pyval \<Rightarrow> bdb \<Rightarrow> bdb res" where
  "insert_config k v st =
     (if get_config k st \<noteq> None then Inl IntegrityError
      else Inr (st\<lparr>db_config := db_config st @ [(k, v)]\<rparr>))"

text \<open>The constraints of the schema on a whole database.\<close>

definition wallets_ok :: "bdb \<Rightarrow> bool" where
  "wallets_ok st = (distinct (map w_user_id (db_wallets st)) \<and>
     (\<forall>w \<in> set (db_wallets st). 0 \<le> w_cash w \<and> w_cash w \<le> w_credit w))"

section \<open>Lemmas on the statements\<close>

lemma cash_trigger_id: "0 \<le> w_cash w \<Longrightarrow> w_cash w \<le> w_credit w \<Longrightarrow> cash_trigger w = w"
  by (simp add: cash_trigger_def)

lemma cash_trigger_fields [simp]:
  "w_user_id (cash_trigger w) = w_user_id w" "w_credit (cash_trigger w) = w_credit w"
  "w_mode (cash_trigger w) = w_mode w" "w_unlimited (cash_trigger w) = w_unlimited w"
  by (simp_all add: cash_trigger_def)

lemma cash_trigger_bounds: "0 \<le> w_credit w \<Longrightarrow> 0 \<le> w_cash (cash_trigger w) \<and> w_cash (cash_trigger w) \<le> w_credit w"
  by (auto simp: cash_trigger_def)

lemma new_id_db [simp]:
  "new_id p st = (i, st') \<Longrightarrow> db_wallets st' = db_wallets st"
  by (auto simp: new_id_def)

lemma get_wallet_SomeD:
  "wallets_ok st \<Longrightarrow> get_wallet uid st = Some w \<Longrightarrow>
    w_user_id w = uid \<and> 0 \<le> w_cash w \<and> w_cash w \<le> w_credit w"
  using wallets_tbl.get_key [of uid "db_wallets st" w] by (auto simp: get_wallet_def wallets_ok_def)

end
