(* ===== verification/BillingPoints.thy ===== *)
theory BillingPoints
  imports PyValue
begin

text \<open>
  The conversion between the ledger's integer credit units and the points the API shows
  (\<open>points_from_units\<close>, \<open>units_from_points\<close>, \<open>POINT_SCALE\<close> in
  webapp/commercial_billing.py).  Both directions go through binary floating point; the
  lemmas show that the way out and back loses nothing.
\<close>

definition POINT_SCALE :: int where
  "POINT_SCALE = 100"

definition points_from_units :: "int \<Rightarrow> rat" where
  "points_from_units units = py_round2 (b64 (of_int (max units 0) / of_int POINT_SCALE))"

text \<open>\<open>round(inf)\<close> raises \<open>OverflowError\<close>, which the code does not catch; \<open>round(nan)\<close> is a
  \<open>ValueError\<close>, which it does.\<close>

definition units_from_points :: "pyval \<Rightarrow> int res" where
  "units_from_points points =
     (case py_float points of
        Inl TypeError \<Rightarrow> Inr 0
      | Inl ValueError \<Rightarrow> Inr 0
      | Inl e \<Rightarrow> Inl e
      | Inr (Fin x) \<Rightarrow> Inr (max (rhe (b64 (x * of_int POINT_SCALE))) 0)
      | Inr Nan \<Rightarrow> Inr 0
      | Inr (Inf _) \<Rightarrow> Inl OverflowError)"

lemma units_from_points_nonneg: "units_from_points v = Inr u \<Longrightarrow> 0 \<le> u"
  by (auto simp: units_from_points_def split: sum.splits pyexc.splits pyfloat.splits)

lemma points_from_units_negative: "u \<le> 0 \<Longrightarrow> points_from_units u = 0"
  by (simp add: points_from_units_def py_round2_def)

text \<open>A double within \<open>2^-53\<close> (relative) of \<open>u/100\<close> is brought back to \<open>u\<close> by scaling and rounding.\<close>

lemma scaled_error:
  assumes u: "0 \<le> u" "u \<le> 2 ^ 50" and x: "\<bar>x - of_int u / 100\<bar> \<le> of_int u / 100 / 2 ^ 53"
  shows "\<bar>x * 100 - of_int u\<bar> \<le> 1/8" and "rhe (x * 100) = u"
proof -
  have "(of_int u :: rat) \<le> of_int (2 ^ 50)" using u(2) by (simp only: of_int_le_iff)
  then have "(of_int u :: rat) / 2 ^ 53 \<le> 1/8" by simp
  moreover have "\<bar>x * 100 - of_int u\<bar> = 100 * \<bar>x - of_int u / 100\<bar>"
    by (simp add: abs_if field_simps)
  ultimately show e: "\<bar>x * 100 - of_int u\<bar> \<le> 1/8" using x by simp
  then show "rhe (x * 100) = u" by (intro rhe_unique) linarith
qed

lemma points_from_units_value:
  assumes "0 \<le> u" "u \<le> 2 ^ 50"
  shows "points_from_units u = b64 (of_int u / 100)"
proof -
  have "\<bar>b64 (of_int u / 100) - of_int u / 100\<bar> \<le> \<bar>of_int u / 100\<bar> / 2 ^ 53"
    by (rule b64_rel_error)
  then have "rhe (b64 (of_int u / 100) * 100) = u"
    using assms by (intro scaled_error(2)) auto
  then show ?thesis
    using assms by (simp add: points_from_units_def py_round2_def POINT_SCALE_def max_def)
qed

lemma units_points_roundtrip:
  assumes "0 \<le> u" "u \<le> 2 ^ 50"
  shows "units_from_points (PFloat (points_from_units u)) = Inr u"
proof -
  let ?x = "b64 (of_int u / 100)"
  have u: "(of_int u :: rat) \<le> 2 ^ 50" using assms(2) by (metis of_int_le_iff of_int_numeral of_int_power)
  have x: "\<bar>?x - of_int u / 100\<bar> \<le> \<bar>of_int u / 100\<bar> / 2 ^ 53" by (rule b64_rel_error)
  have e: "\<bar>?x * 100 - of_int u\<bar> \<le> 1/8" using assms x by (intro scaled_error(1)) auto
  have "0 \<le> (of_int u :: rat)" using assms(1) by simp
  then have m: "\<bar>?x * 100\<bar> \<le> 2 ^ 50 + 1" using e u by linarith
  have "\<bar>b64 (?x * 100) - ?x * 100\<bar> \<le> \<bar>?x * 100\<bar> / 2 ^ 53" by (rule b64_rel_error)
  also have "\<dots> \<le> (2 ^ 50 + 1) / 2 ^ 53" using m by (intro divide_right_mono) auto
  also have "\<dots> \<le> 1/4" by simp
  finally have "\<bar>b64 (?x * 100) - of_int u\<bar> < 1/2" using e by linarith
  then have "rhe (b64 (?x * 100)) = u" by (rule rhe_unique)
  then show ?thesis
    using assms by (simp add: units_from_points_def points_from_units_value POINT_SCALE_def)
qed

end
