(* ===== verification/CatalogData.thy ===== *)
theory CatalogData
  imports PyValue
begin

text \<open>
  The literal price catalog of webapp/commercial_billing.py: the automation modules, the
  subscription plans, the billing rules, the action rates, the credit packages and the
  catalog they make up, as JSON values in the order of the source.  Text outside ASCII is
  given as the hexadecimal digits of its UTF-8 bytes.
\<close>

section \<open>UTF-8 text\<close>

definition hex_val :: "char \<Rightarrow> nat" where
  "hex_val c = (let n = (of_char c :: nat) in if n < 58 then n - 48 else n - 87)"

fun from_hex :: "string \<Rightarrow> string" where
  "from_hex (a # b # cs) = char_of (16 * hex_val a + hex_val b) # from_hex cs"
| "from_hex _ = []"

definition u8 :: "string list \<Rightarrow> string" where
  "u8 ss = from_hex (concat ss)"

section \<open>The constants of the source\<close>

definition DEFAULT_AUTOMATION_MODULES :: "pyval list" where
  "DEFAULT_AUTOMATION_MODULES =
    [
      PDict [(''key'', PStr ''social_warmup''),
             (''name'', PStr (u8 [''e585bbe58fb7''])),
             (''description'', PStr (u8 [''e6b58fe8a788e38081e782b9e8b59ee4b88ee4bd8ee9a291e4ba92e58aa8e585bbe58fb7efbc9be5'', ''bd93e5898de4b88de689a3e999a4e7ae97e58a9be782b9e38082''])),
             (''task_types'', PList [PStr ''threads_warmup'',
                     PStr ''instagram_warmup'']),
             (''reply_scope'', PStr ''''),
             (''billing_mode'', PStr ''free''),
             (''action_sku'', PStr '''')],
      PDict [(''key'', PStr ''auto_reply_comments''),
             (''name'', PStr (u8 [''e887aae58aa8e59b9ee5a48de8af84e8aeba''])),
             (''description'', PStr (u8 [''e887aae58aa8e59b9ee5a48de8b4a6e58fb7e694b6e588b0e79a84e8af84e8aebaefbc8ce68c89e4'', ''ba92e58aa8e4bbbbe58aa1e689b9e6aca1e8aea1e8b4b9e38082''])),
             (''task_types'', PList [PStr ''threads_auto_reply'',
                     PStr ''instagram_auto_reply'']),
             (''reply_scope'', PStr ''comments''),
             (''billing_mode'', PStr ''action''),
             (''action_sku'', PStr ''threads_auto_reply_batch'')],
      PDict [(''key'', PStr ''auto_reply_hot_posts''),
             (''name'', PStr (u8 [''e887aae58aa8e59b9ee5a48de783ade782b9e68ea8e69687''])),
             (''description'', PStr (u8 [''e887aae58aa8e58f91e78eb0e5b9b6e59b9ee5a48de783ade782b9e68ea8e69687efbc8ce68c89e4'', ''ba92e58aa8e4bbbbe58aa1e689b9e6aca1e8aea1e8b4b9e38082''])),
             (''task_types'', PList [PStr ''threads_auto_reply'',
                     PStr ''instagram_auto_reply'']),
             (''reply_scope'', PStr ''hot_posts''),
             (''billing_mode'', PStr ''action''),
             (''action_sku'', PStr ''threads_auto_reply_batch'')]]"

definition LATEST_PDF_SUBSCRIPTION_PLANS :: "pyval list" where
  "LATEST_PDF_SUBSCRIPTION_PLANS =
    [
      PDict [(''sku'', PStr ''vanguard_beta_free''),
             (''name'', PStr (u8 [''e5858de8b2bbe8a9a6e794a8e78988efbc884265746120e589b5e5a78be69c83e593a1efbc89''])),
             (''price_ntd'', PInt 0),
             (''monthly_price_ntd'', PInt 0),
             (''period_months'', PInt 1),
             (''period_label'', PStr (u8 [''e5858de8b2bbe9968be9809a''])),
             (''purchasable'', PBool False),
             (''plan_family'', PStr ''vanguard_beta''),
             (''threads_accounts'', PInt 1),
             (''monthly_free_images'', PInt 10),
             (''ai_personas'', PInt 1),
             (''audience'', PStr (u8 [''e9a696e6aca1e8a8bbe5868ae4b8a6e9ab94e9a99720414920e4babae8a8ade7b3bbe7b5b1e79a84'', ''e4bdbfe794a8e88085''])),
             (''account_positioning'', PStr (u8 [''e4bba5e5858de8b2bbe5889de5a78be7ae97e58a9be5ae8ce68890e59fbae7a48ee9ab94e9a997ef'', ''bc8ce5be8ce7ba8ce58fafe8a39ce5b7aee9a18de58d87e7b49ae4b8a6e4bf9de79599e8b387e696'', ''99''])),
             (''features'', PList [PStr (u8 [''414920e4babae8a8ad203120e7b584'']),
                     PStr (u8 [''e696b0e8a8bbe5868ae8b488e9808120323020e9bb9ee59fbae7a48ee7ae97e58a9befbc8ce596ae'', ''e697a5e69c80e5a49ae799bce5b883203520e7af87'']),
                     PStr (u8 [''e58f83e88887204265746120e697a9e69c9fe6b8ace8a9a6'']),
                     PStr (u8 [''e58aa0e585a5204c494e4520e7bea4e7b584e8bc94e5b08ee88887e4baa4e6b581'']),
                     PStr (u8 [''e4b88de58f83e88887e58886e6bda4'']),
                     PStr (u8 [''e58fafe8a39ce5b7aee9a18de58d87e7b49aefbc8ce58e9fe69c89e8b387e69699e5ae8ce695b4e4'', ''bf9de79599''])])],
      PDict [(''sku'', PStr ''vanguard_experience_monthly''),
             (''name'', PStr (u8 [''e6ada3e5bc8fefbc8de9ab94e9a997e78988''])),
             (''price_ntd'', PInt 2980),
             (''monthly_price_ntd'', PInt 2980),
             (''period_months'', PInt 1),
             (''period_label'', PStr (u8 [''e69c88e7b9b3''])),
             (''purchasable'', PBool True),
             (''plan_family'', PStr ''vanguard_experience''),
             (''threads_accounts'', PInt 1),
             (''monthly_free_images'', PInt 10),
             (''ai_personas'', PInt 1),
             (''audience'', PStr (u8 [''e99c80e8a681e5ae8ce695b4e59fbae7a48ee589b5e4bd9ce88887e596aee7b58420414920e4baba'', ''e8a8ade79a84e4bdbfe794a8e88085''])),
             (''account_positioning'', PStr (u8 [''e596aee7b58420414920e4babae8a8ade690ade9858de59fbae7a48ee589b5e4bd9ce88887e79fa9'', ''e999a3e69599e7b7b4e7ae97e58a9be7b3bbe7b5b1''])),
             (''features'', PList [PStr (u8 [''414920e4babae8a8ad203120e7b584'']),
                     PStr (u8 [''e5ae8ce695b4e59fbae7a48e20414920e589b5e4bd9ce7ae97e58a9b'']),
                     PStr (u8 [''e78da8e7ab8be79fa9e999a3e7ae97e58a9be9bb9ee695b8e7b3bbe7b5b1'']),
                     PStr (u8 [''e58aa0e585a5204c494e4520e7a4bee7bea4e8bc94e5b08ee88887e4baa4e6b581'']),
                     PStr (u8 [''e6af8fe697a5203520e6aca1e5858de8b2bbe79fa9e999a3e69599e7b7b4e4bdbfe794a8e9a18de5'', ''baa6'']),
                     PStr (u8 [''e4b88de58f83e88887e58886e6bda4''])])],
      PDict [(''sku'', PStr ''vanguard_basic_monthly''),
             (''name'', PStr (u8 [''e6ada3e5bc8fefbc8de59fbae7a48ee78988efbc88e69c88e7b9b3efbc89''])),
             (''price_ntd'', PInt 5980),
             (''monthly_price_ntd'', PInt 5980),
             (''period_months'', PInt 1),
             (''period_label'', PStr (u8 [''e69c88e7b9b3''])),
             (''purchasable'', PBool True),
             (''plan_family'', PStr ''vanguard_basic''),
             (''threads_accounts'', PInt 3),
             (''monthly_free_images'', PInt 10),
             (''ai_personas'', PInt 3),
             (''audience'', PStr (u8 [''e99c80e8a681e4b889e7b58420414920e4babae8a8ade88887e5ae8ce695b4e79fa9e999a3e883bd'', ''e58a9be79a84e7b693e7879fe88085''])),
             (''account_positioning'', PStr (u8 [''e4b889e7b58420414920e4babae8a8ade88887e5ae8ce695b4e79fa9e999a3e69599e7b7b4e6ac8a'', ''e79b8aefbc8ce68ea1e69c88e7b9b3e696b9e5bc8fe9968be9809a''])),
             (''features'', PList [PStr (u8 [''414920e4babae8a8ad203320e7b584'']),
                     PStr (u8 [''e5ae8ce695b4e59fbae7a48e20414920e589b5e4bd9ce7ae97e58a9b'']),
                     PStr (u8 [''e5ae8ce695b4e79fa9e999a3e69599e7b7b4e78da8e7ab8be7ae97e58a9be6ac8ae79b8a'']),
                     PStr (u8 [''e6af8fe980b1e4ba8ce59bbae5ae9a203120e5b08fe69982e5ae98e696b9e8bc94e5b08e'']),
                     PStr (u8 [''e58aa0e585a5204c494e4520e7a4bee7bea4e8bc94e5b08ee88887e4baa4e6b581'']),
                     PStr (u8 [''e69c88e7b9b3e696b9e6a188e4b88de5959fe58b95e58886e6bda4''])])],
      PDict [(''sku'', PStr ''vanguard_basic_revenue_quarterly''),
             (''name'', PStr (u8 [''e6ada3e5bc8fefbc8de59fbae7a48ee78988efbc8fe58886e6bda4e5959fe58b95e78988''])),
             (''price_ntd'', PInt 17940),
             (''monthly_price_ntd'', PInt 5980),
             (''period_months'', PInt 3),
             (''period_label'', PStr (u8 [''e4b880e6aca1e7b9b3203320e5808be69c88''])),
             (''purchasable'', PBool True),
             (''plan_family'', PStr ''vanguard_basic''),
             (''threads_accounts'', PInt 3),
             (''monthly_free_images'', PInt 10),
             (''ai_personas'', PInt 3),
             (''audience'', PStr (u8 [''e99c80e8a681e5959fe58b95e59c98e99a8ae7b693e7879fe88887e58886e6bda4e6ac8ae79b8ae7'', ''9a84e7b693e7879fe88085''])),
             (''account_positioning'', PStr (u8 [''e4b889e7b58420414920e4babae8a8ade38081e5ae8ce695b4e79fa9e999a3e6ac8ae79b8ae88887'', ''e59c98e99a8ae58886e6bda4e5908ce6ada5e5959fe58b95''])),
             (''features'', PList [PStr (u8 [''414920e4babae8a8ad203320e7b584'']),
                     PStr (u8 [''e5ae8ce695b4e59fbae7a48ee78988e88887e79fa9e999a3e69599e7b7b4e6ac8ae79b8a'']),
                     PStr (u8 [''e6af8fe980b1e4b880e38081e4b889e59084203120e5a082e5ae98e696b9e8bc94e5b08e'']),
                     PStr (u8 [''e58fafe5bbbae7ab8b20323020e4babae59c98e99a8a'']),
                     PStr (u8 [''e8a7a3e98e96e69599e7b7b4e88887e59c98e99a8ae78d8ee98791'']),
                     PStr (u8 [''e58886e6bda4e6ac8ae79b8aefbc9ae4b880e6aca1e680a7e38081e69c88e5baa6e88887e59c98e9'', ''9a8ae5b8b3e8999fe78d8ee58bb5''])])]]"

definition OFFICIAL_BILLING_RULES :: "pyval list" where
  "OFFICIAL_BILLING_RULES =
    [
      PDict [(''key'', PStr ''free_image_priority''),
             (''name'', PStr (u8 [''e5858de8b4b9e59bbee78987e4bc98e58588e68ab5e689a3''])),
             (''description'', PStr (u8 [''e8aea2e99885e69c9fe997b4e6af8fe69c88e8b5a0e9808120313020e5bca0e5858de8b4b9204149'', ''20e59bbee78987efbc8ce794a8e5ae8ce5908ee6898de689a3e999a4e7ae97e58a9be782b9e38082'']))],
      PDict [(''key'', PStr ''shared_compute_pool''),
             (''name'', PStr (u8 [''e7ae97e58a9be6b1a0e585b1e4baab''])),
             (''description'', PStr (u8 [''e5908ce4b880e4bc9ae59198e79a84e4b8aae4babae78988e4b88ee5a49ae5a597e4bc81e4b89ae7'', ''8988204f504320e585b1e794a8e5908ce4b880e7ae97e58a9be6b1a0e38082'']))],
      PDict [(''key'', PStr ''permanent_compute_points''),
             (''name'', PStr (u8 [''e7ae97e58a9be782b9e6b0b8e4b985e69c89e69588''])),
             (''description'', PStr (u8 [''e5b7b2e582a8e580bce7ae97e58a9be782b9e8b7a8e69c88e7b4afe8aea1efbc8ce4b88de8aebee4'', ''bdbfe794a8e69c9fe99990e4b894e4b88de4bc9ae887aae58aa8e6b885e99bb6e38082'']))],
      PDict [(''key'', PStr ''separate_payment_flows''),
             (''name'', PStr (u8 [''e8aea2e99885e4b88ee582a8e580bce78bace7ab8b''])),
             (''description'', PStr (u8 [''e8aea2e99885e8b4b9e4b88ee7ae97e58a9be582a8e580bce58886e5bc80e7bb93e7ae97efbc8ce4'', ''b88de883bde4ba92e79bb8e68ab5e689a3e68896e8bdace68da2e38082'']))],
      PDict [(''key'', PStr ''site_build_excluded''),
             (''name'', PStr (u8 [''e78bace7ab8be7ab99e4b88de590abe59ca8e8aea2e99885e58685''])),
             (''description'', PStr (u8 [''e78bace7ab8be7ab99e8a784e58892e38081e8aebee8aea1e38081e5bbbae7bdaee38081e7bd91e5'', ''9f9fe38081e4b8bbe69cbae5928ce7bbb4e68aa4e99c80e8a681e58fa6e8a18ce5a794e68998e68a'', ''a5e4bbb7e38082'']))]]"

definition DEFAULT_ACTIONS :: "pyval list" where
  "DEFAULT_ACTIONS =
    [
      PDict [(''sku'', PStr ''threads_text_publish''),
             (''name'', PStr (u8 [''5468726561647320e7baafe69687e5ad97e68ea8e69687e58f91e5b883''])),
             (''points'', PInt 0),
             (''unit'', PStr (u8 [''e6aca1''])),
             (''implemented'', PBool True)],
      PDict [(''sku'', PStr ''instagram_text_publish''),
             (''name'', PStr (u8 [''496e7374616772616d20e7baafe69687e5ad97e68ea8e69687e58f91e5b883''])),
             (''points'', PInt 0),
             (''unit'', PStr (u8 [''e6aca1''])),
             (''implemented'', PBool True)],
      PDict [(''sku'', PStr ''complete_image_post''),
             (''name'', PStr (u8 [''e59fbae7a180e5ae8ce695b4e59bbee69687e8b4b4e69687efbc88e69687e6a188e380813120e5bc'', ''a0e59fbae7a18020414920e59bbee58f8ae58f91e5b883efbc89''])),
             (''points'', PFloat (5/2)),
             (''unit'', PStr (u8 [''e7af87''])),
             (''implemented'', PBool True)],
      PDict [(''sku'', PStr ''basic_text_post''),
             (''name'', PStr (u8 [''414920e69687e69cace5a484e79086e6ada5e9aaa4''])),
             (''points'', PFloat (b64 (3/10))),
             (''unit'', PStr (u8 [''e6ada5''])),
             (''implemented'', PBool True),
             (''public'', PBool False)],
      PDict [(''sku'', PStr ''tweet_generation''),
             (''name'', PStr (u8 [''414920e68ea8e69687e7949fe68890''])),
             (''points'', PFloat (1/2)),
             (''unit'', PStr (u8 [''e7af87''])),
             (''implemented'', PBool True)],
      PDict [(''sku'', PStr ''hot_tweet_fetch''),
             (''name'', PStr (u8 [''e783ade782b9e68ea8e69687e68a93e58f96''])),
             (''points'', PFloat (1/2)),
             (''unit'', PStr (u8 [''e6aca1''])),
             (''implemented'', PBool True)],
      PDict [(''sku'', PStr ''ai_image''),
             (''name'', PStr (u8 [''e58d95e78bace7949fe68890e68896e8bfbde58aa020414920e59bbee78987''])),
             (''points'', PInt 2),
             (''unit'', PStr (u8 [''e5bca0''])),
             (''implemented'', PBool True)],
      PDict [(''sku'', PStr ''oral_video_second''),
             (''name'', PStr (u8 [''e695b0e5ad97e4babae58fa3e692ade8a786e9a291''])),
             (''points'', PFloat (1/2)),
             (''unit'', PStr (u8 [''e7a792''])),
             (''implemented'', PBool True)],
      PDict [(''sku'', PStr ''threads_auto_reply_batch''),
             (''name'', PStr (u8 [''e689b9e9878fe8af84e8aeba202f2051756f746520e8bdace58f91e4ba92e58aa8e4bbbbe58aa1''])),
             (''points'', PInt 5),
             (''unit'', PStr (u8 [''e689b9e6aca1''])),
             (''implemented'', PBool True)],
      PDict [(''sku'', PStr ''crm_direct_message_batch''),
             (''name'', PStr (u8 [''43524d20e7a781e4bfa1e8a7a6e8bebee689b9e58786e689b9e6aca1''])),
             (''points'', PInt 5),
             (''unit'', PStr (u8 [''e689b9e58786e689b9e6aca1''])),
             (''implemented'', PBool True)],
      PDict [(''sku'', PStr ''crm_group_invite_batch''),
             (''name'', PStr (u8 [''43524d20e7bea4e7bb84e98280e8afb7e689b9e58786e689b9e6aca1''])),
             (''points'', PInt 5),
             (''unit'', PStr (u8 [''e689b9e58786e689b9e6aca1''])),
             (''implemented'', PBool True)],
      PDict [(''sku'', PStr ''seedance_fast_480p_second''),
             (''name'', PStr ''SeedDance 2.0 Fast 480p''),
             (''points'', PInt 3),
             (''unit'', PStr (u8 [''e7a792''])),
             (''implemented'', PBool True)],
      PDict [(''sku'', PStr ''seedance_fast_720p_second''),
             (''name'', PStr ''SeedDance 2.0 Fast 720p''),
             (''points'', PInt 6),
             (''unit'', PStr (u8 [''e7a792''])),
             (''implemented'', PBool True)],
      PDict [(''sku'', PStr ''seedance_fast_1080p_second''),
             (''name'', PStr ''SeedDance 2.0 Fast 1080p''),
             (''points'', PFloat (15/2)),
             (''unit'', PStr (u8 [''e7a792''])),
             (''implemented'', PBool True)],
      PDict [(''sku'', PStr ''seedance_fast_2k_second''),
             (''name'', PStr ''SeedDance 2.0 Fast 2K''),
             (''points'', PInt 8),
             (''unit'', PStr (u8 [''e7a792''])),
             (''implemented'', PBool True)],
      PDict [(''sku'', PStr ''seedance_fast_4k_second''),
             (''name'', PStr ''SeedDance 2.0 Fast 4K''),
             (''points'', PInt 9),
             (''unit'', PStr (u8 [''e7a792''])),
             (''implemented'', PBool True)],
      PDict [(''sku'', PStr ''seedance_480p_second''),
             (''name'', PStr ''SeedDance 2.0 480p''),
             (''points'', PInt 4),
             (''unit'', PStr (u8 [''e7a792''])),
             (''implemented'', PBool True)],
      PDict [(''sku'', PStr ''seedance_720p_second''),
             (''name'', PStr ''SeedDance 2.0 720p''),
             (''points'', PInt 8),
             (''unit'', PStr (u8 [''e7a792''])),
             (''implemented'', PBool True)],
      PDict [(''sku'', PStr ''seedance_1080p_second''),
             (''name'', PStr ''SeedDance 2.0 1080p''),
             (''points'', PInt 9),
             (''unit'', PStr (u8 [''e7a792''])),
             (''implemented'', PBool True)],
      PDict [(''sku'', PStr ''seedance_2k_second''),
             (''name'', PStr ''SeedDance 2.0 2K''),
             (''points'', PInt 10),
             (''unit'', PStr (u8 [''e7a792''])),
             (''implemented'', PBool True)],
      PDict [(''sku'', PStr ''seedance_4k_second''),
             (''name'', PStr ''SeedDance 2.0 4K''),
             (''points'', PInt 11),
             (''unit'', PStr (u8 [''e7a792''])),
             (''implemented'', PBool True)],
      PDict [(''sku'', PStr ''video_language_replace_second''),
             (''name'', PStr (u8 [''e8a786e9a291e8afade7a78de69bb4e68da2''])),
             (''points'', PFloat (1/2)),
             (''unit'', PStr (u8 [''e7a792''])),
             (''implemented'', PBool True)],
      PDict [(''sku'', PStr ''video_model_replace_second''),
             (''name'', PStr (u8 [''e8a786e9a291e6a8a1e789b9e69bbfe68da2''])),
             (''points'', PFloat (1/2)),
             (''unit'', PStr (u8 [''e7a792''])),
             (''implemented'', PBool True)],
      PDict [(''sku'', PStr ''video_product_replace_second''),
             (''name'', PStr (u8 [''e8a786e9a291e59586e59381e69bbfe68da2''])),
             (''points'', PFloat (1/2)),
             (''unit'', PStr (u8 [''e7a792''])),
             (''implemented'', PBool True)],
      PDict [(''sku'', PStr ''ecommerce_image''),
             (''name'', PStr (u8 [''e794b5e59586e5b9bfe5918ae59bbe''])),
             (''points'', PInt 2),
             (''unit'', PStr (u8 [''e5bca0''])),
             (''implemented'', PBool True)],
      PDict [(''sku'', PStr ''ecommerce_seeding_image''),
             (''name'', PStr (u8 [''e7a78de88d89e8a786e9a291e58886e9959ce59bbe''])),
             (''points'', PInt 2),
             (''unit'', PStr (u8 [''e5bca0''])),
             (''implemented'', PBool True)],
      PDict [(''sku'', PStr ''subject_replace_image''),
             (''name'', PStr (u8 [''e4babae789a9202f20e59586e59381e59bbee78987e69bbfe68da2''])),
             (''points'', PInt 2),
             (''unit'', PStr (u8 [''e5bca0''])),
             (''implemented'', PBool True)],
      PDict [(''sku'', PStr ''poster_translate_image''),
             (''name'', PStr (u8 [''e794b5e59586e59bbee8afade7a78de58887e68da2''])),
             (''points'', PInt 2),
             (''unit'', PStr (u8 [''e5bca0''])),
             (''implemented'', PBool True)],
      PDict [(''sku'', PStr ''subject_generate_image''),
             (''name'', PStr (u8 [''e695b0e5ad97e4baba202f20e4baa7e59381e4b8bbe4bd93e59bbe''])),
             (''points'', PInt 2),
             (''unit'', PStr (u8 [''e5bca0''])),
             (''implemented'', PBool True)]]"

definition DEFAULT_PACKAGES :: "pyval list" where
  "DEFAULT_PACKAGES =
    [
      PDict [(''sku'', PStr ''credits_200''),
             (''name'', PStr (u8 [''e6a087e58786e582a8e580bce58c85''])),
             (''price_ntd'', PInt 2000),
             (''paid_points'', PInt 200),
             (''bonus_points'', PInt 0),
             (''total_points'', PInt 200),
             (''bonus_images'', PInt 0)],
      PDict [(''sku'', PStr ''credits_530''),
             (''name'', PStr (u8 [''e79585e99480e582a8e580bce58c85''])),
             (''price_ntd'', PInt 5000),
             (''paid_points'', PInt 500),
             (''bonus_points'', PInt 30),
             (''total_points'', PInt 530),
             (''bonus_images'', PInt 0)],
      PDict [(''sku'', PStr ''credits_1620''),
             (''name'', PStr (u8 [''e4bc81e4b89ae995bfe69c9fe582a8e580bce58c85''])),
             (''price_ntd'', PInt 15000),
             (''paid_points'', PInt 1500),
             (''bonus_points'', PInt 120),
             (''total_points'', PInt 1620),
             (''bonus_images'', PInt 20)]]"

text \<open>\<open>subscription\<close> is a copy of the last plan, \<open>subscriptions\<close> a copy of all of them;
  \<open>billing_rules\<close> is assigned after the literal, so it is the last key.\<close>

definition DEFAULT_CATALOG :: pydict where
  "DEFAULT_CATALOG = [
      (''currency'', PStr ''TWD''),
      (''timezone'', PStr ''Asia/Shanghai''),
      (''point_unit_ntd'', PInt 10),
      (''subscription'', last LATEST_PDF_SUBSCRIPTION_PLANS),
      (''subscriptions'', PList LATEST_PDF_SUBSCRIPTION_PLANS),
      (''actions'', PList DEFAULT_ACTIONS),
      (''packages'', PList DEFAULT_PACKAGES),
      (''automation_modules'', PList DEFAULT_AUTOMATION_MODULES),
      (''billing_rules'', PList OFFICIAL_BILLING_RULES)]"

definition LEGACY_R18_ACTION_SKUS :: "string list" where
  "LEGACY_R18_ACTION_SKUS =
    [''ad_video_480p_second'',
     ''ad_video_720p_second'',
     ''ad_video_1080p_second'',
     ''ad_video_2k_second'',
     ''ad_video_4k_second'']"

definition VIDEO_ACTION_SKUS :: "string list" where
  "VIDEO_ACTION_SKUS =
    [''oral_video_second'',
     ''seedance_fast_480p_second'',
     ''seedance_fast_720p_second'',
     ''seedance_fast_1080p_second'',
     ''seedance_fast_2k_second'',
     ''seedance_fast_4k_second'',
     ''seedance_480p_second'',
     ''seedance_720p_second'',
     ''seedance_1080p_second'',
     ''seedance_2k_second'',
     ''seedance_4k_second'',
     ''video_language_replace_second'',
     ''video_model_replace_second'',
     ''video_product_replace_second'',
     ''ecommerce_image'',
     ''ecommerce_seeding_image'',
     ''subject_replace_image'',
     ''poster_translate_image'',
     ''subject_generate_image'']"

definition CRM_ACTION_SKUS :: "string list" where
  "CRM_ACTION_SKUS =
    [''crm_direct_message_batch'',
     ''crm_group_invite_batch'']"

definition SOCIAL_CONTENT_ACTION_SKUS :: "string list" where
  "SOCIAL_CONTENT_ACTION_SKUS =
    [''tweet_generation'',
     ''hot_tweet_fetch'']"

end
