(* ===== verification/BillingCatalog.thy ===== *)
theory BillingCatalog
  imports BillingSchema BillingPoints CatalogData
begin

text \<open>
  The price catalog of webapp/commercial_billing.py: the catalog upgrades that the
  migrations apply, the validator, the versioned drafts and their publication, and the
  lookups the other components use (\<open>get_active_catalog\<close>, \<open>_catalog_item\<close>,
  \<open>action_rate_units\<close>, \<open>_subscription_plan_family\<close>).  A catalog is a JSON value; every
  branch on its shape and every exception a malformed one causes is kept.
\<close>

section \<open>Items of a catalog\<close>

definition item_sku :: "pyval \<Rightarrow> string" where
  "item_sku item = str_field (vget item ''sku'')"

text \<open>\<open>str((item or {}).get(key) or "")\<close>, which raises on a truthy item that is no dict.\<close>

definition item_key :: "string \<Rightarrow> pyval \<Rightarrow> string res" where
  "item_key k item = bindr (py_get (py_or item (PDict [])) k) (\<lambda>v. Inr (str_field v))"

text \<open>Iteration over a JSON value: a dict yields its keys, a string its characters.\<close>

fun py_iter :: "pyval \<Rightarrow> pyval list res" where
  "py_iter (PList xs) = Inr xs"
| "py_iter (PDict d) = Inr (map (\<lambda>kv. PStr (fst kv)) d)"
| "py_iter (PStr s) = Inr (map (\<lambda>c. PStr [c]) s)"
| "py_iter _ = Inl TypeError"

text \<open>
  \<open>{sku: item for item in xs if isinstance(item, dict) and sku}\<close>: of several items with one
  sku the last one wins.
\<close>

definition find_last :: "('a \<Rightarrow> bool) \<Rightarrow> 'a list \<Rightarrow> 'a option" where
  "find_last P xs = List.find P (rev xs)"

definition by_sku :: "pyval list \<Rightarrow> string \<Rightarrow> pyval option" where
  "by_sku xs sku = find_last (\<lambda>item. is_dict item \<and> item_sku item \<noteq> [] \<and> item_sku item = sku) xs"

fun update_last :: "('a \<Rightarrow> bool) \<Rightarrow> ('a \<Rightarrow> 'a) \<Rightarrow> 'a list \<Rightarrow> 'a list" where
  "update_last P f [] = []"
| "update_last P f (x # xs) =
     (if \<exists>y \<in> set xs. P y then x # update_last P f xs
      else if P x then f x # xs else x # xs)"

definition vget_default :: "pyval \<Rightarrow> string \<Rightarrow> pyval \<Rightarrow> pyval" where
  "vget_default v k d = (case v of PDict e \<Rightarrow> if has_key k e then dget e k else d | _ \<Rightarrow> d)"

section \<open>Catalog upgrades\<close>

text \<open>The loop body of the two upgrades that keep the administrator's price.\<close>

definition upsert_priced_action :: "pyval list \<Rightarrow> pyval \<Rightarrow> pyval list" where
  "upsert_priced_action actions desired =
     (let sku = item_sku desired; is_it = (\<lambda>item. is_dict item \<and> item_sku item \<noteq> [] \<and> item_sku item = sku)
      in case by_sku actions sku of
           None \<Rightarrow> actions @ [desired]
         | Some _ \<Rightarrow> update_last is_it
             (\<lambda>cur. let preserved = vget_default cur ''points'' (vget_default desired ''points'' (PInt 0))
               in vset ''implemented'' (PBool True) (vset ''points'' preserved (vupdate cur desired)))
             actions)"

definition default_actions :: "string list \<Rightarrow> pyval list" where
  "default_actions skus = filter (\<lambda>item. is_dict item \<and> item_sku item \<in> set skus) DEFAULT_ACTIONS"

definition catalog_actions :: "pydict \<Rightarrow> pyval list res" where
  "catalog_actions d = py_iter (py_or (dget d ''actions'') (PList []))"

definition with_video_action_catalog :: "pyval \<Rightarrow> pyval res" where
  "with_video_action_catalog catalog =
     (case catalog of
        PDict d \<Rightarrow> bindr (catalog_actions d) (\<lambda>actions.
          Inr (PDict (dset ''actions''
            (PList (foldl upsert_priced_action actions (default_actions VIDEO_ACTION_SKUS))) d)))
      | _ \<Rightarrow> Inl TypeError)"

definition with_crm_action_catalog :: "pyval \<Rightarrow> pyval res" where
  "with_crm_action_catalog catalog =
     (case catalog of
        PDict d \<Rightarrow> bindr (catalog_actions d) (\<lambda>actions.
          Inr (PDict (dset ''actions''
            (PList (foldl upsert_priced_action actions (default_actions CRM_ACTION_SKUS))) d)))
      | _ \<Rightarrow> Inl TypeError)"

definition upsert_action :: "pyval list \<Rightarrow> pyval \<Rightarrow> pyval list" where
  "upsert_action actions desired =
     (let sku = item_sku desired; is_it = (\<lambda>item. is_dict item \<and> item_sku item \<noteq> [] \<and> item_sku item = sku)
      in case by_sku actions sku of
           None \<Rightarrow> actions @ [desired]
         | Some _ \<Rightarrow> update_last is_it (\<lambda>cur. vupdate cur desired) actions)"

definition with_social_content_action_catalog :: "pyval \<Rightarrow> pyval res" where
  "with_social_content_action_catalog catalog =
     (case catalog of
        PDict d \<Rightarrow> bindr (catalog_actions d) (\<lambda>actions.
          Inr (PDict (dset ''actions''
            (PList (foldl upsert_action actions (default_actions SOCIAL_CONTENT_ACTION_SKUS))) d)))
      | _ \<Rightarrow> Inl TypeError)"

definition pdf_monthly_price :: "string \<Rightarrow> int" where
  "pdf_monthly_price sku =
     (if starts_with ''vanguard_personal_'' sku then 2980
      else if starts_with ''vanguard_enterprise_'' sku then 5980 else 0)"

definition pdf_price_item :: "pyval \<Rightarrow> pyval res" where
  "pdf_price_item item =
     (if \<not> is_dict item then Inr item
      else let monthly = pdf_monthly_price (item_sku item) in
        bindr (int_field (vget item ''period_months'')) (\<lambda>period_months.
          Inr (if monthly \<noteq> 0 \<and> 0 < period_months
               then vset ''price_ntd'' (PInt (monthly * period_months))
                      (vset ''monthly_price_ntd'' (PInt monthly) item)
               else item)))"

definition require_key :: "string \<Rightarrow> pyval \<Rightarrow> pyval res" where
  "require_key k v = (case v of PDict d \<Rightarrow>
     (case map_of d k of None \<Rightarrow> Inl KeyError | Some x \<Rightarrow> Inr x) | _ \<Rightarrow> Inl TypeError)"

definition with_pdf_subscription_prices :: "pyval \<Rightarrow> pyval res" where
  "with_pdf_subscription_prices catalog =
     (case catalog of
        PDict d \<Rightarrow>
          (case dget d ''subscriptions'' of
             PList subs \<Rightarrow> bindr (map_all pdf_price_item subs) (\<lambda>subs'.
               let d' = dset ''subscriptions'' (PList subs') d; sub = dget d' ''subscription'' in
               if \<not> is_dict sub then Inr (PDict d')
               else case by_sku subs' (item_sku sub) of
                 None \<Rightarrow> Inr (PDict d')
               | Some matched \<Rightarrow>
                   bindr (require_key ''monthly_price_ntd'' matched) (\<lambda>monthly.
                   bindr (require_key ''price_ntd'' matched) (\<lambda>price.
                     Inr (PDict (dset ''subscription''
                       (vset ''price_ntd'' price (vset ''monthly_price_ntd'' monthly sub)) d')))))
           | _ \<Rightarrow> Inr catalog)
      | _ \<Rightarrow> Inr catalog)"

definition with_latest_pdf_subscription_plans :: "pyval \<Rightarrow> pyval res" where
  "with_latest_pdf_subscription_plans catalog =
     (case catalog of
        PDict d \<Rightarrow> Inr (PDict (dset ''subscription'' (last LATEST_PDF_SUBSCRIPTION_PLANS)
                     (dset ''subscriptions'' (PList LATEST_PDF_SUBSCRIPTION_PLANS) d)))
      | _ \<Rightarrow> Inl TypeError)"

text \<open>
  The body of the loop over the official plans.  A price an administrator set survives when it
  is positive and consistent with the official period.
\<close>

definition merge_plan :: "(string \<Rightarrow> pyval option) \<Rightarrow> pyval \<Rightarrow> pyval res" where
  "merge_plan existing_plans official =
     (let existing = (case existing_plans (item_sku official) of None \<Rightarrow> PDict [] | Some p \<Rightarrow> p);
          merged = vupdate existing official in
      bindr (int_field (vget existing ''price_ntd'')) (\<lambda>existing_price.
      bindr (int_field (vget existing ''monthly_price_ntd'')) (\<lambda>existing_monthly.
      bindr (int_field (vget official ''period_months'')) (\<lambda>period_months.
        Inr (if 0 < existing_price \<and> 0 < existing_monthly
                \<and> existing_monthly * period_months = existing_price
             then vset ''monthly_price_ntd'' (PInt existing_monthly)
                    (vset ''price_ntd'' (PInt existing_price) merged)
             else merged)))))"

text \<open>
  The comprehension over \<open>result.get("subscriptions")\<close> has the \<open>isinstance\<close> test as a filter,
  so a value that cannot be iterated raises before the test is reached.
\<close>

definition with_complete_subscription_details :: "pyval \<Rightarrow> pyval res" where
  "with_complete_subscription_details catalog =
     bindr (py_get catalog ''subscriptions'') (\<lambda>subs.
     bindr (py_iter subs) (\<lambda>items.
     bindr (map_all (merge_plan (by_sku (if is_list subs then items else [])))
              LATEST_PDF_SUBSCRIPTION_PLANS) (\<lambda>merged_plans.
     let catalog1 = vset ''subscriptions'' (PList merged_plans) catalog;
         valid_skus = map item_sku merged_plans in
     bindr (item_key ''sku'' (vget catalog1 ''subscription'')) (\<lambda>sku0.
     let default_sku = (if sku0 \<in> set valid_skus then sku0
           else item_sku (last LATEST_PDF_SUBSCRIPTION_PLANS)) in
     case List.find (\<lambda>item. item_sku item = default_sku) merged_plans of
       None \<Rightarrow> Inl StopIteration
     | Some item \<Rightarrow> Inr (vset ''billing_rules'' (PList OFFICIAL_BILLING_RULES)
                      (vset ''subscription'' item catalog1))))))"

section \<open>Validation\<close>

definition catch_type_value :: "bool \<Rightarrow> bool res \<Rightarrow> bool res" where
  "catch_type_value d r = (case r of Inl TypeError \<Rightarrow> Inr d | Inl ValueError \<Rightarrow> Inr d | _ \<Rightarrow> r)"

definition non_blank :: "pyval \<Rightarrow> bool" where
  "non_blank v = (strip (str_field v) \<noteq> [])"

definition valid_subscription_catalog_item :: "pyval \<Rightarrow> bool res" where
  "valid_subscription_catalog_item item =
     (if \<not> is_dict item \<or> item_sku item = [] then Inr False
      else catch_type_value False (
        bindr (int_field (vget item ''price_ntd'')) (\<lambda>price.
        bindr (int_field (vget item ''monthly_price_ntd'')) (\<lambda>monthly_price.
        bindr (int_field (vget item ''period_months'')) (\<lambda>period_months.
        let purchasable = (vget item ''purchasable'' \<noteq> PBool False);
            valid_price = (if purchasable
              then 0 < price \<and> 0 < monthly_price \<and> monthly_price * period_months = price
              else price = 0 \<and> monthly_price = 0) in
        if \<not> (valid_price \<and> period_months \<in> {1, 3, 6, 12}) then Inr False
        else bindr (int_field (vget item ''threads_accounts'')) (\<lambda>accounts.
          if accounts \<notin> {1, 3} then Inr False
          else bindr (int_field (vget item ''monthly_free_images'')) (\<lambda>images.
            Inr (0 \<le> images
              \<and> 5 \<le> length (list_or_empty (vget item ''features''))
              \<and> non_blank (vget item ''audience'')
              \<and> non_blank (vget item ''account_positioning'')))))))))"

definition subscription_fields :: "string list" where
  "subscription_fields =
     [''name'', ''price_ntd'', ''monthly_price_ntd'', ''period_months'', ''period_label'',
      ''purchasable'', ''plan_family'', ''threads_accounts'', ''monthly_free_images'',
      ''ai_personas'', ''features'', ''audience'', ''account_positioning'']"

definition invalid_catalog :: "'a res" where
  "invalid_catalog = Inl (BillingError ''INVALID_CATALOG'' 400)"

definition invalid_subscriptions :: "pyval \<Rightarrow> bool res" where
  "invalid_subscriptions catalog =
     (let subscription = dict_or_empty (vget catalog ''subscription'');
          subscriptions = list_or_empty (vget catalog ''subscriptions'') in
      bindr (map_all (item_key ''sku'') subscriptions) (\<lambda>skus.
        if subscriptions = [] \<or> \<not> distinct skus then Inr True
        else or_res (any_res (\<lambda>item. bindr (valid_subscription_catalog_item item) (\<lambda>b. Inr (\<not> b))) subscriptions)
          (let sku = item_sku subscription in
           if sku \<notin> set skus then Inr True
           else case by_sku subscriptions sku of
             None \<Rightarrow> Inl KeyError
           | Some plan \<Rightarrow> Inr (\<exists>field \<in> set subscription_fields.
               \<not> py_eq (vget subscription field) (vget plan field)))))"

definition invalid_package :: "pyval \<Rightarrow> bool res" where
  "invalid_package item =
     (if \<not> is_dict item \<or> item_sku item = [] then Inr True
      else bindr (int_field (vget item ''price_ntd'')) (\<lambda>price.
        if price \<le> 0 then Inr True
        else bindr (int_field (vget item ''total_points'')) (\<lambda>total.
          if total \<le> 0 then Inr True
          else bindr (int_field (vget item ''paid_points'')) (\<lambda>paid.
            bindr (int_field (vget item ''bonus_points'')) (\<lambda>bonus.
              Inr (paid + bonus \<noteq> total))))))"

definition invalid_packages :: "pyval \<Rightarrow> bool res" where
  "invalid_packages catalog =
     (let packages = list_or_empty (vget catalog ''packages'') in
      bindr (map_all (item_key ''sku'') packages) (\<lambda>skus.
        if packages = [] \<or> \<not> distinct skus then Inr True
        else any_res invalid_package packages))"

definition invalid_action :: "pyval \<Rightarrow> bool res" where
  "invalid_action item =
     (if \<not> is_dict item \<or> item_sku item = [] then Inr True
      else bindr (py_float (vget item ''points'')) (\<lambda>x.
        Inr (case x of Fin p \<Rightarrow> p < 0 | _ \<Rightarrow> True)))"

definition invalid_automation_module :: "string list \<Rightarrow> pyval \<Rightarrow> bool" where
  "invalid_automation_module action_skus item =
     (if \<not> is_dict item then True
      else
        let key = str_field (vget item ''key'');
            expected = (case List.find (\<lambda>m. str_field (vget m ''key'') = key) DEFAULT_AUTOMATION_MODULES of
              None \<Rightarrow> PDict [] | Some m \<Rightarrow> m);
            task_types = list_or_empty (vget item ''task_types'');
            billing_mode = str_field (vget item ''billing_mode'');
            action_sku = str_field (vget item ''action_sku'') in
        \<not> non_blank (vget item ''name'')
        \<or> \<not> non_blank (vget item ''description'')
        \<or> \<not> py_eq (PList task_types) (vget expected ''task_types'')
        \<or> str_field (vget item ''reply_scope'') \<noteq> str_field (vget expected ''reply_scope'')
        \<or> billing_mode \<noteq> str_field (vget expected ''billing_mode'')
        \<or> action_sku \<noteq> str_field (vget expected ''action_sku'')
        \<or> (billing_mode = ''action'' \<and> action_sku \<notin> set action_skus)
        \<or> (billing_mode = ''free'' \<and> action_sku \<noteq> []))"

definition invalid_automation_modules :: "pyval \<Rightarrow> string list \<Rightarrow> bool res" where
  "invalid_automation_modules catalog action_skus =
     (let modules = list_or_empty (vget catalog ''automation_modules'');
          default_keys = map (\<lambda>m. str_field (vget m ''key'')) DEFAULT_AUTOMATION_MODULES in
      bindr (map_all (item_key ''key'') modules) (\<lambda>keys.
        Inr (length modules \<noteq> length default_keys \<or> \<not> distinct keys
          \<or> set keys \<noteq> set default_keys
          \<or> (\<exists>item \<in> set modules. invalid_automation_module action_skus item))))"

definition invalid_billing_rules :: "pyval \<Rightarrow> bool res" where
  "invalid_billing_rules catalog =
     (let rules = list_or_empty (vget catalog ''billing_rules'') in
      bindr (map_all (item_key ''key'') rules) (\<lambda>keys.
        Inr (keys \<noteq> map (\<lambda>r. str_field (vget r ''key'')) OFFICIAL_BILLING_RULES
          \<or> (\<exists>item \<in> set rules. \<not> is_dict item \<or> \<not> non_blank (vget item ''name'')
               \<or> \<not> non_blank (vget item ''description'')))))"

definition validate_catalog :: "pyval \<Rightarrow> unit res" where
  "validate_catalog catalog =
     (if \<not> is_dict catalog then invalid_catalog
      else if str_field (vget catalog ''timezone'') \<noteq> ''Asia/Shanghai'' then invalid_catalog
      else bindr (invalid_subscriptions catalog) (\<lambda>bad. if bad then invalid_catalog
      else bindr (invalid_packages catalog) (\<lambda>bad. if bad then invalid_catalog
      else let actions = list_or_empty (vget catalog ''actions'') in
      bindr (map_all (item_key ''sku'') actions) (\<lambda>action_skus.
      bindr (catch_type_value True
          (if actions = [] \<or> \<not> distinct action_skus then Inr True else any_res invalid_action actions))
        (\<lambda>bad. if bad then invalid_catalog
      else bindr (invalid_automation_modules catalog action_skus) (\<lambda>bad. if bad then invalid_catalog
      else bindr (invalid_billing_rules catalog) (\<lambda>bad. if bad then invalid_catalog
      else Inr ())))))))"

end
