(* ===== verification/BillingWallet.thy ===== *)
theory BillingWallet
  imports BillingVersions
begin

text \<open>
  Wallets and the ledger (webapp/commercial_billing.py): \<open>_insert_ledger\<close>,
  \<open>ensure_wallet\<close>, \<open>initialize_new_user_wallet\<close>, \<open>adjust_credit\<close> and
  \<open>set_unlimited_compute\<close>.  \<open>credit_of\<close>/\<open>cash_of\<close> read a wallet, \<open>ledger_credit\<close>/
  \<open>ledger_cash\<close> sum the credit entries of a user: the later theories prove that they
  agree.
\<close>

section \<open>Ledger entries\<close>

record ledger_opts =
  lo_ref_type :: string
  lo_ref_id :: string
  lo_order_id :: string
  lo_reservation_id :: string
  lo_cash_amount :: int
  lo_cash_after :: "int option"
  lo_meta :: pydict

definition no_opts :: ledger_opts where
  "no_opts = \<lparr>lo_ref_type = [], lo_ref_id = [], lo_order_id = [], lo_reservation_id = [],
     lo_cash_amount = 0, lo_cash_after = None, lo_meta = []\<rparr>"

definition ledger_cash_after :: "int \<Rightarrow> ledger_opts \<Rightarrow> bdb \<Rightarrow> int" where
  "ledger_cash_after uid opts st = (case lo_cash_after opts of
      Some c \<Rightarrow> c
    | None \<Rightarrow> (case get_wallet uid st of None \<Rightarrow> 0 | Some w \<Rightarrow> w_cash w))"

definition insert_ledger ::
  "int \<Rightarrow> asset_type \<Rightarrow> string \<Rightarrow> int \<Rightarrow> int \<Rightarrow> string \<Rightarrow> ledger_opts \<Rightarrow> int \<Rightarrow> bdb \<Rightarrow> bdb" where
  "insert_ledger uid asset event amount balance_after idem opts current st =
     (let cash_after = ledger_cash_after uid opts st; (lid, st1) = new_id ''bill_entry'' st in
      insert_ledger_row
        \<lparr>l_id = lid, l_user_id = uid, l_asset = asset, l_event = event, l_amount = amount,
         l_balance_after = balance_after, l_cash_amount = lo_cash_amount opts,
         l_cash_after = cash_after, l_ref_type = lo_ref_type opts, l_ref_id = lo_ref_id opts,
         l_order_id = lo_order_id opts, l_reservation_id = lo_reservation_id opts,
         l_meta = PDict (lo_meta opts), l_idem = idem, l_created_at = current\<rparr> st1)"

section \<open>Wallets\<close>

definition fresh_wallet :: "int \<Rightarrow> int \<Rightarrow> billing_mode \<Rightarrow> int \<Rightarrow> int \<Rightarrow> wallet" where
  "fresh_wallet uid credit mode migrated current =
     \<lparr>w_user_id = uid, w_credit = credit, w_cash = 0, w_mode = mode, w_unlimited = False,
      w_migrated = migrated, w_created_at = current, w_updated_at = current\<rparr>"

text \<open>The branch of \<open>ensure_wallet\<close> that creates the wallet of a user who has none.\<close>

definition create_wallet :: "int \<Rightarrow> int \<Rightarrow> bdb \<Rightarrow> bdb res" where
  "create_wallet uid current st =
     (case get_user uid st of
        None \<Rightarrow> Inl (BillingError ''USER_NOT_FOUND'' 404)
      | Some user \<Rightarrow>
        let legacy_balance = u_balance_cents user in
        if legacy_balance < 0 then Inl (BillingError ''MIGRATION_REVIEW_REQUIRED'' 409)
        else bindr (insert_wallet (fresh_wallet uid (legacy_balance * POINT_SCALE) Legacy legacy_balance current) st)
          (\<lambda>st1. Inr (insert_ledger uid Credit ''opening_balance'' (legacy_balance * POINT_SCALE)
             (legacy_balance * POINT_SCALE) (''migration:lazy_v1:'' @ show_int uid)
             (no_opts\<lparr>lo_ref_type := ''migration'', lo_ref_id := ''lazy_v1'',
                      lo_meta := [(''legacy_balance'', PInt legacy_balance)]\<rparr>) current st1)))"

definition ensure_wallet :: "int \<Rightarrow> int \<Rightarrow> bdb \<Rightarrow> (wallet \<times> bdb) res" where
  "ensure_wallet uid current st =
     bindr (case get_wallet uid st of Some _ \<Rightarrow> Inr st | None \<Rightarrow> create_wallet uid current st) (\<lambda>st1.
     bindr (update_wallet uid (\<lambda>w. w_credit w < w_cash w)
              (\<lambda>w. w\<lparr>w_cash := w_credit w, w_updated_at := current\<rparr>) st1) (\<lambda>st2.
     case get_wallet uid st2 of None \<Rightarrow> Inl TypeError | Some w \<Rightarrow> Inr (w, st2)))"

definition require_write_access :: "int \<Rightarrow> int \<Rightarrow> bdb \<Rightarrow> (wallet \<times> bdb) res" where
  "require_write_access uid current st = ensure_wallet uid current st"

section \<open>New users\<close>

definition NEW_USER_WELCOME_POINTS :: int where
  "NEW_USER_WELCOME_POINTS = 20"

text \<open>One step of the loop over the grants: skip a grant whose key is in the ledger.\<close>

definition apply_new_user_grant ::
  "int \<Rightarrow> int \<Rightarrow> bdb \<Rightarrow> int \<times> string \<times> string \<times> string \<times> string \<times> pydict \<Rightarrow> bdb res" where
  "apply_new_user_grant uid current st grant =
     (case grant of (amount, event, idem, ref_type, ref_id, meta) \<Rightarrow>
        if \<exists>l \<in> set (db_ledger st). l_idem l = idem then Inr st
        else case get_wallet uid st of
          None \<Rightarrow> Inl TypeError
        | Some w \<Rightarrow>
          let after = w_credit w + amount in
          bindr (update_wallet uid (\<lambda>_. True) (\<lambda>w. w\<lparr>w_credit := after, w_updated_at := current\<rparr>) st)
            (\<lambda>st1. Inr (insert_ledger uid Credit event amount after idem
               (no_opts\<lparr>lo_ref_type := ref_type, lo_ref_id := ref_id, lo_meta := meta\<rparr>) current st1)))"

definition new_user_grants :: "int \<Rightarrow> int \<Rightarrow> int \<Rightarrow> string \<Rightarrow>
  (int \<times> string \<times> string \<times> string \<times> string \<times> pydict) list" where
  "new_user_grants uid extra_units actor source =
     (let src = (if source = [] then ''registration'' else source) in
      (NEW_USER_WELCOME_POINTS * POINT_SCALE, ''welcome_credit'', ''welcome-credit-v1:'' @ show_int uid,
         ''welcome_credit'', ''v1'',
         [(''points'', PInt NEW_USER_WELCOME_POINTS), (''source'', PStr src)])
      # (if 0 < extra_units then
          [(extra_units, ''admin_initial_credit'', ''new-user-extra:'' @ src @ '':'' @ show_int uid,
            ''user_create'', show_int uid,
            [(''points'', PFloat (points_from_units extra_units)), (''source'', PStr src),
             (''actor_user_id'', PInt actor)])]
         else []))"

definition initialize_new_user_wallet ::
  "int \<Rightarrow> pyval \<Rightarrow> int \<Rightarrow> string \<Rightarrow> int \<Rightarrow> bdb \<Rightarrow> (wallet \<times> bdb) res" where
  "initialize_new_user_wallet uid extra_points actor source current st =
     (case get_user uid st of
        None \<Rightarrow> Inl (BillingError ''USER_NOT_FOUND'' 404)
      | Some user \<Rightarrow>
        if u_is_admin user then Inl (BillingError ''ADMIN_WALLET_NOT_SUPPORTED'' 409)
        else
          let st1 = insert_wallet_or_ignore (fresh_wallet uid 0 Enforced 0 current) st;
              st2 = touch_wallet uid (\<lambda>w. w\<lparr>w_mode := Enforced, w_updated_at := current\<rparr>) st1 in
          bindr (units_from_points extra_points) (\<lambda>extra_units.
          bindr (foldr_res (apply_new_user_grant uid current) st2
                   (new_user_grants uid extra_units actor source)) (\<lambda>st3.
          ensure_wallet uid current st3)))"

section \<open>Administrator adjustments\<close>

record credit_view =
  cv_user_id :: int
  cv_credit_units :: int
  cv_points :: rat
  cv_cash_units :: int
  cv_cash_points :: rat
  cv_unlimited :: bool

definition adjust_credit ::
  "int \<Rightarrow> int \<Rightarrow> int \<Rightarrow> string \<Rightarrow> int \<Rightarrow> bdb \<Rightarrow> (credit_view \<times> bdb) res" where
  "adjust_credit uid delta_units actor reason current st =
     (if strip reason = [] then Inl (BillingError ''ADJUSTMENT_REASON_REQUIRED'' 400)
      else bindr (ensure_wallet uid current st) (\<lambda>(wallet, st1).
        let after = w_credit wallet + delta_units in
        if after < 0 then Inl (BillingError ''INSUFFICIENT_POINTS'' 409)
        else
          let cash_before = w_cash wallet; cash_after = min cash_before after in
          bindr (update_wallet uid (\<lambda>_. True)
              (\<lambda>w. w\<lparr>w_credit := after, w_cash := cash_after, w_updated_at := current\<rparr>) st1) (\<lambda>st2.
          let (ref_id, st3) = new_id ''adjustment'' st2;
              st4 = insert_ledger uid Credit ''admin_adjustment'' delta_units after
                (''adjustment:'' @ ref_id)
                (no_opts\<lparr>lo_ref_type := ''admin_adjustment'', lo_ref_id := ref_id,
                   lo_meta := [(''reason'', PStr reason), (''actor_user_id'', PInt actor)],
                   lo_cash_amount := cash_after - cash_before, lo_cash_after := Some cash_after\<rparr>)
                current st3 in
          Inr (\<lparr>cv_user_id = uid, cv_credit_units = after, cv_points = points_from_units after,
                cv_cash_units = cash_after, cv_cash_points = points_from_units cash_after,
                cv_unlimited = w_unlimited wallet\<rparr>, st4))))"

definition set_unlimited_compute ::
  "int \<Rightarrow> bool \<Rightarrow> int \<Rightarrow> string \<Rightarrow> int \<Rightarrow> bdb \<Rightarrow> (credit_view \<times> bdb) res" where
  "set_unlimited_compute uid enabled actor reason current st =
     (if strip reason = [] then Inl (BillingError ''ADJUSTMENT_REASON_REQUIRED'' 400)
      else bindr (ensure_wallet uid current st) (\<lambda>(wallet, st1).
        let before = w_unlimited wallet;
            view = \<lparr>cv_user_id = uid, cv_credit_units = w_credit wallet,
                cv_points = points_from_units (w_credit wallet), cv_cash_units = w_cash wallet,
                cv_cash_points = points_from_units (w_cash wallet), cv_unlimited = enabled\<rparr> in
        if before = enabled then Inr (view, st1)
        else
          let st2 = touch_wallet uid (\<lambda>w. w\<lparr>w_unlimited := enabled, w_updated_at := current\<rparr>) st1;
              (ref_id, st3) = new_id ''unlimited_compute'' st2 in
          Inr (view, insert_ledger uid Audit
            (if enabled then ''unlimited_compute_enabled'' else ''unlimited_compute_disabled'') 0
            (w_credit wallet) (''unlimited_compute:'' @ ref_id)
            (no_opts\<lparr>lo_ref_type := ''admin_adjustment'', lo_ref_id := ref_id,
               lo_meta := [(''reason'', PStr reason), (''actor_user_id'', PInt actor),
                 (''before'', PBool before), (''after'', PBool enabled)]\<rparr>) current st3)))"

section \<open>Balances and ledger sums\<close>

definition credit_of :: "int \<Rightarrow> bdb \<Rightarrow> int" where
  "credit_of uid st = (case get_wallet uid st of None \<Rightarrow> 0 | Some w \<Rightarrow> w_credit w)"

definition cash_of :: "int \<Rightarrow> bdb \<Rightarrow> int" where
  "cash_of uid st = (case get_wallet uid st of None \<Rightarrow> 0 | Some w \<Rightarrow> w_cash w)"

definition credit_entries :: "int \<Rightarrow> bdb \<Rightarrow> ledger_row list" where
  "credit_entries uid st = filter (\<lambda>l. l_user_id l = uid \<and> l_asset l = Credit) (db_ledger st)"

definition ledger_credit :: "int \<Rightarrow> bdb \<Rightarrow> int" where
  "ledger_credit uid st = sum_list (map l_amount (credit_entries uid st))"

definition ledger_cash :: "int \<Rightarrow> bdb \<Rightarrow> int" where
  "ledger_cash uid st = sum_list (map l_cash_amount (credit_entries uid st))"

end
