(* ===== verification/BillingReservations.thy ===== *)
theory BillingReservations
  imports BillingWallet
begin

text \<open>
  Reservations (webapp/commercial_billing.py): a task's price is held when it is queued
  (\<open>reserve_charge\<close>, \<open>reserve_exact_cash_charge\<close>), charged when it finishes
  (\<open>settle_reservation\<close>), given back when it fails (\<open>release_reservation\<close>), and an exact
  purchase can be refunded after it was charged (\<open>refund_settled_exact_cash_charge\<close>).
  Free image grants are consumed before credit, soonest to expire first, and restored in
  reverse order.  This theory holds the operations; their properties are in
  \<open>BillingReservationProps\<close>.
\<close>

section \<open>The view of a reservation\<close>

record reservation_view =
  rv_id :: string
  rv_sku :: string
  rv_status :: reservation_status
  rv_reserved_points :: rat
  rv_reserved_cash_points :: rat
  rv_charged_points :: rat
  rv_charged_cash_points :: rat
  rv_refunded_cash_points :: rat
  rv_reserved_images :: int
  rv_free_images_used :: int
  rv_unlimited :: bool

definition reservation_public :: "reservation_row \<Rightarrow> reservation_view" where
  "reservation_public r =
     \<lparr>rv_id = r_id r, rv_sku = r_sku r, rv_status = r_status r,
      rv_reserved_points = points_from_units (r_reserved_credit r),
      rv_reserved_cash_points = points_from_units (r_reserved_cash r),
      rv_charged_points = points_from_units (r_settled_credit r),
      rv_charged_cash_points = points_from_units (r_settled_cash r),
      rv_refunded_cash_points = points_from_units (r_refunded_cash r),
      rv_reserved_images = r_reserved_images r, rv_free_images_used = r_settled_images r,
      rv_unlimited = truthy (vget (r_meta r) ''unlimited_compute'')\<rparr>"

text \<open>The last statement of every operation: read the row back and show it.\<close>

definition show_reservation :: "string \<Rightarrow> bdb \<Rightarrow> (reservation_view \<times> bdb) res" where
  "show_reservation rid st = (case get_reservation rid st of
      None \<Rightarrow> Inl TypeError | Some r \<Rightarrow> Inr (reservation_public r, st))"

definition claim_reservation ::
  "string \<Rightarrow> int \<Rightarrow> string \<Rightarrow> string \<Rightarrow> string \<Rightarrow> bdb \<Rightarrow> reservation_view res" where
  "claim_reservation rid uid ref_type ref_id sku st =
     (case get_reservation rid st of
        None \<Rightarrow> Inl (BillingError ''RESERVATION_NOT_FOUND'' 404)
      | Some r \<Rightarrow>
        if r_user_id r \<noteq> uid \<or> r_ref_type r \<noteq> ref_type \<or> r_ref_id r \<noteq> ref_id \<or> r_sku r \<noteq> sku
           \<or> r_status r \<notin> {Held, Waived}
        then Inl (BillingError ''RESERVATION_MISMATCH'' 409)
        else Inr (reservation_public r))"

section \<open>Reserving at the catalog price\<close>

record charge_request =
  cr_user_id :: int
  cr_ref_type :: string
  cr_ref_id :: string
  cr_sku :: string
  cr_quantity :: int
  cr_image :: bool
  cr_waived :: bool
  cr_idem :: string

definition charge_idem :: "charge_request \<Rightarrow> string" where
  "charge_idem q = (if cr_idem q \<noteq> [] then cr_idem q
     else ''reserve:'' @ cr_ref_type q @ '':'' @ cr_ref_id q @ '':'' @ cr_sku q)"

definition reservation_by_idem :: "string \<Rightarrow> bdb \<Rightarrow> reservation_row option" where
  "reservation_by_idem idem st = find_row (\<lambda>r. r_idem r = idem) (db_reservations st)"

text \<open>A key that is already bound: the same request is replayed, another one is a conflict.\<close>

definition replay_charge ::
  "charge_request \<Rightarrow> int \<Rightarrow> reservation_row \<Rightarrow> bdb \<Rightarrow> (reservation_view \<times> bdb) res" where
  "replay_charge q qty existing st =
     (let meta = r_meta existing in
      bindr (int_field (vget meta ''quantity'')) (\<lambda>quantity.
      if r_user_id existing = cr_user_id q \<and> r_ref_type existing = cr_ref_type q
         \<and> r_ref_id existing = cr_ref_id q \<and> r_sku existing = cr_sku q
         \<and> quantity = qty
         \<and> truthy (vget_default meta ''image'' (PBool (0 < r_reserved_images existing))) = cr_image q
         \<and> (truthy (vget meta ''admin_waived'')
              \<or> str_field (vget meta ''waived_reason'') = ''admin'') = cr_waived q
      then Inr (reservation_public existing, st)
      else Inl (BillingError ''RESERVATION_IDEMPOTENCY_CONFLICT'' 409)))"

definition blank_reservation :: "string \<Rightarrow> int \<Rightarrow> string \<Rightarrow> string \<Rightarrow> string \<Rightarrow> reservation_status \<Rightarrow>
    string \<Rightarrow> pydict \<Rightarrow> string \<Rightarrow> int \<Rightarrow> reservation_row" where
  "blank_reservation rid uid ref_type ref_id sku status cid meta idem current =
     \<lparr>r_id = rid, r_user_id = uid, r_ref_type = ref_type, r_ref_id = ref_id, r_sku = sku,
      r_status = status, r_reserved_credit = 0, r_reserved_cash = 0, r_reserved_images = 0,
      r_settled_credit = 0, r_settled_cash = 0, r_refunded_cash = 0, r_settled_images = 0,
      r_catalog_version_id = cid, r_meta = PDict meta, r_idem = idem,
      r_created_at = current, r_updated_at = current\<rparr>"

definition charge_opts :: "charge_request \<Rightarrow> string \<Rightarrow> pydict \<Rightarrow> ledger_opts" where
  "charge_opts q rid meta = no_opts\<lparr>lo_ref_type := cr_ref_type q, lo_ref_id := cr_ref_id q,
     lo_reservation_id := rid, lo_meta := meta\<rparr>"

definition reserve_waived :: "charge_request \<Rightarrow> int \<Rightarrow> string \<Rightarrow> string \<Rightarrow> int \<Rightarrow> string \<Rightarrow> wallet \<Rightarrow> int \<Rightarrow>
    bdb \<Rightarrow> (reservation_view \<times> bdb) res" where
  "reserve_waived q qty idem waived_reason rate cid wallet current st =
     (let (rid, st1) = new_id ''bill_hold'' st;
          meta = [(''quantity'', PInt qty), (''unit_credit_units'', PInt rate),
                  (''image'', PBool (cr_image q)), (''admin_waived'', PBool (cr_waived q)),
                  (''waived_reason'', PStr waived_reason)] in
      bindr (insert_reservation (blank_reservation rid (cr_user_id q) (cr_ref_type q) (cr_ref_id q)
          (cr_sku q) Waived cid meta idem current) st1) (\<lambda>st2.
      let st3 = (if cr_waived q then
            insert_ledger (cr_user_id q) Audit ''admin_waived'' 0 (w_credit wallet) (idem @ '':waived'')
              (charge_opts q rid [(''sku'', PStr (cr_sku q)), (''quantity'', PInt qty)]) current st2
          else st2) in
      show_reservation rid st3))"

definition reserve_unlimited :: "charge_request \<Rightarrow> int \<Rightarrow> string \<Rightarrow> int \<Rightarrow> string \<Rightarrow> wallet \<Rightarrow> int \<Rightarrow>
    bdb \<Rightarrow> (reservation_view \<times> bdb) res" where
  "reserve_unlimited q qty idem rate cid wallet current st =
     (let (rid, st1) = new_id ''bill_hold'' st;
          meta = [(''quantity'', PInt qty), (''unit_credit_units'', PInt rate),
                  (''image'', PBool (cr_image q)), (''admin_waived'', PBool False),
                  (''unlimited_compute'', PBool True),
                  (''theoretical_credit_units'', PInt (qty * rate))] in
      bindr (insert_reservation (blank_reservation rid (cr_user_id q) (cr_ref_type q) (cr_ref_id q)
          (cr_sku q) Held cid meta idem current) st1) (\<lambda>st2.
      show_reservation rid
        (insert_ledger (cr_user_id q) Audit ''unlimited_compute_reserved'' 0 (w_credit wallet)
          (idem @ '':unlimited'')
          (charge_opts q rid [(''sku'', PStr (cr_sku q)), (''quantity'', PInt qty),
             (''theoretical_credit_units'', PInt (qty * rate))]) current st2)))"

text \<open>
  The usable grants of a user: \<open>ORDER BY\<close> permanent grants last, then expiry, then creation;
  three stable sorts, the least significant key first.
\<close>

definition usable_grant :: "int \<Rightarrow> int \<Rightarrow> grant_row \<Rightarrow> bool" where
  "usable_grant uid current g = (g_user_id g = uid \<and> 0 < g_remaining g \<and> g_available_at g \<le> current
     \<and> (g_expires_at g = 0 \<or> current < g_expires_at g))"

definition grant_order :: "grant_row list \<Rightarrow> grant_row list" where
  "grant_order gs = sort_key (\<lambda>g. if g_expires_at g = 0 then (1::int) else 0)
     (sort_key g_expires_at (sort_key g_created_at gs))"

definition usable_grants :: "int \<Rightarrow> int \<Rightarrow> bdb \<Rightarrow> grant_row list" where
  "usable_grants uid current st = grant_order (filter (usable_grant uid current) (db_grants st))"

text \<open>The loop that takes free images: (holds, images taken, images still to pay, database).\<close>

fun take_grants :: "int \<Rightarrow> grant_row list \<Rightarrow> int \<Rightarrow> (string \<times> int) list \<Rightarrow> int \<Rightarrow> bdb \<Rightarrow>
    ((string \<times> int) list \<times> int \<times> int \<times> bdb) res" where
  "take_grants current [] remaining holds free st = Inr (holds, free, remaining, st)"
| "take_grants current (g # gs) remaining holds free st =
     (if remaining \<le> 0 then Inr (holds, free, remaining, st)
      else let take = min remaining (g_remaining g) in
        if take \<le> 0 then take_grants current gs remaining holds free st
        else bindr (update_grant (g_id g)
               (\<lambda>x. x\<lparr>g_remaining := g_remaining x - take, g_updated_at := current\<rparr>) st) (\<lambda>st'.
          take_grants current gs (remaining - take) (holds @ [(g_id g, take)]) (free + take) st'))"

definition holds_json :: "(string \<times> int) list \<Rightarrow> pyval" where
  "holds_json holds = PList (map (\<lambda>(g, n). PDict [(''grant_id'', PStr g), (''count'', PInt n)]) holds)"

definition total_images :: "int \<Rightarrow> bdb \<Rightarrow> int" where
  "total_images uid st = sum_list (map g_remaining (filter (\<lambda>g. g_user_id g = uid) (db_grants st)))"

text \<open>How a debit of \<open>credit_units\<close> splits: points that are not cash-backed go first.\<close>

definition cash_part :: "int \<Rightarrow> int \<Rightarrow> int \<Rightarrow> int" where
  "cash_part balance cash_balance credit_units =
     max (credit_units - max (balance - cash_balance) 0) 0"

text \<open>\<open>UPDATE ... SET credit_units = credit_units - ?, cash_... - ? WHERE ... >= ? AND ... >= ?\<close>.\<close>

definition debit_wallet :: "int \<Rightarrow> int \<Rightarrow> int \<Rightarrow> int \<Rightarrow> bdb \<Rightarrow> bdb res" where
  "debit_wallet uid credit cash current st =
     update_wallet uid (\<lambda>w. credit \<le> w_credit w \<and> cash \<le> w_cash w)
       (\<lambda>w. w\<lparr>w_credit := w_credit w - credit, w_cash := w_cash w - cash, w_updated_at := current\<rparr>) st"

definition credit_wallet :: "int \<Rightarrow> int \<Rightarrow> int \<Rightarrow> int \<Rightarrow> bdb \<Rightarrow> bdb res" where
  "credit_wallet uid credit cash current st =
     update_wallet uid (\<lambda>_. True)
       (\<lambda>w. w\<lparr>w_credit := w_credit w + credit, w_cash := w_cash w + cash, w_updated_at := current\<rparr>) st"

definition reserve_held :: "charge_request \<Rightarrow> int \<Rightarrow> string \<Rightarrow> int \<Rightarrow> string \<Rightarrow> wallet \<Rightarrow> int \<Rightarrow>
    bdb \<Rightarrow> (reservation_view \<times> bdb) res" where
  "reserve_held q qty idem rate cid wallet current st =
     (let uid = cr_user_id q; (rid, st1) = new_id ''bill_hold'' st in
      bindr (if cr_image q then take_grants current (usable_grants uid current st1) qty [] 0 st1
             else Inr ([], 0, qty, st1)) (\<lambda>(holds, free_images, remaining, st2).
      let credit_units = remaining * rate; balance = w_credit wallet; cash_balance = w_cash wallet in
      if balance < credit_units then Inl (BillingError ''INSUFFICIENT_POINTS'' 402)
      else
        let cash_units = cash_part balance cash_balance credit_units in
        bindr (if credit_units \<noteq> 0 then debit_wallet uid credit_units cash_units current st2
               else Inr st2) (\<lambda>st3.
        let meta = [(''quantity'', PInt qty), (''unit_credit_units'', PInt rate),
              (''image'', PBool (cr_image q)), (''admin_waived'', PBool False),
              (''grant_holds'', holds_json holds), (''cash_backed_credit_units'', PInt cash_units)];
            row = (blank_reservation rid uid (cr_ref_type q) (cr_ref_id q) (cr_sku q) Held cid meta idem current)
              \<lparr>r_reserved_credit := credit_units, r_reserved_cash := cash_units,
               r_reserved_images := free_images\<rparr> in
        bindr (insert_reservation row st3) (\<lambda>st4.
        let st5 = (if credit_units \<noteq> 0 then
              insert_ledger uid Credit ''reserve'' (- credit_units) (balance - credit_units)
                (idem @ '':credit_hold'')
                ((charge_opts q rid [(''sku'', PStr (cr_sku q)), (''quantity'', PInt qty)])
                  \<lparr>lo_cash_amount := - cash_units, lo_cash_after := Some (cash_balance - cash_units)\<rparr>)
                current st4
            else st4);
            st6 = (if free_images \<noteq> 0 then
              insert_ledger uid Image ''reserve'' (- free_images) (total_images uid st5)
                (idem @ '':image_hold'')
                (charge_opts q rid [(''sku'', PStr (cr_sku q)), (''grant_holds'', holds_json holds)])
                current st5
            else st5) in
        show_reservation rid st6))))"

definition reserve_charge :: "charge_request \<Rightarrow> int \<Rightarrow> bdb \<Rightarrow> (reservation_view \<times> bdb) res" where
  "reserve_charge q current st =
     (let qty = max (cr_quantity q) 0; idem = charge_idem q in
      if qty \<le> 0 then Inl (BillingError ''INVALID_QUANTITY'' 400)
      else case reservation_by_idem idem st of
        Some existing \<Rightarrow> replay_charge q qty existing st
      | None \<Rightarrow>
        bindr (ensure_wallet (cr_user_id q) current st) (\<lambda>(wallet, st1).
        bindr (action_rate_units (cr_sku q) st1) (\<lambda>(rate, cid).
        let waived_reason = (if \<not> enforcement_enabled st1 then ''feature_disabled''
              else if cr_waived q then ''admin'' else []) in
        if waived_reason \<noteq> [] then reserve_waived q qty idem waived_reason rate cid wallet current st1
        else if w_unlimited wallet then reserve_unlimited q qty idem rate cid wallet current st1
        else reserve_held q qty idem rate cid wallet current st1)))"

end
