(* ===== verification/BillingSettlement.thy ===== *)
theory BillingSettlement
  imports BillingReservations
begin

text \<open>
  The second half of the reservation component (webapp/commercial_billing.py): exact
  purchases paid from cash-backed points only (\<open>reserve_exact_cash_charge\<close>), and the ways a
  hold ends (\<open>settle_reservation\<close>, \<open>release_reservation\<close>,
  \<open>refund_settled_exact_cash_charge\<close>).
\<close>

section \<open>Exact purchases\<close>

record exact_request =
  er_user_id :: int
  er_ref_type :: string
  er_ref_id :: string
  er_sku :: string
  er_credit_units :: int
  er_idem :: string
  er_waived :: bool
  er_meta :: pydict

definition exact_idem :: "exact_request \<Rightarrow> string" where
  "exact_idem q = ''cash-exact:'' @ show_int (er_user_id q) @ '':'' @ strip (er_idem q)"

text \<open>The key scoped by user; failing that, a hold of this user from before keys were scoped.\<close>

definition exact_existing :: "exact_request \<Rightarrow> bdb \<Rightarrow> reservation_row option" where
  "exact_existing q st =
     (case reservation_by_idem (exact_idem q) st of
        Some r \<Rightarrow> Some r
      | None \<Rightarrow> find_row (\<lambda>r. r_idem r = strip (er_idem q) \<and> r_user_id r = er_user_id q) (db_reservations st))"

definition replay_exact :: "exact_request \<Rightarrow> reservation_row \<Rightarrow> bdb \<Rightarrow> (reservation_view \<times> bdb) res" where
  "replay_exact q existing st =
     (let meta = r_meta existing in
      bindr (int_field (py_or (vget meta ''theoretical_credit_units'') (PInt (r_reserved_credit existing))))
        (\<lambda>existing_amount.
      if r_user_id existing = er_user_id q \<and> r_ref_type existing = er_ref_type q
         \<and> r_ref_id existing = er_ref_id q \<and> r_sku existing = er_sku q
         \<and> existing_amount = er_credit_units q
         \<and> truthy (vget meta ''admin_waived'') = er_waived q
         \<and> truthy (vget meta ''exact_cash_backed'')
      then Inr (reservation_public existing, st)
      else Inl (BillingError ''RESERVATION_IDEMPOTENCY_CONFLICT'' 409)))"

definition exact_opts :: "exact_request \<Rightarrow> string \<Rightarrow> pydict \<Rightarrow> ledger_opts" where
  "exact_opts q rid meta = no_opts\<lparr>lo_ref_type := er_ref_type q, lo_ref_id := er_ref_id q,
     lo_reservation_id := rid, lo_meta := meta\<rparr>"

definition reserve_exact_waived :: "exact_request \<Rightarrow> wallet \<Rightarrow> int \<Rightarrow> bdb \<Rightarrow> (reservation_view \<times> bdb) res" where
  "reserve_exact_waived q wallet current st =
     (let (rid, st1) = new_id ''bill_hold'' st; amount = er_credit_units q; idem = exact_idem q;
          reason0 = strip (py_str (py_or (dget (er_meta q) ''waived_reason'') (PStr ''admin'')));
          waived_reason = (if reason0 = [] then ''admin'' else reason0);
          meta = dupdate (er_meta q)
            [(''quantity'', PInt 1), (''unit_credit_units'', PInt amount),
             (''theoretical_credit_units'', PInt amount), (''image'', PBool False),
             (''admin_waived'', PBool True), (''waived_reason'', PStr waived_reason),
             (''exact_cash_backed'', PBool True), (''cash_backed_credit_units'', PInt 0)] in
      bindr (insert_reservation (blank_reservation rid (er_user_id q) (er_ref_type q) (er_ref_id q)
          (er_sku q) Waived [] meta idem current) st1) (\<lambda>st2.
      show_reservation rid
        (insert_ledger (er_user_id q) Audit ''admin_waived'' 0 (w_credit wallet) (idem @ '':waived'')
          ((exact_opts q rid [(''sku'', PStr (er_sku q)), (''theoretical_credit_units'', PInt amount)])
             \<lparr>lo_cash_after := Some (w_cash wallet)\<rparr>) current st2)))"

definition insufficient_cash :: "'a res" where
  "insufficient_cash = Inl (BillingError ''INSUFFICIENT_CASH_BACKED_POINTS'' 402)"

definition reserve_exact_held :: "exact_request \<Rightarrow> wallet \<Rightarrow> int \<Rightarrow> bdb \<Rightarrow> (reservation_view \<times> bdb) res" where
  "reserve_exact_held q wallet current st =
     (let uid = er_user_id q; (rid, st1) = new_id ''bill_hold'' st; amount = er_credit_units q;
          idem = exact_idem q; balance = w_credit wallet; cash_balance = w_cash wallet;
          meta = dupdate (er_meta q)
            [(''quantity'', PInt 1), (''unit_credit_units'', PInt amount), (''image'', PBool False),
             (''admin_waived'', PBool False), (''exact_cash_backed'', PBool True),
             (''cash_backed_credit_units'', PInt amount)];
          hit = (case get_wallet uid st1 of None \<Rightarrow> False
                 | Some w \<Rightarrow> amount \<le> w_credit w \<and> amount \<le> w_cash w) in
      bindr (debit_wallet uid amount amount current st1) (\<lambda>st2.
      if \<not> hit then insufficient_cash
      else
        let row = (blank_reservation rid uid (er_ref_type q) (er_ref_id q) (er_sku q) Held [] meta idem current)
              \<lparr>r_reserved_credit := amount, r_reserved_cash := amount\<rparr> in
        bindr (insert_reservation row st2) (\<lambda>st3.
        show_reservation rid
          (insert_ledger uid Credit ''reserve'' (- amount) (balance - amount) (idem @ '':credit_hold'')
            ((exact_opts q rid [(''sku'', PStr (er_sku q)), (''exact_cash_backed'', PBool True)])
               \<lparr>lo_cash_amount := - amount, lo_cash_after := Some (cash_balance - amount)\<rparr>)
            current st3))))"

definition reserve_exact_cash_charge :: "exact_request \<Rightarrow> int \<Rightarrow> bdb \<Rightarrow> (reservation_view \<times> bdb) res" where
  "reserve_exact_cash_charge q current st =
     (if er_credit_units q \<le> 0 then Inl (BillingError ''INVALID_CHARGE'' 400)
      else if strip (er_idem q) = [] then Inl (BillingError ''IDEMPOTENCY_KEY_REQUIRED'' 400)
      else case exact_existing q st of
        Some existing \<Rightarrow> replay_exact q existing st
      | None \<Rightarrow>
        bindr (ensure_wallet (er_user_id q) current st) (\<lambda>(wallet, st1).
        if er_waived q then reserve_exact_waived q wallet current st1
        else if w_cash wallet < er_credit_units q then insufficient_cash
        else reserve_exact_held q wallet current st1))"

definition reserve_exact_charge :: "exact_request \<Rightarrow> bool \<Rightarrow> int \<Rightarrow> bdb \<Rightarrow> (reservation_view \<times> bdb) res" where
  "reserve_exact_charge q require_cash_backed current st =
     (if \<not> require_cash_backed then Inl (BillingError ''CASH_BACKING_REQUIRED'' 400)
      else reserve_exact_cash_charge (q\<lparr>er_waived := False\<rparr>) current st)"

section \<open>Ending a hold\<close>

definition row_opts :: "reservation_row \<Rightarrow> pydict \<Rightarrow> ledger_opts" where
  "row_opts r meta = no_opts\<lparr>lo_ref_type := r_ref_type r, lo_ref_id := r_ref_id r,
     lo_reservation_id := r_id r, lo_meta := meta\<rparr>"

text \<open>\<open>_restore_grants\<close>: give back the last holds first, never above a grant's total.\<close>

fun restore_loop :: "int \<Rightarrow> pyval list \<Rightarrow> int \<Rightarrow> bdb \<Rightarrow> bdb res" where
  "restore_loop current [] remaining st = Inr st"
| "restore_loop current (hold # holds) remaining st =
     (if remaining \<le> 0 then Inr st
      else bindr (int_field (vget hold ''count'')) (\<lambda>c.
        let count = min remaining (max c 0) in
        if count = 0 then restore_loop current holds remaining st
        else bindr (update_grant (str_field (vget hold ''grant_id''))
               (\<lambda>g. g\<lparr>g_remaining := min (g_total g) (g_remaining g + count), g_updated_at := current\<rparr>) st)
             (\<lambda>st'. restore_loop current holds (remaining - count) st')))"

definition restore_grants :: "pyval list \<Rightarrow> int \<Rightarrow> int \<Rightarrow> bdb \<Rightarrow> bdb res" where
  "restore_grants holds restore_count current st = restore_loop current (rev holds) (max restore_count 0) st"

text \<open>The two refund steps that settling and releasing share.\<close>

definition give_back_credit ::
  "reservation_row \<Rightarrow> int \<Rightarrow> int \<Rightarrow> string \<Rightarrow> string \<Rightarrow> pydict \<Rightarrow> wallet \<Rightarrow> int \<Rightarrow> bdb \<Rightarrow> bdb res" where
  "give_back_credit r credit cash event suffix meta wallet current st =
     (if credit = 0 then Inr st
      else bindr (credit_wallet (r_user_id r) credit cash current st) (\<lambda>st1.
        Inr (insert_ledger (r_user_id r) Credit event credit (w_credit wallet + credit) (r_id r @ suffix)
          ((row_opts r meta)\<lparr>lo_cash_amount := cash, lo_cash_after := Some (w_cash wallet + cash)\<rparr>)
          current st1)))"

definition give_back_images ::
  "reservation_row \<Rightarrow> int \<Rightarrow> string \<Rightarrow> string \<Rightarrow> pydict \<Rightarrow> int \<Rightarrow> bdb \<Rightarrow> bdb res" where
  "give_back_images r images event suffix meta current st =
     (if images = 0 then Inr st
      else bindr (restore_grants (list_or_empty (vget (r_meta r) ''grant_holds'')) images current st) (\<lambda>st1.
        Inr (insert_ledger (r_user_id r) Image event images (total_images (r_user_id r) st1) (r_id r @ suffix)
          (row_opts r meta) current st1)))"

definition release_reservation :: "string \<Rightarrow> int \<Rightarrow> bdb \<Rightarrow> (reservation_view \<times> bdb) res" where
  "release_reservation rid current st =
     (case get_reservation rid st of
        None \<Rightarrow> Inl (BillingError ''RESERVATION_NOT_FOUND'' 404)
      | Some r \<Rightarrow>
        if r_status r \<noteq> Held then Inr (reservation_public r, st)
        else
          bindr (ensure_wallet (r_user_id r) current st) (\<lambda>(wallet, st1).
          bindr (give_back_credit r (r_reserved_credit r) (r_reserved_cash r) ''release'' '':release_credit''
                   [] wallet current st1) (\<lambda>st2.
          bindr (give_back_images r (r_reserved_images r) ''release'' '':release_image'' [] current st2) (\<lambda>st3.
          show_reservation rid
            (update_reservation rid (\<lambda>x. r_status x = Held)
               (\<lambda>x. x\<lparr>r_status := Released, r_updated_at := current\<rparr>) st3)))))"

text \<open>How a held amount is split when \<open>actual\<close> of the reserved quantity was used:
  (images used, credit charged, cash charged).\<close>

definition settlement_split :: "reservation_row \<Rightarrow> bool \<Rightarrow> int \<Rightarrow> int \<Rightarrow> int \<times> int \<times> int" where
  "settlement_split r is_image actual rate =
     (let settled_images = (if is_image then min actual (r_reserved_images r) else 0);
          settled_credit = (if is_image then max (actual - settled_images) 0 * rate else actual * rate);
          reserved_non_cash = max (r_reserved_credit r - r_reserved_cash r) 0;
          settled_cash = max (settled_credit - reserved_non_cash) 0 in
      (settled_images, settled_credit, settled_cash))"

definition settle_unlimited :: "reservation_row \<Rightarrow> int \<Rightarrow> int \<Rightarrow> int \<Rightarrow> bdb \<Rightarrow> (reservation_view \<times> bdb) res" where
  "settle_unlimited r actual rate current st =
     bindr (ensure_wallet (r_user_id r) current st) (\<lambda>(wallet, st1).
     let st2 = update_reservation (r_id r) (\<lambda>x. r_status x = Held)
           (\<lambda>x. x\<lparr>r_status := Settled, r_updated_at := current\<rparr>) st1 in
     show_reservation (r_id r)
       (insert_ledger (r_user_id r) Audit ''unlimited_compute_settled'' 0 (w_credit wallet)
         (r_id r @ '':unlimited_settled'')
         (row_opts r [(''sku'', PStr (r_sku r)), (''actual_quantity'', PInt actual),
            (''theoretical_credit_units'', PInt (actual * rate))]) current st2))"

definition settle_held :: "reservation_row \<Rightarrow> int \<Rightarrow> int \<Rightarrow> int \<Rightarrow> bdb \<Rightarrow> (reservation_view \<times> bdb) res" where
  "settle_held r actual rate current st =
     (let (settled_images, settled_credit, settled_cash) =
            settlement_split r (truthy (vget (r_meta r) ''image'')) actual rate;
          credit_refund = max (r_reserved_credit r - settled_credit) 0;
          cash_refund = max (r_reserved_cash r - settled_cash) 0;
          image_refund = max (r_reserved_images r - settled_images) 0;
          note = [(''actual_quantity'', PInt actual)] in
      bindr (ensure_wallet (r_user_id r) current st) (\<lambda>(wallet, st1).
      bindr (give_back_credit r credit_refund cash_refund ''reservation_refund'' '':settle_credit_refund''
               note wallet current st1) (\<lambda>st2.
      bindr (give_back_images r image_refund ''reservation_refund'' '':settle_image_refund'' note current st2)
        (\<lambda>st3.
      let st4 = update_reservation (r_id r) (\<lambda>x. r_status x = Held)
            (\<lambda>x. x\<lparr>r_status := Settled, r_settled_credit := settled_credit,
                  r_settled_cash := settled_cash, r_settled_images := settled_images,
                  r_updated_at := current\<rparr>) st3 in
      show_reservation (r_id r)
        (insert_ledger (r_user_id r) Audit ''settled'' 0 (max (w_credit wallet + credit_refund) 0)
          (r_id r @ '':settled'')
          (row_opts r [(''sku'', PStr (r_sku r)), (''actual_quantity'', PInt actual),
             (''charged_credit_units'', PInt settled_credit), (''free_images'', PInt settled_images)])
          current st4)))))"

definition settle_reservation ::
  "string \<Rightarrow> int option \<Rightarrow> bool \<Rightarrow> int \<Rightarrow> bdb \<Rightarrow> (reservation_view \<times> bdb) res" where
  "settle_reservation rid actual_quantity success current st =
     (case get_reservation rid st of
        None \<Rightarrow> Inl (BillingError ''RESERVATION_NOT_FOUND'' 404)
      | Some r \<Rightarrow>
        if r_status r \<in> {Settled, Released, Waived} then Inr (reservation_public r, st)
        else if \<not> success then release_reservation rid current st
        else
          bindr (int_field (vget (r_meta r) ''quantity'')) (\<lambda>q.
          bindr (int_field (vget (r_meta r) ''unit_credit_units'')) (\<lambda>u.
          let reserved_qty = max q 0;
              actual = (case actual_quantity of None \<Rightarrow> reserved_qty
                        | Some a \<Rightarrow> max (min a reserved_qty) 0);
              rate = max u 0 in
          if truthy (vget (r_meta r) ''unlimited_compute'') then settle_unlimited r actual rate current st
          else settle_held r actual rate current st)))"

definition refund_settled_exact_cash_charge ::
  "string \<Rightarrow> string \<Rightarrow> int \<Rightarrow> bdb \<Rightarrow> (reservation_view \<times> bdb) res" where
  "refund_settled_exact_cash_charge rid reason current st =
     (if strip reason = [] then Inl (BillingError ''REFUND_REASON_REQUIRED'' 400)
      else case get_reservation rid st of
        None \<Rightarrow> Inl (BillingError ''RESERVATION_NOT_FOUND'' 404)
      | Some r \<Rightarrow>
        if \<not> truthy (vget (r_meta r) ''exact_cash_backed'')
          then Inl (BillingError ''RESERVATION_NOT_EXACT_CASH'' 409)
        else if r_status r \<noteq> Settled then Inl (BillingError ''RESERVATION_NOT_SETTLED'' 409)
        else
          let settled = r_settled_cash r; refunded = r_refunded_cash r; amount = max (settled - refunded) 0 in
          if amount \<le> 0 then Inr (reservation_public r, st)
          else bindr (ensure_wallet (r_user_id r) current st) (\<lambda>(wallet, st1).
            let is_it = (\<lambda>x. r_status x = Settled \<and> r_refunded_cash x = refunded);
                st2 = update_reservation rid is_it
                  (\<lambda>x. x\<lparr>r_refunded_cash := settled, r_updated_at := current\<rparr>) st1 in
            if \<not> (case get_reservation rid st1 of None \<Rightarrow> False | Some x \<Rightarrow> is_it x)
              then show_reservation rid st2
            else bindr (credit_wallet (r_user_id r) amount amount current st2) (\<lambda>st3.
              show_reservation rid
                (insert_ledger (r_user_id r) Credit ''exact_cash_refund'' amount (w_credit wallet + amount)
                  (r_id r @ '':exact_cash_refund'')
                  ((row_opts r [(''reason'', PStr (strip reason))])
                     \<lparr>lo_cash_amount := amount, lo_cash_after := Some (w_cash wallet + amount)\<rparr>)
                  current st3))))"

text \<open>\<open>ORDER BY created_at DESC LIMIT 1\<close>.\<close>

definition reservation_for_reference :: "string \<Rightarrow> string \<Rightarrow> bdb \<Rightarrow> reservation_view option" where
  "reservation_for_reference ref_type ref_id st =
     (case filter (\<lambda>r. r_ref_type r = ref_type \<and> r_ref_id r = ref_id) (db_reservations st) of
        [] \<Rightarrow> None
      | r # rs \<Rightarrow> Some (reservation_public
          (foldl (\<lambda>best x. if r_created_at best < r_created_at x then x else best) r rs)))"

end
