(* ===== verification/Calendar.thy ===== *)
theory Calendar
  imports Prelude
begin

text \<open>
  The calendar arithmetic of \<open>add_calendar_month\<close> (webapp/commercial_billing.py): the
  proleptic Gregorian calendar of Python's \<open>datetime\<close>, day ordinals counted from
  0001-01-01 = 1, and local times in the business time zone.  \<open>Asia/Shanghai\<close> is the
  constant offset of eight hours, as the fallback zone of the code is (the IANA zone
  differs only before 1992).  The years \<open>datetime\<close> supports are 1 to 9999.
\<close>

section \<open>The Gregorian calendar\<close>

definition is_leap :: "int \<Rightarrow> bool" where
  "is_leap y = (4 dvd y \<and> (\<not> 100 dvd y \<or> 400 dvd y))"

definition month_days :: "int \<Rightarrow> int \<Rightarrow> int" where
  "month_days y m = (if m = 2 then (if is_leap y then 29 else 28)
     else if m \<in> {4, 6, 9, 11} then 30 else 31)"

definition days_before_year :: "int \<Rightarrow> int" where
  "days_before_year y = (let p = y - 1 in p * 365 + p div 4 - p div 100 + p div 400)"

function days_before_month :: "int \<Rightarrow> int \<Rightarrow> int" where
  "days_before_month y m =
     (if m \<le> 1 then 0 else days_before_month y (m - 1) + month_days y (m - 1))"
  by pat_completeness auto
termination
  by (relation "measure (\<lambda>(y, m). nat m)") auto

declare days_before_month.simps [simp del]

definition ymd2ord :: "int \<Rightarrow> int \<Rightarrow> int \<Rightarrow> int" where
  "ymd2ord y m d = days_before_year y + days_before_month y m + d"

function month_search :: "int \<Rightarrow> int \<Rightarrow> int \<Rightarrow> int \<times> int" where
  "month_search y m r =
     (if 12 \<le> m \<or> r < month_days y m then (m, r + 1)
      else month_search y (m + 1) (r - month_days y m))"
  by pat_completeness auto
termination
  by (relation "measure (\<lambda>(y, m, r). nat (12 - m))") auto

declare month_search.simps [simp del]

definition ord2ymd :: "int \<Rightarrow> int \<times> int \<times> int" where
  "ord2ymd n =
     (let n0 = n - 1;
          n400 = n0 div 146097; r = n0 mod 146097;
          n100 = r div 36524; r1 = r mod 36524;
          n4 = r1 div 1461; r2 = r1 mod 1461;
          n1 = r2 div 365; r3 = r2 mod 365;
          y = n400 * 400 + n100 * 100 + n4 * 4 + n1 + 1
      in if n1 = 4 \<or> n100 = 4 then (y - 1, 12, 31)
         else let (m, d) = month_search y 1 r3 in (y, m, d))"

definition year_days :: "int \<Rightarrow> int" where
  "year_days y = (if is_leap y then 366 else 365)"

lemma month_days_bounds: "28 \<le> month_days y m \<and> month_days y m \<le> 31"
  by (auto simp: month_days_def)

lemma days_before_month_step:
  "1 \<le> m \<Longrightarrow> days_before_month y (m + 1) = days_before_month y m + month_days y m"
  by (subst days_before_month.simps) simp

lemma days_before_month_1 [simp]: "days_before_month y 1 = 0"
  by (simp add: days_before_month.simps)

lemma days_before_month_13: "days_before_month y 13 = year_days y"
  by (simp add: days_before_month.simps month_days_def year_days_def)

lemma month_search_correct:
  assumes "1 \<le> m" "m \<le> 12" "0 \<le> r" "days_before_month y m + r < year_days y"
  shows "case month_search y m r of (m', d) \<Rightarrow>
    m \<le> m' \<and> m' \<le> 12 \<and> 1 \<le> d \<and> d \<le> month_days y m' \<and>
    days_before_month y m' + d = days_before_month y m + r + 1"
  using assms
proof (induction y m r rule: month_search.induct)
  case (1 y m r)
  show ?case
  proof (cases "12 \<le> m \<or> r < month_days y m")
    case True
    have "r < month_days y m"
    proof (cases "m = 12")
      case True
      have "days_before_month y 13 = days_before_month y 12 + month_days y 12"
        using days_before_month_step [of 12 y] by simp
      with True "1.prems" days_before_month_13 [of y] show ?thesis by simp
    next
      case False
      with True "1.prems" show ?thesis by simp
    qed
    with True "1.prems" show ?thesis by (simp add: month_search.simps [of y m r])
  next
    case False
    with "1.prems" have "case month_search y (m + 1) (r - month_days y m) of (m', d) \<Rightarrow>
      m + 1 \<le> m' \<and> m' \<le> 12 \<and> 1 \<le> d \<and> d \<le> month_days y m' \<and>
      days_before_month y m' + d = days_before_month y (m + 1) + (r - month_days y m) + 1"
      by (intro "1.IH") (auto simp: days_before_month_step)
    with False "1.prems" show ?thesis
      by (auto simp: month_search.simps [of y m r] days_before_month_step split: prod.splits)
  qed
qed

section \<open>Ordinals and dates are inverse\<close>

lemma multiple_window:
  fixes k x q :: int
  assumes "0 < x" "x \<le> k"
  shows "k dvd (k * q + x) \<longleftrightarrow> x = k"
proof -
  have "k dvd (k * q + x) \<longleftrightarrow> k dvd x" by (simp add: dvd_add_right_iff)
  also have "\<dots> \<longleftrightarrow> x = k" using assms zdvd_imp_le [of k x] by auto
  finally show ?thesis .
qed

lemma cycle_leap:
  fixes a b c d :: int
  assumes "0 \<le> b" "b \<le> 3" "0 \<le> c" "c \<le> 24" "0 \<le> d" "d \<le> 3"
  shows "is_leap (400 * a + 100 * b + 4 * c + d + 1) \<longleftrightarrow> d = 3 \<and> (c \<noteq> 24 \<or> b = 3)"
proof -
  have e4: "400 * a + 100 * b + 4 * c + d + 1 = 4 * (100 * a + 25 * b + c) + (d + 1)"
    by simp
  have 4: "4 dvd (400 * a + 100 * b + 4 * c + d + 1) \<longleftrightarrow> d = 3"
    unfolding e4 using assms by (subst multiple_window) auto
  have e100: "400 * a + 100 * b + 4 * c + d + 1 = 100 * (4 * a + b) + (4 * c + d + 1)"
    by simp
  have 100: "100 dvd (400 * a + 100 * b + 4 * c + d + 1) \<longleftrightarrow> 4 * c + d = 99"
    unfolding e100 using assms by (subst multiple_window) auto
  have e400: "400 * a + 100 * b + 4 * c + d + 1 = 400 * a + (100 * b + 4 * c + d + 1)"
    by simp
  have 400: "400 dvd (400 * a + 100 * b + 4 * c + d + 1) \<longleftrightarrow> 100 * b + 4 * c + d = 399"
    unfolding e400 using assms by (subst multiple_window) auto
  show ?thesis using assms unfolding is_leap_def 4 100 400 by linarith
qed

lemma cycle_days:
  fixes a b c d :: int
  assumes "0 \<le> b" "b \<le> 3" "0 \<le> c" "c \<le> 24" "0 \<le> d" "d \<le> 3"
  shows "days_before_year (400 * a + 100 * b + 4 * c + d + 1) =
    146097 * a + 36524 * b + 1461 * c + 365 * d"
proof -
  let ?p = "400 * a + 100 * b + 4 * c + d"
  have "?p div 4 = 100 * a + 25 * b + c"
    using assms by (intro int_div_pos_eq [where r = d]) (auto simp: algebra_simps)
  moreover have "?p div 100 = 4 * a + b"
    using assms by (intro int_div_pos_eq [where r = "4 * c + d"]) (auto simp: algebra_simps)
  moreover have "?p div 400 = a"
    using assms by (intro int_div_pos_eq [where r = "100 * b + 4 * c + d"]) (auto simp: algebra_simps)
  ultimately show ?thesis by (simp add: days_before_year_def Let_def)
qed

lemma ord2ymd_correct:
  assumes "ord2ymd n = (y, m, d)"
  shows "1 \<le> m \<and> m \<le> 12 \<and> 1 \<le> d \<and> d \<le> month_days y m \<and> ymd2ord y m d = n"
proof -
  define a where "a = (n - 1) div 146097"
  define r where "r = (n - 1) mod 146097"
  define b where "b = r div 36524"
  define r1 where "r1 = r mod 36524"
  define c where "c = r1 div 1461"
  define r2 where "r2 = r1 mod 1461"
  define e where "e = r2 div 365"
  define r3 where "r3 = r2 mod 365"
  have n: "n - 1 = 146097 * a + r" by (simp add: a_def r_def)
  have r: "r = 36524 * b + r1" by (simp add: b_def r1_def)
  have r1: "r1 = 1461 * c + r2" by (simp add: c_def r2_def)
  have r2: "r2 = 365 * e + r3" by (simp add: e_def r3_def)
  have bounds: "0 \<le> r" "r < 146097" "0 \<le> r1" "r1 < 36524" "0 \<le> r2" "r2 < 1461" "0 \<le> r3" "r3 < 365"
    by (simp_all add: r_def r1_def r2_def r3_def)
  have b4: "0 \<le> b" "b \<le> 4" using bounds r by linarith+
  have c24: "0 \<le> c" "c \<le> 24" using bounds r1 by linarith+
  have e4: "0 \<le> e" "e \<le> 4" using bounds r2 by linarith+
  define yy where "yy = a * 400 + b * 100 + c * 4 + e + 1"
  have ord: "ord2ymd n = (if e = 4 \<or> b = 4 then (yy - 1, 12, 31)
      else let (m, d) = month_search yy 1 r3 in (yy, m, d))"
    by (simp add: ord2ymd_def Let_def a_def b_def c_def e_def r_def r1_def r2_def r3_def yy_def)
  have dec31: "12 \<ge> (1::int) \<and> 31 \<le> month_days y' 12 \<and>
      ymd2ord y' 12 31 = days_before_year y' + year_days y'" for y'
    using days_before_month_step [of 12 y'] days_before_month_13 [of y']
    by (simp add: ymd2ord_def month_days_def)
  show ?thesis
  proof (cases "b = 4")
    case True
    with bounds r have z: "r1 = 0" by linarith
    with bounds r1 c24 have "c = 0" "r2 = 0" by linarith+
    with bounds r2 e4 have "e = 0" "r3 = 0" by linarith+
    have y': "yy - 1 = 400 * a + 100 * 3 + 4 * 24 + 3 + 1"
      using True \<open>c = 0\<close> \<open>e = 0\<close> by (simp add: yy_def)
    have "is_leap (yy - 1)" unfolding y' by (subst cycle_leap) auto
    moreover have "days_before_year (yy - 1) = 146097 * a + 36524 * 3 + 1461 * 24 + 365 * 3"
      unfolding y' by (subst cycle_days) auto
    moreover have "n - 1 = 146097 * a + 146096" using n r z True by linarith
    ultimately have "days_before_year (yy - 1) + year_days (yy - 1) = n"
      by (simp add: year_days_def)
    then show ?thesis using assms ord True dec31 [of "yy - 1"] by simp
  next
    case b: False
    with b4 have b3: "b \<le> 3" by simp
    show ?thesis
    proof (cases "e = 4")
      case True
      with bounds r2 have "r3 = 0" by linarith
      have c23: "c \<noteq> 24 \<or> b = 3"
      proof (rule ccontr)
        assume "\<not> ?thesis"
        then have "c = 24" "b \<le> 2" using b3 by auto
        with r1 r2 True bounds show False by linarith
      qed
      have y': "yy - 1 = 400 * a + 100 * b + 4 * c + 3 + 1" using True by (simp add: yy_def)
      have "is_leap (yy - 1)" unfolding y' using b4 b3 c24 c23 by (subst cycle_leap) auto
      moreover have "days_before_year (yy - 1) = 146097 * a + 36524 * b + 1461 * c + 365 * 3"
        unfolding y' using b4 b3 c24 by (subst cycle_days) auto
      moreover have "n - 1 = 146097 * a + 36524 * b + 1461 * c + 1460"
        using n r r1 r2 True \<open>r3 = 0\<close> by linarith
      ultimately have "days_before_year (yy - 1) + year_days (yy - 1) = n"
        by (simp add: year_days_def)
      then show ?thesis using assms ord True dec31 [of "yy - 1"] by simp
    next
      case e: False
      with e4 have e3: "e \<le> 3" by simp
      have y': "yy = 400 * a + 100 * b + 4 * c + e + 1" by (simp add: yy_def)
      have "days_before_year yy = 146097 * a + 36524 * b + 1461 * c + 365 * e"
        unfolding y' using b4 b3 c24 e4 e3 by (subst cycle_days) auto
      then have n': "n = days_before_year yy + r3 + 1" using n r r1 r2 by linarith
      have "days_before_month yy 1 + r3 < year_days yy"
        using bounds by (simp add: year_days_def)
      with bounds have "case month_search yy 1 r3 of (m', d) \<Rightarrow>
        1 \<le> m' \<and> m' \<le> 12 \<and> 1 \<le> d \<and> d \<le> month_days yy m' \<and>
        days_before_month yy m' + d = days_before_month yy 1 + r3 + 1"
        by (intro month_search_correct) auto
      with assms ord b e n' show ?thesis
        by (auto simp: ymd2ord_def split: prod.splits)
    qed
  qed
qed

section \<open>Adding a calendar month\<close>

definition shanghai_offset :: int where
  "shanghai_offset = 28800"

definition epoch_ordinal :: int where
  "epoch_ordinal = 719163"

definition add_calendar_month :: "int \<Rightarrow> int res" where
  "add_calendar_month start_ts =
     (let local = start_ts + shanghai_offset;
          day_no = local div 86400; time_of_day = local mod 86400;
          (start_year, start_month, start_day) = ord2ymd (day_no + epoch_ordinal);
          year = start_year + (if start_month = 12 then 1 else 0);
          month = (if start_month = 12 then 1 else start_month + 1);
          day = min start_day (month_days year month)
      in if start_year < 1 \<or> 9999 < year then Inl ValueError
         else Inr ((ymd2ord year month day - epoch_ordinal) * 86400 + time_of_day - shanghai_offset))"

lemma days_before_year_step: "days_before_year (y + 1) = days_before_year y + year_days y"
proof -
  define a where "a = (y - 1) div 400"
  define p where "p = (y - 1) mod 400"
  define b where "b = p div 100"
  define q where "q = p mod 100"
  define c where "c = q div 4"
  define d where "d = q mod 4"
  have p: "0 \<le> p" "p < 400" by (simp_all add: p_def)
  have q: "0 \<le> q" "q < 100" by (simp_all add: q_def)
  have b: "0 \<le> b" "b \<le> 3" using p by (auto simp: b_def)
  have c: "0 \<le> c" "c \<le> 24" using q by (auto simp: c_def)
  have d: "0 \<le> d" "d \<le> 3" by (auto simp: d_def)
  have "y - 1 = 400 * a + p" by (simp add: a_def p_def)
  moreover have "p = 100 * b + q" by (simp add: b_def q_def)
  moreover have "q = 4 * c + d" by (simp add: c_def d_def)
  ultimately have y: "y = 400 * a + 100 * b + 4 * c + d + 1" by linarith
  have l: "is_leap y \<longleftrightarrow> d = 3 \<and> (c \<noteq> 24 \<or> b = 3)"
    unfolding y using b c d by (rule cycle_leap)
  have dy: "days_before_year y = 146097 * a + 36524 * b + 1461 * c + 365 * d"
    unfolding y using b c d by (rule cycle_days)
  consider "d \<le> 2" | "d = 3" "c \<le> 23" | "d = 3" "c = 24" "b \<le> 2" | "d = 3" "c = 24" "b = 3"
    using b c d by linarith
  then show ?thesis
  proof cases
    case 1
    have "days_before_year (400 * a + 100 * b + 4 * c + (d + 1) + 1) =
      146097 * a + 36524 * b + 1461 * c + 365 * (d + 1)" using 1 b c d by (intro cycle_days) auto
    moreover have "y + 1 = 400 * a + 100 * b + 4 * c + (d + 1) + 1" using y by simp
    ultimately show ?thesis using dy l 1 by (simp add: year_days_def)
  next
    case 2
    have "days_before_year (400 * a + 100 * b + 4 * (c + 1) + 0 + 1) =
      146097 * a + 36524 * b + 1461 * (c + 1) + 365 * 0" using 2 b c by (intro cycle_days) auto
    moreover have "y + 1 = 400 * a + 100 * b + 4 * (c + 1) + 0 + 1" using y 2 by simp
    ultimately show ?thesis using dy l 2 by (simp add: year_days_def)
  next
    case 3
    have "days_before_year (400 * a + 100 * (b + 1) + 4 * 0 + 0 + 1) =
      146097 * a + 36524 * (b + 1) + 1461 * 0 + 365 * 0" using 3 b by (intro cycle_days) auto
    moreover have "y + 1 = 400 * a + 100 * (b + 1) + 4 * 0 + 0 + 1" using y 3 by simp
    ultimately show ?thesis using dy l 3 by (simp add: year_days_def)
  next
    case 4
    have "days_before_year (400 * (a + 1) + 100 * 0 + 4 * 0 + 0 + 1) =
      146097 * (a + 1) + 36524 * 0 + 1461 * 0 + 365 * 0" by (intro cycle_days) auto
    moreover have "y + 1 = 400 * (a + 1) + 100 * 0 + 4 * 0 + 0 + 1" using y 4 by simp
    ultimately show ?thesis using dy l 4 by (simp add: year_days_def)
  qed
qed

text \<open>The first day of the next month, as an ordinal, is the last day of this month plus one.\<close>

lemma next_month_start:
  assumes "1 \<le> m" "m \<le> 12"
  shows "ymd2ord (y + (if m = 12 then 1 else 0)) (if m = 12 then 1 else m + 1) 1 =
    ymd2ord y m 1 + month_days y m"
proof (cases "m = 12")
  case True
  have "days_before_month y 13 = days_before_month y 12 + month_days y 12"
    using days_before_month_step [of 12 y] by simp
  with True show ?thesis
    by (simp add: ymd2ord_def days_before_year_step days_before_month_13)
next
  case False
  with assms show ?thesis by (simp add: ymd2ord_def days_before_month_step)
qed

lemma add_calendar_month_days:
  assumes "add_calendar_month t = Inr t'"
  shows "\<exists>k. 28 \<le> k \<and> k \<le> 31 \<and> t' = t + k * 86400"
proof -
  let ?l = "t + shanghai_offset"
  obtain y m d where o: "ord2ymd (?l div 86400 + epoch_ordinal) = (y, m, d)"
    by (cases "ord2ymd (?l div 86400 + epoch_ordinal)") auto
  note c = ord2ymd_correct [OF o]
  let ?y = "y + (if m = 12 then 1 else 0)"
  let ?m = "if m = 12 then 1 else m + 1"
  let ?d = "min d (month_days ?y ?m)"
  have t': "t' = (ymd2ord ?y ?m ?d - epoch_ordinal) * 86400 + ?l mod 86400 - shanghai_offset"
    using assms o by (simp add: add_calendar_month_def Let_def split: if_splits)
  have shift: "ymd2ord y' m' x = ymd2ord y' m' 1 + x - 1" for y' m' x
    by (simp add: ymd2ord_def)
  define k where "k = month_days y m + ?d - d"
  have "ymd2ord ?y ?m ?d = ymd2ord y m d + k"
    using next_month_start [of m y] c shift [of ?y ?m ?d] shift [of y m d] by (simp add: k_def)
  then have "t' = t + k * 86400"
    using t' c by (simp add: algebra_simps)
  moreover have "28 \<le> k" "k \<le> 31"
    using c month_days_bounds [of ?y ?m] month_days_bounds [of y m] by (auto simp: k_def min_def)
  ultimately show ?thesis by blast
qed

corollary add_calendar_month_later: "add_calendar_month t = Inr t' \<Longrightarrow> t < t'"
  using add_calendar_month_days by fastforce

end
