(* ===== verification/BillingOrders.thy ===== *)
theory BillingOrders
  imports BillingSettlement Calendar "HOL-Library.List_Lexorder" "HOL-Library.Char_ord"
begin

text \<open>
  Orders (webapp/commercial_billing.py): a customer places an order at the catalog price
  (\<open>create_order\<close>), pays outside the program, and an administrator approves it
  (\<open>approve_order\<close>: credit is added, or subscription periods with their image grants are
  created), rejects or cancels it (\<open>review_order\<close>, \<open>cancel_order\<close>).  Refunding an approved
  order and terminating a subscription are in \<open>BillingRefunds\<close>.
\<close>

section \<open>The view of an order\<close>

record order_view =
  ov_id :: string
  ov_user_id :: int
  ov_kind :: order_kind
  ov_sku :: string
  ov_quantity :: int
  ov_renewals :: "string list"
  ov_amount_cents :: int
  ov_amount :: rat
  ov_snapshot :: pyval
  ov_payer_name :: string
  ov_payment_reference :: string
  ov_paid_at :: int
  ov_note :: string
  ov_proof_path :: string
  ov_status :: order_status
  ov_reviewed_by :: int
  ov_reviewed_at :: int
  ov_review_note :: string
  ov_refunded_by :: int
  ov_refunded_at :: int
  ov_refund_note :: string
  ov_created_at :: int
  ov_updated_at :: int

text \<open>\<open>int(row["quantity"] or 1)\<close>.\<close>

definition row_quantity :: "order_row \<Rightarrow> int" where
  "row_quantity r = (if o_quantity r = 0 then 1 else o_quantity r)"

definition order_public :: "order_row \<Rightarrow> order_view" where
  "order_public r =
     \<lparr>ov_id = o_id r, ov_user_id = o_user_id r, ov_kind = o_kind r, ov_sku = o_sku r,
      ov_quantity = row_quantity r, ov_renewals = o_renewals r, ov_amount_cents = o_amount_cents r,
      ov_amount = py_round2 (b64 (of_int (o_amount_cents r) / 100)), ov_snapshot = o_snapshot r,
      ov_payer_name = o_payer_name r, ov_payment_reference = o_payment_reference r,
      ov_paid_at = o_paid_at r, ov_note = o_note r, ov_proof_path = o_proof_path r,
      ov_status = o_status r, ov_reviewed_by = o_reviewed_by r, ov_reviewed_at = o_reviewed_at r,
      ov_review_note = o_review_note r, ov_refunded_by = o_refunded_by r,
      ov_refunded_at = o_refunded_at r, ov_refund_note = o_refund_note r,
      ov_created_at = o_created_at r, ov_updated_at = o_updated_at r\<rparr>"

definition show_order :: "string \<Rightarrow> bdb \<Rightarrow> (order_view \<times> bdb) res" where
  "show_order oid st = (case get_order oid st of
      None \<Rightarrow> Inl TypeError | Some r \<Rightarrow> Inr (order_public r, st))"

text \<open>\<open>ORDER BY created_at DESC, id DESC LIMIT ? OFFSET ?\<close>.\<close>

definition newest_first :: "order_row list \<Rightarrow> order_row list" where
  "newest_first rows = rev (sort_key o_created_at (sort_key o_id rows))"

definition list_orders :: "int option \<Rightarrow> order_status option \<Rightarrow> int \<Rightarrow> int \<Rightarrow> bdb \<Rightarrow> order_view list" where
  "list_orders uid status limit offset st =
     (let safe_limit = min (max limit 1) 500; safe_offset = max offset 0;
          rows = filter (\<lambda>r. (case uid of None \<Rightarrow> True | Some u \<Rightarrow> o_user_id r = u)
                   \<and> (case status of None \<Rightarrow> True | Some s \<Rightarrow> o_status r = s)) (db_orders st) in
      map order_public (take (nat safe_limit) (drop (nat safe_offset) (newest_first rows))))"

section \<open>Placing an order\<close>

record order_request =
  oq_user_id :: int
  oq_sku :: string
  oq_quantity :: int
  oq_idem :: string
  oq_renewals :: "string list"
  oq_payer_name :: string
  oq_payment_reference :: string
  oq_paid_at :: int
  oq_note :: string
  oq_proof_path :: string

text \<open>The normalisation of a request; two requests are the same when it gives the same tuple.\<close>

definition normal_quantity :: "int \<Rightarrow> int" where
  "normal_quantity q = max (min (if q = 0 then 1 else q) 50) 1"

definition normal_request :: "order_request \<Rightarrow> order_request" where
  "normal_request q = q\<lparr>oq_quantity := normal_quantity (oq_quantity q), oq_idem := strip (oq_idem q),
     oq_renewals := filter (\<lambda>s. s \<noteq> []) (map strip (oq_renewals q)),
     oq_payer_name := take 120 (oq_payer_name q),
     oq_payment_reference := take 160 (oq_payment_reference q), oq_paid_at := max (oq_paid_at q) 0,
     oq_note := take 1000 (oq_note q), oq_proof_path := take 500 (oq_proof_path q)\<rparr>"

definition same_order :: "order_row \<Rightarrow> order_request \<Rightarrow> bool" where
  "same_order r q =
     ((o_sku r, o_quantity r, o_renewals r, o_payer_name r, o_payment_reference r, o_paid_at r,
       o_note r, o_proof_path r) =
      (oq_sku q, oq_quantity q, oq_renewals q, oq_payer_name q, oq_payment_reference q, oq_paid_at q,
       oq_note q, oq_proof_path q))"

text \<open>The renewed subscriptions: each listed once, owned by the user, of the family of the sku.\<close>

definition check_renewals :: "order_request \<Rightarrow> order_kind \<Rightarrow> bdb \<Rightarrow> unit res" where
  "check_renewals q kind st =
     (let renewals = oq_renewals q;
          owned = filter (\<lambda>s. s_user_id s = oq_user_id q \<and> s_id s \<in> set renewals) (db_subscriptions st) in
      if kind \<noteq> SubscriptionOrder \<and> renewals \<noteq> [] then Inl (BillingError ''INVALID_RENEWAL'' 400)
      else if renewals \<noteq> [] \<and> int (length renewals) \<notin> {1, oq_quantity q}
        then Inl (BillingError ''INVALID_RENEWAL'' 400)
      else if renewals \<noteq> [] \<and> length owned \<noteq> length renewals
        then Inl (BillingError ''SUBSCRIPTION_NOT_FOUND'' 404)
      else if renewals \<noteq> [] \<and> (\<exists>s \<in> set owned. subscription_plan_family (s_plan_sku s)
                \<noteq> subscription_plan_family (oq_sku q))
        then Inl (BillingError ''SUBSCRIPTION_PLAN_MISMATCH'' 409)
      else Inr ())"

definition kind_name :: "order_kind \<Rightarrow> string" where
  "kind_name k = (case k of SubscriptionOrder \<Rightarrow> ''subscription'' | CreditPack \<Rightarrow> ''credit_pack'')"

definition pending_order :: "order_request \<Rightarrow> string \<Rightarrow> order_kind \<Rightarrow> int \<Rightarrow> string \<Rightarrow> pyval \<Rightarrow> int \<Rightarrow> order_row" where
  "pending_order q oid kind amount cid snapshot current =
     \<lparr>o_id = oid, o_user_id = oq_user_id q, o_kind = kind, o_sku = oq_sku q,
      o_quantity = oq_quantity q, o_renewals = oq_renewals q, o_amount_cents = amount,
      o_catalog_version_id = cid, o_snapshot = snapshot, o_payer_name = oq_payer_name q,
      o_payment_reference = oq_payment_reference q, o_paid_at = oq_paid_at q, o_note = oq_note q,
      o_proof_path = oq_proof_path q, o_status = Pending, o_idem = oq_idem q, o_reviewed_by = 0,
      o_reviewed_at = 0, o_review_note = [], o_refunded_by = 0, o_refunded_at = 0,
      o_refund_note = [], o_created_at = current, o_updated_at = current\<rparr>"

definition place_order :: "order_request \<Rightarrow> int \<Rightarrow> bdb \<Rightarrow> (order_view \<times> bdb) res" where
  "place_order q current st =
     bindr (get_active_catalog st) (\<lambda>catalog.
     bindr (catalog_item catalog (oq_sku q)) (\<lambda>(kind, item).
     if kind = SubscriptionOrder \<and> vget item ''purchasable'' = PBool False
       then Inl (BillingError ''SKU_NOT_PURCHASABLE'' 409)
     else bindr (check_renewals q kind st) (\<lambda>_.
     bindr (int_field (vget item ''price_ntd'')) (\<lambda>price.
     let amount = price * 100 * oq_quantity q; cid = py_str (dget catalog ''id'');
         (oid, st1) = new_id ''bill_order'' st;
         snapshot = PDict [(''kind'', PStr (kind_name kind)), (''item'', item),
           (''catalog_version'', dget catalog ''version''), (''catalog_id'', PStr cid)] in
     bindr (insert_order (pending_order q oid kind amount cid snapshot current) st1) (show_order oid)))))"

definition create_order :: "order_request \<Rightarrow> int \<Rightarrow> bdb \<Rightarrow> (order_view \<times> bdb) res" where
  "create_order request current st =
     (let q = normal_request request in
      if oq_idem q = [] \<or> 128 < length (oq_idem q)
        then Inl (BillingError ''INVALID_IDEMPOTENCY_KEY'' 400)
      else case find_row (\<lambda>r. o_user_id r = oq_user_id q \<and> o_idem r = oq_idem q) (db_orders st) of
        Some existing \<Rightarrow>
          if same_order existing q then Inr (order_public existing, st)
          else Inl (BillingError ''ORDER_IDEMPOTENCY_CONFLICT'' 409)
      | None \<Rightarrow> place_order q current st)"

section \<open>Approving an order\<close>

definition snapshot_item :: "order_row \<Rightarrow> pyval" where
  "snapshot_item r = dict_or_empty (vget (o_snapshot r) ''item'')"

definition order_opts :: "order_row \<Rightarrow> pydict \<Rightarrow> ledger_opts" where
  "order_opts r meta = no_opts\<lparr>lo_ref_type := ''order'', lo_ref_id := o_id r, lo_order_id := o_id r,
     lo_meta := meta\<rparr>"

definition order_key :: "order_row \<Rightarrow> string \<Rightarrow> string" where
  "order_key r suffix = ''order:'' @ o_id r @ suffix"

definition new_grant :: "string \<Rightarrow> int \<Rightarrow> grant_source \<Rightarrow> string \<Rightarrow> int \<Rightarrow> int \<Rightarrow> int \<Rightarrow> int \<Rightarrow> grant_row" where
  "new_grant gid uid source ref images from_t to_t current =
     \<lparr>g_id = gid, g_user_id = uid, g_source_type = source, g_source_ref = ref, g_total = images,
      g_remaining = images, g_available_at = from_t, g_expires_at = to_t, g_created_at = current,
      g_updated_at = current\<rparr>"

definition approve_credit_pack :: "order_row \<Rightarrow> wallet \<Rightarrow> int \<Rightarrow> bdb \<Rightarrow> bdb res" where
  "approve_credit_pack r wallet current st =
     (let uid = o_user_id r; item = snapshot_item r; quantity = row_quantity r in
      bindr (int_field (vget item ''total_points'')) (\<lambda>points.
      let credit_units = points * POINT_SCALE * quantity in
      bindr (credit_wallet uid credit_units credit_units current st) (\<lambda>st1.
      let st2 = insert_ledger uid Credit ''credit_pack_approved'' credit_units (w_credit wallet + credit_units)
            (order_key r '':credit'')
            ((order_opts r [(''sku'', PStr (o_sku r)), (''quantity'', PInt quantity)])
               \<lparr>lo_cash_amount := credit_units, lo_cash_after := Some (w_cash wallet + credit_units)\<rparr>)
            current st1 in
      bindr (int_field (vget item ''bonus_images'')) (\<lambda>bonus.
      let bonus_images = bonus * quantity in
      if bonus_images = 0 then Inr st2
      else
        let (gid, st3) = new_id ''image_grant'' st2;
            st4 = insert_grant_or_ignore
              (new_grant gid uid CreditPackBonus (o_id r) bonus_images current 0 current) st3 in
        Inr (insert_ledger uid Image ''credit_pack_bonus'' bonus_images (total_images uid st4)
          (order_key r '':images'') (order_opts r [(''permanent'', PBool True)]) current st4)))))"

text \<open>The subscriptions a quantity of new ones creates.\<close>

fun new_subscriptions :: "order_row \<Rightarrow> int \<Rightarrow> nat \<Rightarrow> bdb \<Rightarrow> (string list \<times> bdb) res" where
  "new_subscriptions r current 0 st = Inr ([], st)"
| "new_subscriptions r current (Suc n) st =
     (let (sid, st1) = new_id ''subscription'' st in
      bindr (insert_subscription \<lparr>s_id = sid, s_user_id = o_user_id r, s_plan_sku = o_sku r,
        s_status = SubActive, s_period_end = 0, s_created_at = current, s_updated_at = current\<rparr> st1) (\<lambda>st2.
      bindr (new_subscriptions r current n st2) (\<lambda>(sids, st3). Inr (sid # sids, st3))))"

text \<open>One month of one subscription: the period, its image grant and the ledger entry.\<close>

definition approve_month :: "order_row \<Rightarrow> string \<Rightarrow> int \<Rightarrow> int \<Rightarrow> int \<Rightarrow> int \<Rightarrow> int \<Rightarrow> bdb \<Rightarrow> (int \<times> bdb) res" where
  "approve_month r sid images months month_index start_at current st =
     bindr (add_calendar_month start_at) (\<lambda>end_at.
     let uid = o_user_id r; (pid, st1) = new_id ''subscription_period'' st in
     bindr (insert_period \<lparr>p_id = pid, p_subscription_id = sid, p_user_id = uid,
         p_source_order_id = o_id r, p_start_at = start_at, p_end_at = end_at,
         p_status = (if start_at \<le> current \<and> current < end_at then PeriodActive else Scheduled),
         p_created_at = current\<rparr> st1) (\<lambda>st2.
     let (gid, st3) = new_id ''image_grant'' st2 in
     bindr (insert_grant (new_grant gid uid SubscriptionMonthly pid images start_at end_at current) st3) (\<lambda>st4.
     Inr (end_at, insert_ledger uid SubscriptionAsset ''subscription_period_approved'' 1 1
       (''period:'' @ pid @ '':approved'')
       (no_opts\<lparr>lo_ref_type := ''subscription'', lo_ref_id := sid, lo_order_id := o_id r,
          lo_meta := [(''start_at'', PInt start_at), (''end_at'', PInt end_at),
            (''month_index'', PInt (month_index + 1)), (''period_months'', PInt months)]\<rparr>)
       current st4))))"

fun approve_months :: "order_row \<Rightarrow> string \<Rightarrow> int \<Rightarrow> int \<Rightarrow> int \<Rightarrow> nat \<Rightarrow> int \<Rightarrow> bdb \<Rightarrow> (int \<times> bdb) res" where
  "approve_months r sid images months current 0 start_at st = Inr (start_at, st)"
| "approve_months r sid images months current (Suc n) start_at st =
     bindr (approve_month r sid images months (months - 1 - int n) start_at current st) (\<lambda>(end_at, st').
       approve_months r sid images months current n end_at st')"

definition extend_subscription :: "order_row \<Rightarrow> int \<Rightarrow> int \<Rightarrow> int \<Rightarrow> bdb \<Rightarrow> string \<Rightarrow> bdb res" where
  "extend_subscription r images months current st sid =
     (case find_row (\<lambda>s. s_id s = sid \<and> s_user_id s = o_user_id r) (db_subscriptions st) of
        None \<Rightarrow> Inl (BillingError ''SUBSCRIPTION_NOT_FOUND'' 404)
      | Some s \<Rightarrow>
        bindr (approve_months r sid images months current (nat months) (max current (s_period_end s)) st)
          (\<lambda>(period_end, st1). Inr (update_subscription sid
             (\<lambda>s. s\<lparr>s_status := SubActive, s_plan_sku := o_sku r, s_period_end := period_end,
                    s_updated_at := current\<rparr>) st1)))"

text \<open>\<open>int(x or d)\<close>.\<close>

definition int_or :: "pyval \<Rightarrow> int \<Rightarrow> int res" where
  "int_or v d = (if truthy v then py_int v else Inr d)"

definition approve_subscription :: "order_row \<Rightarrow> int \<Rightarrow> bdb \<Rightarrow> bdb res" where
  "approve_subscription r current st =
     (let item = snapshot_item r; quantity = row_quantity r in
      bindr (int_or (vget item ''monthly_free_images'') 10) (\<lambda>images.
      bindr (int_or (vget item ''period_months'') 1) (\<lambda>m.
      let months = max m 1 in
      bindr (if o_renewals r \<noteq> []
             then Inr (if length (o_renewals r) = 1 then concat (replicate (nat quantity) (o_renewals r))
                       else o_renewals r, st)
             else new_subscriptions r current (nat quantity) st) (\<lambda>(targets, st1).
      bindr (foldr_res (extend_subscription r images months current) st1 targets) (\<lambda>st2.
      Inr (touch_wallet (o_user_id r) (\<lambda>w. w\<lparr>w_mode := Enforced, w_updated_at := current\<rparr>) st2))))))"

definition approve_order :: "string \<Rightarrow> int \<Rightarrow> string \<Rightarrow> int \<Rightarrow> bdb \<Rightarrow> (order_view \<times> bdb) res" where
  "approve_order oid actor note current st =
     (case get_order oid st of
        None \<Rightarrow> Inl (BillingError ''ORDER_NOT_FOUND'' 404)
      | Some r \<Rightarrow>
        if o_status r = Approved then Inr (order_public r, st)
        else if o_status r \<noteq> Pending then Inl (BillingError ''ORDER_NOT_PENDING'' 409)
        else bindr (ensure_wallet (o_user_id r) current st) (\<lambda>(wallet, st1).
          bindr (if o_kind r = CreditPack then approve_credit_pack r wallet current st1
                 else approve_subscription r current st1) (\<lambda>st2.
          show_order oid (update_order oid (\<lambda>x. o_status x = Pending)
            (\<lambda>x. x\<lparr>o_status := Approved, o_reviewed_by := actor, o_reviewed_at := current,
                  o_review_note := take 1000 note, o_updated_at := current\<rparr>) st2))))"

definition order_status_of :: "string \<Rightarrow> order_status option" where
  "order_status_of s = (if s = ''rejected'' then Some Rejected
     else if s = ''cancelled'' then Some Cancelled else None)"

definition review_order :: "string \<Rightarrow> int \<Rightarrow> string \<Rightarrow> string \<Rightarrow> int \<Rightarrow> bdb \<Rightarrow> (order_view \<times> bdb) res" where
  "review_order oid actor desired note current st =
     (if desired = ''approved'' then approve_order oid actor note current st
      else case order_status_of desired of
        None \<Rightarrow> Inl (BillingError ''INVALID_ORDER_STATUS'' 400)
      | Some status \<Rightarrow>
        (case get_order oid st of
           None \<Rightarrow> Inl (BillingError ''ORDER_NOT_FOUND'' 404)
         | Some r \<Rightarrow>
           if o_status r = status then Inr (order_public r, st)
           else if o_status r \<noteq> Pending then Inl (BillingError ''ORDER_NOT_PENDING'' 409)
           else show_order oid (update_order oid (\<lambda>x. o_status x = Pending)
             (\<lambda>x. x\<lparr>o_status := status, o_reviewed_by := actor, o_reviewed_at := current,
                   o_review_note := take 1000 note, o_updated_at := current\<rparr>) st)))"

definition cancel_order :: "string \<Rightarrow> int \<Rightarrow> int \<Rightarrow> bdb \<Rightarrow> (order_view \<times> bdb) res" where
  "cancel_order oid uid current st =
     (case find_row (\<lambda>r. o_id r = oid \<and> o_user_id r = uid) (db_orders st) of
        None \<Rightarrow> Inl (BillingError ''ORDER_NOT_FOUND'' 404)
      | Some r \<Rightarrow>
        if o_status r = Cancelled then Inr (order_public r, st)
        else if o_status r \<noteq> Pending then Inl (BillingError ''ORDER_NOT_PENDING'' 409)
        else show_order oid (update_order oid (\<lambda>x. o_user_id x = uid)
               (\<lambda>x. x\<lparr>o_status := Cancelled, o_updated_at := current\<rparr>) st))"

end
