(* ===== verification/BillingRefunds.thy ===== *)
theory BillingRefunds
  imports BillingOrders
begin

text \<open>
  Taking entitlements back (webapp/commercial_billing.py): \<open>terminate_subscription\<close> cancels
  the periods of a subscription that have not ended, \<open>refund_approved_order\<close> reverses what
  the approval of an order granted, if none of it has been used; and the read-only views
  of subscriptions they share (\<open>_subscription_public\<close>, \<open>_active_subscription_count\<close>,
  \<open>_image_balance\<close>).
\<close>

section \<open>Views\<close>

record subscription_view =
  sv_id :: string
  sv_user_id :: int
  sv_plan_sku :: string
  sv_status :: subscription_status
  sv_period_end :: int
  sv_created_at :: int
  sv_updated_at :: int

definition subscription_public :: "subscription_row \<Rightarrow> int \<Rightarrow> subscription_view" where
  "subscription_public s now =
     \<lparr>sv_id = s_id s, sv_user_id = s_user_id s, sv_plan_sku = s_plan_sku s,
      sv_status = (if s_status s \<noteq> SubCancelled \<and> s_period_end s \<le> now then SubExpired else s_status s),
      sv_period_end = s_period_end s, sv_created_at = s_created_at s, sv_updated_at = s_updated_at s\<rparr>"

text \<open>\<open>COUNT(DISTINCT subscription_id)\<close> of the periods that cover the moment.\<close>

definition period_covers :: "int \<Rightarrow> period_row \<Rightarrow> bool" where
  "period_covers now p = (p_status p \<noteq> PeriodCancelled \<and> p_start_at p \<le> now \<and> now < p_end_at p)"

definition active_subscription_count :: "int \<Rightarrow> int \<Rightarrow> bdb \<Rightarrow> int" where
  "active_subscription_count uid now st = int (length (remdups (map p_subscription_id
     (filter (\<lambda>p. p_user_id p = uid \<and> period_covers now p) (db_periods st)))))"

definition image_balance :: "int \<Rightarrow> int \<Rightarrow> bdb \<Rightarrow> int" where
  "image_balance uid now st =
     sum_list (map g_remaining (filter (usable_grant uid now) (db_grants st)))"

section \<open>Revoking images\<close>

text \<open>The grant identifiers a reservation holds, from its \<open>grant_holds\<close>.\<close>

definition held_grants :: "reservation_row \<Rightarrow> string list" where
  "held_grants r = map (\<lambda>h. str_field (vget h ''grant_id''))
     (filter is_dict (list_or_empty (vget (r_meta r) ''grant_holds'')))"

definition ensure_image_grants_not_held :: "int \<Rightarrow> string list \<Rightarrow> bdb \<Rightarrow> unit res" where
  "ensure_image_grants_not_held uid gids st =
     (if gids = [] then Inr ()
      else if \<exists>r \<in> set (db_reservations st). r_user_id r = uid \<and> r_status r = Held
                \<and> 0 < r_reserved_images r \<and> set gids \<inter> set (held_grants r) \<noteq> {}
        then Inl (BillingError ''SUBSCRIPTION_BENEFITS_IN_USE'' 409)
      else Inr ())"

record revocation =
  rk_user_id :: int
  rk_event :: string
  rk_order_id :: string
  rk_subscription_id :: string
  rk_actor :: int
  rk_reason :: string

definition revoke_remaining_image_grant :: "revocation \<Rightarrow> int \<Rightarrow> grant_row \<Rightarrow> bdb \<Rightarrow> bdb res" where
  "revoke_remaining_image_grant k current grant st =
     (let remaining = g_remaining grant in
      if remaining \<le> 0 then Inr st
      else bindr (update_grant (g_id grant)
               (\<lambda>g. if g_remaining g = remaining then g\<lparr>g_remaining := 0, g_updated_at := current\<rparr> else g) st)
             (\<lambda>st1. Inr (insert_ledger (rk_user_id k) Image (rk_event k) (- remaining)
               (image_balance (rk_user_id k) current st1)
               (''grant:'' @ g_id grant @ '':'' @ rk_event k)
               (no_opts\<lparr>lo_order_id := rk_order_id k,
                  lo_ref_type := (if rk_subscription_id k \<noteq> [] then ''subscription'' else ''order''),
                  lo_ref_id := (if rk_subscription_id k \<noteq> [] then rk_subscription_id k else rk_order_id k),
                  lo_meta := [(''grant_id'', PStr (g_id grant)), (''revoked_remaining'', PInt remaining),
                    (''actor_user_id'', PInt (rk_actor k)), (''reason'', PStr (rk_reason k))]\<rparr>)
               current st1)))"

definition monthly_grant_of :: "bdb \<Rightarrow> period_row \<Rightarrow> grant_row option" where
  "monthly_grant_of st p = find_row (\<lambda>g. g_source_type g = SubscriptionMonthly \<and> g_source_ref g = p_id p)
     (db_grants st)"

definition monthly_grants :: "bdb \<Rightarrow> period_row list \<Rightarrow> grant_row list" where
  "monthly_grants st ps = concat (map (\<lambda>p. case monthly_grant_of st p of None \<Rightarrow> [] | Some g \<Rightarrow> [g]) ps)"

definition cancel_period :: "string \<Rightarrow> bdb \<Rightarrow> bdb" where
  "cancel_period pid st = update_period pid
     (\<lambda>p. if p_status p \<noteq> PeriodCancelled then p\<lparr>p_status := PeriodCancelled\<rparr> else p) st"

section \<open>Terminating a subscription\<close>

text \<open>The loop body; the grant is the one read before the loop, from the database \<open>st0\<close>.\<close>

definition terminate_period :: "bdb \<Rightarrow> revocation \<Rightarrow> int \<Rightarrow> bdb \<Rightarrow> period_row \<Rightarrow> bdb res" where
  "terminate_period st0 k current st p =
     (let st1 = cancel_period (p_id p) st in
      case monthly_grant_of st0 p of
        None \<Rightarrow> Inr st1
      | Some g \<Rightarrow> revoke_remaining_image_grant k current g st1)"

definition terminate_subscription ::
  "string \<Rightarrow> int \<Rightarrow> string \<Rightarrow> int \<Rightarrow> bdb \<Rightarrow> (subscription_view \<times> bdb) res" where
  "terminate_subscription sid actor reason0 current st =
     (let reason = strip reason0 in
      if reason = [] then Inl (BillingError ''SUBSCRIPTION_TERMINATION_REASON_REQUIRED'' 400)
      else case get_subscription sid st of
        None \<Rightarrow> Inl (BillingError ''SUBSCRIPTION_NOT_FOUND'' 404)
      | Some s \<Rightarrow>
        if s_status s = SubCancelled then Inr (subscription_public s current, st)
        else
          let uid = s_user_id s;
              periods = sort_key p_start_at (filter (\<lambda>p. p_subscription_id p = sid
                \<and> p_status p \<noteq> PeriodCancelled \<and> current < p_end_at p) (db_periods st));
              k = \<lparr>rk_user_id = uid, rk_event = ''subscription_images_terminated'', rk_order_id = [],
                   rk_subscription_id = sid, rk_actor = actor, rk_reason = reason\<rparr> in
          bindr (ensure_image_grants_not_held uid (map g_id (monthly_grants st periods)) st) (\<lambda>_.
          bindr (foldr_res (terminate_period st k current) st periods) (\<lambda>st1.
          let st2 = update_subscription sid (\<lambda>s. if s_status s \<noteq> SubCancelled then
                s\<lparr>s_status := SubCancelled, s_period_end := current, s_updated_at := current\<rparr> else s) st1;
              st3 = insert_ledger uid SubscriptionAsset ''subscription_terminated'' (- 1)
                (active_subscription_count uid current st2) (''subscription:'' @ sid @ '':terminated'')
                (no_opts\<lparr>lo_ref_type := ''subscription'', lo_ref_id := sid,
                   lo_meta := [(''actor_user_id'', PInt actor), (''reason'', PStr reason),
                     (''cancelled_period_ids'', PList (map (\<lambda>p. PStr (p_id p)) periods))]\<rparr>)
                current st2 in
          case get_subscription sid st3 of
            None \<Rightarrow> Inl TypeError
          | Some s' \<Rightarrow> Inr (subscription_public s' current, st3))))"

section \<open>Refunding an order\<close>

definition recompute_subscription_state :: "int \<Rightarrow> bdb \<Rightarrow> string \<Rightarrow> bdb" where
  "recompute_subscription_state now st sid =
     (let max_end = (case map p_end_at (filter (\<lambda>p. p_subscription_id p = sid
                \<and> p_status p \<noteq> PeriodCancelled) (db_periods st)) of
             [] \<Rightarrow> 0 | e # es \<Rightarrow> foldl max e es);
          (status, period_end) = (if max_end \<le> 0 then (SubCancelled, now)
             else if max_end \<le> now then (SubExpired, max_end) else (SubActive, max_end)) in
      update_subscription sid
        (\<lambda>s. s\<lparr>s_status := status, s_period_end := period_end, s_updated_at := now\<rparr>) st)"

definition benefits_used :: "'a res" where
  "benefits_used = Inl (BillingError ''ORDER_BENEFITS_ALREADY_USED'' 409)"

definition bonus_grant_of :: "order_row \<Rightarrow> bdb \<Rightarrow> grant_row option" where
  "bonus_grant_of r st = find_row (\<lambda>g. g_source_type g = CreditPackBonus \<and> g_source_ref g = o_id r)
     (db_grants st)"

definition refund_credit :: "order_row \<Rightarrow> int \<Rightarrow> int \<Rightarrow> string \<Rightarrow> wallet \<Rightarrow> int \<Rightarrow> bdb \<Rightarrow> bdb res" where
  "refund_credit r credit_units actor reason wallet current st =
     (if credit_units \<le> 0 then Inr st
      else bindr (debit_wallet (o_user_id r) credit_units credit_units current st) (\<lambda>st1.
        Inr (insert_ledger (o_user_id r) Credit ''credit_pack_refunded'' (- credit_units)
          (w_credit wallet - credit_units) (order_key r '':credit_refund'')
          ((order_opts r [(''actor_user_id'', PInt actor), (''reason'', PStr reason),
              (''sku'', PStr (o_sku r)), (''quantity'', PInt (row_quantity r))])
             \<lparr>lo_cash_amount := - credit_units, lo_cash_after := Some (w_cash wallet - credit_units)\<rparr>)
          current st1)))"

definition refund_credit_pack :: "order_row \<Rightarrow> int \<Rightarrow> string \<Rightarrow> wallet \<Rightarrow> int \<Rightarrow> bdb \<Rightarrow> bdb res" where
  "refund_credit_pack r actor reason wallet current st =
     (let item = snapshot_item r; quantity = row_quantity r in
      bindr (int_field (vget item ''total_points'')) (\<lambda>points.
      bindr (int_field (vget item ''bonus_images'')) (\<lambda>bonus.
      let credit_units = points * POINT_SCALE * quantity; bonus_images = bonus * quantity;
          bonus_grant = (if 0 < bonus_images then bonus_grant_of r st else None) in
      if w_credit wallet < credit_units \<or> w_cash wallet < credit_units then benefits_used
      else if 0 < bonus_images \<and> (case bonus_grant of None \<Rightarrow> True
             | Some g \<Rightarrow> g_total g \<noteq> bonus_images \<or> g_remaining g \<noteq> bonus_images) then benefits_used
      else bindr (refund_credit r credit_units actor reason wallet current st) (\<lambda>st1.
        case bonus_grant of
          None \<Rightarrow> Inr st1
        | Some g \<Rightarrow> revoke_remaining_image_grant
            \<lparr>rk_user_id = o_user_id r, rk_event = ''credit_pack_bonus_revoked'', rk_order_id = o_id r,
             rk_subscription_id = [], rk_actor = actor, rk_reason = reason\<rparr> current g st1))))"

definition refund_period :: "bdb \<Rightarrow> order_row \<Rightarrow> int \<Rightarrow> string \<Rightarrow> int \<Rightarrow> bdb \<Rightarrow> period_row \<Rightarrow> bdb res" where
  "refund_period st0 r actor reason current st p =
     (let uid = o_user_id r;
          st1 = (if p_status p = PeriodCancelled then st
            else let st' = cancel_period (p_id p) st in
              insert_ledger uid SubscriptionAsset ''subscription_period_refunded'' (- 1)
                (active_subscription_count uid current st') (''period:'' @ p_id p @ '':refunded'')
                (no_opts\<lparr>lo_ref_type := ''subscription'', lo_ref_id := p_subscription_id p,
                   lo_order_id := o_id r, lo_meta := [(''period_id'', PStr (p_id p)),
                     (''actor_user_id'', PInt actor), (''reason'', PStr reason)]\<rparr>) current st') in
      case monthly_grant_of st0 p of
        None \<Rightarrow> Inr st1
      | Some g \<Rightarrow> revoke_remaining_image_grant
          \<lparr>rk_user_id = uid, rk_event = ''subscription_images_refunded'', rk_order_id = o_id r,
           rk_subscription_id = p_subscription_id p, rk_actor = actor, rk_reason = reason\<rparr> current g st1)"

definition refund_subscription :: "order_row \<Rightarrow> int \<Rightarrow> string \<Rightarrow> int \<Rightarrow> bdb \<Rightarrow> bdb res" where
  "refund_subscription r actor reason current st =
     (let periods = sort_key p_start_at (filter (\<lambda>p. p_source_order_id p = o_id r) (db_periods st)) in
      if periods = [] then Inl (BillingError ''ORDER_REFUND_UNSAFE'' 409)
      else bindr (ensure_image_grants_not_held (o_user_id r) (map g_id (monthly_grants st periods)) st) (\<lambda>_.
        bindr (foldr_res (refund_period st r actor reason current) st periods) (\<lambda>st1.
        Inr (foldl (recompute_subscription_state current) st1 (remdups (map p_subscription_id periods))))))"

definition refund_approved_order ::
  "string \<Rightarrow> int \<Rightarrow> string \<Rightarrow> int \<Rightarrow> bdb \<Rightarrow> (order_view \<times> bdb) res" where
  "refund_approved_order oid actor reason0 current st =
     (let reason = strip reason0 in
      if reason = [] then Inl (BillingError ''REFUND_REASON_REQUIRED'' 400)
      else case get_order oid st of
        None \<Rightarrow> Inl (BillingError ''ORDER_NOT_FOUND'' 404)
      | Some r \<Rightarrow>
        if o_status r = Refunded then Inr (order_public r, st)
        else if o_status r \<noteq> Approved then Inl (BillingError ''ORDER_NOT_APPROVED'' 409)
        else bindr (ensure_wallet (o_user_id r) current st) (\<lambda>(wallet, st1).
          bindr (if o_kind r = CreditPack then refund_credit_pack r actor reason wallet current st1
                 else refund_subscription r actor reason current st1) (\<lambda>st2.
          let st3 = update_order oid (\<lambda>x. o_status x = Approved)
                (\<lambda>x. x\<lparr>o_status := Refunded, o_refunded_by := actor, o_refunded_at := current,
                      o_refund_note := take 1000 reason, o_updated_at := current\<rparr>) st2 in
          case get_wallet (o_user_id r) st3 of
            None \<Rightarrow> Inl TypeError
          | Some w \<Rightarrow> show_order oid
              (insert_ledger (o_user_id r) Audit ''order_refunded'' 0 (w_credit w) (order_key r '':refunded'')
                (order_opts r [(''actor_user_id'', PInt actor), (''reason'', PStr reason),
                   (''kind'', PStr (kind_name (o_kind r)))]) current st3))))"

end
