(* ===== verification/BillingMigrations.thy ===== *)
theory BillingMigrations
  imports BillingRefunds
begin

text \<open>
  \<open>bootstrap_billing\<close> (webapp/commercial_billing.py): the migrations that run when the
  application starts.  Each is guarded by a marker in \<open>admin_config\<close>, so that it runs once;
  the catalog migrations retire the active version and insert an upgraded one under the
  next version number, and upgrade the drafts in place.
\<close>

section \<open>Legacy balances\<close>

definition migrate_user_v1 :: "int \<Rightarrow> user_row \<Rightarrow> bdb \<Rightarrow> bdb" where
  "migrate_user_v1 current u st =
     (let uid = u_id u; legacy = u_balance_cents u; units = legacy * POINT_SCALE;
          st1 = insert_wallet_or_ignore (fresh_wallet uid units Legacy legacy current) st;
          (lid, st2) = new_id ''bill_entry'' st1 in
      insert_ledger_row
        \<lparr>l_id = lid, l_user_id = uid, l_asset = Credit, l_event = ''opening_balance'', l_amount = units,
         l_balance_after = units, l_cash_amount = 0, l_cash_after = 0, l_ref_type = ''migration'',
         l_ref_id = ''v1'', l_order_id = [], l_reservation_id = [],
         l_meta = PDict [(''legacy_balance'', PInt legacy)], l_idem = ''migration:v1:'' @ show_int uid,
         l_created_at = current\<rparr> st2)"

definition migration_v1 :: "int \<Rightarrow> bdb \<Rightarrow> bdb res" where
  "migration_v1 current st =
     (if get_config ''commercial_billing_migration_v1'' st \<noteq> None then Inr st
      else
        let users = db_users st; skipped = filter (\<lambda>u. u_balance_cents u < 0) users;
            st1 = foldl (\<lambda>s u. migrate_user_v1 current u s) st (filter (\<lambda>u. 0 \<le> u_balance_cents u) users) in
        insert_config ''commercial_billing_migration_v1''
          (PDict [(''completed_at'', PInt current),
             (''skipped_negative_user_ids'', PList (map (\<lambda>u. PInt (u_id u)) skipped))]) st1)"

section \<open>Catalog versions\<close>

definition insert_active :: "int \<Rightarrow> pyval \<Rightarrow> int \<Rightarrow> bdb \<Rightarrow> bdb res" where
  "insert_active version catalog current st =
     (let (cid, st1) = new_id ''catalog'' st in
      insert_catalog \<lparr>c_id = cid, c_version = version, c_status = Active, c_catalog = catalog,
        c_effective_at = current, c_created_by = 0, c_created_at = current, c_published_at = current\<rparr> st1)"

definition bootstrap_active :: "int \<Rightarrow> bdb \<Rightarrow> bdb res" where
  "bootstrap_active current st =
     (if \<exists>c \<in> set (db_catalogs st). c_status c = Active then Inr st
      else insert_active 1 (PDict DEFAULT_CATALOG) current st)"

text \<open>Retire the active version and activate a new one under the next number.\<close>

definition supersede :: "pyval \<Rightarrow> int \<Rightarrow> bdb \<Rightarrow> bdb res" where
  "supersede catalog current st = insert_active (next_version st) catalog current (retire_active st)"

definition active_value :: "bdb \<Rightarrow> pyval" where
  "active_value st = (case active_row st of None \<Rightarrow> PDict [] | Some row \<Rightarrow> c_catalog row)"

text \<open>\<open>list(catalog.get("actions") or []) if isinstance(catalog, dict) else []\<close>.\<close>

definition actions_of :: "pyval \<Rightarrow> pyval list res" where
  "actions_of v = (case v of PDict d \<Rightarrow> catalog_actions d | _ \<Rightarrow> Inr [])"

definition set_actions :: "pyval list \<Rightarrow> pyval \<Rightarrow> pyval res" where
  "set_actions actions v = (case v of PDict d \<Rightarrow> Inr (PDict (dset ''actions'' (PList actions) d))
     | _ \<Rightarrow> Inl TypeError)"

definition marker :: "string \<Rightarrow> int \<Rightarrow> pydict \<Rightarrow> bdb \<Rightarrow> bdb res" where
  "marker key current extra st = insert_config key (PDict ((''completed_at'', PInt current) # extra)) st"

text \<open>v2 adds the missing default actions, v3 drops the discontinued ones.\<close>

definition add_missing_actions :: "pyval list \<Rightarrow> pyval list" where
  "add_missing_actions actions =
     foldl (\<lambda>acc a. if by_sku acc (item_sku a) = None then acc @ [a] else acc) actions DEFAULT_ACTIONS"

definition migration_v2 :: "int \<Rightarrow> bdb \<Rightarrow> bdb res" where
  "migration_v2 current st =
     (if get_config ''commercial_billing_catalog_v2'' st \<noteq> None then Inr st
      else bindr (actions_of (active_value st)) (\<lambda>actions.
        let actions' = add_missing_actions actions; changed = (length actions' \<noteq> length actions) in
        bindr (if changed \<and> active_row st \<noteq> None
               then bindr (set_actions actions' (active_value st)) (\<lambda>c. supersede c current st)
               else Inr st) (\<lambda>st1.
        marker ''commercial_billing_catalog_v2'' current [(''changed'', PBool changed)] st1)))"

definition migration_v3 :: "int \<Rightarrow> bdb \<Rightarrow> bdb res" where
  "migration_v3 current st =
     (if get_config ''commercial_billing_catalog_v3'' st \<noteq> None then Inr st
      else bindr (actions_of (active_value st)) (\<lambda>actions.
        let cleaned = filter (\<lambda>item. is_dict item \<and> item_sku item \<notin> set LEGACY_R18_ACTION_SKUS) actions;
            changed = (length cleaned \<noteq> length actions) in
        bindr (if changed \<and> active_row st \<noteq> None
               then bindr (set_actions cleaned (active_value st)) (\<lambda>c. supersede c current st)
               else Inr st) (\<lambda>st1.
        marker ''commercial_billing_catalog_v3'' current [(''changed'', PBool changed)] st1)))"

definition retire_drafts :: "bdb \<Rightarrow> bdb" where
  "retire_drafts st = st\<lparr>db_catalogs :=
     update_where (\<lambda>c. c_status c = Draft) (\<lambda>c. c\<lparr>c_status := Retired\<rparr>) (db_catalogs st)\<rparr>"

definition migration_v4 :: "int \<Rightarrow> bdb \<Rightarrow> bdb res" where
  "migration_v4 current st =
     (if get_config ''commercial_billing_catalog_v4'' st \<noteq> None then Inr st
      else
        let official = PDict DEFAULT_CATALOG;
            changed = (active_row st = None \<or> \<not> py_eq (active_value st) official);
            st1 = retire_drafts st in
        bindr (if changed \<and> active_row st \<noteq> None
               then bindr (validate_catalog official) (\<lambda>_. supersede official current st1)
               else Inr st1) (\<lambda>st2.
        marker ''commercial_billing_catalog_v4'' current
          [(''changed'', PBool changed), (''source'', PStr ''official-pricing-pdf'')] st2))"

definition set_default :: "string \<Rightarrow> pyval \<Rightarrow> pyval \<Rightarrow> pyval" where
  "set_default k v c = (case c of PDict d \<Rightarrow> if has_key k d then c else PDict (dset k v d) | _ \<Rightarrow> c)"

definition migration_v5 :: "int \<Rightarrow> bdb \<Rightarrow> bdb res" where
  "migration_v5 current st =
     (if get_config ''commercial_billing_catalog_v5_timezone_shanghai'' st \<noteq> None then Inr st
      else bindr (if active_row st = None then Inr False
             else bindr (py_get (active_value st) ''timezone'') (\<lambda>tz. Inr (str_field tz \<noteq> ''Asia/Shanghai'')))
           (\<lambda>changed.
        bindr (if changed then
            bindr (with_complete_subscription_details
              (set_default ''automation_modules'' (PList DEFAULT_AUTOMATION_MODULES)
                (vset ''timezone'' (PStr ''Asia/Shanghai'') (active_value st)))) (\<lambda>c.
            bindr (validate_catalog c) (\<lambda>_. supersede c current st))
          else Inr st) (\<lambda>st1.
        marker ''commercial_billing_catalog_v5_timezone_shanghai'' current [(''changed'', PBool changed)] st1)))"

section \<open>Upgrades of the active version and of the drafts\<close>

text \<open>Upgrade one draft in place; count those that change.\<close>

definition upgrade_draft :: "(pyval \<Rightarrow> pyval option res) \<Rightarrow> int \<times> bdb \<Rightarrow> catalog_row \<Rightarrow> (int \<times> bdb) res" where
  "upgrade_draft upgrade acc row =
     bindr (upgrade (c_catalog row)) (\<lambda>r. case r of
       None \<Rightarrow> Inr acc
     | Some c \<Rightarrow> bindr (validate_catalog c) (\<lambda>_.
         Inr (fst acc + 1, (snd acc)\<lparr>db_catalogs := row_modify c_id (c_id row)
           (\<lambda>x. x\<lparr>c_catalog := c\<rparr>) (db_catalogs (snd acc))\<rparr>)))"

definition upgrade_drafts :: "(pyval \<Rightarrow> pyval option res) \<Rightarrow> bdb \<Rightarrow> (int \<times> bdb) res" where
  "upgrade_drafts upgrade st =
     foldr_res (upgrade_draft upgrade) (0, st) (filter (\<lambda>c. c_status c = Draft) (db_catalogs st))"

definition upgrade_active :: "(pyval \<Rightarrow> pyval option res) \<Rightarrow> int \<Rightarrow> bdb \<Rightarrow> (bool \<times> bdb) res" where
  "upgrade_active upgrade current st =
     (case active_row st of
        None \<Rightarrow> Inr (False, st)
      | Some row \<Rightarrow> bindr (upgrade (c_catalog row)) (\<lambda>r. case r of
          None \<Rightarrow> Inr (False, st)
        | Some c \<Rightarrow> bindr (validate_catalog c) (\<lambda>_.
            bindr (supersede c current st) (\<lambda>st'. Inr (True, st')))))"

text \<open>The shape the migrations v6 to v12 share: the active version, then the drafts, then the marker.\<close>

definition catalog_migration ::
  "string \<Rightarrow> (pyval \<Rightarrow> pyval option res) \<Rightarrow> (pyval \<Rightarrow> pyval option res) \<Rightarrow> int \<Rightarrow> bdb \<Rightarrow> bdb res" where
  "catalog_migration key on_active on_draft current st =
     (if get_config key st \<noteq> None then Inr st
      else bindr (upgrade_active on_active current st) (\<lambda>(changed, st1).
        bindr (upgrade_drafts on_draft st1) (\<lambda>(updated, st2).
        marker key current [(''changed'', PBool changed), (''updated_drafts'', PInt updated)] st2)))"

definition if_changed :: "(pyval \<Rightarrow> pyval res) \<Rightarrow> pyval \<Rightarrow> pyval option res" where
  "if_changed f v = bindr (f v) (\<lambda>c. Inr (if py_eq c v then None else Some c))"

definition modules_upgrade :: "pyval \<Rightarrow> pyval option res" where
  "modules_upgrade v =
     bindr (py_get v ''automation_modules'') (\<lambda>m.
     if py_eq m (PList DEFAULT_AUTOMATION_MODULES) then Inr None
     else bindr (with_complete_subscription_details
            (vset ''automation_modules'' (PList DEFAULT_AUTOMATION_MODULES) v)) (\<lambda>c. Inr (Some c)))"

definition modules_upgrade_draft :: "pyval \<Rightarrow> pyval option res" where
  "modules_upgrade_draft v = (if is_dict v then modules_upgrade v else Inr None)"

definition migration_v6 :: "int \<Rightarrow> bdb \<Rightarrow> bdb res" where
  "migration_v6 = catalog_migration ''commercial_billing_catalog_v6_automation_modules''
     modules_upgrade modules_upgrade_draft"

definition migration_v7 :: "int \<Rightarrow> bdb \<Rightarrow> bdb res" where
  "migration_v7 = catalog_migration ''commercial_billing_catalog_v7_complete_subscription_details''
     (if_changed with_complete_subscription_details) (if_changed with_complete_subscription_details)"

definition migration_v8 :: "int \<Rightarrow> bdb \<Rightarrow> bdb res" where
  "migration_v8 = catalog_migration ''commercial_billing_catalog_v8_video_workbench''
     (if_changed with_video_action_catalog) (if_changed with_video_action_catalog)"

definition migration_v9 :: "int \<Rightarrow> bdb \<Rightarrow> bdb res" where
  "migration_v9 = catalog_migration ''commercial_billing_catalog_v9_crm_actions''
     (if_changed with_crm_action_catalog) (if_changed with_crm_action_catalog)"

definition migration_v10 :: "int \<Rightarrow> bdb \<Rightarrow> bdb res" where
  "migration_v10 = catalog_migration ''commercial_billing_catalog_v10_social_content_rates''
     (if_changed with_social_content_action_catalog) (if_changed with_social_content_action_catalog)"

definition migration_v11 :: "int \<Rightarrow> bdb \<Rightarrow> bdb res" where
  "migration_v11 = catalog_migration ''commercial_billing_catalog_v11_pdf_subscription_prices''
     (if_changed with_pdf_subscription_prices) (if_changed with_pdf_subscription_prices)"

definition migration_v12 :: "int \<Rightarrow> bdb \<Rightarrow> bdb res" where
  "migration_v12 = catalog_migration ''commercial_billing_catalog_v12_latest_pdf_plans''
     (if_changed with_latest_pdf_subscription_plans) (if_changed with_latest_pdf_subscription_plans)"

section \<open>Enforcement\<close>

definition transition_subscription :: "int \<Rightarrow> string \<Rightarrow> string \<Rightarrow> string \<Rightarrow> int \<Rightarrow> int \<Rightarrow> int \<Rightarrow> bdb \<Rightarrow> bdb res" where
  "transition_subscription uid sid pid source_ref free_images transition_end current st =
     (if 0 < active_subscription_count uid current st then Inr st
      else
        bindr (insert_subscription \<lparr>s_id = sid, s_user_id = uid, s_plan_sku = ''vanguard_monthly'',
          s_status = SubActive, s_period_end = transition_end, s_created_at = current,
          s_updated_at = current\<rparr> st) (\<lambda>st1.
        bindr (insert_period \<lparr>p_id = pid, p_subscription_id = sid, p_user_id = uid,
          p_source_order_id = source_ref, p_start_at = current, p_end_at = transition_end,
          p_status = PeriodActive, p_created_at = current\<rparr> st1) (\<lambda>st2.
        if 0 < free_images then
          (let (gid, st3) = new_id ''image_grant'' st2 in
           insert_grant (new_grant gid uid SubscriptionMonthly source_ref free_images current
             transition_end current) st3)
        else Inr st2)))"

definition enforce_user :: "int \<Rightarrow> int \<Rightarrow> int \<Rightarrow> bdb \<Rightarrow> wallet \<Rightarrow> bdb res" where
  "enforce_user free_images transition_end current st row =
     (let uid = w_user_id row; (sid, st1) = new_id ''subscription'' st; (pid, st2) = new_id ''period'' st1;
          st3 = touch_wallet uid (\<lambda>w. w\<lparr>w_mode := Enforced, w_updated_at := current\<rparr>) st2 in
      bindr (transition_subscription uid sid pid (''billing-enforcement-v2:'' @ show_int uid) free_images
               transition_end current st3) (\<lambda>st4.
      bindr (ensure_wallet uid current st4) (\<lambda>(wallet, st5).
      Inr (insert_ledger uid Audit ''billing_enforcement_enabled'' 0 (w_credit wallet)
        (''commercial_billing_enforcement_v2:'' @ show_int uid)
        (no_opts\<lparr>lo_ref_type := ''migration'', lo_ref_id := ''commercial_billing_enforcement_v2'',
           lo_meta := [(''transition_subscription_end'', PInt transition_end)]\<rparr>) current st5))))"

definition enforcement_v2 :: "int \<Rightarrow> bdb \<Rightarrow> bdb res" where
  "enforcement_v2 current st =
     (if get_config ''commercial_billing_enforcement_v2'' st = None \<and> enforcement_enabled st
         \<and> env_enabled st ''COMMERCIAL_BILLING_MIGRATE_LEGACY'' ''0''
      then
        bindr (add_calendar_month current) (\<lambda>transition_end.
        bindr (get_active_catalog st) (\<lambda>catalog.
        bindr (require_key ''subscription'' (PDict catalog)) (\<lambda>plan.
        bindr (require_key ''monthly_free_images'' plan) (\<lambda>v.
        bindr (py_int v) (\<lambda>free_images.
        let rows = filter (\<lambda>w. w_mode w = Legacy \<and> (case get_user (w_user_id w) st of
                 None \<Rightarrow> False | Some u \<Rightarrow> \<not> u_is_admin u)) (db_wallets st) in
        bindr (foldr_res (enforce_user free_images transition_end current) st rows) (\<lambda>st1.
        marker ''commercial_billing_enforcement_v2'' current
          [(''user_ids'', PList (map (\<lambda>w. PInt (w_user_id w)) rows))] st1))))))
      else Inr st)"

text \<open>The migrations in the order the function runs them.\<close>

definition bootstrap_steps :: "(int \<Rightarrow> bdb \<Rightarrow> bdb res) list" where
  "bootstrap_steps = [migration_v1, bootstrap_active, migration_v2, migration_v3, migration_v4,
     migration_v5, migration_v6, migration_v7, migration_v8, migration_v9, migration_v10,
     migration_v11, migration_v12, enforcement_v2]"

definition bootstrap_billing :: "int \<Rightarrow> bdb \<Rightarrow> bdb res" where
  "bootstrap_billing current st = foldr_res (\<lambda>s step. step current s) st bootstrap_steps"

end
