(* ===== verification/BillingBooks.thy ===== *)
theory BillingBooks
  imports BillingMigrations
begin

text \<open>
  The accounting invariant of the billing component.  \<open>books X uid a k h st\<close> says that the
  wallets agree with the ledger: for every user the credit entries form a running
  statement (each carries the balance after it), the wallet's credit and cash-backed
  credit are the sums of the entries, and the entries of reservations sum to what is held
  or was charged.  Inside an operation on the wallet of \<open>uid\<close> the wallet may be ahead of the
  ledger by \<open>(a, k)\<close>, and the charges by \<open>h\<close>; \<open>X\<close> are the reservations and orders being processed.
  \<open>books {} uid 0 0 0\<close> is the invariant between operations.

  The lemmas give the effect of each statement of the schema on \<open>books\<close>; the theories that
  follow chain them along the code of the operations.
\<close>

section \<open>Fresh strings\<close>

text \<open>What the code relies on in \<open>uuid4().hex\<close>: distinct strings of hexadecimal digits.\<close>

definition uuids_ok :: "(nat \<Rightarrow> string) \<Rightarrow> bool" where
  "uuids_ok u = (inj u \<and> (\<forall>n. set (u n) \<subseteq> set ''0123456789abcdef''))"

text \<open>The last component of a ledger key, reversed.\<close>

definition key_class :: "string \<Rightarrow> string" where
  "key_class k = takeWhile (\<lambda>c. c \<noteq> CHR '':'') (rev k)"

lemma takeWhile_colon: "CHR '':'' \<notin> set b \<Longrightarrow> takeWhile (\<lambda>c. c \<noteq> CHR '':'') (b @ CHR '':'' # y) = b"
  by (induction b) auto

lemma key_class_append: "CHR '':'' \<notin> set b \<Longrightarrow> key_class (x @ CHR '':'' # b) = rev b"
  by (simp add: key_class_def takeWhile_colon)

lemma digit_char_mem: "0 \<le> d \<Longrightarrow> d < 10 \<Longrightarrow> digit_char d \<in> set ''0123456789''"
proof -
  assume "0 \<le> d" "d < 10"
  then have "d = 0 \<or> d = 1 \<or> d = 2 \<or> d = 3 \<or> d = 4 \<or> d = 5 \<or> d = 6 \<or> d = 7 \<or> d = 8 \<or> d = 9"
    by arith
  then show ?thesis by (elim disjE) (simp_all add: digit_char_def char_of_def bit_0)
qed

lemma show_nonneg_chars: "0 \<le> n \<Longrightarrow> set (show_nonneg n) \<subseteq> set ''0123456789''"
proof (induction n rule: show_nonneg.induct)
  case (1 n)
  show ?case
  proof (cases "n < 10")
    case True
    with digit_char_mem "1.prems" show ?thesis by (simp add: show_nonneg.simps [of n])
  next
    case False
    with "1.IH" "1.prems" digit_char_mem [of "n mod 10"] show ?thesis
      by (simp add: show_nonneg.simps [of n])
  qed
qed

lemma show_int_chars: "set (show_int i) \<subseteq> set ''-0123456789''"
  using show_nonneg_chars [of i] show_nonneg_chars [of "- i"] by (auto simp: show_int_def)

lemma show_int_no_colon: "CHR '':'' \<notin> set (show_int n)"
  using show_int_chars [of n] by auto

lemma digit_val_char: "0 \<le> d \<Longrightarrow> d < 10 \<Longrightarrow> digit_val (digit_char d) = d"
  by (simp add: digit_val_def digit_char_def)

lemma show_nonneg_value:
  "0 \<le> n \<Longrightarrow> foldl (\<lambda>a c. 10 * a + digit_val c) 0 (show_nonneg n) = n"
proof (induction n rule: show_nonneg.induct)
  case (1 n)
  show ?case
  proof (cases "n < 10")
    case True
    with "1.prems" show ?thesis by (simp add: show_nonneg.simps [of n] digit_val_char)
  next
    case False
    with 1 show ?thesis by (simp add: show_nonneg.simps [of n] digit_val_char)
  qed
qed

lemma show_nonneg_no_sign: "0 \<le> n \<Longrightarrow> CHR ''-'' \<notin> set (show_nonneg n)"
  using show_nonneg_chars [of n] by auto

lemma show_int_inj: "show_int i = show_int j \<Longrightarrow> i = j"
proof -
  assume e: "show_int i = show_int j"
  have sign: "i < 0 \<longleftrightarrow> CHR ''-'' \<in> set (show_int i)" for i
    using show_nonneg_no_sign [of i] by (auto simp: show_int_def)
  then have "i < 0 \<longleftrightarrow> j < 0" using e by simp
  then have "show_nonneg \<bar>i\<bar> = show_nonneg \<bar>j\<bar>" using e by (auto simp: show_int_def split: if_splits)
  then have "\<bar>i\<bar> = \<bar>j\<bar>" using show_nonneg_value by (metis abs_ge_zero)
  with \<open>i < 0 \<longleftrightarrow> j < 0\<close> show "i = j" by linarith
qed

section \<open>Statements\<close>

text \<open>Each entry carries the balance after it, starting from \<open>b\<close> and cash \<open>c\<close>.\<close>

fun running :: "int \<Rightarrow> int \<Rightarrow> ledger_row list \<Rightarrow> bool" where
  "running b c [] = True"
| "running b c (l # ls) = (l_balance_after l = b + l_amount l \<and> l_cash_after l = c + l_cash_amount l
     \<and> running (b + l_amount l) (c + l_cash_amount l) ls)"

lemma running_append:
  "running b c (ls @ [l]) \<longleftrightarrow> running b c ls
     \<and> l_balance_after l = b + sum_list (map l_amount ls) + l_amount l
     \<and> l_cash_after l = c + sum_list (map l_cash_amount ls) + l_cash_amount l"
  by (induction ls arbitrary: b c) (auto simp: algebra_simps)

text \<open>What is held by running tasks or was charged to \<open>uid\<close>, and the ledger's side of it.\<close>

definition weight :: "reservation_row \<Rightarrow> int" where
  "weight r = (case r_status r of Held \<Rightarrow> r_reserved_credit r
     | Settled \<Rightarrow> r_settled_credit r - r_refunded_cash r | Released \<Rightarrow> 0 | Waived \<Rightarrow> 0)"

definition outstanding :: "int \<Rightarrow> bdb \<Rightarrow> int" where
  "outstanding uid st = sum_list (map weight (filter (\<lambda>r. r_user_id r = uid) (db_reservations st)))"

definition charge_events :: "string list" where
  "charge_events = [''reserve'', ''release'', ''reservation_refund'', ''exact_cash_refund'']"

definition charged :: "int \<Rightarrow> bdb \<Rightarrow> int" where
  "charged uid st = - sum_list (map l_amount
     (filter (\<lambda>l. l_event l \<in> set charge_events) (credit_entries uid st)))"

text \<open>The rows an operation is processing.\<close>

datatype busy = BusyReservation string | BusyApproval string | BusyRefund string

text \<open>
  The reason for a ledger key to be there: the evidence in the other tables that its
  operation has run (or is running, for an id in \<open>X\<close>), so that it cannot run again.
\<close>

definition drawn_ok :: "bdb \<Rightarrow> string \<Rightarrow> bool" where
  "drawn_ok st k = (\<forall>n. k = ''adjustment:adjustment_'' @ uuids st n \<longrightarrow> n < draws st)"

definition lazy_ok :: "bdb \<Rightarrow> string \<Rightarrow> bool" where
  "lazy_ok st k = (\<forall>u. k = ''migration:lazy_v1:'' @ show_int u \<longrightarrow> get_wallet u st \<noteq> None)"

definition key_explained :: "busy set \<Rightarrow> bdb \<Rightarrow> string \<Rightarrow> bool" where
  "key_explained X st k =
     ((key_class k = rev ''credit_hold'' \<longrightarrow>
        (\<exists>r \<in> set (db_reservations st). k = r_idem r @ '':credit_hold'')) \<and>
      (key_class k = rev ''release_credit'' \<longrightarrow>
        (\<exists>r \<in> set (db_reservations st). k = r_id r @ '':release_credit'' \<and> (r_status r \<noteq> Held \<or> BusyReservation (r_id r) \<in> X))) \<and>
      (key_class k = rev ''settle_credit_refund'' \<longrightarrow>
        (\<exists>r \<in> set (db_reservations st). k = r_id r @ '':settle_credit_refund'' \<and> (r_status r \<noteq> Held \<or> BusyReservation (r_id r) \<in> X))) \<and>
      (key_class k = rev ''exact_cash_refund'' \<longrightarrow>
        (\<exists>r \<in> set (db_reservations st). k = r_id r @ '':exact_cash_refund'' \<and> r_status r \<noteq> Held
           \<and> r_settled_cash r \<le> r_refunded_cash r)) \<and>
      (key_class k = rev ''credit'' \<longrightarrow>
        (\<exists>r \<in> set (db_orders st). k = order_key r '':credit'' \<and> (o_status r \<noteq> Pending \<or> BusyApproval (o_id r) \<in> X))) \<and>
      (key_class k = rev ''credit_refund'' \<longrightarrow>
        (\<exists>r \<in> set (db_orders st). k = order_key r '':credit_refund'' \<and> (o_status r = Refunded \<or> BusyRefund (o_id r) \<in> X))) \<and>
      drawn_ok st k \<and> lazy_ok st k)"

definition keys_ok :: "busy set \<Rightarrow> bdb \<Rightarrow> bool" where
  "keys_ok X st = (uuids_ok (uuids st)
     \<and> (\<forall>l \<in> set (db_ledger st). key_explained X st (l_idem l)
          \<and> (\<forall>n. l_id l = ''bill_entry_'' @ uuids st n \<longrightarrow> n < draws st))
     \<and> distinct (map r_id (db_reservations st)) \<and> distinct (map o_id (db_orders st)))"

text \<open>A held row never charges more than it holds, whatever quantity it is settled at.\<close>

definition held_ok :: "reservation_row \<Rightarrow> bool" where
  "held_ok r = (r_status r = Held \<longrightarrow> 0 \<le> r_reserved_cash r \<and> r_reserved_cash r \<le> r_reserved_credit r
     \<and> 0 \<le> r_reserved_images r \<and> r_settled_credit r = 0 \<and> r_settled_cash r = 0 \<and> r_refunded_cash r = 0
     \<and> (r_reserved_images r = 0 \<or> (\<exists>holds. vget (r_meta r) ''grant_holds'' = holds_json holds))
     \<and> (\<exists>q u. int_field (vget (r_meta r) ''quantity'') = Inr q
          \<and> int_field (vget (r_meta r) ''unit_credit_units'') = Inr u
          \<and> (if truthy (vget (r_meta r) ''unlimited_compute'') then r_reserved_credit r = 0
             else (if truthy (vget (r_meta r) ''image'') then max (q - r_reserved_images r) 0 * max u 0
             else max q 0 * max u 0) \<le> r_reserved_credit r)))"

definition funds_ok :: "int \<Rightarrow> int \<Rightarrow> int \<Rightarrow> int \<Rightarrow> bdb \<Rightarrow> bool" where
  "funds_ok uid a k h st = (\<forall>u. running 0 0 (credit_entries u st)
     \<and> credit_of u st = ledger_credit u st + (if u = uid then a else 0)
     \<and> cash_of u st = ledger_cash u st + (if u = uid then k else 0)
     \<and> outstanding u st = charged u st + (if u = uid then h else 0))"

text \<open>The user of a reservation has a wallet.\<close>

definition payers_ok :: "bdb \<Rightarrow> bool" where
  "payers_ok st = (\<forall>r \<in> set (db_reservations st). get_wallet (r_user_id r) st \<noteq> None)"

definition books :: "busy set \<Rightarrow> int \<Rightarrow> int \<Rightarrow> int \<Rightarrow> int \<Rightarrow> bdb \<Rightarrow> bool" where
  "books X uid a k h st = (wallets_ok st \<and> funds_ok uid a k h st \<and> keys_ok X st
     \<and> payers_ok st \<and> (\<forall>r \<in> set (db_reservations st). held_ok r))"

section \<open>Evidence only grows\<close>

definition evidence :: "busy set \<Rightarrow> bdb \<Rightarrow> busy set \<Rightarrow> bdb \<Rightarrow> bool" where
  "evidence X st X' st' = (uuids st' = uuids st \<and> draws st \<le> draws st'
     \<and> (\<forall>r \<in> set (db_reservations st). \<exists>r' \<in> set (db_reservations st'). r_id r' = r_id r
          \<and> r_idem r' = r_idem r
          \<and> (r_status r \<noteq> Held \<or> BusyReservation (r_id r) \<in> X \<longrightarrow> r_status r' \<noteq> Held \<or> BusyReservation (r_id r) \<in> X')
          \<and> (r_status r \<noteq> Held \<and> r_settled_cash r \<le> r_refunded_cash r \<longrightarrow>
               r_status r' \<noteq> Held \<and> r_settled_cash r' \<le> r_refunded_cash r'))
     \<and> (\<forall>r \<in> set (db_orders st). \<exists>r' \<in> set (db_orders st'). o_id r' = o_id r
          \<and> (o_status r \<noteq> Pending \<or> BusyApproval (o_id r) \<in> X \<longrightarrow> o_status r' \<noteq> Pending \<or> BusyApproval (o_id r) \<in> X')
          \<and> (o_status r = Refunded \<or> BusyRefund (o_id r) \<in> X \<longrightarrow> o_status r' = Refunded \<or> BusyRefund (o_id r) \<in> X'))
     \<and> (\<forall>u. get_wallet u st \<noteq> None \<longrightarrow> get_wallet u st' \<noteq> None))"

lemma key_explained_mono:
  assumes e: "evidence X st X' st'" and k: "key_explained X st k"
  shows "key_explained X' st' k"
proof -
  have res: "\<exists>r' \<in> set (db_reservations st'). r_id r' = r_id r \<and> r_idem r' = r_idem r
      \<and> (r_status r \<noteq> Held \<or> BusyReservation (r_id r) \<in> X \<longrightarrow> r_status r' \<noteq> Held \<or> BusyReservation (r_id r) \<in> X')
      \<and> (r_status r \<noteq> Held \<and> r_settled_cash r \<le> r_refunded_cash r \<longrightarrow>
          r_status r' \<noteq> Held \<and> r_settled_cash r' \<le> r_refunded_cash r')"
    if "r \<in> set (db_reservations st)" for r
    using e that unfolding evidence_def by blast
  have ord: "\<exists>r' \<in> set (db_orders st'). o_id r' = o_id r
      \<and> (o_status r \<noteq> Pending \<or> BusyApproval (o_id r) \<in> X \<longrightarrow> o_status r' \<noteq> Pending \<or> BusyApproval (o_id r) \<in> X')
      \<and> (o_status r = Refunded \<or> BusyRefund (o_id r) \<in> X \<longrightarrow> o_status r' = Refunded \<or> BusyRefund (o_id r) \<in> X')"
    if "r \<in> set (db_orders st)" for r
    using e that unfolding evidence_def by blast
  have u: "uuids st' = uuids st" "draws st \<le> draws st'" "\<And>u. get_wallet u st \<noteq> None \<Longrightarrow> get_wallet u st' \<noteq> None"
    using e unfolding evidence_def by blast+
  show ?thesis
    unfolding key_explained_def
  proof (intro conjI impI allI)
    assume "key_class k = rev ''credit_hold''"
    with k obtain r where "r \<in> set (db_reservations st)" "k = r_idem r @ '':credit_hold''"
      unfolding key_explained_def by blast
    with res show "\<exists>r \<in> set (db_reservations st'). k = r_idem r @ '':credit_hold''" by metis
  next
    assume "key_class k = rev ''release_credit''"
    with k obtain r where "r \<in> set (db_reservations st)" "k = r_id r @ '':release_credit''"
      "r_status r \<noteq> Held \<or> BusyReservation (r_id r) \<in> X" unfolding key_explained_def by blast
    with res show "\<exists>r \<in> set (db_reservations st'). k = r_id r @ '':release_credit'' \<and> (r_status r \<noteq> Held \<or> BusyReservation (r_id r) \<in> X')"
      by metis
  next
    assume "key_class k = rev ''settle_credit_refund''"
    with k obtain r where "r \<in> set (db_reservations st)" "k = r_id r @ '':settle_credit_refund''"
      "r_status r \<noteq> Held \<or> BusyReservation (r_id r) \<in> X" unfolding key_explained_def by blast
    with res show "\<exists>r \<in> set (db_reservations st'). k = r_id r @ '':settle_credit_refund'' \<and> (r_status r \<noteq> Held \<or> BusyReservation (r_id r) \<in> X')"
      by metis
  next
    assume "key_class k = rev ''exact_cash_refund''"
    with k obtain r where "r \<in> set (db_reservations st)" "k = r_id r @ '':exact_cash_refund''"
      "r_status r \<noteq> Held \<and> r_settled_cash r \<le> r_refunded_cash r" unfolding key_explained_def by blast
    with res show "\<exists>r \<in> set (db_reservations st'). k = r_id r @ '':exact_cash_refund'' \<and> r_status r \<noteq> Held
        \<and> r_settled_cash r \<le> r_refunded_cash r"
      by metis
  next
    assume "key_class k = rev ''credit''"
    with k obtain r where "r \<in> set (db_orders st)" "k = order_key r '':credit''"
      "o_status r \<noteq> Pending \<or> BusyApproval (o_id r) \<in> X" unfolding key_explained_def by blast
    with ord show "\<exists>r \<in> set (db_orders st'). k = order_key r '':credit'' \<and> (o_status r \<noteq> Pending \<or> BusyApproval (o_id r) \<in> X')"
      unfolding order_key_def by metis
  next
    assume "key_class k = rev ''credit_refund''"
    with k obtain r where "r \<in> set (db_orders st)" "k = order_key r '':credit_refund''"
      "o_status r = Refunded \<or> BusyRefund (o_id r) \<in> X" unfolding key_explained_def by blast
    with ord show "\<exists>r \<in> set (db_orders st'). k = order_key r '':credit_refund'' \<and> (o_status r = Refunded \<or> BusyRefund (o_id r) \<in> X')"
      unfolding order_key_def by metis
  next
    have "drawn_ok st k" using k unfolding key_explained_def by blast
    then have "n < draws st" if "k = ''adjustment:adjustment_'' @ uuids st' n" for n
      using that u(1) unfolding drawn_ok_def by simp
    then show "drawn_ok st' k" using u(2) less_le_trans unfolding drawn_ok_def by blast
  next
    have "lazy_ok st k" using k unfolding key_explained_def by blast
    then show "lazy_ok st' k" using u(3) unfolding lazy_ok_def by blast
  qed
qed

lemma keys_ok_mono:
  assumes "keys_ok X st" "evidence X st X' st'" "db_ledger st' = db_ledger st"
    and "distinct (map r_id (db_reservations st'))" "distinct (map o_id (db_orders st'))"
  shows "keys_ok X' st'"
proof -
  have "draws st \<le> draws st'" "uuids st' = uuids st" using assms(2) unfolding evidence_def by simp_all
  have "n < draws st'" if "l \<in> set (db_ledger st)" "l_id l = ''bill_entry_'' @ uuids st' n" for l n
  proof -
    have "n < draws st"
      using assms(1) that \<open>uuids st' = uuids st\<close> unfolding keys_ok_def by simp
    with \<open>draws st \<le> draws st'\<close> show ?thesis by simp
  qed
  moreover have "key_explained X' st' (l_idem l)" if "l \<in> set (db_ledger st)" for l
    using assms(1,2) that key_explained_mono unfolding keys_ok_def by blast
  ultimately show ?thesis
    using assms \<open>uuids st' = uuids st\<close> by (simp add: keys_ok_def)
qed

text \<open>Evidence is untouched when the tables it reads are.\<close>

lemma evidence_same:
  assumes "db_wallets st' = db_wallets st" "db_reservations st' = db_reservations st"
    "db_orders st' = db_orders st" "uuids st' = uuids st" "draws st \<le> draws st'" "X \<subseteq> X'"
  shows "evidence X st X' st'"
  using assms unfolding evidence_def by (auto simp: get_wallet_def)

lemma funds_cong:
  assumes "db_wallets st' = db_wallets st" "db_ledger st' = db_ledger st" "db_reservations st' = db_reservations st"
  shows "funds_ok uid a k h st' = funds_ok uid a k h st"
  using assms
  by (simp add: funds_ok_def credit_entries_def credit_of_def cash_of_def get_wallet_def
      ledger_credit_def ledger_cash_def outstanding_def charged_def)

lemma books_cong:
  assumes b: "books X uid a k h st"
    and e: "db_wallets st' = db_wallets st" "db_ledger st' = db_ledger st" "db_reservations st' = db_reservations st"
      "db_orders st' = db_orders st" "uuids st' = uuids st" "draws st \<le> draws st'"
  shows "books X uid a k h st'"
proof -
  have "keys_ok X st"
    using b by (simp add: books_def)
  moreover from this have "distinct (map r_id (db_reservations st))" "distinct (map o_id (db_orders st))"
    by (simp_all add: keys_ok_def)
  ultimately have "keys_ok X st'"
    using e by (auto intro: keys_ok_mono [of X st X st', OF _ evidence_same])
  then show ?thesis
    using b funds_cong [OF e(1,2,3)] by (simp add: books_def wallets_ok_def payers_ok_def get_wallet_def e)
qed

lemma books_weaken: "books X uid a k h st \<Longrightarrow> X \<subseteq> X' \<Longrightarrow> books X' uid a k h st"
  using keys_ok_mono [of X st X' st, OF _ evidence_same] by (simp add: books_def keys_ok_def)

lemma books_user: "books X uid 0 0 0 st \<Longrightarrow> books X uid' 0 0 0 st"
  by (simp add: books_def funds_ok_def)

end
