(* ===== verification/BillingPostings.thy ===== *)
theory BillingPostings
  imports BillingBooks
begin

text \<open>
  The effect of each statement of the schema on \<open>books\<close>: a wallet update moves the wallet
  ahead of the ledger, a ledger entry catches up, a reservation row moves the charges, and
  every other statement leaves the books alone.
\<close>

section \<open>Statements that do not touch the books\<close>

lemma books_new_id: "new_id p st = (i, st') \<Longrightarrow> books X uid a k h st \<Longrightarrow> books X uid a k h st'"
proof -
  assume "new_id p st = (i, st')" and b: "books X uid a k h st"
  then have "st' = st\<lparr>draws := Suc (draws st)\<rparr>" by (simp add: new_id_def)
  then show ?thesis by (intro books_cong [OF b]) simp_all
qed

lemma books_insert_grant: "insert_grant g st = Inr st' \<Longrightarrow> books X uid a k h st \<Longrightarrow> books X uid a k h st'"
  by (erule books_cong) (auto simp: insert_grant_def split: if_splits)

lemma books_insert_grant_or_ignore:
  "books X uid a k h st \<Longrightarrow> books X uid a k h (insert_grant_or_ignore g st)"
  by (auto simp: insert_grant_or_ignore_def books_insert_grant split: sum.splits)

lemma books_update_grant: "update_grant g f st = Inr st' \<Longrightarrow> books X uid a k h st \<Longrightarrow> books X uid a k h st'"
  by (erule books_cong) (auto simp: update_grant_def split: if_splits option.splits)

lemma books_insert_subscription:
  "insert_subscription s st = Inr st' \<Longrightarrow> books X uid a k h st \<Longrightarrow> books X uid a k h st'"
  by (erule books_cong) (auto simp: insert_subscription_def split: if_splits)

lemma books_update_subscription: "books X uid a k h st \<Longrightarrow> books X uid a k h (update_subscription sid f st)"
  by (erule books_cong) (auto simp: update_subscription_def)

lemma books_insert_period: "insert_period p st = Inr st' \<Longrightarrow> books X uid a k h st \<Longrightarrow> books X uid a k h st'"
  by (erule books_cong) (auto simp: insert_period_def split: if_splits)

lemma books_update_period: "books X uid a k h st \<Longrightarrow> books X uid a k h (update_period pid f st)"
  by (erule books_cong) (auto simp: update_period_def)

lemmas books_quiet = books_new_id books_insert_grant books_insert_grant_or_ignore books_update_grant
  books_insert_subscription books_update_subscription books_insert_period books_update_period

section \<open>Wallets\<close>

lemma evidence_wallets:
  assumes "db_reservations st' = db_reservations st" "db_orders st' = db_orders st" "uuids st' = uuids st"
    "draws st \<le> draws st'" "\<And>u. get_wallet u st \<noteq> None \<Longrightarrow> get_wallet u st' \<noteq> None"
  shows "evidence X st X st'"
  using assms unfolding evidence_def by auto

lemma wallets_ok_modify:
  assumes ok: "wallets_ok st" and w: "get_wallet uid st = Some w"
    and f: "\<And>x. w_user_id (f x) = w_user_id x" "0 \<le> w_cash (f w)" "w_cash (f w) \<le> w_credit (f w)"
  shows "wallets_ok (st\<lparr>db_wallets := row_modify w_user_id uid f (db_wallets st)\<rparr>)"
proof -
  have "0 \<le> w_cash x \<and> w_cash x \<le> w_credit x" if x: "x \<in> set (row_modify w_user_id uid f (db_wallets st))" for x
  proof -
    from x obtain y where y: "y \<in> set (db_wallets st)" "x = (if w_user_id y = uid then f y else y)"
      by (auto simp: row_modify_def set_update_where)
    have "y = w" if "w_user_id y = uid"
      using wallets_tbl.get_in [of "db_wallets st" y] ok w y(1) that by (simp add: wallets_ok_def get_wallet_def)
    with y ok f show ?thesis by (auto simp: wallets_ok_def)
  qed
  with ok f(1) show ?thesis by (simp add: wallets_ok_def wallets_tbl.keys_modify)
qed

lemma get_wallet_modify:
  "(\<And>x. w_user_id (f x) = w_user_id x) \<Longrightarrow>
    get_wallet u (st\<lparr>db_wallets := row_modify w_user_id uid f (db_wallets st)\<rparr>) =
      (if u = uid then map_option f (get_wallet u st) else get_wallet u st)"
  by (simp add: get_wallet_def wallets_tbl.get_modify)

lemma credit_entries_wallets [simp]: "credit_entries u (st\<lparr>db_wallets := ws\<rparr>) = credit_entries u st"
  by (simp add: credit_entries_def)

lemma books_modify_wallet:
  assumes b: "books X uid a k h st" and w: "get_wallet uid st = Some w"
    and f: "\<And>x. w_user_id (f x) = w_user_id x" "0 \<le> w_cash (f w)" "w_cash (f w) \<le> w_credit (f w)"
    and d: "w_credit (f w) = w_credit w + a'" "w_cash (f w) = w_cash w + k'"
  shows "books X uid (a + a') (k + k') h (st\<lparr>db_wallets := row_modify w_user_id uid f (db_wallets st)\<rparr>)"
    (is "books X uid _ _ h ?st'")
proof -
  have ev: "evidence X st X ?st'"
    using get_wallet_modify [where f = f and st = st and uid = uid, OF f(1)]
    unfolding evidence_def by (auto simp: split: if_splits)
  have "keys_ok X ?st'"
    using b by (intro keys_ok_mono [OF _ ev]) (auto simp: books_def keys_ok_def)
  moreover have "wallets_ok ?st'"
    using b by (intro wallets_ok_modify [OF _ w] f) (simp add: books_def)
  moreover have "funds_ok uid (a + a') (k + k') h ?st'"
  proof -
    have "credit_of u ?st' = credit_of u st + (if u = uid then a' else 0)"
      "cash_of u ?st' = cash_of u st + (if u = uid then k' else 0)" for u
      using w d f(1) by (simp_all add: credit_of_def cash_of_def get_wallet_modify)
    moreover have "outstanding u ?st' = outstanding u st" for u by (simp add: outstanding_def)
    ultimately show ?thesis
      using b by (simp add: books_def funds_ok_def ledger_credit_def ledger_cash_def charged_def)
  qed
  moreover have "payers_ok ?st'"
    using b get_wallet_modify [where f = f and st = st and uid = uid, OF f(1)] by (auto simp: books_def payers_ok_def)
  ultimately show ?thesis using b by (simp add: books_def)
qed

text \<open>An update whose guard holds and that keeps the cash-backed bucket within bounds.\<close>

lemma books_update_wallet:
  assumes b: "books X uid a k h st" and u: "update_wallet uid guard f st = Inr st'"
    and w: "get_wallet uid st = Some w" "guard w"
    and f: "\<And>x. w_user_id (f x) = w_user_id x" "0 \<le> w_cash (f w)" "w_cash (f w) \<le> w_credit (f w)"
    and d: "w_credit (f w) = w_credit w + a'" "w_cash (f w) = w_cash w + k'"
  shows "books X uid (a + a') (k + k') h st'"
    and "get_wallet uid st' = Some (f w)"
    and "st' = st\<lparr>db_wallets := db_wallets st'\<rparr>"
proof -
  let ?g = "\<lambda>w. cash_trigger (f w)"
  have g: "?g w = f w" using f by (simp add: cash_trigger_id)
  have st': "st' = st\<lparr>db_wallets := row_modify w_user_id uid ?g (db_wallets st)\<rparr>"
    using u w by (auto simp: update_wallet_def split: if_splits)
  show "books X uid (a + a') (k + k') h st'"
    unfolding st' using f d g by (intro books_modify_wallet [OF b w(1)]) simp_all
  show "get_wallet uid st' = Some (f w)"
    unfolding st' using get_wallet_modify [where f = ?g and u = uid and st = st and uid = uid] f(1) w(1) g by simp
  show "st' = st\<lparr>db_wallets := db_wallets st'\<rparr>" by (simp add: st')
qed

lemma update_wallet_miss:
  "get_wallet uid st = Some w \<Longrightarrow> \<not> guard w \<Longrightarrow> update_wallet uid guard f st = Inr st"
  by (simp add: update_wallet_def)

lemma books_touch_wallet:
  assumes b: "books X uid' a k h st"
    and f: "\<And>x. w_user_id (f x) = w_user_id x" "\<And>x. w_credit (f x) = w_credit x" "\<And>x. w_cash (f x) = w_cash x"
  shows "books X uid' a k h (touch_wallet uid f st)"
proof (cases "get_wallet uid st")
  case None
  then have "row_modify w_user_id uid f (db_wallets st) = db_wallets st"
    using wallets_tbl.get_None [of uid "db_wallets st"]
    by (auto simp: get_wallet_def row_modify_def intro!: update_where_none)
  with b show ?thesis by (simp add: touch_wallet_def)
next
  case (Some w)
  let ?st' = "touch_wallet uid f st"
  have g: "get_wallet u ?st' = (if u = uid then map_option f (get_wallet u st) else get_wallet u st)" for u
    using get_wallet_modify [OF f(1)] by (simp add: touch_wallet_def)
  have ev: "evidence X st X ?st'"
    using g unfolding evidence_def by (auto simp: touch_wallet_def)
  have "keys_ok X ?st'"
    using b by (intro keys_ok_mono [OF _ ev]) (auto simp: books_def keys_ok_def touch_wallet_def)
  moreover have "wallets_ok ?st'"
    using b Some f unfolding touch_wallet_def
    by (intro wallets_ok_modify [of st uid w f]) (auto simp: books_def dest: get_wallet_SomeD)
  moreover have "funds_ok uid' a k h ?st'"
  proof -
    have "credit_of u ?st' = credit_of u st" "cash_of u ?st' = cash_of u st" for u
      using f by (auto simp: credit_of_def cash_of_def g split: option.splits)
    moreover have "credit_entries u ?st' = credit_entries u st" "outstanding u ?st' = outstanding u st" for u
      by (simp_all add: touch_wallet_def outstanding_def)
    ultimately show ?thesis
      using b by (simp add: books_def funds_ok_def ledger_credit_def ledger_cash_def charged_def)
  qed
  moreover have "payers_ok ?st'"
    using b g by (auto simp: books_def payers_ok_def touch_wallet_def)
  ultimately show ?thesis using b by (simp add: books_def touch_wallet_def)
qed

section \<open>Ledger keys\<close>

lemma uuid_no_colon: "uuids_ok u \<Longrightarrow> CHR '':'' \<notin> set (u n)"
  unfolding uuids_ok_def by (auto dest!: spec [of _ n])

lemma key_class_uuid: "uuids_ok u \<Longrightarrow> CHR '':'' \<notin> set p \<Longrightarrow> key_class (x @ CHR '':'' # p @ u n) = rev (p @ u n)"
  by (subst key_class_append) (simp_all add: uuid_no_colon)

lemma not_adjustment:
  assumes "uuids_ok u" "key_class k = rev c" "take 11 c \<noteq> ''adjustment_''"
  shows "k \<noteq> ''adjustment:adjustment_'' @ u n"
proof
  assume k: "k = ''adjustment:adjustment_'' @ u n"
  have "key_class (''adjustment'' @ CHR '':'' # ''adjustment_'' @ u n) = rev (''adjustment_'' @ u n)"
    by (rule key_class_uuid [OF assms(1)]) simp
  then have "rev c = rev (''adjustment_'' @ u n)" using assms(2) k by simp
  then have "c = ''adjustment_'' @ u n" by (simp only: rev_is_rev_conv)
  then show False using assms(3) by simp
qed

lemma not_lazy:
  assumes "key_class k = rev c" "\<not> set c \<subseteq> set ''-0123456789''"
  shows "k \<noteq> ''migration:lazy_v1:'' @ show_int u"
proof
  assume k: "k = ''migration:lazy_v1:'' @ show_int u"
  have "key_class (''migration:lazy_v1'' @ CHR '':'' # show_int u) = rev (show_int u)"
    by (rule key_class_append [OF show_int_no_colon])
  then have "c = show_int u" using assms(1) k by simp
  then show False using assms(2) show_int_chars [of u] by simp
qed

definition money_classes :: "string list" where
  "money_classes = [''credit_hold'', ''release_credit'', ''settle_credit_refund'', ''exact_cash_refund'',
     ''credit'', ''credit_refund'']"

lemma explained_quiet:
  assumes "uuids_ok (uuids st)" "key_class k = rev c" "take 11 c \<noteq> ''adjustment_''"
    "\<not> set c \<subseteq> set ''-0123456789''" "c \<notin> set money_classes"
  shows "key_explained X st k"
  using not_adjustment [OF assms(1-3)] not_lazy [OF assms(2,4)] assms(2,5)
  by (simp add: key_explained_def drawn_ok_def lazy_ok_def money_classes_def rev_swap)

text \<open>The keys the code builds from a literal suffix.\<close>

lemma explained_suffix:
  assumes "uuids_ok (uuids st)" "CHR '':'' \<notin> set c" "take 11 c \<noteq> ''adjustment_''"
    "\<not> set c \<subseteq> set ''-0123456789''" "c \<notin> set money_classes"
  shows "key_explained X st (x @ CHR '':'' # c)"
  using assms by (intro explained_quiet [of st _ c] key_class_append)

section \<open>Ledger entries\<close>

definition entry :: "int \<Rightarrow> asset_type \<Rightarrow> string \<Rightarrow> int \<Rightarrow> int \<Rightarrow> string \<Rightarrow> ledger_opts \<Rightarrow> int \<Rightarrow> bdb \<Rightarrow> ledger_row" where
  "entry uid asset event amount balance_after idem opts current st =
     \<lparr>l_id = ''bill_entry_'' @ uuids st (draws st), l_user_id = uid, l_asset = asset, l_event = event,
      l_amount = amount, l_balance_after = balance_after, l_cash_amount = lo_cash_amount opts,
      l_cash_after = ledger_cash_after uid opts st, l_ref_type = lo_ref_type opts,
      l_ref_id = lo_ref_id opts, l_order_id = lo_order_id opts,
      l_reservation_id = lo_reservation_id opts, l_meta = PDict (lo_meta opts), l_idem = idem,
      l_created_at = current\<rparr>"

lemma insert_ledger_alt:
  "insert_ledger uid asset event amount bal idem opts current st =
    insert_ledger_row (entry uid asset event amount bal idem opts current st) (st\<lparr>draws := Suc (draws st)\<rparr>)"
  by (simp add: insert_ledger_def entry_def new_id_def)

lemma insert_ledger_tables [simp]:
  "db_users (insert_ledger uid asset event amount bal idem opts current st) = db_users st"
  "db_wallets (insert_ledger uid asset event amount bal idem opts current st) = db_wallets st"
  "db_catalogs (insert_ledger uid asset event amount bal idem opts current st) = db_catalogs st"
  "db_orders (insert_ledger uid asset event amount bal idem opts current st) = db_orders st"
  "db_subscriptions (insert_ledger uid asset event amount bal idem opts current st) = db_subscriptions st"
  "db_periods (insert_ledger uid asset event amount bal idem opts current st) = db_periods st"
  "db_grants (insert_ledger uid asset event amount bal idem opts current st) = db_grants st"
  "db_reservations (insert_ledger uid asset event amount bal idem opts current st) = db_reservations st"
  "db_config (insert_ledger uid asset event amount bal idem opts current st) = db_config st"
  "uuids (insert_ledger uid asset event amount bal idem opts current st) = uuids st"
  "environ (insert_ledger uid asset event amount bal idem opts current st) = environ st"
  "draws (insert_ledger uid asset event amount bal idem opts current st) = Suc (draws st)"
  by (simp_all add: insert_ledger_alt insert_ledger_row_def)

lemma get_wallet_insert_ledger [simp]:
  "get_wallet u (insert_ledger uid asset event amount bal idem opts current st) = get_wallet u st"
  by (simp add: get_wallet_def)

lemma insert_ledger_ledger:
  assumes "keys_ok X st"
  shows "db_ledger (insert_ledger uid asset event amount bal idem opts current st) =
    (if idem \<in> l_idem ` set (db_ledger st) then db_ledger st
     else db_ledger st @ [entry uid asset event amount bal idem opts current st])"
proof -
  have "l_id l \<noteq> ''bill_entry_'' @ uuids st (draws st)" if "l \<in> set (db_ledger st)" for l
    using assms that unfolding keys_ok_def by blast
  then show ?thesis by (auto simp: insert_ledger_alt insert_ledger_row_def entry_def)
qed

lemma keys_ok_insert_ledger:
  assumes k: "keys_ok X st" and x: "key_explained X st idem"
  shows "keys_ok X (insert_ledger uid asset event amount bal idem opts current st)" (is "keys_ok X ?st'")
proof -
  have ev: "evidence X st X ?st'" by (rule evidence_same) simp_all
  note mono = key_explained_mono [OF ev]
  have inj: "inj (uuids st)" using k by (simp add: keys_ok_def uuids_ok_def)
  have id: "n < Suc (draws st)" if "l \<in> set (db_ledger st)" "l_id l = ''bill_entry_'' @ uuids st n" for l n
    using k that unfolding keys_ok_def by (meson less_SucI)
  have new: "n < Suc (draws st)" if "l_id (entry uid asset event amount bal idem opts current st)
      = ''bill_entry_'' @ uuids st n" for n
    using that inj by (simp add: entry_def inj_eq)
  have "key_explained X ?st' (l_idem l)" if "l \<in> set (db_ledger st)" for l
    using k that by (intro mono) (simp add: keys_ok_def)
  moreover have "key_explained X ?st' (l_idem (entry uid asset event amount bal idem opts current st))"
    using mono [OF x] by (simp add: entry_def)
  ultimately show ?thesis
    using k id new by (simp add: keys_ok_def insert_ledger_ledger [OF k] Ball_def)
qed

text \<open>An entry of another asset, whose key no credit operation uses.\<close>

lemma books_note:
  assumes b: "books X uid' a k h st" and asset: "asset \<noteq> Credit" and x: "key_explained X st idem"
  shows "books X uid' a k h (insert_ledger uid asset event amount bal idem opts current st)" (is "books X _ _ _ _ ?st'")
proof -
  have k: "keys_ok X st" using b by (simp add: books_def)
  have "credit_entries u ?st' = credit_entries u st" for u
    using asset by (simp add: credit_entries_def insert_ledger_ledger [OF k] entry_def)
  then have "funds_ok uid' a k h ?st' = funds_ok uid' a k h st"
    by (simp add: funds_ok_def credit_of_def cash_of_def ledger_credit_def ledger_cash_def outstanding_def
        charged_def)
  with b keys_ok_insert_ledger [OF k x] show ?thesis by (simp add: books_def wallets_ok_def payers_ok_def)
qed

text \<open>A credit entry that catches up with the wallet.\<close>

lemma books_post:
  assumes b: "books X uid a k h st" and x: "key_explained X st idem"
    and fresh: "idem \<notin> l_idem ` set (db_ledger st)"
    and cash: "lo_cash_amount opts = k" "ledger_cash_after uid opts st = cash_of uid st"
    and bal: "bal = credit_of uid st"
    and h': "h' = h + (if event \<in> set charge_events then a else 0)"
  shows "books X uid 0 0 h' (insert_ledger uid Credit event a bal idem opts current st)" (is "books X _ _ _ _ ?st'")
proof -
  have k: "keys_ok X st" using b by (simp add: books_def)
  let ?l = "entry uid Credit event a bal idem opts current st"
  have ce: "credit_entries u ?st' = credit_entries u st @ (if u = uid then [?l] else [])" for u
    using fresh by (simp add: credit_entries_def insert_ledger_ledger [OF k] entry_def)
  have f: "running 0 0 (credit_entries u st)" "credit_of u st = ledger_credit u st + (if u = uid then a else 0)"
    "cash_of u st = ledger_cash u st + (if u = uid then k else 0)"
    "outstanding u st = charged u st + (if u = uid then h else 0)" for u
    using b by (simp_all add: books_def funds_ok_def)
  have w: "credit_of u ?st' = credit_of u st" "cash_of u ?st' = cash_of u st" "outstanding u ?st' = outstanding u st" for u
    by (simp_all add: credit_of_def cash_of_def outstanding_def)
  have "funds_ok uid 0 0 h' ?st'"
    unfolding funds_ok_def
  proof (intro allI conjI)
    fix u
    show "running 0 0 (credit_entries u ?st')"
      unfolding ce using f [of u] cash bal
      by (auto simp: running_append entry_def ledger_credit_def ledger_cash_def)
    show "credit_of u ?st' = ledger_credit u ?st' + (if u = uid then 0 else 0)"
      using f(2) [of u] by (simp add: w ledger_credit_def ce entry_def)
    show "cash_of u ?st' = ledger_cash u ?st' + (if u = uid then 0 else 0)"
      using f(3) [of u] cash by (simp add: w ledger_cash_def ce entry_def)
    show "outstanding u ?st' = charged u ?st' + (if u = uid then h' else 0)"
      using f(4) [of u] h' by (simp add: w charged_def ce entry_def)
  qed
  with b keys_ok_insert_ledger [OF k x] show ?thesis by (simp add: books_def wallets_ok_def payers_ok_def)
qed

section \<open>A new wallet\<close>

lemma keys_okD: "keys_ok X st \<Longrightarrow> k \<in> l_idem ` set (db_ledger st) \<Longrightarrow> key_explained X st k"
  unfolding keys_ok_def by blast

lemma key_class_lazy: "key_class (''migration:lazy_v1:'' @ show_int u) = rev (show_int u)"
  using key_class_append [OF show_int_no_colon, of "''migration:lazy_v1''" u] by simp

lemma show_int_not_word: "\<not> set c \<subseteq> set ''-0123456789'' \<Longrightarrow> show_int u \<noteq> c"
  using show_int_chars [of u] by auto

lemma explainedI:
  assumes "\<forall>c \<in> set money_classes. key_class k \<noteq> rev c"
    "\<And>n. k \<noteq> ''adjustment:adjustment_'' @ uuids st n"
    "\<And>u. k = ''migration:lazy_v1:'' @ show_int u \<Longrightarrow> get_wallet u st \<noteq> None"
  shows "key_explained X st k"
  using assms(1) assms(2,3) by (auto simp: key_explained_def drawn_ok_def lazy_ok_def money_classes_def)

lemma explained_lazy:
  assumes "get_wallet uid st \<noteq> None"
  shows "key_explained X st (''migration:lazy_v1:'' @ show_int uid)"
proof (rule explainedI, rule ballI)
  fix c assume "c \<in> set money_classes"
  then have "show_int uid \<noteq> c"
    by (intro show_int_not_word) (auto simp: money_classes_def)
  then show "key_class (''migration:lazy_v1:'' @ show_int uid) \<noteq> rev c"
    unfolding key_class_lazy by simp
next
  fix n show "''migration:lazy_v1:'' @ show_int uid \<noteq> ''adjustment:adjustment_'' @ uuids st n" by simp
next
  fix u assume "''migration:lazy_v1:'' @ show_int uid = ''migration:lazy_v1:'' @ show_int u"
  then have "u = uid" using show_int_inj by simp
  with assms show "get_wallet u st \<noteq> None" by simp
qed

lemma fresh_lazy: "keys_ok X st \<Longrightarrow> get_wallet uid st = None \<Longrightarrow>
    ''migration:lazy_v1:'' @ show_int uid \<notin> l_idem ` set (db_ledger st)"
  using keys_okD [of X st "''migration:lazy_v1:'' @ show_int uid"] unfolding key_explained_def lazy_ok_def by blast

lemma books_insert_wallet:
  assumes b: "books X uid 0 0 0 st" and n: "get_wallet uid st = None"
    and i: "insert_wallet (fresh_wallet uid c m g t) st = Inr st'"
  shows "books X uid c 0 0 st'" "get_wallet uid st' = Some (fresh_wallet uid c m g t)"
    "st' = st\<lparr>db_wallets := db_wallets st'\<rparr>"
proof -
  let ?w = "fresh_wallet uid c m g t"
  have c: "0 \<le> c" using i by (auto simp: insert_wallet_def wallet_check_def fresh_wallet_def split: if_splits)
  have st': "st' = st\<lparr>db_wallets := db_wallets st @ [?w]\<rparr>"
    using i n c by (simp add: insert_wallet_def cash_trigger_def wallet_check_def fresh_wallet_def)
  then show "st' = st\<lparr>db_wallets := db_wallets st'\<rparr>" by simp
  have k: "w_user_id ?w = uid" by (simp add: fresh_wallet_def)
  have g: "get_wallet u st' = (if u = uid then Some ?w else get_wallet u st)" for u
    using n k by (simp add: st' get_wallet_def wallets_tbl.get_append split: option.splits)
  then show "get_wallet uid st' = Some ?w" by simp
  have ev: "evidence X st X st'" using g by (intro evidence_wallets) (simp_all add: st')
  have "keys_ok X st'"
    using b by (intro keys_ok_mono [OF _ ev]) (auto simp: books_def keys_ok_def st')
  moreover have "wallets_ok st'"
    using b c n wallets_tbl.get_None [of uid "db_wallets st"]
    by (auto simp: books_def wallets_ok_def st' get_wallet_def fresh_wallet_def)
  moreover have "funds_ok uid c 0 0 st'"
  proof -
    have "credit_of u st' = credit_of u st + (if u = uid then c else 0)" "cash_of u st' = cash_of u st" for u
      using n by (auto simp: credit_of_def cash_of_def g fresh_wallet_def)
    moreover have "credit_entries u st' = credit_entries u st" "outstanding u st' = outstanding u st" for u
      by (simp_all add: st' outstanding_def)
    ultimately show ?thesis
      using b by (simp add: books_def funds_ok_def ledger_credit_def ledger_cash_def charged_def)
  qed
  moreover have "payers_ok st'"
    using b g by (auto simp: books_def payers_ok_def st')
  ultimately show "books X uid c 0 0 st'" using b by (simp add: books_def st')
qed

text \<open>\<open>ensure_wallet\<close> leaves every table but the wallets and the ledger alone.\<close>

definition same_tables :: "bdb \<Rightarrow> bdb \<Rightarrow> bool" where
  "same_tables st st' = (db_reservations st' = db_reservations st \<and> db_orders st' = db_orders st
     \<and> db_subscriptions st' = db_subscriptions st \<and> db_periods st' = db_periods st
     \<and> db_grants st' = db_grants st \<and> db_catalogs st' = db_catalogs st \<and> db_users st' = db_users st
     \<and> db_config st' = db_config st \<and> uuids st' = uuids st \<and> environ st' = environ st)"

lemma create_wallet_books:
  assumes b: "books X uid 0 0 0 st" and n: "get_wallet uid st = None"
    and c: "create_wallet uid current st = Inr st'"
  shows "books X uid 0 0 0 st'" "same_tables st st'" "get_wallet uid st' \<noteq> None"
proof -
  from c obtain user st1 where u: "get_user uid st = Some user"
    and i: "insert_wallet (fresh_wallet uid (u_balance_cents user * POINT_SCALE) Legacy
        (u_balance_cents user) current) st = Inr st1"
    and st': "st' = insert_ledger uid Credit ''opening_balance'' (u_balance_cents user * POINT_SCALE)
        (u_balance_cents user * POINT_SCALE) (''migration:lazy_v1:'' @ show_int uid)
        (no_opts\<lparr>lo_ref_type := ''migration'', lo_ref_id := ''lazy_v1'',
           lo_meta := [(''legacy_balance'', PInt (u_balance_cents user))]\<rparr>) current st1"
    by (auto simp: create_wallet_def bindr_eq_Inr Let_def split: option.splits if_splits)
  note w = books_insert_wallet [OF b n i]
  have l: "db_ledger st1 = db_ledger st" by (subst w(3)) simp
  have k: "keys_ok X st" using b by (simp add: books_def)
  show "books X uid 0 0 0 st'"
    unfolding st'
  proof (rule books_post [OF w(1)])
    show "key_explained X st1 (''migration:lazy_v1:'' @ show_int uid)"
      using w(2) by (intro explained_lazy) simp
    show "''migration:lazy_v1:'' @ show_int uid \<notin> l_idem ` set (db_ledger st1)"
      using fresh_lazy [OF k n] by (simp add: l)
  qed (use w(2) in \<open>simp_all add: no_opts_def ledger_cash_after_def cash_of_def credit_of_def fresh_wallet_def
        charge_events_def\<close>)
  show "same_tables st st'" proof -
    from w(3) obtain ws where "st1 = st\<lparr>db_wallets := ws\<rparr>" by blast
    then show ?thesis by (simp add: st' same_tables_def)
  qed
  show "get_wallet uid st' \<noteq> None" using w(2) by (simp add: st')
qed

lemma ensure_wallet_books:
  assumes b: "books X uid 0 0 0 st" and e: "ensure_wallet uid current st = Inr (w, st')"
  shows "books X uid 0 0 0 st'" "same_tables st st'" "get_wallet uid st' = Some w"
    "get_wallet uid st \<noteq> None \<Longrightarrow> st' = st"
proof -
  from e obtain st1 st2 where st1: "(case get_wallet uid st of Some _ \<Rightarrow> Inr st | None \<Rightarrow> create_wallet uid current st) = Inr st1"
    and st2: "update_wallet uid (\<lambda>w. w_credit w < w_cash w)
              (\<lambda>w. w\<lparr>w_cash := w_credit w, w_updated_at := current\<rparr>) st1 = Inr st2"
    and w: "get_wallet uid st2 = Some w" and st': "st' = st2"
    by (auto simp: ensure_wallet_def bindr_eq_Inr split: option.splits)
  have 1: "books X uid 0 0 0 st1 \<and> same_tables st st1 \<and> get_wallet uid st1 \<noteq> None
      \<and> (get_wallet uid st \<noteq> None \<longrightarrow> st1 = st)"
  proof (cases "get_wallet uid st")
    case None
    with create_wallet_books [OF b None] st1 show ?thesis by simp
  next
    case (Some x)
    with st1 b show ?thesis by (simp add: same_tables_def)
  qed
  then obtain x where x: "get_wallet uid st1 = Some x" by auto
  have "\<not> w_credit x < w_cash x"
    using 1 get_wallet_SomeD [OF _ x] by (auto simp: books_def)
  then have "st2 = st1" using st2 update_wallet_miss [OF x] by simp
  with 1 w st' show "books X uid 0 0 0 st'" "same_tables st st'" "get_wallet uid st' = Some w"
    "get_wallet uid st \<noteq> None \<Longrightarrow> st' = st" by simp_all
qed

section \<open>Reservations and orders\<close>

lemma evidence_reservations:
  assumes "db_wallets st' = db_wallets st" "db_orders st' = db_orders st" "uuids st' = uuids st"
    "draws st \<le> draws st'"
    and "\<And>i. BusyApproval i \<in> X \<Longrightarrow> BusyApproval i \<in> X'" "\<And>i. BusyRefund i \<in> X \<Longrightarrow> BusyRefund i \<in> X'"
    and "\<And>r. r \<in> set (db_reservations st) \<Longrightarrow> \<exists>r' \<in> set (db_reservations st'). r_id r' = r_id r
      \<and> r_idem r' = r_idem r
      \<and> (r_status r \<noteq> Held \<or> BusyReservation (r_id r) \<in> X \<longrightarrow> r_status r' \<noteq> Held \<or> BusyReservation (r_id r) \<in> X')
      \<and> (r_status r \<noteq> Held \<and> r_settled_cash r \<le> r_refunded_cash r \<longrightarrow>
          r_status r' \<noteq> Held \<and> r_settled_cash r' \<le> r_refunded_cash r')"
  shows "evidence X st X' st'"
  using assms unfolding evidence_def by (auto simp: get_wallet_def)

lemma evidence_orders:
  assumes "db_wallets st' = db_wallets st" "db_reservations st' = db_reservations st" "uuids st' = uuids st"
    "draws st \<le> draws st'"
    and "\<And>r. BusyReservation r \<in> X \<Longrightarrow> BusyReservation r \<in> X'"
    and "\<And>r. r \<in> set (db_orders st) \<Longrightarrow> \<exists>r' \<in> set (db_orders st'). o_id r' = o_id r
      \<and> (o_status r \<noteq> Pending \<or> BusyApproval (o_id r) \<in> X \<longrightarrow> o_status r' \<noteq> Pending \<or> BusyApproval (o_id r) \<in> X')
      \<and> (o_status r = Refunded \<or> BusyRefund (o_id r) \<in> X \<longrightarrow> o_status r' = Refunded \<or> BusyRefund (o_id r) \<in> X')"
  shows "evidence X st X' st'"
  using assms unfolding evidence_def by (auto simp: get_wallet_def)

lemma funds_reservations:
  assumes f: "funds_ok uid a k h st" and e: "db_wallets st' = db_wallets st" "db_ledger st' = db_ledger st"
    and o: "\<And>u. outstanding u st' = outstanding u st + (if u = uid then d else 0)"
  shows "funds_ok uid a k (h + d) st'"
  using f
  by (simp add: funds_ok_def credit_entries_def credit_of_def cash_of_def get_wallet_def ledger_credit_def
      ledger_cash_def charged_def e o)

lemma books_insert_reservation:
  assumes b: "books X uid a k h st" and i: "insert_reservation r st = Inr st'"
    and r: "held_ok r" "r_user_id r = uid" "get_wallet uid st \<noteq> None"
  shows "books X uid a k (h + weight r) st'" "st' = st\<lparr>db_reservations := db_reservations st @ [r]\<rparr>"
proof -
  show st': "st' = st\<lparr>db_reservations := db_reservations st @ [r]\<rparr>"
    using i by (auto simp: insert_reservation_def split: if_splits)
  have fresh: "\<forall>x \<in> set (db_reservations st). r_id x \<noteq> r_id r"
    using i by (auto simp: insert_reservation_def split: if_splits)
  have ev: "evidence X st X st'" by (rule evidence_reservations) (auto simp: st')
  have "keys_ok X st'"
    using b fresh by (intro keys_ok_mono [OF _ ev]) (auto simp: books_def keys_ok_def st')
  moreover have "funds_ok uid a k (h + weight r) st'"
    using b r by (intro funds_reservations [of uid a k h st]) (auto simp: books_def st' outstanding_def)
  ultimately show "books X uid a k (h + weight r) st'"
    using b r by (auto simp: books_def wallets_ok_def payers_ok_def get_wallet_def st')
qed

lemma sum_list_filter_if:
  fixes v :: "'r \<Rightarrow> int"
  shows "sum_list (map v (filter P t)) = sum_list (map (\<lambda>x. if P x then v x else 0) t)"
  by (induction t) auto

lemma books_update_reservation:
  assumes b: "books X uid a k h st" and r: "get_reservation rid st = Some r" "guard r" "r_user_id r = uid"
    and f: "\<And>x. r_id (f x) = r_id x" "\<And>x. r_idem (f x) = r_idem x" "\<And>x. r_user_id (f x) = r_user_id x"
    and g: "r_status (f r) \<noteq> Held"
      "r_status r \<noteq> Held \<Longrightarrow> r_settled_cash r \<le> r_refunded_cash r \<Longrightarrow> r_settled_cash (f r) \<le> r_refunded_cash (f r)"
  shows "books (X - {BusyReservation rid}) uid a k (h + weight (f r) - weight r)
    (update_reservation rid guard f st)" (is "books ?X _ _ _ _ ?st'")
    and "get_reservation rid (update_reservation rid guard f st) = Some (f r)"
proof -
  let ?f = "\<lambda>x. if guard x then f x else x"
  let ?t = "db_reservations st"
  have f': "r_id (?f x) = r_id x" "r_idem (?f x) = r_idem x" "r_user_id (?f x) = r_user_id x" for x
    using f by simp_all
  have get: "row_get r_id rid ?t = Some r" using r(1) by (simp add: get_reservation_def)
  show "get_reservation rid ?st' = Some (f r)"
    using r(2) get by (simp add: get_reservation_def update_reservation_def reservations_tbl.get_modify f'(1))
  have d: "distinct (map r_id ?t)" using b by (simp add: books_def keys_ok_def)
  have only: "x = r" if "x \<in> set ?t" "r_id x = rid" for x
    using reservations_tbl.get_in [OF d that(1)] that(2) get by simp
  have in': "(if r_id x = rid then ?f x else x) \<in> set (db_reservations ?st')" if "x \<in> set ?t" for x
    using that by (auto simp: update_reservation_def row_modify_def set_update_where)
  have ev: "evidence X st ?X ?st'"
  proof (rule evidence_reservations)
    fix x assume x: "x \<in> set (db_reservations st)"
    show "\<exists>r' \<in> set (db_reservations ?st'). r_id r' = r_id x \<and> r_idem r' = r_idem x
      \<and> (r_status x \<noteq> Held \<or> BusyReservation (r_id x) \<in> X \<longrightarrow> r_status r' \<noteq> Held \<or> BusyReservation (r_id x) \<in> ?X)
      \<and> (r_status x \<noteq> Held \<and> r_settled_cash x \<le> r_refunded_cash x \<longrightarrow>
          r_status r' \<noteq> Held \<and> r_settled_cash r' \<le> r_refunded_cash r')"
      using in' [OF x] only [OF x] f' g r(2) by (intro bexI [OF _ in' [OF x]]) auto
  qed (auto simp: update_reservation_def)
  have ids: "map r_id (db_reservations ?st') = map r_id ?t"
    using reservations_tbl.keys_modify [OF f'(1)] by (simp add: update_reservation_def)
  have "keys_ok ?X ?st'"
    using b ids by (intro keys_ok_mono [OF _ ev]) (auto simp: books_def keys_ok_def update_reservation_def)
  moreover have "funds_ok uid a k (h + (weight (f r) - weight r)) ?st'"
  proof (rule funds_reservations [of uid a k h st])
    fix u
    show "outstanding u ?st' = outstanding u st + (if u = uid then weight (f r) - weight r else 0)"
      using sum_list_update_key [OF d get, of "\<lambda>x. if r_user_id x = u then weight x else 0" ?f] r f(3)
      by (simp add: outstanding_def update_reservation_def sum_list_filter_if)
  qed (use b in \<open>simp_all add: books_def update_reservation_def\<close>)
  moreover have "held_ok x" if x: "x \<in> set (db_reservations ?st')" for x
  proof -
    from x obtain y where y: "y \<in> set ?t" "x = (if r_id y = rid then ?f y else y)"
      by (auto simp: update_reservation_def row_modify_def set_update_where)
    show ?thesis
    proof (cases "r_id y = rid")
      case True
      with y only r(2) have "x = f r" by auto
      with g(1) show ?thesis by (simp add: held_ok_def)
    next
      case False
      with y b show ?thesis by (simp add: books_def)
    qed
  qed
  moreover have "payers_ok ?st'"
    using b f(3) by (auto simp: books_def payers_ok_def get_wallet_def update_reservation_def row_modify_def
        set_update_where)
  ultimately show "books ?X uid a k (h + weight (f r) - weight r) ?st'"
    using b by (simp add: books_def wallets_ok_def update_reservation_def add_diff_eq)
qed

lemma books_insert_order:
  assumes b: "books X uid a k h st" and i: "insert_order r st = Inr st'"
  shows "books X uid a k h st'"
proof -
  have st': "st' = st\<lparr>db_orders := db_orders st @ [r]\<rparr>"
    and fresh: "\<forall>x \<in> set (db_orders st). o_id x \<noteq> o_id r"
    using i by (auto simp: insert_order_def split: if_splits)
  have ev: "evidence X st X st'" by (rule evidence_orders) (auto simp: st')
  have "keys_ok X st'"
    using b fresh by (intro keys_ok_mono [OF _ ev]) (auto simp: books_def keys_ok_def st')
  with b show ?thesis using funds_cong [of st' st uid a k h] by (simp add: books_def wallets_ok_def payers_ok_def get_wallet_def st')
qed

text \<open>An update of an order that leaves \<open>Pending\<close>, and keeps or reaches \<open>Refunded\<close>.\<close>

lemma books_update_order:
  assumes b: "books X uid a k h st" and r: "get_order oid st = Some r" "guard r"
    and f: "\<And>x. o_id (f x) = o_id x"
    and g: "o_status (f r) \<noteq> Pending"
      "o_status r = Refunded \<or> BusyRefund oid \<in> X \<Longrightarrow> o_status (f r) = Refunded"
  shows "books (X - {BusyApproval oid, BusyRefund oid}) uid a k h (update_order oid guard f st)"
      (is "books ?X uid a k h ?st'")
    and "get_order oid (update_order oid guard f st) = Some (f r)"
proof -
  let ?f = "\<lambda>x. if guard x then f x else x"
  let ?t = "db_orders st"
  have f': "o_id (?f x) = o_id x" for x using f by simp
  have get: "row_get o_id oid ?t = Some r" using r(1) by (simp add: get_order_def)
  show "get_order oid ?st' = Some (f r)"
    using r(2) get by (simp add: get_order_def update_order_def orders_tbl.get_modify f')
  have d: "distinct (map o_id ?t)" using b by (simp add: books_def keys_ok_def)
  have only: "x = r" if "x \<in> set ?t" "o_id x = oid" for x
    using orders_tbl.get_in [OF d that(1)] that(2) get by simp
  have in': "(if o_id x = oid then ?f x else x) \<in> set (db_orders ?st')" if "x \<in> set ?t" for x
    using that by (auto simp: update_order_def row_modify_def set_update_where)
  have ev: "evidence X st ?X ?st'"
  proof (rule evidence_orders)
    fix x assume x: "x \<in> set (db_orders st)"
    show "\<exists>r' \<in> set (db_orders ?st'). o_id r' = o_id x
      \<and> (o_status x \<noteq> Pending \<or> BusyApproval (o_id x) \<in> X \<longrightarrow> o_status r' \<noteq> Pending \<or> BusyApproval (o_id x) \<in> ?X)
      \<and> (o_status x = Refunded \<or> BusyRefund (o_id x) \<in> X \<longrightarrow> o_status r' = Refunded \<or> BusyRefund (o_id x) \<in> ?X)"
      using in' [OF x] only [OF x] f' g r(2) by (intro bexI [OF _ in' [OF x]]) auto
  qed (auto simp: update_order_def)
  have ids: "map o_id (db_orders ?st') = map o_id ?t"
    using orders_tbl.keys_modify [OF f'] by (simp add: update_order_def)
  have "keys_ok ?X ?st'"
    using b ids by (intro keys_ok_mono [OF _ ev]) (auto simp: books_def keys_ok_def update_order_def)
  with b show "books ?X uid a k h ?st'"
    using funds_cong [of ?st' st uid a k h] by (simp add: books_def wallets_ok_def payers_ok_def get_wallet_def update_order_def)
qed

lemma ensure_wallet_existing:
  "get_wallet uid st = Some w \<Longrightarrow> w_cash w \<le> w_credit w \<Longrightarrow> ensure_wallet uid current st = Inr (w, st)"
  by (simp add: ensure_wallet_def update_wallet_miss)

end
