(* ===== verification/BillingQueries.thy ===== *)
theory BillingQueries
  imports BillingRefunds
begin

text \<open>
  What the billing component shows (webapp/commercial_billing.py): the number of accounts
  a user's active plans allow (\<open>threads_account_limit\<close>), the summary of a wallet
  (\<open>billing_summary\<close>), the ledger (\<open>list_ledger\<close>) and the report on the legacy balances
  (\<open>migration_report\<close>).
\<close>

section \<open>Accounts per plan\<close>

text \<open>\<open>{sku: int(threads_accounts or 0) for item in subscriptions ...}\<close>; the comprehension
  iterates before it tests that there is a list.\<close>

definition plan_accounts :: "pydict \<Rightarrow> (string \<times> int) list res" where
  "plan_accounts catalog =
     bindr (py_iter (dget catalog ''subscriptions'')) (\<lambda>items.
     if \<not> is_list (dget catalog ''subscriptions'') then Inr []
     else map_all (\<lambda>item. bindr (int_field (vget item ''threads_accounts'')) (\<lambda>n. Inr (item_sku item, n)))
            (filter (\<lambda>item. is_dict item \<and> item_sku item \<noteq> []) items))"

definition accounts_of :: "(string \<times> int) list \<Rightarrow> string \<Rightarrow> int" where
  "accounts_of plans sku =
     (let listed = (case map_of (rev plans) sku of None \<Rightarrow> 0 | Some n \<Rightarrow> n);
          family = subscription_plan_family sku in
      if 0 < listed then listed
      else if family = ''vanguard_basic'' then 3
      else if family \<in> {''vanguard_beta'', ''vanguard_experience''} then 1 else 0)"

definition current_subscriptions :: "int \<Rightarrow> int \<Rightarrow> bdb \<Rightarrow> subscription_row list" where
  "current_subscriptions uid now st = filter (\<lambda>s. s_user_id s = uid
     \<and> (\<exists>p \<in> set (db_periods st). p_subscription_id p = s_id s \<and> period_covers now p)) (db_subscriptions st)"

definition threads_account_limit :: "int \<Rightarrow> int \<Rightarrow> bdb \<Rightarrow> (int option \<times> bdb) res" where
  "threads_account_limit uid current st =
     bindr (ensure_wallet uid current st) (\<lambda>(wallet, st1).
     let rows = current_subscriptions uid current st1 in
     if rows = [] then Inr (None, st1)
     else bindr (get_active_catalog st1) (\<lambda>catalog.
       bindr (plan_accounts catalog) (\<lambda>plans.
       let counts = filter (\<lambda>n. 0 < n) (map (\<lambda>s. accounts_of plans (s_plan_sku s)) rows) in
       Inr (if counts = [] then None else Some (sum_list counts), st1))))"

section \<open>The summary of a user\<close>

definition shown_period_status :: "int \<Rightarrow> period_row \<Rightarrow> period_status" where
  "shown_period_status now p = (if p_status p = PeriodCancelled then PeriodCancelled
     else if p_end_at p \<le> now then PeriodExpired
     else if now < p_start_at p then Scheduled else PeriodActive)"

record summary =
  sm_user_id :: int
  sm_enforcement :: bool
  sm_mode :: billing_mode
  sm_unlimited :: bool
  sm_credit_units :: int
  sm_points :: rat
  sm_cash_units :: int
  sm_cash_points :: rat
  sm_subscription_active :: bool
  sm_active_count :: int
  sm_account_limit :: "int option"
  sm_monthly_images :: int
  sm_permanent_images :: int
  sm_total_images :: int
  sm_subscriptions :: "(string \<times> string \<times> subscription_status \<times> int \<times> int) list"
  sm_periods :: "(string \<times> string \<times> int \<times> int \<times> period_status) list"
  sm_grants :: "(string \<times> grant_source \<times> int \<times> int \<times> int \<times> int) list"

definition monthly_remaining :: "int \<Rightarrow> grant_row list \<Rightarrow> int" where
  "monthly_remaining now gs = sum_list (map g_remaining (filter (\<lambda>g. g_source_type g = SubscriptionMonthly
     \<and> g_available_at g \<le> now \<and> now < g_expires_at g) gs))"

definition permanent_remaining :: "int \<Rightarrow> grant_row list \<Rightarrow> int" where
  "permanent_remaining now gs = sum_list (map g_remaining (filter (\<lambda>g. g_expires_at g = 0
     \<and> g_available_at g \<le> now) gs))"

definition billing_summary :: "int \<Rightarrow> int \<Rightarrow> bdb \<Rightarrow> (summary \<times> bdb) res" where
  "billing_summary uid current st =
     bindr (ensure_wallet uid current st) (\<lambda>(wallet, st1).
     let subscriptions = sort_key (\<lambda>s. - s_created_at s) (filter (\<lambda>s. s_user_id s = uid) (db_subscriptions st1));
         periods = sort_key (\<lambda>p. - p_start_at p) (filter (\<lambda>p. p_user_id p = uid) (db_periods st1));
         grants = grant_order (filter (\<lambda>g. g_user_id g = uid) (db_grants st1));
         active = active_subscription_count uid current st1;
         monthly = monthly_remaining current grants; permanent = permanent_remaining current grants in
     bindr (threads_account_limit uid current st1) (\<lambda>(limit, st2).
     Inr (\<lparr>sm_user_id = uid, sm_enforcement = enforcement_enabled st1, sm_mode = w_mode wallet,
           sm_unlimited = w_unlimited wallet, sm_credit_units = w_credit wallet,
           sm_points = points_from_units (w_credit wallet), sm_cash_units = w_cash wallet,
           sm_cash_points = points_from_units (w_cash wallet), sm_subscription_active = (0 < active),
           sm_active_count = active, sm_account_limit = limit, sm_monthly_images = monthly,
           sm_permanent_images = permanent, sm_total_images = monthly + permanent,
           sm_subscriptions = map (\<lambda>s. (s_id s, s_plan_sku s, sv_status (subscription_public s current),
             s_period_end s, s_created_at s)) subscriptions,
           sm_periods = map (\<lambda>p. (p_id p, p_subscription_id p, p_start_at p, p_end_at p,
             shown_period_status current p)) periods,
           sm_grants = map (\<lambda>g. (g_id g, g_source_type g, g_total g, g_remaining g, g_available_at g,
             g_expires_at g)) grants\<rparr>, st2)))"

section \<open>The ledger\<close>

record ledger_view =
  lv_id :: string
  lv_asset :: asset_type
  lv_event :: string
  lv_amount_units :: int
  lv_amount_points :: rat
  lv_balance_after_units :: int
  lv_balance_after_points :: rat
  lv_cash_units :: int
  lv_cash_points :: rat
  lv_cash_after_units :: int
  lv_cash_after_points :: rat
  lv_ref_type :: string
  lv_ref_id :: string
  lv_order_id :: string
  lv_reservation_id :: string
  lv_meta :: pyval
  lv_created_at :: int

text \<open>The absolute amount in points with the sign of the units.\<close>

definition signed_points :: "int \<Rightarrow> rat" where
  "signed_points u = points_from_units \<bar>u\<bar> * (if u < 0 then - 1 else 1)"

definition ledger_public :: "ledger_row \<Rightarrow> ledger_view" where
  "ledger_public l =
     \<lparr>lv_id = l_id l, lv_asset = l_asset l, lv_event = l_event l, lv_amount_units = l_amount l,
      lv_amount_points = signed_points (l_amount l), lv_balance_after_units = l_balance_after l,
      lv_balance_after_points = points_from_units (l_balance_after l), lv_cash_units = l_cash_amount l,
      lv_cash_points = signed_points (l_cash_amount l), lv_cash_after_units = l_cash_after l,
      lv_cash_after_points = points_from_units (l_cash_after l), lv_ref_type = l_ref_type l,
      lv_ref_id = l_ref_id l, lv_order_id = l_order_id l, lv_reservation_id = l_reservation_id l,
      lv_meta = l_meta l, lv_created_at = l_created_at l\<rparr>"

definition list_ledger :: "int \<Rightarrow> int \<Rightarrow> int \<Rightarrow> bdb \<Rightarrow> ledger_view list" where
  "list_ledger uid limit before st =
     (let rows = filter (\<lambda>l. l_user_id l = uid \<and> (0 < before \<longrightarrow> l_created_at l < before)) (db_ledger st) in
      map ledger_public (take (nat (min (max limit 1) 1000))
        (rev (sort_key l_created_at (sort_key l_id rows)))))"

section \<open>The report on the migration of legacy balances\<close>

datatype migration_status = MigrationOk | MigrationMissing | ReviewRequired | MigrationMismatch

definition migration_status_of :: "bdb \<Rightarrow> user_row \<Rightarrow> migration_status" where
  "migration_status_of st u =
     (if u_balance_cents u < 0 then ReviewRequired
      else case get_wallet (u_id u) st of
        None \<Rightarrow> MigrationMissing
      | Some w \<Rightarrow> if w_migrated w \<noteq> u_balance_cents u then MigrationMismatch else MigrationOk)"

record migration_item =
  mi_user_id :: int
  mi_username :: string
  mi_legacy :: int
  mi_expected :: "int option"
  mi_wallet_exists :: bool
  mi_mode :: "billing_mode option"
  mi_migrated :: int
  mi_status :: migration_status

definition migration_item_of :: "bdb \<Rightarrow> user_row \<Rightarrow> migration_item" where
  "migration_item_of st u =
     \<lparr>mi_user_id = u_id u, mi_username = u_username u, mi_legacy = u_balance_cents u,
      mi_expected = (if 0 \<le> u_balance_cents u then Some (u_balance_cents u * POINT_SCALE) else None),
      mi_wallet_exists = (get_wallet (u_id u) st \<noteq> None),
      mi_mode = map_option w_mode (get_wallet (u_id u) st),
      mi_migrated = (case get_wallet (u_id u) st of None \<Rightarrow> 0 | Some w \<Rightarrow> w_migrated w),
      mi_status = migration_status_of st u\<rparr>"

text \<open>The counts per status and the items in the order of the user identifiers.\<close>

definition migration_report :: "bdb \<Rightarrow> (migration_status \<Rightarrow> nat) \<times> migration_item list" where
  "migration_report st =
     (let items = map (migration_item_of st) (sort_key u_id (db_users st)) in
      (\<lambda>s. length (filter (\<lambda>i. mi_status i = s) items), items))"

end
