(* ===== verification/BillingSafety.thy ===== *)
theory BillingSafety
  imports BillingPostings BillingQueries
begin

text \<open>
  Every operation keeps the books: reservations and their endings, exact purchases,
  administrator adjustments, new users.  The orders are in \<open>BillingOrderSafety\<close>.
\<close>

section \<open>Keys of the money entries\<close>

lemma explained_money:
  assumes "uuids_ok (uuids st)" "CHR '':'' \<notin> set c" "c \<in> set money_classes"
    and "c = ''credit_hold'' \<Longrightarrow> \<exists>r \<in> set (db_reservations st). x = r_idem r"
    and "c = ''release_credit'' \<or> c = ''settle_credit_refund'' \<Longrightarrow>
      \<exists>r \<in> set (db_reservations st). x = r_id r \<and> (r_status r \<noteq> Held \<or> BusyReservation (r_id r) \<in> X)"
    and "c = ''exact_cash_refund'' \<Longrightarrow> \<exists>r \<in> set (db_reservations st). x = r_id r \<and> r_status r \<noteq> Held
      \<and> r_settled_cash r \<le> r_refunded_cash r"
    and "c = ''credit'' \<Longrightarrow> \<exists>r \<in> set (db_orders st). x = ''order:'' @ o_id r
      \<and> (o_status r \<noteq> Pending \<or> BusyApproval (o_id r) \<in> X)"
    and "c = ''credit_refund'' \<Longrightarrow> \<exists>r \<in> set (db_orders st). x = ''order:'' @ o_id r
      \<and> (o_status r = Refunded \<or> BusyRefund (o_id r) \<in> X)"
  shows "key_explained X st (x @ CHR '':'' # c)"
proof -
  let ?k = "x @ CHR '':'' # c"
  have k: "key_class ?k = rev c" using assms(2) by (rule key_class_append)
  have w: "take 11 c \<noteq> ''adjustment_''" "\<not> set c \<subseteq> set ''-0123456789''"
    using assms(3) by (simp_all add: money_classes_def) (elim disjE, simp_all)+
  have n: "drawn_ok st ?k" "lazy_ok st ?k"
    using not_adjustment [OF assms(1) k w(1)] not_lazy [OF k w(2)] by (simp_all only: drawn_ok_def lazy_ok_def) simp_all
  from assms(3) have "c = ''credit_hold'' \<or> c = ''release_credit'' \<or> c = ''settle_credit_refund''
    \<or> c = ''exact_cash_refund'' \<or> c = ''credit'' \<or> c = ''credit_refund''"
    by (simp add: money_classes_def)
  then show ?thesis
  proof (elim disjE)
    assume "c = ''credit_hold''"
    with assms(4) n k show ?thesis by (simp add: key_explained_def)
  next
    assume "c = ''release_credit''"
    with assms(5) n k show ?thesis by (simp add: key_explained_def)
  next
    assume "c = ''settle_credit_refund''"
    with assms(5) n k show ?thesis by (simp add: key_explained_def)
  next
    assume "c = ''exact_cash_refund''"
    with assms(6) n k show ?thesis by (simp add: key_explained_def)
  next
    assume "c = ''credit''"
    with assms(7) n k show ?thesis by (simp add: key_explained_def order_key_def)
  next
    assume "c = ''credit_refund''"
    with assms(8) n k show ?thesis by (simp add: key_explained_def order_key_def)
  qed
qed

lemma fresh_hold:
  assumes "keys_ok X st" "\<forall>r \<in> set (db_reservations st). r_idem r \<noteq> idem"
  shows "idem @ '':credit_hold'' \<notin> l_idem ` set (db_ledger st)"
proof
  assume "idem @ '':credit_hold'' \<in> l_idem ` set (db_ledger st)"
  from keys_okD [OF assms(1) this] show False
    using assms(2) key_class_append [of "''credit_hold''" idem] by (auto simp: key_explained_def)
qed

lemma fresh_ending:
  assumes "keys_ok X st" "get_reservation rid st = Some r" "r_status r = Held" "BusyReservation rid \<notin> X"
    and "c = ''release_credit'' \<or> c = ''settle_credit_refund''"
  shows "rid @ CHR '':'' # c \<notin> l_idem ` set (db_ledger st)"
proof
  assume k: "rid @ CHR '':'' # c \<in> l_idem ` set (db_ledger st)"
  have "\<exists>x \<in> set (db_reservations st). r_id x = rid \<and> (r_status x \<noteq> Held \<or> BusyReservation rid \<in> X)"
    using assms(5)
  proof
    assume c: "c = ''release_credit''"
    then have "key_class (rid @ CHR '':'' # c) = rev c" by (intro key_class_append) simp
    with keys_okD [OF assms(1) k] c obtain x where "x \<in> set (db_reservations st)"
      "rid @ CHR '':'' # c = r_id x @ '':release_credit''" "r_status x \<noteq> Held \<or> BusyReservation (r_id x) \<in> X"
      unfolding key_explained_def by blast
    with c show ?thesis by (intro bexI [of _ x]) auto
  next
    assume c: "c = ''settle_credit_refund''"
    then have "key_class (rid @ CHR '':'' # c) = rev c" by (intro key_class_append) simp
    with keys_okD [OF assms(1) k] c obtain x where "x \<in> set (db_reservations st)"
      "rid @ CHR '':'' # c = r_id x @ '':settle_credit_refund''" "r_status x \<noteq> Held \<or> BusyReservation (r_id x) \<in> X"
      unfolding key_explained_def by blast
    with c show ?thesis by (intro bexI [of _ x]) auto
  qed
  then obtain x where x: "x \<in> set (db_reservations st)" "r_id x = rid" "r_status x \<noteq> Held"
    using assms(4) by auto
  then have "x = r"
    using assms(1,2) reservations_tbl.get_in [of "db_reservations st" x]
    by (simp add: keys_ok_def get_reservation_def)
  with x assms(3) show False by simp
qed

section \<open>Operations on grants only\<close>

definition untouched :: "bdb \<Rightarrow> bdb \<Rightarrow> bool" where
  "untouched st st' = (db_wallets st' = db_wallets st \<and> db_ledger st' = db_ledger st
     \<and> db_reservations st' = db_reservations st \<and> db_orders st' = db_orders st \<and> uuids st' = uuids st
     \<and> draws st \<le> draws st')"

lemma untouched_refl [simp]: "untouched st st"
  by (simp add: untouched_def)

lemma untouched_trans: "untouched st st' \<Longrightarrow> untouched st' st'' \<Longrightarrow> untouched st st''"
  by (simp add: untouched_def)

lemma books_untouched: "books X uid a k h st \<Longrightarrow> untouched st st' \<Longrightarrow> books X uid a k h st'"
  by (erule books_cong) (simp_all add: untouched_def)

lemma untouched_new_id: "new_id p st = (i, st') \<Longrightarrow> untouched st st'"
proof -
  assume "new_id p st = (i, st')"
  then have "st' = st\<lparr>draws := Suc (draws st)\<rparr>" by (simp add: new_id_def)
  then show ?thesis by (simp add: untouched_def)
qed

lemma untouched_update_grant: "update_grant g f st = Inr st' \<Longrightarrow> untouched st st'"
  by (auto simp: update_grant_def untouched_def split: option.splits if_splits)

lemma take_grants_untouched:
  "take_grants current gs n holds free st = Inr (holds', free', n', st') \<Longrightarrow> untouched st st'"
proof (induction gs arbitrary: n holds free st)
  case (Cons g gs)
  then show ?case
    by (auto simp: Let_def bindr_eq_Inr split: if_splits
        intro: untouched_trans [OF untouched_update_grant])
qed simp

lemma restore_loop_untouched: "restore_loop current hs n st = Inr st' \<Longrightarrow> untouched st st'"
proof (induction hs arbitrary: n st)
  case (Cons g gs)
  then show ?case
    by (auto simp: Let_def bindr_eq_Inr split: if_splits
        intro: untouched_trans [OF untouched_update_grant])
qed simp

lemma restore_grants_untouched: "restore_grants hs n current st = Inr st' \<Longrightarrow> untouched st st'"
  unfolding restore_grants_def by (rule restore_loop_untouched)

section \<open>Ending a hold\<close>

lemma books_uuids: "books X uid a k h st \<Longrightarrow> uuids_ok (uuids st)"
  by (simp add: books_def keys_ok_def)

lemma books_keys: "books X uid a k h st \<Longrightarrow> keys_ok X st"
  by (simp add: books_def)

lemma credit_of_wallet: "get_wallet uid st = Some w \<Longrightarrow> credit_of uid st = w_credit w \<and> cash_of uid st = w_cash w"
  by (simp add: credit_of_def cash_of_def)

lemma books_wallet_bounds:
  "books X uid' a k h st \<Longrightarrow> get_wallet uid st = Some w \<Longrightarrow> 0 \<le> w_cash w \<and> w_cash w \<le> w_credit w"
  using get_wallet_SomeD by (auto simp: books_def)

lemma in_table: "get_reservation rid st = Some r \<Longrightarrow> r \<in> set (db_reservations st) \<and> r_id r = rid"
  unfolding get_reservation_def using reservations_tbl.get_key by blast

lemma give_back_credit_books:
  assumes b: "books {} uid 0 0 0 st" and r: "get_reservation rid st = Some r" "r_status r = Held" "r_user_id r = uid"
    and w: "get_wallet uid st = Some w" and c: "0 \<le> cash" "cash \<le> credit"
    and e: "event \<in> set charge_events"
    and s: "suffix = CHR '':'' # c" "c = ''release_credit'' \<or> c = ''settle_credit_refund''"
    and g: "give_back_credit r credit cash event suffix meta w current st = Inr st'"
  shows "books {BusyReservation rid} uid 0 0 credit st'" "db_reservations st' = db_reservations st"
proof -
  note rt = in_table [OF r(1)]
  have b': "books {BusyReservation rid} uid 0 0 0 st" using b by (rule books_weaken) simp
  have "books {BusyReservation rid} uid 0 0 credit st' \<and> db_reservations st' = db_reservations st"
  proof (cases "credit = 0")
    case True
    with g b' show ?thesis by (simp add: give_back_credit_def)
  next
    case False
    with g obtain st1 where st1: "credit_wallet uid credit cash current st = Inr st1"
      and st': "st' = insert_ledger uid Credit event credit (w_credit w + credit) (rid @ suffix)
          ((row_opts r meta)\<lparr>lo_cash_amount := cash, lo_cash_after := Some (w_cash w + cash)\<rparr>) current st1"
      using r rt by (auto simp: give_back_credit_def bindr_eq_Inr)
    note u = books_update_wallet [OF b' st1 [unfolded credit_wallet_def] w, where a' = credit and k' = cash]
    have wb: "0 \<le> w_cash w" "w_cash w \<le> w_credit w" using books_wallet_bounds [OF b w] by simp_all
    have b1: "books {BusyReservation rid} uid credit cash 0 st1"
      and w1: "get_wallet uid st1 = Some (w\<lparr>w_credit := w_credit w + credit, w_cash := w_cash w + cash, w_updated_at := current\<rparr>)"
      and s1: "st1 = st\<lparr>db_wallets := db_wallets st1\<rparr>"
      using u wb c by simp_all
    have l1: "db_ledger st1 = db_ledger st" "db_reservations st1 = db_reservations st" by (subst s1, simp)+
    have "books {BusyReservation rid} uid 0 0 credit st'"
      unfolding st'
    proof (rule books_post [OF b1])
      have "key_explained {BusyReservation rid} st1 (rid @ CHR '':'' # c)"
        using s(2) rt by (intro explained_money books_uuids [OF b1]) (auto simp: money_classes_def l1)
      then show "key_explained {BusyReservation rid} st1 (rid @ suffix)" by (simp add: s(1))
      show "rid @ suffix \<notin> l_idem ` set (db_ledger st1)"
        using fresh_ending [OF books_keys [OF b] r(1,2) _ s(2)] by (simp add: l1 s(1))
    qed (use w1 e in \<open>simp_all add: ledger_cash_after_def cash_of_def credit_of_def\<close>)
    then show ?thesis by (simp add: st' l1)
  qed
  then show "books {BusyReservation rid} uid 0 0 credit st'" "db_reservations st' = db_reservations st" by simp_all
qed

lemma give_back_images_books:
  assumes b: "books X uid a k h st" and s: "suffix = CHR '':'' # c" "c = ''release_image'' \<or> c = ''settle_image_refund''"
    and g: "give_back_images r images event suffix meta current st = Inr st'"
  shows "books X uid a k h st'" "db_reservations st' = db_reservations st"
proof -
  have "books X uid a k h st' \<and> db_reservations st' = db_reservations st"
  proof (cases "images = 0")
    case True
    with g b show ?thesis by (simp add: give_back_images_def)
  next
    case False
    with g obtain st1 where st1: "restore_grants (list_or_empty (vget (r_meta r) ''grant_holds'')) images current st = Inr st1"
      and st': "st' = insert_ledger (r_user_id r) Image event images (total_images (r_user_id r) st1) (r_id r @ suffix)
          (row_opts r meta) current st1"
      by (auto simp: give_back_images_def bindr_eq_Inr)
    note u = restore_grants_untouched [OF st1]
    have b1: "books X uid a k h st1" using b u by (rule books_untouched)
    have "key_explained X st1 (r_id r @ CHR '':'' # c)"
      using s(2) by (intro explained_suffix books_uuids [OF b1]) (auto simp: money_classes_def)
    then have "books X uid a k h st'"
      unfolding st' by (intro books_note [OF b1]) (simp_all add: s(1))
    with u show ?thesis by (simp add: st' untouched_def)
  qed
  then show "books X uid a k h st'" "db_reservations st' = db_reservations st" by simp_all
qed

lemma show_reservation_Inr: "show_reservation rid st = Inr (v, st') \<longleftrightarrow>
    st' = st \<and> (\<exists>r. get_reservation rid st = Some r \<and> v = reservation_public r)"
  by (auto simp: show_reservation_def split: option.splits)

lemma release_books:
  assumes b: "books {} uid 0 0 0 st" and r: "release_reservation rid current st = Inr (v, st')"
  shows "books {} uid 0 0 0 st'"
proof -
  from r obtain x where x: "get_reservation rid st = Some x"
    by (auto simp: release_reservation_def split: option.splits)
  show ?thesis
  proof (cases "r_status x = Held")
    case False
    with r x b show ?thesis by (simp add: release_reservation_def)
  next
    case True
    let ?u = "r_user_id x"
    from r x True obtain w st1 st2 st3 where e: "ensure_wallet ?u current st = Inr (w, st1)"
      and g: "give_back_credit x (r_reserved_credit x) (r_reserved_cash x) ''release'' '':release_credit'' [] w current st1 = Inr st2"
      and i: "give_back_images x (r_reserved_images x) ''release'' '':release_image'' [] current st2 = Inr st3"
      and st': "st' = update_reservation rid (\<lambda>x. r_status x = Held)
               (\<lambda>x. x\<lparr>r_status := Released, r_updated_at := current\<rparr>) st3"
      by (auto simp: release_reservation_def bindr_eq_Inr show_reservation_Inr)
    have b0: "books {} ?u 0 0 0 st" using b by (rule books_user)
    note ew = ensure_wallet_books [OF b0 e]
    have x1: "get_reservation rid st1 = Some x" using ew(2) x by (simp add: same_tables_def get_reservation_def)
    have ok: "held_ok x" using b in_table [OF x] by (auto simp: books_def)
    note gc = give_back_credit_books [OF ew(1) x1 True refl ew(3) _ _ _ _ _ g, of "''release_credit''"]
    have b2: "books {BusyReservation rid} ?u 0 0 (r_reserved_credit x) st2" and r2: "db_reservations st2 = db_reservations st1"
      using gc ok True by (auto simp: held_ok_def charge_events_def)
    note gi = give_back_images_books [OF b2 _ _ i, of "''release_image''"]
    have x3: "get_reservation rid st3 = Some x" using gi(2) r2 x1 by (simp add: get_reservation_def)
    have "books ({BusyReservation rid} - {BusyReservation rid}) ?u 0 0 (r_reserved_credit x
        + weight (x\<lparr>r_status := Released, r_updated_at := current\<rparr>) - weight x) st'"
      unfolding st' by (rule books_update_reservation [OF gi(1) x3]) (simp_all add: True)
    then have "books {} ?u 0 0 0 st'" by (simp add: weight_def True)
    then show ?thesis by (rule books_user)
  qed
qed

section \<open>Settling\<close>

text \<open>What a settlement charges is within what was held, and the cash part within the credit part.\<close>

lemma settlement_split_bounds:
  assumes ok: "held_ok r" "r_status r = Held" and m: "\<not> truthy (vget (r_meta r) ''unlimited_compute'')"
    and q: "int_field (vget (r_meta r) ''quantity'') = Inr q"
    and u: "int_field (vget (r_meta r) ''unit_credit_units'') = Inr u"
    and a: "0 \<le> actual" "actual \<le> max q 0"
    and s: "settlement_split r (truthy (vget (r_meta r) ''image'')) actual (max u 0) = (images, credit, cash)"
  shows "0 \<le> credit" "credit \<le> r_reserved_credit r" "0 \<le> cash" "cash \<le> r_reserved_cash r" "cash \<le> credit"
    and "r_reserved_cash r - cash \<le> r_reserved_credit r - credit"
proof -
  have rate: "0 \<le> max u 0" by simp
  have r0: "0 \<le> r_reserved_cash r" "r_reserved_cash r \<le> r_reserved_credit r" "0 \<le> r_reserved_images r"
    using ok by (simp_all add: held_ok_def)
  have credit: "0 \<le> credit \<and> credit \<le> r_reserved_credit r"
  proof (cases "truthy (vget (r_meta r) ''image'')")
    case True
    have "credit = max (actual - min actual (r_reserved_images r)) 0 * max u 0"
      using s True by (auto simp: settlement_split_def Let_def max_def)
    moreover have "max (actual - min actual (r_reserved_images r)) 0 * max u 0
        \<le> max (q - r_reserved_images r) 0 * max u 0"
      using a r0 by (intro mult_right_mono) auto
    moreover have "max (q - r_reserved_images r) 0 * max u 0 \<le> r_reserved_credit r"
      using ok m q u True by (simp add: held_ok_def)
    ultimately show ?thesis by (simp del: max_mult_distrib_right)
  next
    case False
    have "credit = actual * max u 0"
      using s False by (simp add: settlement_split_def Let_def)
    moreover have "actual * max u 0 \<le> max q 0 * max u 0" using a by (intro mult_right_mono) auto
    moreover have "max q 0 * max u 0 \<le> r_reserved_credit r"
      using ok m q u False by (simp add: held_ok_def)
    moreover have "0 \<le> actual * max u 0" using a(1) rate by (rule mult_nonneg_nonneg)
    ultimately show ?thesis by linarith
  qed
  moreover have "cash = max (credit - max (r_reserved_credit r - r_reserved_cash r) 0) 0"
    using s by (auto simp: settlement_split_def Let_def)
  ultimately show "0 \<le> credit" "credit \<le> r_reserved_credit r" "0 \<le> cash" "cash \<le> r_reserved_cash r" "cash \<le> credit"
    "r_reserved_cash r - cash \<le> r_reserved_credit r - credit"
    using r0 by linarith+
qed

lemma settle_held_books:
  assumes b: "books {} uid 0 0 0 st" and x: "get_reservation rid st = Some r" "r_status r = Held"
    and m: "\<not> truthy (vget (r_meta r) ''unlimited_compute'')"
    and q: "int_field (vget (r_meta r) ''quantity'') = Inr q"
    and u: "int_field (vget (r_meta r) ''unit_credit_units'') = Inr u"
    and a: "0 \<le> actual" "actual \<le> max q 0"
    and r: "settle_held r actual (max u 0) current st = Inr (v, st')"
  shows "books {} uid 0 0 0 st'"
proof -
  let ?u = "r_user_id r"
  obtain images credit cash where s: "settlement_split r (truthy (vget (r_meta r) ''image'')) actual (max u 0)
      = (images, credit, cash)"
    by (cases "settlement_split r (truthy (vget (r_meta r) ''image'')) actual (max u 0)") auto
  have ok: "held_ok r" and rid: "r_id r = rid" using b in_table [OF x(1)] by (auto simp: books_def)
  note bounds = settlement_split_bounds [OF ok x(2) m q u a s]
  let ?cr = "max (r_reserved_credit r - credit) 0" and ?kr = "max (r_reserved_cash r - cash) 0"
  let ?note = "[(''actual_quantity'', PInt actual)]"
  let ?f = "\<lambda>x. x\<lparr>r_status := Settled, r_settled_credit := credit, r_settled_cash := cash,
      r_settled_images := images, r_updated_at := current\<rparr>"
  from r s rid obtain w st1 st2 st3 bal meta where e: "ensure_wallet ?u current st = Inr (w, st1)"
    and g: "give_back_credit r ?cr ?kr ''reservation_refund'' '':settle_credit_refund'' ?note w current st1 = Inr st2"
    and i: "give_back_images r (max (r_reserved_images r - images) 0) ''reservation_refund'' '':settle_image_refund''
        ?note current st2 = Inr st3"
    and st': "st' = insert_ledger ?u Audit ''settled'' 0 bal (rid @ '':settled'') (row_opts r meta) current
        (update_reservation rid (\<lambda>x. r_status x = Held) ?f st3)"
    by (auto simp: settle_held_def Let_def bindr_eq_Inr show_reservation_Inr)
  have b0: "books {} ?u 0 0 0 st" using b by (rule books_user)
  note ew = ensure_wallet_books [OF b0 e]
  have x1: "get_reservation rid st1 = Some r" using ew(2) x by (simp add: same_tables_def get_reservation_def)
  note gc = give_back_credit_books [OF ew(1) x1 x(2) refl ew(3) _ _ _ _ _ g, of "''settle_credit_refund''"]
  have b2: "books {BusyReservation rid} ?u 0 0 ?cr st2" and r2: "db_reservations st2 = db_reservations st1"
    using gc bounds by (auto simp: charge_events_def)
  note gi = give_back_images_books [OF b2 _ _ i, of "''settle_image_refund''"]
  have x3: "get_reservation rid st3 = Some r" using gi(2) r2 x1 by (simp add: get_reservation_def)
  have "books ({BusyReservation rid} - {BusyReservation rid}) ?u 0 0 (?cr + weight (?f r) - weight r)
      (update_reservation rid (\<lambda>x. r_status x = Held) ?f st3)"
    by (rule books_update_reservation [OF gi(1) x3]) (simp_all add: x(2))
  moreover have "?cr + weight (?f r) - weight r = 0"
    using bounds ok x(2) by (simp add: weight_def held_ok_def)
  ultimately have b4: "books {} ?u 0 0 0 (update_reservation rid (\<lambda>x. r_status x = Held) ?f st3)" by simp
  have "key_explained {} (update_reservation rid (\<lambda>x. r_status x = Held) ?f st3) (rid @ CHR '':'' # ''settled'')"
    by (intro explained_suffix books_uuids [OF b4]) (auto simp: money_classes_def)
  then have "books {} ?u 0 0 0 st'" unfolding st' by (intro books_note [OF b4]) simp_all
  then show ?thesis by (rule books_user)
qed

lemma settle_unlimited_books:
  assumes b: "books {} uid 0 0 0 st" and x: "get_reservation rid st = Some r" "r_status r = Held"
    and m: "truthy (vget (r_meta r) ''unlimited_compute'')"
    and r: "settle_unlimited r actual rate current st = Inr (v, st')"
  shows "books {} uid 0 0 0 st'"
proof -
  let ?u = "r_user_id r"
  let ?f = "\<lambda>x. x\<lparr>r_status := Settled, r_updated_at := current\<rparr>"
  have ok: "held_ok r" and rid: "r_id r = rid" using b in_table [OF x(1)] by (auto simp: books_def)
  from r rid obtain w st1 bal meta where e: "ensure_wallet ?u current st = Inr (w, st1)"
    and st': "st' = insert_ledger ?u Audit ''unlimited_compute_settled'' 0 bal (rid @ '':unlimited_settled'')
        (row_opts r meta) current (update_reservation rid (\<lambda>x. r_status x = Held) ?f st1)"
    by (auto simp: settle_unlimited_def Let_def bindr_eq_Inr show_reservation_Inr)
  have b0: "books {} ?u 0 0 0 st" using b by (rule books_user)
  note ew = ensure_wallet_books [OF b0 e]
  have x1: "get_reservation rid st1 = Some r" using ew(2) x by (simp add: same_tables_def get_reservation_def)
  have "books ({} - {BusyReservation rid}) ?u 0 0 (0 + weight (?f r) - weight r)
      (update_reservation rid (\<lambda>x. r_status x = Held) ?f st1)"
    by (rule books_update_reservation [OF ew(1) x1]) (simp_all add: x(2))
  moreover have "weight (?f r) - weight r = 0" using ok m x(2) by (simp add: weight_def held_ok_def)
  ultimately have b4: "books {} ?u 0 0 0 (update_reservation rid (\<lambda>x. r_status x = Held) ?f st1)" by simp
  have "key_explained {} (update_reservation rid (\<lambda>x. r_status x = Held) ?f st1) (rid @ CHR '':'' # ''unlimited_settled'')"
    by (intro explained_suffix books_uuids [OF b4]) (auto simp: money_classes_def)
  then have "books {} ?u 0 0 0 st'" unfolding st' by (intro books_note [OF b4]) simp_all
  then show ?thesis by (rule books_user)
qed

lemma settle_books:
  assumes b: "books {} uid 0 0 0 st" and s: "settle_reservation rid actual success current st = Inr (v, st')"
  shows "books {} uid 0 0 0 st'"
proof -
  from s obtain r where x: "get_reservation rid st = Some r"
    by (auto simp: settle_reservation_def split: option.splits)
  show ?thesis
  proof (cases "r_status r = Held")
    case False
    then have "r_status r \<in> {Settled, Released, Waived}" by (cases "r_status r") simp_all
    with s x b show ?thesis by (simp add: settle_reservation_def)
  next
    case held: True
    show ?thesis
    proof (cases success)
      case False
      with s x held have "release_reservation rid current st = Inr (v, st')" by (simp add: settle_reservation_def)
      with b show ?thesis by (rule release_books)
    next
      case True
      let ?a = "\<lambda>q. case actual of None \<Rightarrow> max q 0 | Some a \<Rightarrow> max (min a (max q 0)) 0"
      from s x held True obtain q u where q: "int_field (vget (r_meta r) ''quantity'') = Inr q"
        and u: "int_field (vget (r_meta r) ''unit_credit_units'') = Inr u"
        and d: "(if truthy (vget (r_meta r) ''unlimited_compute'') then settle_unlimited r (?a q) (max u 0) current st
          else settle_held r (?a q) (max u 0) current st) = Inr (v, st')"
        by (auto simp: settle_reservation_def bindr_eq_Inr Let_def)
      have a: "0 \<le> ?a q" "?a q \<le> max q 0" by (auto split: option.splits)
      show ?thesis
      proof (cases "truthy (vget (r_meta r) ''unlimited_compute'')")
        case True
        with d settle_unlimited_books [OF b x held True] show ?thesis by simp
      next
        case False
        with d settle_held_books [OF b x held False q u a] show ?thesis by simp
      qed
    qed
  qed
qed

end
