(* ===== verification/BillingCharges.thy ===== *)
theory BillingCharges
  imports BillingSafety
begin

text \<open>
  The operations that create holds and credit keep the books: reservations at the catalog
  price, exact purchases and their refund, adjustments, new users.
\<close>

section \<open>Refunding an exact purchase\<close>

lemma exact_refund_books:
  assumes b: "books {} uid 0 0 0 st"
    and s: "refund_settled_exact_cash_charge rid reason current st = Inr (v, st')"
  shows "books {} uid 0 0 0 st'"
proof -
  from s obtain r where x: "get_reservation rid st = Some r" and settled: "r_status r = Settled"
    by (auto simp: refund_settled_exact_cash_charge_def split: option.splits if_splits)
  let ?u = "r_user_id r" and ?amount = "r_settled_cash r - r_refunded_cash r"
  show ?thesis
  proof (cases "0 < ?amount")
    case False
    with s x settled b show ?thesis
      by (auto simp: refund_settled_exact_cash_charge_def Let_def split: if_splits)
  next
    case True
    let ?g = "\<lambda>x. r_status x = Settled \<and> r_refunded_cash x = r_refunded_cash r"
    let ?f = "\<lambda>x. x\<lparr>r_refunded_cash := r_settled_cash r, r_updated_at := current\<rparr>"
    have b0: "books {} ?u 0 0 0 st" using b by (rule books_user)
    have max: "max ?amount 0 = ?amount" using True by simp
    have rid: "r_id r = rid" using in_table [OF x] by simp
    from s x settled True obtain w st1 where e: "ensure_wallet ?u current st = Inr (w, st1)"
      by (auto simp: refund_settled_exact_cash_charge_def Let_def bindr_eq_Inr split: if_splits)
    note ew = ensure_wallet_books [OF b0 e]
    have x1: "get_reservation rid st1 = Some r" using ew(2) x by (simp add: same_tables_def get_reservation_def)
    let ?st2 = "update_reservation rid ?g ?f st1"
    from s x settled True e x1 rid max obtain st3 meta where st3: "credit_wallet ?u ?amount ?amount current ?st2 = Inr st3"
      and st': "st' = insert_ledger ?u Credit ''exact_cash_refund'' ?amount (w_credit w + ?amount)
          (rid @ '':exact_cash_refund'')
          ((row_opts r meta)\<lparr>lo_cash_amount := ?amount, lo_cash_after := Some (w_cash w + ?amount)\<rparr>) current st3"
      by (auto simp: refund_settled_exact_cash_charge_def Let_def bindr_eq_Inr show_reservation_Inr split: if_splits)
    have "books ({} - {BusyReservation rid}) ?u 0 0 (0 + weight (?f r) - weight r) ?st2"
      by (rule books_update_reservation [OF ew(1) x1]) (use settled in simp_all)
    then have b2: "books {} ?u 0 0 (- ?amount) ?st2" using settled by (simp add: weight_def)
    have w2: "get_wallet ?u ?st2 = Some w" using ew(3) by (simp add: get_wallet_def update_reservation_def)
    have wb: "0 \<le> w_cash w" "w_cash w \<le> w_credit w" using books_wallet_bounds [OF b2 w2] by simp_all
    note u = books_update_wallet [OF b2 st3 [unfolded credit_wallet_def] w2, where a' = ?amount and k' = ?amount]
    have b3: "books {} ?u ?amount ?amount (- ?amount) st3"
      and w3: "get_wallet ?u st3 = Some (w\<lparr>w_credit := w_credit w + ?amount, w_cash := w_cash w + ?amount, w_updated_at := current\<rparr>)"
      and s3: "st3 = ?st2\<lparr>db_wallets := db_wallets st3\<rparr>"
      using u wb True by simp_all
    have l3: "db_ledger st3 = db_ledger st1" by (subst s3) (simp add: update_reservation_def)
    have x3: "get_reservation rid st3 = Some (?f r)"
      unfolding get_reservation_def
      by (subst s3) (simp add: update_reservation_def reservations_tbl.get_modify
          x1 [unfolded get_reservation_def] settled)
    have "books {} ?u 0 0 0 st'"
      unfolding st'
    proof (rule books_post [OF b3])
      have "key_explained {} st3 (rid @ CHR '':'' # ''exact_cash_refund'')"
        using settled rid
        by (intro explained_money books_uuids [OF b3] bexI [OF _ conjunct1 [OF in_table [OF x3]]])
          (simp_all add: money_classes_def)
      then show "key_explained {} st3 (rid @ '':exact_cash_refund'')" by simp
      show "rid @ '':exact_cash_refund'' \<notin> l_idem ` set (db_ledger st3)"
      proof
        assume "rid @ '':exact_cash_refund'' \<in> l_idem ` set (db_ledger st3)"
        from keys_okD [OF books_keys [OF ew(1)] this [unfolded l3]]
        have "key_explained {} st1 (rid @ '':exact_cash_refund'')" .
        moreover have "key_class (rid @ '':exact_cash_refund'') = rev ''exact_cash_refund''"
          using key_class_append [of "''exact_cash_refund''" rid] by simp
        ultimately obtain y where y: "y \<in> set (db_reservations st1)" "rid @ '':exact_cash_refund'' = r_id y @ '':exact_cash_refund''"
          "r_settled_cash y \<le> r_refunded_cash y" unfolding key_explained_def by blast
        have "distinct (map r_id (db_reservations st1))" using books_keys [OF ew(1)] by (simp add: keys_ok_def)
        from reservations_tbl.get_in [OF this y(1)] y(2) x1 have "y = r" by (simp add: get_reservation_def)
        with y(3) True show False by simp
      qed
    qed (use w3 in \<open>simp_all add: ledger_cash_after_def cash_of_def credit_of_def charge_events_def\<close>)
    then show ?thesis by (rule books_user)
  qed
qed

section \<open>Adjustments\<close>

lemma books_adjustment_key:
  assumes "books X uid a k h st" and "new_id ''adjustment'' st = (i, st')"
  shows "key_explained X' st' (''adjustment:'' @ i)" "''adjustment:'' @ i \<notin> l_idem ` set (db_ledger st')"
proof -
  have u: "uuids_ok (uuids st)" using assms(1) by (rule books_uuids)
  have i: "i = ''adjustment_'' @ uuids st (draws st)" and st': "st' = st\<lparr>draws := Suc (draws st)\<rparr>"
    using assms(2) by (simp_all add: new_id_def)
  have "key_class (''adjustment'' @ CHR '':'' # ''adjustment_'' @ uuids st (draws st))
      = rev (''adjustment_'' @ uuids st (draws st))"
    by (rule key_class_uuid [OF u]) simp
  then have c: "key_class (''adjustment:'' @ i) = rev (''adjustment_'' @ uuids st (draws st))" by (simp add: i)
  have "\<forall>c \<in> set money_classes. key_class (''adjustment:'' @ i) \<noteq> rev c"
    unfolding c rev_is_rev_conv by (simp add: money_classes_def)
  moreover have "drawn_ok st' (''adjustment:'' @ i)"
    using u by (simp add: drawn_ok_def i st' uuids_ok_def inj_eq)
  moreover have "lazy_ok st' (''adjustment:'' @ i)" by (simp add: lazy_ok_def)
  ultimately show "key_explained X' st' (''adjustment:'' @ i)"
    by (simp add: key_explained_def money_classes_def)
  show "''adjustment:'' @ i \<notin> l_idem ` set (db_ledger st')"
  proof
    assume "''adjustment:'' @ i \<in> l_idem ` set (db_ledger st')"
    then have "''adjustment:'' @ i \<in> l_idem ` set (db_ledger st)" by (simp add: st')
    from keys_okD [OF books_keys [OF assms(1)] this] have "drawn_ok st (''adjustment:'' @ i)"
      by (simp add: key_explained_def)
    then have "draws st < draws st" unfolding drawn_ok_def i by (elim allE [of _ "draws st"]) simp
    then show False by simp
  qed
qed

lemma adjust_books:
  assumes b: "books {} uid' 0 0 0 st" and s: "adjust_credit uid delta actor reason current st = Inr (v, st')"
  shows "books {} uid' 0 0 0 st'"
proof -
  have b0: "books {} uid 0 0 0 st" using b by (rule books_user)
  from s obtain w st1 where e: "ensure_wallet uid current st = Inr (w, st1)"
    by (auto simp: adjust_credit_def bindr_eq_Inr split: if_splits)
  note ew = ensure_wallet_books [OF b0 e]
  let ?k = "min (w_cash w) (w_credit w + delta)"
  from s e obtain st2 where after: "0 \<le> w_credit w + delta"
    and st2: "update_wallet uid (\<lambda>_. True) (\<lambda>x. x\<lparr>w_credit := w_credit w + delta, w_cash := ?k, w_updated_at := current\<rparr>) st1 = Inr st2"
    by (auto simp: adjust_credit_def Let_def bindr_eq_Inr split: if_splits)
  obtain i st3 where i: "new_id ''adjustment'' st2 = (i, st3)" by (cases "new_id ''adjustment'' st2")
  from s e st2 i obtain opts where
    st': "st' = insert_ledger uid Credit ''admin_adjustment'' delta (w_credit w + delta) (''adjustment:'' @ i)
       opts current st3"
    and opts: "lo_cash_amount opts = ?k - w_cash w" "lo_cash_after opts = Some ?k"
    by (auto simp: adjust_credit_def Let_def split: if_splits)
  have wb: "0 \<le> w_cash w" "w_cash w \<le> w_credit w" using books_wallet_bounds [OF ew(1,3)] by simp_all
  note u = books_update_wallet [OF ew(1) st2 ew(3), where a' = delta and k' = "?k - w_cash w"]
  have b2: "books {} uid delta (?k - w_cash w) 0 st2"
    and w2: "get_wallet uid st2 = Some (w\<lparr>w_credit := w_credit w + delta, w_cash := ?k, w_updated_at := current\<rparr>)"
    using u wb after by simp_all
  have b3: "books {} uid delta (?k - w_cash w) 0 st3" using books_new_id [OF i b2] .
  have w3: "get_wallet uid st3 = get_wallet uid st2" using untouched_new_id [OF i] by (simp add: untouched_def get_wallet_def)
  have "books {} uid 0 0 0 st'"
    unfolding st'
    by (rule books_post [OF b3 books_adjustment_key [OF b2 i]])
      (use w2 w3 opts in \<open>simp_all add: no_opts_def ledger_cash_after_def cash_of_def credit_of_def charge_events_def\<close>)
  then show ?thesis by (rule books_user)
qed

lemma unlimited_books:
  assumes b: "books {} uid' 0 0 0 st" and s: "set_unlimited_compute uid enabled actor reason current st = Inr (v, st')"
  shows "books {} uid' 0 0 0 st'"
proof -
  have b0: "books {} uid 0 0 0 st" using b by (rule books_user)
  from s obtain w st1 where e: "ensure_wallet uid current st = Inr (w, st1)"
    by (auto simp: set_unlimited_compute_def bindr_eq_Inr split: if_splits)
  note ew = ensure_wallet_books [OF b0 e]
  show ?thesis
  proof (cases "w_unlimited w = enabled")
    case True
    with s e ew(1) show ?thesis
      by (auto simp: set_unlimited_compute_def Let_def split: if_splits intro: books_user)
  next
    case False
    let ?st2 = "touch_wallet uid (\<lambda>w. w\<lparr>w_unlimited := enabled, w_updated_at := current\<rparr>) st1"
    obtain i st3 where i: "new_id ''unlimited_compute'' ?st2 = (i, st3)" by (cases "new_id ''unlimited_compute'' ?st2")
    from s e False i obtain event meta where st': "st' = insert_ledger uid Audit event 0 (w_credit w)
        (''unlimited_compute:'' @ i) (no_opts\<lparr>lo_ref_type := ''admin_adjustment'', lo_ref_id := i, lo_meta := meta\<rparr>)
        current st3"
      by (auto simp: set_unlimited_compute_def Let_def split: if_splits prod.splits)
    have b2: "books {} uid 0 0 0 ?st2" using ew(1) by (rule books_touch_wallet) simp_all
    have b3: "books {} uid 0 0 0 st3" using i b2 by (rule books_new_id)
    have u: "uuids_ok (uuids ?st2)" using b2 by (rule books_uuids)
    have i': "i = ''unlimited_compute_'' @ uuids ?st2 (draws ?st2)" using i by (simp add: new_id_def)
    have "key_class (''unlimited_compute'' @ CHR '':'' # ''unlimited_compute_'' @ uuids ?st2 (draws ?st2))
        = rev (''unlimited_compute_'' @ uuids ?st2 (draws ?st2))"
      by (rule key_class_uuid [OF u]) simp
    then have "key_class (''unlimited_compute:'' @ i) = rev i" by (simp add: i')
    then have "key_explained {} st3 (''unlimited_compute:'' @ i)"
      by (rule explained_quiet [OF books_uuids [OF b3]]) (simp_all add: i' money_classes_def)
    then have "books {} uid 0 0 0 st'" unfolding st' by (intro books_note [OF b3]) simp_all
    then show ?thesis by (rule books_user)
  qed
qed

section \<open>New users\<close>

lemma explained_numbered:
  assumes "k = x @ CHR '':'' # show_int uid"
    and "\<And>n. k \<noteq> ''adjustment:adjustment_'' @ uuids st n" "\<And>u. k \<noteq> ''migration:lazy_v1:'' @ show_int u"
  shows "key_explained X st k"
proof (rule explainedI, rule ballI)
  fix c assume "c \<in> set money_classes"
  then have "show_int uid \<noteq> c" by (intro show_int_not_word) (auto simp: money_classes_def)
  then show "key_class k \<noteq> rev c"
    unfolding assms(1) key_class_append [OF show_int_no_colon] by simp
qed (use assms(2,3) in blast)+

lemma new_user_grants_keys:
  assumes "(amount, event, idem, rt, ri, meta) \<in> set (new_user_grants uid extra actor source)"
  shows "0 \<le> amount" "event \<notin> set charge_events" "key_explained X st idem"
proof -
  let ?src = "if source = [] then ''registration'' else source"
  from assms consider "amount = NEW_USER_WELCOME_POINTS * POINT_SCALE" "event = ''welcome_credit''"
      "idem = ''welcome-credit-v1:'' @ show_int uid"
    | "0 < extra" "amount = extra" "event = ''admin_initial_credit''"
      "idem = ''new-user-extra:'' @ ?src @ '':'' @ show_int uid"
    by (auto simp: new_user_grants_def Let_def split: if_splits)
  then have "0 \<le> amount \<and> event \<notin> set charge_events \<and> key_explained X st idem"
  proof cases
    case 1
    then have "key_explained X st idem"
      by (intro explained_numbered [where x = "''welcome-credit-v1''" and uid = uid]) simp_all
    with 1 show ?thesis by (simp add: NEW_USER_WELCOME_POINTS_def POINT_SCALE_def charge_events_def)
  next
    case 2
    have "key_explained X st idem"
      unfolding 2(4) by (rule explained_numbered [where x = "''new-user-extra:'' @ ?src" and uid = uid]) simp_all
    with 2 show ?thesis by (simp add: charge_events_def)
  qed
  then show "0 \<le> amount" "event \<notin> set charge_events" "key_explained X st idem" by simp_all
qed

lemma apply_grant_books:
  assumes b: "books {} uid 0 0 0 st" and g: "g \<in> set (new_user_grants uid extra actor source)"
    and s: "apply_new_user_grant uid current st g = Inr st'"
  shows "books {} uid 0 0 0 st'"
proof -
  obtain amount event idem rt ri meta where g': "g = (amount, event, idem, rt, ri, meta)" by (cases g) auto
  note k = new_user_grants_keys [OF g [unfolded g']]
  show ?thesis
  proof (cases "idem \<in> l_idem ` set (db_ledger st)")
    case True
    then have "\<exists>l \<in> set (db_ledger st). l_idem l = idem" by auto
    with s b g' show ?thesis by (simp add: apply_new_user_grant_def)
  next
    case False
    then have "\<not> (\<exists>l \<in> set (db_ledger st). l_idem l = idem)" by auto
    with s g' obtain w st1 where w: "get_wallet uid st = Some w"
      and st1: "update_wallet uid (\<lambda>_. True) (\<lambda>x. x\<lparr>w_credit := w_credit w + amount, w_updated_at := current\<rparr>) st = Inr st1"
      and st': "st' = insert_ledger uid Credit event amount (w_credit w + amount) idem
               (no_opts\<lparr>lo_ref_type := rt, lo_ref_id := ri, lo_meta := meta\<rparr>) current st1"
      by (auto simp: apply_new_user_grant_def Let_def bindr_eq_Inr split: option.splits)
    have wb: "0 \<le> w_cash w" "w_cash w \<le> w_credit w" using books_wallet_bounds [OF b w] by simp_all
    note u = books_update_wallet [OF b st1 w, where a' = amount and k' = 0]
    have b1: "books {} uid amount 0 0 st1"
      and w1: "get_wallet uid st1 = Some (w\<lparr>w_credit := w_credit w + amount, w_updated_at := current\<rparr>)"
      and s1: "st1 = st\<lparr>db_wallets := db_wallets st1\<rparr>"
      using u wb k(1) by simp_all
    have l1: "db_ledger st1 = db_ledger st" by (subst s1) simp
    show ?thesis
      unfolding st'
      by (rule books_post [OF b1 k(3)])
        (use w1 False k(2) in \<open>simp_all add: no_opts_def ledger_cash_after_def cash_of_def credit_of_def l1\<close>)
  qed
qed

lemma initialize_books:
  assumes b: "books {} uid' 0 0 0 st"
    and s: "initialize_new_user_wallet uid extra actor source current st = Inr (v, st')"
  shows "books {} uid' 0 0 0 st'"
proof -
  have b0: "books {} uid 0 0 0 st" using b by (rule books_user)
  let ?st1 = "insert_wallet_or_ignore (fresh_wallet uid 0 Enforced 0 current) st"
  let ?st2 = "touch_wallet uid (\<lambda>w. w\<lparr>w_mode := Enforced, w_updated_at := current\<rparr>) ?st1"
  have "books {} uid 0 0 0 ?st1"
  proof (cases "insert_wallet (fresh_wallet uid 0 Enforced 0 current) st")
    case (Inl e)
    with b0 show ?thesis by (simp add: insert_wallet_or_ignore_def)
  next
    case (Inr x)
    then have n: "get_wallet uid st = None" by (auto simp: insert_wallet_def fresh_wallet_def split: if_splits)
    from Inr books_insert_wallet(1) [OF b0 n Inr] show ?thesis by (simp add: insert_wallet_or_ignore_def)
  qed
  then have b2: "books {} uid 0 0 0 ?st2" by (rule books_touch_wallet) simp_all
  from s obtain units st3 where u: "units_from_points extra = Inr units"
    and st3: "foldr_res (apply_new_user_grant uid current) ?st2 (new_user_grants uid units actor source) = Inr st3"
    and e: "ensure_wallet uid current st3 = Inr (v, st')"
    by (auto simp: initialize_new_user_wallet_def Let_def bindr_eq_Inr split: option.splits if_splits)
  have "books {} uid 0 0 0 st3"
    using st3 b2 by (rule foldr_res_invariant) (rule apply_grant_books)
  from ensure_wallet_books(1) [OF this e] show ?thesis by (rule books_user)
qed

section \<open>Reservations at the catalog price\<close>

lemma take_grants_counts:
  "take_grants current gs n holds free st = Inr (holds', free', n', st') \<Longrightarrow> 0 \<le> n \<Longrightarrow>
    0 \<le> n' \<and> free \<le> free' \<and> n' + free' = n + free"
proof (induction gs arbitrary: n holds free st)
  case (Cons g gs)
  let ?t = "min n (g_remaining g)"
  show ?case
  proof (cases "n \<le> 0 \<or> ?t \<le> 0")
    case True
    with Cons show ?thesis by (auto simp: Let_def split: if_splits)
  next
    case False
    with Cons.prems obtain st1 where
      "take_grants current gs (n - ?t) (holds @ [(g_id g, ?t)]) (free + ?t) st1 = Inr (holds', free', n', st')"
      by (auto simp: Let_def bindr_eq_Inr split: if_splits)
    from Cons.IH [OF this] False show ?thesis by auto
  qed
qed simp

lemma reservation_by_idem_None:
  "reservation_by_idem idem st = None \<longleftrightarrow> (\<forall>r \<in> set (db_reservations st). r_idem r \<noteq> idem)"
  by (simp add: reservation_by_idem_def find_row_None)

lemma blank_reservation_fields [simp]:
  "r_id (blank_reservation rid uid rt ri sku s cid meta idem current) = rid"
  "r_user_id (blank_reservation rid uid rt ri sku s cid meta idem current) = uid"
  "r_status (blank_reservation rid uid rt ri sku s cid meta idem current) = s"
  "r_reserved_credit (blank_reservation rid uid rt ri sku s cid meta idem current) = 0"
  "r_reserved_cash (blank_reservation rid uid rt ri sku s cid meta idem current) = 0"
  "r_reserved_images (blank_reservation rid uid rt ri sku s cid meta idem current) = 0"
  "r_settled_credit (blank_reservation rid uid rt ri sku s cid meta idem current) = 0"
  "r_settled_cash (blank_reservation rid uid rt ri sku s cid meta idem current) = 0"
  "r_refunded_cash (blank_reservation rid uid rt ri sku s cid meta idem current) = 0"
  "r_meta (blank_reservation rid uid rt ri sku s cid meta idem current) = PDict meta"
  "r_idem (blank_reservation rid uid rt ri sku s cid meta idem current) = idem"
  "r_ref_type (blank_reservation rid uid rt ri sku s cid meta idem current) = rt"
  "r_ref_id (blank_reservation rid uid rt ri sku s cid meta idem current) = ri"
  "r_sku (blank_reservation rid uid rt ri sku s cid meta idem current) = sku"
  by (simp_all add: blank_reservation_def)

lemma waived_books:
  assumes b: "books {} (cr_user_id q) 0 0 0 st" and w: "get_wallet (cr_user_id q) st \<noteq> None"
    and s: "reserve_waived q qty idem reason rate cid w current st = Inr (v, st')"
  shows "books {} (cr_user_id q) 0 0 0 st'"
proof -
  obtain rid st1 where i: "new_id ''bill_hold'' st = (rid, st1)" by (cases "new_id ''bill_hold'' st")
  have b1: "books {} (cr_user_id q) 0 0 0 st1" using i b by (rule books_new_id)
  have w1: "get_wallet (cr_user_id q) st1 \<noteq> None"
    using w untouched_new_id [OF i] by (simp add: untouched_def get_wallet_def)
  from s i obtain meta st2 opts where
    st2: "insert_reservation (blank_reservation rid (cr_user_id q) (cr_ref_type q) (cr_ref_id q)
          (cr_sku q) Waived cid meta idem current) st1 = Inr st2"
    and st': "st' = (if cr_waived q then
            insert_ledger (cr_user_id q) Audit ''admin_waived'' 0 (w_credit w) (idem @ '':waived'') opts current st2
          else st2)"
    by (auto simp: reserve_waived_def Let_def bindr_eq_Inr show_reservation_Inr)
  have b2: "books {} (cr_user_id q) 0 0 0 st2"
    using books_insert_reservation(1) [OF b1 st2 _ _ w1] by (simp add: held_ok_def weight_def)
  have "key_explained {} st2 (idem @ CHR '':'' # ''waived'')"
    by (intro explained_suffix books_uuids [OF b2]) (auto simp: money_classes_def)
  then show ?thesis unfolding st' using b2 books_note [OF b2] by simp
qed

lemma unlimited_hold_books:
  assumes b: "books {} (cr_user_id q) 0 0 0 st" and w: "get_wallet (cr_user_id q) st \<noteq> None"
    and s: "reserve_unlimited q qty idem rate cid w current st = Inr (v, st')"
  shows "books {} (cr_user_id q) 0 0 0 st'"
proof -
  obtain rid st1 where i: "new_id ''bill_hold'' st = (rid, st1)" by (cases "new_id ''bill_hold'' st")
  have b1: "books {} (cr_user_id q) 0 0 0 st1" using i b by (rule books_new_id)
  have w1: "get_wallet (cr_user_id q) st1 \<noteq> None"
    using w untouched_new_id [OF i] by (simp add: untouched_def get_wallet_def)
  from s i obtain st2 opts where
    st2: "insert_reservation (blank_reservation rid (cr_user_id q) (cr_ref_type q) (cr_ref_id q)
          (cr_sku q) Held cid [(''quantity'', PInt qty), (''unit_credit_units'', PInt rate),
                  (''image'', PBool (cr_image q)), (''admin_waived'', PBool False),
                  (''unlimited_compute'', PBool True),
                  (''theoretical_credit_units'', PInt (qty * rate))] idem current) st1 = Inr st2"
    and st': "st' = insert_ledger (cr_user_id q) Audit ''unlimited_compute_reserved'' 0 (w_credit w)
          (idem @ '':unlimited'') opts current st2"
    by (auto simp: reserve_unlimited_def Let_def bindr_eq_Inr show_reservation_Inr)
  have b2: "books {} (cr_user_id q) 0 0 0 st2"
    using books_insert_reservation(1) [OF b1 st2 _ _ w1] by (simp add: held_ok_def weight_def)
  have "key_explained {} st2 (idem @ CHR '':'' # ''unlimited'')"
    by (intro explained_suffix books_uuids [OF b2]) (auto simp: money_classes_def)
  then show ?thesis unfolding st' by (intro books_note [OF b2]) simp_all
qed

text \<open>The shape the two kinds of hold share: debit, insert the row, write the entry.\<close>

lemma hold_books:
  assumes b: "books {} uid 0 0 0 st" and fresh: "\<forall>r \<in> set (db_reservations st). r_idem r \<noteq> idem"
    and w: "get_wallet uid st = Some w"
    and c: "credit \<le> w_credit w" "0 \<le> cash" "cash \<le> w_cash w" "w_cash w - cash \<le> w_credit w - credit"
    and d: "debit_wallet uid credit cash current st = Inr st1"
    and i: "insert_reservation row st1 = Inr st2"
    and row: "held_ok row" "r_user_id row = uid" "r_status row = Held" "r_reserved_credit row = credit" "r_idem row = idem"
    and o: "lo_cash_amount opts = - cash" "lo_cash_after opts = Some (w_cash w - cash)"
  shows "books {} uid 0 0 0 (insert_ledger uid Credit ''reserve'' (- credit) (w_credit w - credit)
    (idem @ '':credit_hold'') opts current st2)"
proof -
  note u = books_update_wallet [OF b d [unfolded debit_wallet_def] w, where a' = "- credit" and k' = "- cash"]
  have b1: "books {} uid (- credit) (- cash) 0 st1"
    and w1: "get_wallet uid st1 = Some (w\<lparr>w_credit := w_credit w - credit, w_cash := w_cash w - cash, w_updated_at := current\<rparr>)"
    and s1: "st1 = st\<lparr>db_wallets := db_wallets st1\<rparr>"
    using u c by simp_all
  note r = books_insert_reservation [OF b1 i row(1,2)]
  have b2: "books {} uid (- credit) (- cash) credit st2" using r(1) w1 row by (simp add: weight_def)
  have st2: "st2 = st1\<lparr>db_reservations := db_reservations st1 @ [row]\<rparr>" using r(2) w1 by simp
  have l2: "db_ledger st2 = db_ledger st" by (subst st2) (simp, subst s1, simp)
  have w2: "get_wallet uid st2 = get_wallet uid st1" by (subst st2) (simp add: get_wallet_def)
  have in2: "row \<in> set (db_reservations st2)" by (subst st2) simp
  show ?thesis
  proof (rule books_post [OF b2])
    have "key_explained {} st2 (idem @ CHR '':'' # ''credit_hold'')"
      using row(5) by (intro explained_money books_uuids [OF b2] bexI [OF _ in2]) (simp_all add: money_classes_def)
    then show "key_explained {} st2 (idem @ '':credit_hold'')" by simp
    show "idem @ '':credit_hold'' \<notin> l_idem ` set (db_ledger st2)"
      unfolding l2 by (rule fresh_hold [OF books_keys [OF b] fresh])
  qed (use w1 o in \<open>simp_all add: w2 ledger_cash_after_def cash_of_def credit_of_def charge_events_def\<close>)
qed

lemma cash_part_bounds:
  assumes "0 \<le> cash" "cash \<le> balance" "0 \<le> credit" "credit \<le> balance"
  shows "0 \<le> cash_part balance cash credit" "cash_part balance cash credit \<le> cash"
    "cash_part balance cash credit \<le> credit" "cash - cash_part balance cash credit \<le> balance - credit"
  using assms by (auto simp: cash_part_def)

lemma held_books:
  assumes b: "books {} uid 0 0 0 st" and uid: "cr_user_id q = uid"
    and fresh: "\<forall>r \<in> set (db_reservations st). r_idem r \<noteq> idem"
    and w: "get_wallet uid st = Some w" and qty: "0 \<le> qty" "0 \<le> rate"
    and s: "reserve_held q qty idem rate cid w current st = Inr (v, st')"
  shows "books {} uid 0 0 0 st'"
proof -
  obtain rid st1 where i: "new_id ''bill_hold'' st = (rid, st1)" by (cases "new_id ''bill_hold'' st")
  from s i obtain holds free n st2 where
    t: "(if cr_image q then take_grants current (usable_grants uid current st1) qty [] 0 st1
       else Inr ([], 0, qty, st1)) = Inr (holds, free, n, st2)"
    by (auto simp: reserve_held_def Let_def bindr_eq_Inr uid)
  have u2: "untouched st st2"
    using t untouched_new_id [OF i] take_grants_untouched
    by (auto split: if_splits intro: untouched_trans)
  have cnt: "0 \<le> n" "0 \<le> free" "n + free = qty" "\<not> cr_image q \<Longrightarrow> free = 0"
    using t qty take_grants_counts [of current "usable_grants uid current st1" qty "[]" 0 st1 holds free n st2]
    by (auto split: if_splits)
  let ?credit = "n * rate"
  let ?cash = "cash_part (w_credit w) (w_cash w) ?credit"
  let ?meta = "[(''quantity'', PInt qty), (''unit_credit_units'', PInt rate),
              (''image'', PBool (cr_image q)), (''admin_waived'', PBool False),
              (''grant_holds'', holds_json holds), (''cash_backed_credit_units'', PInt ?cash)]"
  let ?row = "(blank_reservation rid uid (cr_ref_type q) (cr_ref_id q) (cr_sku q) Held cid ?meta idem current)
              \<lparr>r_reserved_credit := ?credit, r_reserved_cash := ?cash, r_reserved_images := free\<rparr>"
  have c0: "0 \<le> ?credit" using cnt(1) qty(2) by (rule mult_nonneg_nonneg)
  have b2: "books {} uid 0 0 0 st2" using b u2 by (rule books_untouched)
  have w2: "get_wallet uid st2 = Some w" using w u2 by (simp add: untouched_def get_wallet_def)
  have fresh2: "\<forall>r \<in> set (db_reservations st2). r_idem r \<noteq> idem" using fresh u2 by (simp add: untouched_def)
  let ?opts = "(charge_opts q rid [(''sku'', PStr (cr_sku q)), (''quantity'', PInt qty)])
                  \<lparr>lo_cash_amount := - ?cash, lo_cash_after := Some (w_cash w - ?cash)\<rparr>"
  let ?imgs = "charge_opts q rid [(''sku'', PStr (cr_sku q)), (''grant_holds'', holds_json holds)]"
  have opts: "lo_cash_amount ?opts = - ?cash" "lo_cash_after ?opts = Some (w_cash w - ?cash)" by simp_all
  from s i t obtain st3 st4 where bal: "?credit \<le> w_credit w"
    and st3: "(if ?credit \<noteq> 0 then debit_wallet uid ?credit ?cash current st2 else Inr st2) = Inr st3"
    and st4: "insert_reservation ?row st3 = Inr st4"
    and st': "st' = (let st5 = (if ?credit \<noteq> 0 then insert_ledger uid Credit ''reserve'' (- ?credit)
          (w_credit w - ?credit) (idem @ '':credit_hold'') ?opts current st4 else st4) in
        if free \<noteq> 0 then insert_ledger uid Image ''reserve'' (- free) (total_images uid st5)
          (idem @ '':image_hold'') ?imgs current st5 else st5)"
    by (simp add: reserve_held_def Let_def bindr_eq_Inr show_reservation_Inr uid not_less split: if_split_asm)
  have wb: "0 \<le> w_cash w" "w_cash w \<le> w_credit w" using books_wallet_bounds [OF b2 w2] by simp_all
  note cp = cash_part_bounds [OF wb c0 bal]
  have row: "held_ok ?row"
  proof -
    have "(if cr_image q then max (qty - free) 0 * rate else max qty 0 * rate) \<le> ?credit"
      using cnt qty by auto
    then show ?thesis using cp cnt(2) qty(2) by (auto simp: held_ok_def)
  qed
  define st5 where "st5 = (if ?credit \<noteq> 0 then insert_ledger uid Credit ''reserve'' (- ?credit)
          (w_credit w - ?credit) (idem @ '':credit_hold'') ?opts current st4 else st4)"
  have b5: "books {} uid 0 0 0 st5"
  proof (cases "?credit = 0")
    case True
    then have "st3 = st2" using st3 by simp
    with books_insert_reservation(1) [OF b2 _ row] st4 True w2 show ?thesis
      by (simp add: st5_def weight_def)
  next
    case False
    have "books {} uid 0 0 0 (insert_ledger uid Credit ''reserve'' (- ?credit)
          (w_credit w - ?credit) (idem @ '':credit_hold'') ?opts current st4)"
      by (rule hold_books [OF b2 fresh2 w2 bal cp(1,2,4) _ st4 row _ _ _ _ opts])
        (use st3 False in simp_all)
    with False show ?thesis by (simp add: st5_def)
  qed
  have "key_explained {} st5 (idem @ CHR '':'' # ''image_hold'')"
    by (intro explained_suffix books_uuids [OF b5]) (auto simp: money_classes_def)
  then have "books {} uid 0 0 0 (insert_ledger uid Image ''reserve'' (- free) (total_images uid st5)
      (idem @ '':image_hold'') ?imgs current st5)"
    by (intro books_note [OF b5]) simp_all
  with b5 show ?thesis unfolding st' st5_def [symmetric] Let_def by simp
qed

lemma reserve_books:
  assumes b: "books {} uid 0 0 0 st" and s: "reserve_charge q current st = Inr (v, st')"
  shows "books {} uid 0 0 0 st'"
proof (cases "reservation_by_idem (charge_idem q) st")
  case (Some r)
  with s b show ?thesis
    by (auto simp: reserve_charge_def Let_def replay_charge_def bindr_eq_Inr split: if_splits)
next
  case None
  let ?u = "cr_user_id q" and ?qty = "max (cr_quantity q) 0"
  have b0: "books {} ?u 0 0 0 st" using b by (rule books_user)
  from s None obtain w st1 rate cid where e: "ensure_wallet ?u current st = Inr (w, st1)"
    and rate: "action_rate_units (cr_sku q) st1 = Inr (rate, cid)"
    by (auto simp: reserve_charge_def Let_def bindr_eq_Inr split: if_splits)
  note ew = ensure_wallet_books [OF b0 e]
  have fresh: "\<forall>r \<in> set (db_reservations st1). r_idem r \<noteq> charge_idem q"
    using None ew(2) by (simp add: reservation_by_idem_None same_tables_def)
  let ?reason = "if \<not> enforcement_enabled st1 then ''feature_disabled'' else if cr_waived q then ''admin'' else []"
  from s None e rate have "(if ?reason \<noteq> [] then reserve_waived q ?qty (charge_idem q) ?reason rate cid w current st1
      else if w_unlimited w then reserve_unlimited q ?qty (charge_idem q) rate cid w current st1
      else reserve_held q ?qty (charge_idem q) rate cid w current st1) = Inr (v, st')"
    by (auto simp: reserve_charge_def Let_def split: if_splits)
  then have "books {} ?u 0 0 0 st'"
    using waived_books [OF ew(1)] unlimited_hold_books [OF ew(1)] ew(3)
      held_books [OF ew(1) refl fresh ew(3) max.cobounded2 action_rate_units_nonneg [OF rate]]
    by (auto split: if_splits)
  then show ?thesis by (rule books_user)
qed

section \<open>Exact purchases\<close>

lemma dget_dupdate:
  "distinct (map fst e) \<Longrightarrow> dget (dupdate d e) k = (case map_of e k of None \<Rightarrow> dget d k | Some v \<Rightarrow> v)"
  by (simp add: dget_def map_of_dupdate map_add_def split: option.splits)

text \<open>The caller's metadata does not claim unlimited compute (the only caller, the proxy
  purchase, passes an order id and a price).\<close>

definition plain_meta :: "exact_request \<Rightarrow> bool" where
  "plain_meta q = (\<not> truthy (dget (er_meta q) ''unlimited_compute''))"

lemma exact_waived_books:
  assumes b: "books {} (er_user_id q) 0 0 0 st" and w: "get_wallet (er_user_id q) st \<noteq> None"
    and s: "reserve_exact_waived q w current st = Inr (v, st')"
  shows "books {} (er_user_id q) 0 0 0 st'"
proof -
  obtain rid st1 where i: "new_id ''bill_hold'' st = (rid, st1)" by (cases "new_id ''bill_hold'' st")
  have b1: "books {} (er_user_id q) 0 0 0 st1" using i b by (rule books_new_id)
  have w1: "get_wallet (er_user_id q) st1 \<noteq> None"
    using w untouched_new_id [OF i] by (simp add: untouched_def get_wallet_def)
  from s i obtain meta st2 opts where
    st2: "insert_reservation (blank_reservation rid (er_user_id q) (er_ref_type q) (er_ref_id q)
          (er_sku q) Waived [] meta (exact_idem q) current) st1 = Inr st2"
    and st': "st' = insert_ledger (er_user_id q) Audit ''admin_waived'' 0 (w_credit w)
          (exact_idem q @ '':waived'') opts current st2"
    by (auto simp: reserve_exact_waived_def Let_def bindr_eq_Inr show_reservation_Inr)
  have b2: "books {} (er_user_id q) 0 0 0 st2"
    using books_insert_reservation(1) [OF b1 st2 _ _ w1] by (simp add: held_ok_def weight_def)
  have "key_explained {} st2 (exact_idem q @ CHR '':'' # ''waived'')"
    by (intro explained_suffix books_uuids [OF b2]) (auto simp: money_classes_def)
  then show ?thesis unfolding st' by (intro books_note [OF b2]) simp_all
qed

lemma exact_held_books:
  assumes b: "books {} uid 0 0 0 st" and uid: "er_user_id q = uid" and m: "plain_meta q"
    and fresh: "\<forall>r \<in> set (db_reservations st). r_idem r \<noteq> exact_idem q"
    and w: "get_wallet uid st = Some w" and amount: "0 < er_credit_units q" "er_credit_units q \<le> w_cash w"
    and s: "reserve_exact_held q w current st = Inr (v, st')"
  shows "books {} uid 0 0 0 st'"
proof -
  let ?a = "er_credit_units q"
  obtain rid st1 where i: "new_id ''bill_hold'' st = (rid, st1)" by (cases "new_id ''bill_hold'' st")
  note u1 = untouched_new_id [OF i]
  have b1: "books {} uid 0 0 0 st1" using b u1 by (rule books_untouched)
  have w1: "get_wallet uid st1 = Some w" using w u1 by (simp add: untouched_def get_wallet_def)
  have fresh1: "\<forall>r \<in> set (db_reservations st1). r_idem r \<noteq> exact_idem q"
    using fresh u1 by (simp add: untouched_def)
  have wb: "0 \<le> w_cash w" "w_cash w \<le> w_credit w" using books_wallet_bounds [OF b1 w1] by simp_all
  let ?m = "[(''quantity'', PInt 1), (''unit_credit_units'', PInt ?a), (''image'', PBool False),
             (''admin_waived'', PBool False), (''exact_cash_backed'', PBool True),
             (''cash_backed_credit_units'', PInt ?a)]"
  let ?row = "(blank_reservation rid uid (er_ref_type q) (er_ref_id q) (er_sku q) Held []
      (dupdate (er_meta q) ?m) (exact_idem q) current)\<lparr>r_reserved_credit := ?a, r_reserved_cash := ?a\<rparr>"
  let ?opts = "(exact_opts q rid [(''sku'', PStr (er_sku q)), (''exact_cash_backed'', PBool True)])
               \<lparr>lo_cash_amount := - ?a, lo_cash_after := Some (w_cash w - ?a)\<rparr>"
  from s i w1 wb amount obtain st2 st3 where st2: "debit_wallet uid ?a ?a current st1 = Inr st2"
    and st3: "insert_reservation ?row st2 = Inr st3"
    and st': "st' = insert_ledger uid Credit ''reserve'' (- ?a) (w_credit w - ?a)
        (exact_idem q @ '':credit_hold'') ?opts current st3"
    by (auto simp: reserve_exact_held_def insufficient_cash_def Let_def bindr_eq_Inr show_reservation_Inr uid
        split: if_splits)
  have "held_ok ?row"
    using amount m by (simp add: held_ok_def dget_dupdate plain_meta_def)
  then show ?thesis
    unfolding st' using wb amount
    by (intro hold_books [OF b1 fresh1 w1 _ _ _ _ st2 st3]) simp_all
qed

lemma exact_books:
  assumes b: "books {} uid 0 0 0 st" and m: "plain_meta q"
    and s: "reserve_exact_cash_charge q current st = Inr (v, st')"
  shows "books {} uid 0 0 0 st'"
proof (cases "exact_existing q st")
  case (Some r)
  with s b show ?thesis
    by (auto simp: reserve_exact_cash_charge_def replay_exact_def bindr_eq_Inr Let_def split: if_splits)
next
  case None
  let ?u = "er_user_id q"
  have b0: "books {} ?u 0 0 0 st" using b by (rule books_user)
  from None have n: "reservation_by_idem (exact_idem q) st = None"
    by (simp add: exact_existing_def split: option.splits)
  from s None obtain w st1 where e: "ensure_wallet ?u current st = Inr (w, st1)"
    and pos: "0 < er_credit_units q"
    and d: "(if er_waived q then reserve_exact_waived q w current st1
        else if w_cash w < er_credit_units q then insufficient_cash
        else reserve_exact_held q w current st1) = Inr (v, st')"
    by (auto simp: reserve_exact_cash_charge_def bindr_eq_Inr split: if_splits)
  note ew = ensure_wallet_books [OF b0 e]
  have fresh: "\<forall>r \<in> set (db_reservations st1). r_idem r \<noteq> exact_idem q"
    using n ew(2) by (simp add: reservation_by_idem_None same_tables_def)
  have "books {} ?u 0 0 0 st'"
    using d ew(3) exact_waived_books [OF ew(1)] exact_held_books [OF ew(1) refl m fresh ew(3) pos]
    by (auto simp: insufficient_cash_def split: if_splits)
  then show ?thesis by (rule books_user)
qed

end
