(* ===== verification/BillingOrderSafety.thy ===== *)
theory BillingOrderSafety
  imports BillingCharges
begin

text \<open>
  Orders, refunds and terminations keep the books; then the whole component as a state
  machine: \<open>bill_step\<close> has one rule per operation of the API, and every reachable database
  has its books in order.
\<close>

section \<open>Keys of the entries of an order\<close>

lemma order_of_key:
  assumes "keys_ok X st" "get_order oid st = Some r" and k: "order_key r (CHR '':'' # c) \<in> l_idem ` set (db_ledger st)"
  shows "c = ''credit'' \<Longrightarrow> o_status r \<noteq> Pending \<or> BusyApproval oid \<in> X"
    and "c = ''credit_refund'' \<Longrightarrow> o_status r = Refunded \<or> BusyRefund oid \<in> X"
proof -
  have r: "o_id r = oid" "r \<in> set (db_orders st)"
    using assms(2) orders_tbl.get_key unfolding get_order_def by blast+
  have only: "x = r" if "x \<in> set (db_orders st)" "o_id x = o_id r" for x
    using assms(1) r that orders_tbl.get_in [of "db_orders st"] unfolding keys_ok_def by (metis option.inject)
  note e = keys_okD [OF assms(1) k]
  have c: "key_class (order_key r (CHR '':'' # c)) = rev c" if "CHR '':'' \<notin> set c"
    using key_class_append [OF that, of "''order:'' @ o_id r"] by (simp add: order_key_def)
  show "o_status r \<noteq> Pending \<or> BusyApproval oid \<in> X" if l: "c = ''credit''"
  proof -
    have "key_class (order_key r (CHR '':'' # c)) = rev ''credit''" using c l by simp
    with e obtain x where x: "x \<in> set (db_orders st)" "order_key r (CHR '':'' # c) = order_key x '':credit''"
      "o_status x \<noteq> Pending \<or> BusyApproval (o_id x) \<in> X"
      unfolding key_explained_def by blast
    then show ?thesis using only [OF x(1)] l r by (auto simp: order_key_def)
  qed
  show "o_status r = Refunded \<or> BusyRefund oid \<in> X" if l: "c = ''credit_refund''"
  proof -
    have "key_class (order_key r (CHR '':'' # c)) = rev ''credit_refund''" using c l by simp
    with e obtain x where x: "x \<in> set (db_orders st)" "order_key r (CHR '':'' # c) = order_key x '':credit_refund''"
      "o_status x = Refunded \<or> BusyRefund (o_id x) \<in> X"
      unfolding key_explained_def by blast
    then show ?thesis using only [OF x(1)] l r by (auto simp: order_key_def)
  qed
qed

lemma in_orders: "get_order oid st = Some r \<Longrightarrow> r \<in> set (db_orders st) \<and> o_id r = oid"
  unfolding get_order_def using orders_tbl.get_key by blast

lemma show_order_Inr: "show_order oid st = Inr (v, st') \<longleftrightarrow>
    st' = st \<and> (\<exists>r. get_order oid st = Some r \<and> v = order_public r)"
  by (auto simp: show_order_def split: option.splits)

text \<open>An entry of another asset under a key with a literal suffix.\<close>

lemma books_note_suffix:
  assumes "books X uid' a k h st" "asset \<noteq> Credit" "key = x @ CHR '':'' # c"
    "CHR '':'' \<notin> set c" "take 11 c \<noteq> ''adjustment_''" "\<not> set c \<subseteq> set ''-0123456789''" "c \<notin> set money_classes"
  shows "books X uid' a k h (insert_ledger uid asset event amount bal key opts current st)"
  unfolding assms(3)
  using assms(4-7) by (intro books_note [OF assms(1,2)] explained_suffix books_uuids [OF assms(1)])

section \<open>Approving\<close>

lemma approve_credit_books:
  assumes b: "books {} uid 0 0 0 st" and r: "get_order oid st = Some r" "o_status r = Pending" "o_user_id r = uid"
    and w: "get_wallet uid st = Some w" and s: "approve_credit_pack r w current st = Inr st'"
  shows "books {BusyApproval oid} uid 0 0 0 st'" "db_orders st' = db_orders st"
proof -
  have b': "books {BusyApproval oid} uid 0 0 0 st" using b by (rule books_weaken) simp
  note ri = in_orders [OF r(1)]
  from s obtain p where p: "int_field (vget (snapshot_item r) ''total_points'') = Inr p"
    by (auto simp: approve_credit_pack_def Let_def bindr_eq_Inr)
  let ?c = "p * POINT_SCALE * row_quantity r"
  let ?opts = "(order_opts r [(''sku'', PStr (o_sku r)), (''quantity'', PInt (row_quantity r))])
               \<lparr>lo_cash_amount := ?c, lo_cash_after := Some (w_cash w + ?c)\<rparr>"
  from s p obtain st1 where st1: "credit_wallet uid ?c ?c current st = Inr st1"
    by (auto simp: approve_credit_pack_def Let_def bindr_eq_Inr r(3))
  define st2 where "st2 = insert_ledger uid Credit ''credit_pack_approved'' ?c (w_credit w + ?c)
      (order_key r '':credit'') ?opts current st1"
  from s p st1 obtain bonus where bonus: "int_field (vget (snapshot_item r) ''bonus_images'') = Inr bonus"
    by (auto simp: approve_credit_pack_def Let_def bindr_eq_Inr r(3))
  have wb: "0 \<le> w_cash w" "w_cash w \<le> w_credit w" using books_wallet_bounds [OF b w] by simp_all
  have c: "0 \<le> w_cash w + ?c"
    using st1 w by (auto simp: credit_wallet_def update_wallet_def wallet_check_def split: if_splits)
  note u = books_update_wallet [OF b' st1 [unfolded credit_wallet_def] w, where a' = ?c and k' = ?c]
  have b1: "books {BusyApproval oid} uid ?c ?c 0 st1"
    and w1: "get_wallet uid st1 = Some (w\<lparr>w_credit := w_credit w + ?c, w_cash := w_cash w + ?c, w_updated_at := current\<rparr>)"
    and s1: "st1 = st\<lparr>db_wallets := db_wallets st1\<rparr>"
    using u wb c by simp_all
  have l1: "db_ledger st1 = db_ledger st" "db_orders st1 = db_orders st" by (subst s1, simp)+
  have b2: "books {BusyApproval oid} uid 0 0 0 st2"
    unfolding st2_def
  proof (rule books_post [OF b1])
    have "key_explained {BusyApproval oid} st1 ((''order:'' @ o_id r) @ CHR '':'' # ''credit'')"
      using ri by (intro explained_money books_uuids [OF b1] bexI [of _ r]) (simp_all add: money_classes_def l1)
    then show "key_explained {BusyApproval oid} st1 (order_key r '':credit'')" by (simp add: order_key_def)
    show "order_key r '':credit'' \<notin> l_idem ` set (db_ledger st1)"
      using order_of_key(1) [OF books_keys [OF b] r(1), of "''credit''"] r(2) by (auto simp: l1)
  qed (use w1 in \<open>simp_all add: ledger_cash_after_def cash_of_def credit_of_def charge_events_def\<close>)
  have "books {BusyApproval oid} uid 0 0 0 st' \<and> db_orders st' = db_orders st"
  proof (cases "bonus * row_quantity r = 0")
    case True
    with s p st1 bonus have "st' = st2" by (simp add: approve_credit_pack_def Let_def st2_def r(3))
    with b2 show ?thesis by (simp add: st2_def l1)
  next
    case False
    obtain gid st3 where i: "new_id ''image_grant'' st2 = (gid, st3)" by (cases "new_id ''image_grant'' st2")
    let ?st4 = "insert_grant_or_ignore (new_grant gid uid CreditPackBonus (o_id r) (bonus * row_quantity r) current 0 current) st3"
    from s p st1 bonus False i have st': "st' = insert_ledger uid Image ''credit_pack_bonus'' (bonus * row_quantity r)
        (total_images uid ?st4) (order_key r '':images'') (order_opts r [(''permanent'', PBool True)]) current ?st4"
      by (simp add: approve_credit_pack_def Let_def st2_def r(3))
    have "books {BusyApproval oid} uid 0 0 0 ?st4"
      by (rule books_insert_grant_or_ignore, rule books_new_id [OF i b2])
    then have "books {BusyApproval oid} uid 0 0 0 st'"
      unfolding st' by (rule books_note_suffix [where x = "''order:'' @ o_id r" and c = "''images''"])
        (simp_all add: order_key_def money_classes_def)
    moreover have "db_orders ?st4 = db_orders st2"
      using untouched_new_id [OF i]
      by (auto simp: insert_grant_or_ignore_def insert_grant_def untouched_def split: sum.splits)
    ultimately show ?thesis by (simp add: st' st2_def l1)
  qed
  then show "books {BusyApproval oid} uid 0 0 0 st'" "db_orders st' = db_orders st" by simp_all
qed

text \<open>The statements of a subscription approval move no credit.\<close>

definition quiet :: "bdb \<Rightarrow> bdb \<Rightarrow> bool" where
  "quiet st st' = (db_orders st' = db_orders st \<and> db_wallets st' = db_wallets st
     \<and> db_reservations st' = db_reservations st
     \<and> (\<forall>X uid. books X uid 0 0 0 st \<longrightarrow> books X uid 0 0 0 st'))"

lemma quiet_refl [simp]: "quiet st st"
  by (simp add: quiet_def)

lemma quiet_trans [trans]: "quiet st st' \<Longrightarrow> quiet st' st'' \<Longrightarrow> quiet st st''"
  by (simp add: quiet_def)

lemma quiet_new_id: "new_id p st = (i, st') \<Longrightarrow> quiet st st'"
  using untouched_new_id [of p st i st'] books_new_id [of p st i st'] unfolding quiet_def untouched_def by blast

lemma quiet_statements:
  "insert_subscription s st = Inr st' \<Longrightarrow> quiet st st'"
  "insert_period p st = Inr st' \<Longrightarrow> quiet st st'"
  "insert_grant g st = Inr st' \<Longrightarrow> quiet st st'"
  "update_grant gid f st = Inr st' \<Longrightarrow> quiet st st'"
  "quiet st (update_subscription sid f' st)"
  "quiet st (update_period sid f'' st)"
  by (auto simp: quiet_def books_quiet)
    (auto simp: insert_subscription_def insert_period_def insert_grant_def update_grant_def
      update_subscription_def update_period_def split: if_splits option.splits)

lemma quiet_note:
  assumes "asset \<noteq> Credit" "key = x @ CHR '':'' # c"
    "CHR '':'' \<notin> set c" "take 11 c \<noteq> ''adjustment_''" "\<not> set c \<subseteq> set ''-0123456789''" "c \<notin> set money_classes"
  shows "quiet st (insert_ledger uid asset event amount bal key opts current st)"
  using assms books_note_suffix unfolding quiet_def by simp

lemma quiet_foldr:
  assumes "\<And>x s s'. f s x = Inr s' \<Longrightarrow> quiet s s'" and "foldr_res f s xs = Inr s'"
  shows "quiet s s'"
  using assms(2) by (rule foldr_res_invariant) (auto intro: quiet_trans assms(1))

lemma new_subscriptions_quiet:
  "new_subscriptions r current n st = Inr (sids, st') \<Longrightarrow> quiet st st'"
proof (induction n arbitrary: st sids)
  case (Suc n)
  obtain sid st1 where i: "new_id ''subscription'' st = (sid, st1)" by (cases "new_id ''subscription'' st")
  from Suc.prems i obtain st2 sids' where "insert_subscription \<lparr>s_id = sid, s_user_id = o_user_id r, s_plan_sku = o_sku r,
        s_status = SubActive, s_period_end = 0, s_created_at = current, s_updated_at = current\<rparr> st1 = Inr st2"
    "new_subscriptions r current n st2 = Inr (sids', st')"
    by (auto simp: Let_def bindr_eq_Inr)
  with Suc.IH quiet_new_id [OF i] quiet_statements(1) show ?case by (blast intro: quiet_trans)
qed simp

lemma approve_month_quiet:
  assumes "approve_month r sid images months mi start current st = Inr (e, st')"
  shows "quiet st st'"
proof -
  obtain pid st1 where i: "new_id ''subscription_period'' st = (pid, st1)" by (cases "new_id ''subscription_period'' st")
  from assms i have cal: "add_calendar_month start = Inr e"
    by (auto simp: approve_month_def Let_def bindr_eq_Inr split_def)
  let ?p = "\<lparr>p_id = pid, p_subscription_id = sid, p_user_id = o_user_id r, p_source_order_id = o_id r,
      p_start_at = start, p_end_at = e,
      p_status = (if start \<le> current \<and> current < e then PeriodActive else Scheduled), p_created_at = current\<rparr>"
  from assms i cal obtain st2 where p: "insert_period ?p st1 = Inr st2"
    by (auto simp: approve_month_def Let_def bindr_eq_Inr)
  obtain gid st3 where j: "new_id ''image_grant'' st2 = (gid, st3)" by (cases "new_id ''image_grant'' st2")
  from assms i cal p j obtain g st4 opts where g: "insert_grant g st3 = Inr st4"
    and st': "st' = insert_ledger (o_user_id r) SubscriptionAsset ''subscription_period_approved'' 1 1
          (''period:'' @ pid @ '':approved'') opts current st4"
    by (auto simp: approve_month_def Let_def bindr_eq_Inr)
  have "quiet st st1" using i by (rule quiet_new_id)
  also have "quiet st1 st2" using p by (rule quiet_statements)
  also have "quiet st2 st3" using j by (rule quiet_new_id)
  also have "quiet st3 st4" using g by (rule quiet_statements)
  also have "quiet st4 st'" unfolding st'
    by (rule quiet_note [where x = "''period:'' @ pid" and c = "''approved''"]) (simp_all add: money_classes_def)
  finally show ?thesis .
qed

lemma approve_months_quiet:
  "approve_months r sid images months current n start st = Inr (e, st') \<Longrightarrow> quiet st st'"
proof (induction n arbitrary: start st)
  case (Suc n)
  then show ?case by (auto simp: bindr_eq_Inr intro: quiet_trans [OF approve_month_quiet])
qed simp

lemma extend_subscription_quiet: "extend_subscription r images months current st sid = Inr st' \<Longrightarrow> quiet st st'"
  by (auto simp: extend_subscription_def bindr_eq_Inr split: option.splits
      intro: quiet_trans [OF approve_months_quiet quiet_statements(5)])

lemma approve_subscription_books:
  assumes b: "books X uid 0 0 0 st" and s: "approve_subscription r current st = Inr st'"
  shows "books X uid 0 0 0 st'" "db_orders st' = db_orders st"
proof -
  from s obtain images months targets st1 st2 where
    t: "(if o_renewals r \<noteq> []
       then Inr (if length (o_renewals r) = 1 then concat (replicate (nat (row_quantity r)) (o_renewals r))
                 else o_renewals r, st)
       else new_subscriptions r current (nat (row_quantity r)) st) = Inr (targets, st1)"
    and f: "foldr_res (extend_subscription r images months current) st1 targets = Inr st2"
    and st': "st' = touch_wallet (o_user_id r) (\<lambda>w. w\<lparr>w_mode := Enforced, w_updated_at := current\<rparr>) st2"
    by (auto simp: approve_subscription_def Let_def bindr_eq_Inr)
  have "quiet st st1" using t new_subscriptions_quiet by (auto split: if_splits)
  also have "quiet st1 st2" using f by (rule quiet_foldr [rotated]) (rule extend_subscription_quiet)
  finally have "quiet st st2" .
  with b have "books X uid 0 0 0 st2" "db_orders st2 = db_orders st" by (simp_all add: quiet_def)
  then show "books X uid 0 0 0 st'" "db_orders st' = db_orders st"
    unfolding st' by (auto intro: books_touch_wallet) (simp add: touch_wallet_def)
qed

lemma approve_books:
  assumes b: "books {} uid 0 0 0 st" and s: "approve_order oid actor note current st = Inr (v, st')"
  shows "books {} uid 0 0 0 st'"
proof -
  from s obtain r where r: "get_order oid st = Some r" by (auto simp: approve_order_def split: option.splits)
  show ?thesis
  proof (cases "o_status r = Pending")
    case False
    with s r b show ?thesis by (auto simp: approve_order_def split: if_splits)
  next
    case True
    let ?u = "o_user_id r"
    let ?f = "\<lambda>x. x\<lparr>o_status := Approved, o_reviewed_by := actor, o_reviewed_at := current,
                  o_review_note := take 1000 note, o_updated_at := current\<rparr>"
    from s r True obtain w st1 st2 where e: "ensure_wallet ?u current st = Inr (w, st1)"
      and k: "(if o_kind r = CreditPack then approve_credit_pack r w current st1
                 else approve_subscription r current st1) = Inr st2"
      and st': "st' = update_order oid (\<lambda>x. o_status x = Pending) ?f st2"
      by (auto simp: approve_order_def bindr_eq_Inr show_order_Inr)
    have b0: "books {} ?u 0 0 0 st" using b by (rule books_user)
    note ew = ensure_wallet_books [OF b0 e]
    have r1: "get_order oid st1 = Some r" using ew(2) r by (simp add: same_tables_def get_order_def)
    have bX: "books {BusyApproval oid} ?u 0 0 0 st1" using ew(1) by (rule books_weaken) simp
    have b2: "books {BusyApproval oid} ?u 0 0 0 st2 \<and> db_orders st2 = db_orders st1"
    proof (cases "o_kind r = CreditPack")
      case True
      with k approve_credit_books [OF ew(1) r1 \<open>o_status r = Pending\<close> refl ew(3)] show ?thesis by simp
    next
      case False
      with k approve_subscription_books [OF bX] show ?thesis by simp
    qed
    then have r2: "get_order oid st2 = Some r" using r1 by (simp add: get_order_def)
    have "books ({BusyApproval oid} - {BusyApproval oid, BusyRefund oid}) ?u 0 0 0 st'"
      unfolding st' by (rule books_update_order(1) [OF conjunct1 [OF b2] r2]) (simp_all add: True)
    then have "books {} ?u 0 0 0 st'" by simp
    then show ?thesis by (rule books_user)
  qed
qed

lemma review_books:
  assumes b: "books {} uid 0 0 0 st" and s: "review_order oid actor desired note current st = Inr (v, st')"
  shows "books {} uid 0 0 0 st'"
proof (cases "desired = ''approved''")
  case True
  with s approve_books [OF b] show ?thesis by (simp add: review_order_def)
next
  case False
  with s obtain status r where d: "order_status_of desired = Some status" and r: "get_order oid st = Some r"
    by (auto simp: review_order_def split: option.splits)
  have status: "status \<noteq> Pending" using d by (auto simp: order_status_of_def split: if_splits)
  show ?thesis
  proof (cases "o_status r = Pending")
    case False
    with s \<open>desired \<noteq> ''approved''\<close> d r b show ?thesis by (auto simp: review_order_def split: if_splits)
  next
    case True
    let ?f = "\<lambda>x. x\<lparr>o_status := status, o_reviewed_by := actor, o_reviewed_at := current,
                   o_review_note := take 1000 note, o_updated_at := current\<rparr>"
    from s \<open>desired \<noteq> ''approved''\<close> d r True status have st': "st' = update_order oid (\<lambda>x. o_status x = Pending) ?f st"
      by (auto simp: review_order_def show_order_Inr split: if_splits)
    have "books ({} - {BusyApproval oid, BusyRefund oid}) uid 0 0 0 st'"
      unfolding st' by (rule books_update_order(1) [OF b r]) (use True status in simp_all)
    then show ?thesis by simp
  qed
qed

lemma cancel_books:
  assumes b: "books {} uid' 0 0 0 st" and s: "cancel_order oid uid current st = Inr (v, st')"
  shows "books {} uid' 0 0 0 st'"
proof -
  from s obtain r where f: "find_row (\<lambda>r. o_id r = oid \<and> o_user_id r = uid) (db_orders st) = Some r"
    by (auto simp: cancel_order_def split: option.splits)
  then have fr: "r \<in> set (db_orders st)" "o_id r = oid" "o_user_id r = uid" using find_row_SomeD [OF f] by simp_all
  have r: "get_order oid st = Some r"
    using b fr orders_tbl.get_in [of "db_orders st" r] by (simp add: books_def keys_ok_def get_order_def)
  show ?thesis
  proof (cases "o_status r = Pending")
    case False
    with s f b show ?thesis by (auto simp: cancel_order_def split: if_splits)
  next
    case True
    let ?f = "\<lambda>x. x\<lparr>o_status := Cancelled, o_updated_at := current\<rparr>"
    from s f True have st': "st' = update_order oid (\<lambda>x. o_user_id x = uid) ?f st"
      by (auto simp: cancel_order_def show_order_Inr split: if_splits)
    have "books ({} - {BusyApproval oid, BusyRefund oid}) uid' 0 0 0 st'"
      unfolding st' by (rule books_update_order(1) [OF b r]) (use True fr in simp_all)
    then show ?thesis by simp
  qed
qed

lemma create_order_books:
  assumes b: "books {} uid 0 0 0 st" and s: "create_order q current st = Inr (v, st')"
  shows "books {} uid 0 0 0 st'"
proof -
  have "books {} uid 0 0 0 st'" if p: "place_order r current st = Inr (v, st')" for r
  proof -
    let ?st1 = "snd (new_id ''bill_order'' st)"
    from p obtain row where "insert_order row ?st1 = Inr st'"
      by (auto simp: place_order_def bindr_eq_Inr show_order_Inr Let_def split_def split: if_splits)
    moreover have "books {} uid 0 0 0 ?st1"
      using b by (rule books_new_id [of _ _ "fst (new_id ''bill_order'' st)", rotated]) simp
    ultimately show ?thesis by (rule books_insert_order [rotated])
  qed
  with s b show ?thesis by (auto simp: create_order_def Let_def split: if_splits option.splits)
qed

section \<open>Refunding and terminating\<close>

definition revoke_events :: "string list" where
  "revoke_events = [''subscription_images_terminated'', ''credit_pack_bonus_revoked'', ''subscription_images_refunded'']"

lemma revoke_quiet:
  assumes "revoke_remaining_image_grant k current g st = Inr st'" and e: "rk_event k \<in> set revoke_events"
  shows "quiet st st'"
proof (cases "g_remaining g \<le> 0")
  case True
  with assms show ?thesis by (simp add: revoke_remaining_image_grant_def)
next
  case False
  with assms(1) obtain st1 f opts where u: "update_grant (g_id g) f st = Inr st1"
    and st': "st' = insert_ledger (rk_user_id k) Image (rk_event k) (- g_remaining g)
               (image_balance (rk_user_id k) current st1) (''grant:'' @ g_id g @ '':'' @ rk_event k) opts current st1"
    by (auto simp: revoke_remaining_image_grant_def Let_def bindr_eq_Inr)
  have "quiet st st1" using u by (rule quiet_statements)
  also have "quiet st1 st'"
    unfolding st' by (rule quiet_note [where x = "''grant:'' @ g_id g" and c = "rk_event k"])
      (use e in \<open>auto simp: revoke_events_def money_classes_def\<close>)
  finally show ?thesis .
qed

lemma cancel_period_quiet: "quiet st (cancel_period pid st)"
  unfolding cancel_period_def by (rule quiet_statements)

lemma refund_period_quiet:
  assumes "refund_period st0 r actor reason current st p = Inr st'"
  shows "quiet st st'"
proof -
  define st1 where "st1 = (if p_status p = PeriodCancelled then st
            else let s = cancel_period (p_id p) st in
              insert_ledger (o_user_id r) SubscriptionAsset ''subscription_period_refunded'' (- 1)
                (active_subscription_count (o_user_id r) current s) (''period:'' @ p_id p @ '':refunded'')
                (no_opts\<lparr>lo_ref_type := ''subscription'', lo_ref_id := p_subscription_id p,
                   lo_order_id := o_id r, lo_meta := [(''period_id'', PStr (p_id p)),
                     (''actor_user_id'', PInt actor), (''reason'', PStr reason)]\<rparr>) current s)"
  have "quiet st (insert_ledger (o_user_id r) SubscriptionAsset ''subscription_period_refunded''
      (- 1) bal (''period:'' @ p_id p @ '':refunded'') opts current (cancel_period (p_id p) st))" for bal opts
    by (rule quiet_trans [OF cancel_period_quiet],
        rule quiet_note [where x = "''period:'' @ p_id p" and c = "''refunded''"])
      (simp_all add: money_classes_def)
  then have q: "quiet st st1"
    unfolding st1_def Let_def by (simp only: if_split quiet_refl) blast
  show ?thesis
  proof (cases "monthly_grant_of st0 p")
    case None
    with assms q show ?thesis by (simp add: refund_period_def Let_def st1_def)
  next
    case (Some g)
    with assms have "revoke_remaining_image_grant
          \<lparr>rk_user_id = o_user_id r, rk_event = ''subscription_images_refunded'', rk_order_id = o_id r,
           rk_subscription_id = p_subscription_id p, rk_actor = actor, rk_reason = reason\<rparr> current g st1 = Inr st'"
      by (simp add: refund_period_def Let_def st1_def)
    then have "quiet st1 st'" by (rule revoke_quiet) (simp add: revoke_events_def)
    with q show ?thesis by (rule quiet_trans)
  qed
qed

lemma recompute_quiet: "quiet st (recompute_subscription_state now st sid)"
  by (auto simp: recompute_subscription_state_def Let_def split_def intro: quiet_statements(5))

lemma foldl_quiet: "(\<And>s x. quiet s (f s x)) \<Longrightarrow> quiet s (foldl f s xs)"
  by (induction xs arbitrary: s) (auto intro: quiet_trans)

lemma refund_subscription_quiet:
  assumes "refund_subscription r actor reason current st = Inr st'"
  shows "quiet st st'"
proof -
  from assms obtain ps st1 sids where f: "foldr_res (refund_period st r actor reason current) st ps = Inr st1"
    and st': "st' = foldl (recompute_subscription_state current) st1 sids"
    by (auto simp: refund_subscription_def Let_def bindr_eq_Inr split: if_splits)
  have "quiet st st1" using f by (rule quiet_foldr [rotated]) (rule refund_period_quiet)
  also have "quiet st1 st'" unfolding st' by (rule foldl_quiet) (rule recompute_quiet)
  finally show ?thesis .
qed

lemma refund_credit_books:
  assumes b: "books {} uid 0 0 0 st" and r: "get_order oid st = Some r" "o_status r = Approved" "o_user_id r = uid"
    and w: "get_wallet uid st = Some w" and c: "c \<le> w_cash w"
    and s: "refund_credit r c actor reason w current st = Inr st'"
  shows "books {BusyRefund oid} uid 0 0 0 st'" "db_orders st' = db_orders st"
    "db_reservations st' = db_reservations st"
proof -
  have b': "books {BusyRefund oid} uid 0 0 0 st" using b by (rule books_weaken) simp
  note ri = in_orders [OF r(1)]
  have "books {BusyRefund oid} uid 0 0 0 st' \<and> db_orders st' = db_orders st \<and> db_reservations st' = db_reservations st"
  proof (cases "c \<le> 0")
    case True
    with s b' show ?thesis by (simp add: refund_credit_def)
  next
    case False
    have wb: "0 \<le> w_cash w" "w_cash w \<le> w_credit w" using books_wallet_bounds [OF b w] by simp_all
    from s False obtain st1 opts where st1: "debit_wallet uid c c current st = Inr st1"
      and st': "st' = insert_ledger uid Credit ''credit_pack_refunded'' (- c) (w_credit w - c)
          (order_key r '':credit_refund'') opts current st1"
      and o: "lo_cash_amount opts = - c" "lo_cash_after opts = Some (w_cash w - c)"
      by (auto simp: refund_credit_def bindr_eq_Inr r(3))
    note u = books_update_wallet [OF b' st1 [unfolded debit_wallet_def] w, where a' = "- c" and k' = "- c"]
    have b1: "books {BusyRefund oid} uid (- c) (- c) 0 st1"
      and w1: "get_wallet uid st1 = Some (w\<lparr>w_credit := w_credit w - c, w_cash := w_cash w - c, w_updated_at := current\<rparr>)"
      and s1: "st1 = st\<lparr>db_wallets := db_wallets st1\<rparr>"
      using u wb c False by simp_all
    have l1: "db_ledger st1 = db_ledger st" "db_orders st1 = db_orders st" "db_reservations st1 = db_reservations st"
      by (subst s1, simp)+
    have "books {BusyRefund oid} uid 0 0 0 st'"
      unfolding st'
    proof (rule books_post [OF b1])
      have "key_explained {BusyRefund oid} st1 ((''order:'' @ o_id r) @ CHR '':'' # ''credit_refund'')"
        using ri by (intro explained_money books_uuids [OF b1] bexI [of _ r]) (simp_all add: money_classes_def l1)
      then show "key_explained {BusyRefund oid} st1 (order_key r '':credit_refund'')" by (simp add: order_key_def)
      show "order_key r '':credit_refund'' \<notin> l_idem ` set (db_ledger st1)"
        using order_of_key(2) [OF books_keys [OF b] r(1), of "''credit_refund''"] r(2) by (auto simp: l1)
    qed (use w1 o in \<open>simp_all add: ledger_cash_after_def cash_of_def credit_of_def charge_events_def\<close>)
    then show ?thesis by (simp add: st' l1)
  qed
  then show "books {BusyRefund oid} uid 0 0 0 st'" "db_orders st' = db_orders st"
    "db_reservations st' = db_reservations st" by simp_all
qed

lemma refund_credit_pack_books:
  assumes b: "books {} uid 0 0 0 st" and r: "get_order oid st = Some r" "o_status r = Approved" "o_user_id r = uid"
    and w: "get_wallet uid st = Some w"
    and s: "refund_credit_pack r actor reason w current st = Inr st'"
  shows "books {BusyRefund oid} uid 0 0 0 st'" "db_orders st' = db_orders st"
proof -
  from s obtain c st1 where c: "c \<le> w_cash w" and f: "refund_credit r c actor reason w current st = Inr st1"
    and d: "st' = st1 \<or> (\<exists>g. revoke_remaining_image_grant
            \<lparr>rk_user_id = o_user_id r, rk_event = ''credit_pack_bonus_revoked'', rk_order_id = o_id r,
             rk_subscription_id = [], rk_actor = actor, rk_reason = reason\<rparr> current g st1 = Inr st')"
    by (auto simp: refund_credit_pack_def benefits_used_def bindr_eq_Inr Let_def not_less
        split: if_splits option.splits)
  note rc = refund_credit_books [OF b r w c f]
  have "quiet st1 st'" using d by (auto intro: revoke_quiet simp: revoke_events_def)
  with rc show "books {BusyRefund oid} uid 0 0 0 st'" "db_orders st' = db_orders st" by (simp_all add: quiet_def)
qed

lemma refund_books:
  assumes b: "books {} uid 0 0 0 st" and s: "refund_approved_order oid actor reason current st = Inr (v, st')"
  shows "books {} uid 0 0 0 st'"
proof -
  from s obtain r where r: "get_order oid st = Some r"
    by (auto simp: refund_approved_order_def Let_def split: option.splits if_splits)
  show ?thesis
  proof (cases "o_status r = Approved")
    case False
    with s r b show ?thesis by (auto simp: refund_approved_order_def Let_def split: if_splits)
  next
    case True
    let ?u = "o_user_id r"
    let ?f = "\<lambda>x. x\<lparr>o_status := Refunded, o_refunded_by := actor, o_refunded_at := current,
                      o_refund_note := take 1000 (strip reason), o_updated_at := current\<rparr>"
    have ne: "strip reason \<noteq> []" using s by (auto simp: refund_approved_order_def Let_def)
    from s r True ne obtain w st1 st2 where e: "ensure_wallet ?u current st = Inr (w, st1)"
      and k: "(if o_kind r = CreditPack then refund_credit_pack r actor (strip reason) w current st1
                 else refund_subscription r actor (strip reason) current st1) = Inr st2"
      and d: "(case get_wallet ?u (update_order oid (\<lambda>x. o_status x = Approved) ?f st2) of
            None \<Rightarrow> Inl TypeError
          | Some x \<Rightarrow> show_order oid
              (insert_ledger ?u Audit ''order_refunded'' 0 (w_credit x) (order_key r '':refunded'')
                (order_opts r [(''actor_user_id'', PInt actor), (''reason'', PStr (strip reason)),
                   (''kind'', PStr (kind_name (o_kind r)))]) current
                (update_order oid (\<lambda>x. o_status x = Approved) ?f st2))) = Inr (v, st')"
      unfolding refund_approved_order_def Let_def by (simp add: bindr_eq_Inr) blast
    then obtain bal opts where
      st': "st' = insert_ledger ?u Audit ''order_refunded'' 0 bal (order_key r '':refunded'') opts current
        (update_order oid (\<lambda>x. o_status x = Approved) ?f st2)"
      by (auto simp: show_order_Inr split: option.splits)
    have b0: "books {} ?u 0 0 0 st" using b by (rule books_user)
    note ew = ensure_wallet_books [OF b0 e]
    have r1: "get_order oid st1 = Some r" using ew(2) r by (simp add: same_tables_def get_order_def)
    have bX: "books {BusyRefund oid} ?u 0 0 0 st1" using ew(1) by (rule books_weaken) simp
    have b2: "books {BusyRefund oid} ?u 0 0 0 st2 \<and> db_orders st2 = db_orders st1"
    proof (cases "o_kind r = CreditPack")
      case True
      with k refund_credit_pack_books [OF ew(1) r1 \<open>o_status r = Approved\<close> refl ew(3)] show ?thesis by simp
    next
      case False
      with k have "quiet st1 st2" by (intro refund_subscription_quiet) simp
      with bX show ?thesis by (simp add: quiet_def)
    qed
    then have r2: "get_order oid st2 = Some r" using r1 by (simp add: get_order_def)
    have "books ({BusyRefund oid} - {BusyApproval oid, BusyRefund oid}) ?u 0 0 0
        (update_order oid (\<lambda>x. o_status x = Approved) ?f st2)"
      by (rule books_update_order(1) [OF conjunct1 [OF b2] r2]) (simp_all add: True)
    then have "books {} ?u 0 0 0 st'"
      unfolding st' by (intro books_note_suffix [where x = "''order:'' @ o_id r" and c = "''refunded''"])
        (simp_all add: order_key_def money_classes_def)
    then show ?thesis by (rule books_user)
  qed
qed

lemma terminate_books:
  assumes b: "books {} uid 0 0 0 st" and s: "terminate_subscription sid actor reason current st = Inr (v, st')"
  shows "books {} uid 0 0 0 st'"
proof -
  from s obtain x where x: "get_subscription sid st = Some x"
    by (auto simp: terminate_subscription_def Let_def split: option.splits if_splits)
  show ?thesis
  proof (cases "s_status x = SubCancelled")
    case True
    with s x b show ?thesis by (auto simp: terminate_subscription_def Let_def split: if_splits)
  next
    case False
    let ?k = "\<lparr>rk_user_id = s_user_id x, rk_event = ''subscription_images_terminated'', rk_order_id = [],
                   rk_subscription_id = sid, rk_actor = actor, rk_reason = strip reason\<rparr>"
    from s x False obtain ps st1 f bal opts where l: "foldr_res (terminate_period st ?k current) st ps = Inr st1"
      and st': "st' = insert_ledger (s_user_id x) SubscriptionAsset ''subscription_terminated'' (- 1) bal
          (''subscription:'' @ sid @ '':terminated'') opts current (update_subscription sid f st1)"
      by (auto simp: terminate_subscription_def Let_def bindr_eq_Inr split: if_splits option.splits)
    have "quiet s s'" if "terminate_period st ?k current s p = Inr s'" for s s' p
      using that quiet_trans [OF cancel_period_quiet revoke_quiet]
      by (auto simp: terminate_period_def Let_def revoke_events_def cancel_period_quiet split: option.splits)
    then have "quiet st st1" using l by (rule quiet_foldr)
    also have "quiet st1 (update_subscription sid f st1)" by (rule quiet_statements)
    also have "quiet (update_subscription sid f st1) st'"
      unfolding st' by (rule quiet_note [where x = "''subscription:'' @ sid" and c = "''terminated''"])
        (simp_all add: money_classes_def)
    finally show ?thesis using b by (simp add: quiet_def)
  qed
qed

end
