(* ===== verification/BillingMachine.thy ===== *)
theory BillingMachine
  imports BillingOrderSafety
begin

text \<open>
  The billing component as a state machine.  A database starts empty of billing rows, the
  first start migrates the legacy balances (\<open>bootstrap_billing\<close>), and from then on every
  step is one transaction of the API, a restart, or a change another component makes to
  the tables billing does not own.  Every reachable database has its books in order.
\<close>

section \<open>The first start\<close>

definition fresh_db :: "bdb \<Rightarrow> bool" where
  "fresh_db st = (uuids_ok (uuids st) \<and> db_wallets st = [] \<and> db_ledger st = [] \<and> db_reservations st = []
     \<and> db_orders st = [] \<and> db_subscriptions st = [] \<and> db_periods st = [] \<and> db_grants st = []
     \<and> catalogs_ok (db_catalogs st) \<and> distinct (map u_id (db_users st)))"

lemma fresh_books: "fresh_db st \<Longrightarrow> books {} uid 0 0 0 st"
  by (simp add: fresh_db_def books_def wallets_ok_def payers_ok_def funds_ok_def keys_ok_def credit_entries_def credit_of_def
      cash_of_def get_wallet_def ledger_credit_def ledger_cash_def outstanding_def charged_def)

lemma migrate_user_alt:
  assumes "get_wallet (u_id u) st1 = Some w" "w_cash w = 0"
    and "st1 = insert_wallet_or_ignore (fresh_wallet (u_id u) (u_balance_cents u * POINT_SCALE) Legacy
      (u_balance_cents u) current) st"
  shows "migrate_user_v1 current u st = insert_ledger (u_id u) Credit ''opening_balance''
    (u_balance_cents u * POINT_SCALE) (u_balance_cents u * POINT_SCALE) (''migration:v1:'' @ show_int (u_id u))
    (no_opts\<lparr>lo_ref_type := ''migration'', lo_ref_id := ''v1'',
       lo_meta := [(''legacy_balance'', PInt (u_balance_cents u))]\<rparr>) current st1"
  using assms by (simp add: migrate_user_v1_def insert_ledger_def new_id_def no_opts_def ledger_cash_after_def Let_def)

text \<open>The users migrated so far: their wallets, and their keys in the ledger.\<close>

definition migrated :: "int set \<Rightarrow> bdb \<Rightarrow> bool" where
  "migrated done st = (books {} 0 0 0 0 st \<and> (\<forall>u. get_wallet u st \<noteq> None \<longrightarrow> u \<in> done)
     \<and> (\<forall>u. ''migration:v1:'' @ show_int u \<in> l_idem ` set (db_ledger st) \<longrightarrow> u \<in> done))"

lemma migrate_user_step:
  assumes m: "migrated done st" and u: "u_id u \<notin> done" "0 \<le> u_balance_cents u"
  shows "migrated (insert (u_id u) done) (migrate_user_v1 current u st)"
proof -
  let ?u = "u_id u" and ?c = "u_balance_cents u * POINT_SCALE"
  let ?w = "fresh_wallet ?u ?c Legacy (u_balance_cents u) current"
  let ?key = "''migration:v1:'' @ show_int ?u"
  have b: "books {} ?u 0 0 0 st" using m by (auto simp: migrated_def intro: books_user)
  have n: "get_wallet ?u st = None" using m u by (auto simp: migrated_def)
  have "0 \<le> ?c" using u by (simp add: POINT_SCALE_def)
  then obtain st1 where i: "insert_wallet ?w st = Inr st1"
    using n by (simp add: insert_wallet_def wallet_check_def fresh_wallet_def)
  note bi = books_insert_wallet [OF b n i]
  have l1: "db_ledger st1 = db_ledger st" by (subst bi(3)) simp
  have alt: "migrate_user_v1 current u st = insert_ledger ?u Credit ''opening_balance'' ?c ?c ?key
    (no_opts\<lparr>lo_ref_type := ''migration'', lo_ref_id := ''v1'',
       lo_meta := [(''legacy_balance'', PInt (u_balance_cents u))]\<rparr>) current st1"
    by (rule migrate_user_alt [OF bi(2)]) (simp_all add: i insert_wallet_or_ignore_def, simp add: fresh_wallet_def)
  have fresh: "?key \<notin> l_idem ` set (db_ledger st1)" using m u(1) by (auto simp: migrated_def l1)
  have x: "key_explained {} st1 ?key"
    by (rule explained_numbered [where x = "''migration:v1''" and uid = ?u]) simp_all
  have "books {} ?u 0 0 0 (migrate_user_v1 current u st)"
    unfolding alt by (rule books_post [OF bi(1) x fresh])
      (use bi(2) in \<open>simp_all add: no_opts_def ledger_cash_after_def cash_of_def credit_of_def fresh_wallet_def
        charge_events_def\<close>)
  then have "books {} 0 0 0 0 (migrate_user_v1 current u st)" by (rule books_user)
  moreover have "w \<in> insert ?u done" if "get_wallet w (migrate_user_v1 current u st) \<noteq> None" for w
  proof -
    have "get_wallet w st1 \<noteq> None" using that by (simp add: alt)
    moreover have "get_wallet w st1 = get_wallet w st" if "w \<noteq> ?u"
      using i n that by (auto simp: insert_wallet_def fresh_wallet_def get_wallet_def wallets_tbl.get_append
          cash_trigger_def split: if_splits option.splits)
    ultimately have "w = ?u \<or> get_wallet w st \<noteq> None" by (cases "w = ?u") auto
    then show ?thesis using m unfolding migrated_def by blast
  qed
  moreover have "w \<in> insert ?u done"
    if k: "''migration:v1:'' @ show_int w \<in> l_idem ` set (db_ledger (migrate_user_v1 current u st))" for w
  proof -
    from k have "''migration:v1:'' @ show_int w \<in> l_idem ` set (db_ledger st) \<or> show_int w = show_int ?u"
      using fresh unfolding alt insert_ledger_ledger [OF books_keys [OF bi(1)]] by (auto simp: l1 entry_def)
    then show ?thesis using m show_int_inj [of w ?u] by (auto simp: migrated_def)
  qed
  ultimately show ?thesis by (auto simp: migrated_def)
qed

lemma migrate_users:
  "migrated done st \<Longrightarrow> distinct (map u_id us) \<Longrightarrow> set (map u_id us) \<inter> done = {} \<Longrightarrow>
    \<forall>u \<in> set us. 0 \<le> u_balance_cents u \<Longrightarrow>
    migrated (set (map u_id us) \<union> done) (foldl (\<lambda>s u. migrate_user_v1 current u s) st us)"
proof (induction us arbitrary: "done" st)
  case (Cons u us)
  have "migrated (insert (u_id u) done) (migrate_user_v1 current u st)"
    using Cons.prems by (intro migrate_user_step) auto
  then have "migrated (set (map u_id us) \<union> insert (u_id u) done)
      (foldl (\<lambda>s u. migrate_user_v1 current u s) (migrate_user_v1 current u st) us)"
    using Cons.prems by (intro Cons.IH) auto
  then show ?case by simp
qed simp

lemma insert_config_books: "insert_config k v st = Inr st' \<Longrightarrow> books X uid a d h st \<Longrightarrow> books X uid a d h st'"
  by (erule books_cong) (auto simp: insert_config_def split: if_splits)

lemma migration_v1_books:
  assumes f: "fresh_db st" and m: "migration_v1 current st = Inr st'"
  shows "books {} 0 0 0 0 st'"
proof (cases "get_config ''commercial_billing_migration_v1'' st = None")
  case False
  with m fresh_books [OF f] show ?thesis by (simp add: migration_v1_def)
next
  case True
  let ?us = "filter (\<lambda>u. 0 \<le> u_balance_cents u) (db_users st)"
  have "migrated {} st" using fresh_books [OF f] f by (simp add: migrated_def fresh_db_def get_wallet_def)
  moreover have "distinct (map u_id ?us)" using f by (simp add: fresh_db_def distinct_map_filter)
  ultimately have "migrated (set (map u_id ?us) \<union> {}) (foldl (\<lambda>s u. migrate_user_v1 current u s) st ?us)"
    by (intro migrate_users) auto
  then show ?thesis using m True
    by (auto simp: migration_v1_def Let_def migrated_def intro: insert_config_books)
qed

section \<open>The migrations of the catalog\<close>

text \<open>The relation between databases that differ in catalogs, markers and drawn identifiers only.\<close>

lemma untouched_catalogs: "untouched st (st\<lparr>db_catalogs := cs\<rparr>)"
  by (simp add: untouched_def)

lemma untouched_marker: "marker k t extra st = Inr st' \<Longrightarrow> untouched st st'"
  by (auto simp: marker_def insert_config_def untouched_def split: if_splits)

lemma untouched_insert_active:
  assumes "insert_active n c t st = Inr st'"
  shows "untouched st st'"
proof -
  obtain cid st1 where i: "new_id ''catalog'' st = (cid, st1)" by (cases "new_id ''catalog'' st")
  with assms have "untouched st1 st'"
    by (auto simp: insert_active_def insert_catalog_def untouched_def Let_def split: if_splits)
  with untouched_new_id [OF i] show ?thesis by (rule untouched_trans)
qed

lemma untouched_supersede: "supersede c t st = Inr st' \<Longrightarrow> untouched st st'"
  unfolding supersede_def
  by (drule untouched_insert_active) (simp add: retire_active_def untouched_def)

lemma untouched_bootstrap: "bootstrap_active t st = Inr st' \<Longrightarrow> untouched st st'"
  by (auto simp: bootstrap_active_def untouched_insert_active split: if_splits)

lemma untouched_v2: "migration_v2 t st = Inr st' \<Longrightarrow> untouched st st'"
  by (auto simp: migration_v2_def bindr_eq_Inr Let_def split: if_splits
      intro: untouched_trans [OF untouched_supersede untouched_marker] untouched_marker)

lemma untouched_v3: "migration_v3 t st = Inr st' \<Longrightarrow> untouched st st'"
  by (auto simp: migration_v3_def bindr_eq_Inr Let_def split: if_splits
      intro: untouched_trans [OF untouched_supersede untouched_marker] untouched_marker)

lemma untouched_v4: "migration_v4 t st = Inr st' \<Longrightarrow> untouched st st'"
proof -
  assume m: "migration_v4 t st = Inr st'"
  have d: "untouched st (retire_drafts st)" by (simp add: retire_drafts_def untouched_def)
  show ?thesis
  proof (cases "get_config ''commercial_billing_catalog_v4'' st = None")
    case True
    with m obtain st2 extra where "retire_drafts st = st2 \<or> supersede (PDict DEFAULT_CATALOG) t (retire_drafts st) = Inr st2"
      "marker ''commercial_billing_catalog_v4'' t extra st2 = Inr st'"
      by (auto simp: migration_v4_def bindr_eq_Inr Let_def split: if_splits)
    with d show ?thesis by (meson untouched_trans untouched_marker untouched_supersede)
  next
    case False
    with m show ?thesis by (simp add: migration_v4_def)
  qed
qed

lemma untouched_v5: "migration_v5 t st = Inr st' \<Longrightarrow> untouched st st'"
  by (auto simp: migration_v5_def bindr_eq_Inr Let_def split: if_splits
      intro: untouched_trans [OF untouched_supersede untouched_marker] untouched_marker)

lemma untouched_upgrade_drafts: "upgrade_drafts f st = Inr (n, st') \<Longrightarrow> untouched st st'"
proof -
  have "untouched st (snd acc)" if "foldr_res (upgrade_draft f) (0, st) rows = Inr acc" for rows acc
    using that
  proof (rule foldr_res_invariant [where P = "\<lambda>acc. untouched st (snd acc)"])
    show "untouched st (snd (0, st))" by simp
    show "untouched st (snd s')" if "untouched st (snd s)" "upgrade_draft f s x = Inr s'" for s x s'
      using that by (auto simp: upgrade_draft_def bindr_eq_Inr untouched_def split: option.splits)
  qed
  then show "upgrade_drafts f st = Inr (n, st') \<Longrightarrow> untouched st st'"
    unfolding upgrade_drafts_def by fastforce
qed

lemma untouched_migration: "catalog_migration key f g t st = Inr st' \<Longrightarrow> untouched st st'"
proof -
  assume m: "catalog_migration key f g t st = Inr st'"
  show ?thesis
  proof (cases "get_config key st = None")
    case True
    with m obtain b st1 n st2 extra where a: "upgrade_active f t st = Inr (b, st1)"
      and d: "upgrade_drafts g st1 = Inr (n, st2)" and k: "marker key t extra st2 = Inr st'"
      by (auto simp: catalog_migration_def bindr_eq_Inr)
    have "untouched st st1"
      using a by (auto simp: upgrade_active_def bindr_eq_Inr untouched_supersede split: option.splits)
    with d k show ?thesis by (blast intro: untouched_trans untouched_upgrade_drafts untouched_marker)
  next
    case False
    with m show ?thesis by (simp add: catalog_migration_def)
  qed
qed

section \<open>Enforcement\<close>

lemma transition_quiet:
  assumes "transition_subscription uid sid pid ref n e current st = Inr st'"
  shows "quiet st st'"
proof (cases "0 < active_subscription_count uid current st")
  case True
  with assms show ?thesis by (simp add: transition_subscription_def)
next
  case False
  with assms obtain s st1 p st2 where 1: "insert_subscription s st = Inr st1" and 2: "insert_period p st1 = Inr st2"
    and 3: "(if 0 < n then let (gid, st3) = new_id ''image_grant'' st2 in
        insert_grant (new_grant gid uid SubscriptionMonthly ref n current e current) st3 else Inr st2) = Inr st'"
    by (simp add: transition_subscription_def bindr_eq_Inr) blast
  have "quiet st st2" using quiet_statements(1) [OF 1] quiet_statements(2) [OF 2] by (rule quiet_trans)
  also have "quiet st2 st'"
  proof (cases "0 < n")
    case True
    obtain gid st3 where i: "new_id ''image_grant'' st2 = (gid, st3)" by (cases "new_id ''image_grant'' st2")
    with 3 True have "insert_grant (new_grant gid uid SubscriptionMonthly ref n current e current) st3 = Inr st'" by simp
    with quiet_new_id [OF i] quiet_statements(3) show ?thesis by (blast intro: quiet_trans)
  next
    case False
    with 3 show ?thesis by simp
  qed
  finally show ?thesis .
qed

lemma enforce_user_books:
  assumes b: "books {} u 0 0 0 st" and e: "enforce_user n te current st row = Inr st'"
  shows "books {} u 0 0 0 st'"
proof -
  let ?u = "w_user_id row"
  obtain sid st1 where i: "new_id ''subscription'' st = (sid, st1)" by (cases "new_id ''subscription'' st")
  obtain pid st2 where j: "new_id ''period'' st1 = (pid, st2)" by (cases "new_id ''period'' st1")
  let ?st3 = "touch_wallet ?u (\<lambda>w. w\<lparr>w_mode := Enforced, w_updated_at := current\<rparr>) st2"
  have b0: "books {} ?u 0 0 0 st" using b by (rule books_user)
  have "books {} ?u 0 0 0 st2" using books_new_id [OF j books_new_id [OF i b0]] .
  then have b3: "books {} ?u 0 0 0 ?st3" by (rule books_touch_wallet) simp_all
  from e i j obtain st4 w st5 opts where
    4: "transition_subscription ?u sid pid (''billing-enforcement-v2:'' @ show_int ?u) n te current ?st3 = Inr st4"
    and 5: "ensure_wallet ?u current st4 = Inr (w, st5)"
    and st': "st' = insert_ledger ?u Audit ''billing_enforcement_enabled'' 0 (w_credit w)
        (''commercial_billing_enforcement_v2:'' @ show_int ?u) opts current st5"
    by (auto simp: enforce_user_def Let_def bindr_eq_Inr)
  have "books {} ?u 0 0 0 st4" using b3 transition_quiet [OF 4] by (simp add: quiet_def)
  note b5 = ensure_wallet_books(1) [OF this 5]
  have "key_explained {} st5 (''commercial_billing_enforcement_v2:'' @ show_int ?u)"
    by (rule explained_numbered [where x = "''commercial_billing_enforcement_v2''" and uid = ?u]) simp_all
  then have "books {} ?u 0 0 0 st'" unfolding st' by (intro books_note [OF b5]) simp_all
  then show ?thesis by (rule books_user)
qed

lemma enforcement_books:
  assumes b: "books {} u 0 0 0 st" and e: "enforcement_v2 current st = Inr st'"
  shows "books {} u 0 0 0 st'"
proof (cases "get_config ''commercial_billing_enforcement_v2'' st = None \<and> enforcement_enabled st
         \<and> env_enabled st ''COMMERCIAL_BILLING_MIGRATE_LEGACY'' ''0''")
  case True
  with e obtain n te rows st1 extra where f: "foldr_res (enforce_user n te current) st rows = Inr st1"
    and k: "marker ''commercial_billing_enforcement_v2'' current extra st1 = Inr st'"
    by (auto simp: enforcement_v2_def bindr_eq_Inr Let_def)
  have "books {} u 0 0 0 st1" using f b by (rule foldr_res_invariant) (rule enforce_user_books)
  with untouched_marker [OF k] show ?thesis by (rule books_untouched [rotated])
next
  case False
  with e b show ?thesis by (auto simp: enforcement_v2_def)
qed

lemma later_steps_untouched:
  assumes "step \<in> {bootstrap_active, migration_v2, migration_v3, migration_v4, migration_v5, migration_v6,
      migration_v7, migration_v8, migration_v9, migration_v10, migration_v11, migration_v12}"
    and "step current st = Inr st'"
  shows "untouched st st'"
  using assms
  by (auto simp: migration_v6_def migration_v7_def migration_v8_def migration_v9_def migration_v10_def
      migration_v11_def migration_v12_def
      intro: untouched_bootstrap untouched_v2 untouched_v3 untouched_v4 untouched_v5 untouched_migration)

text \<open>What the start does after the legacy balances, at the first start and at every restart.\<close>

lemma later_steps_books:
  assumes "foldr_res (\<lambda>s step. step current s) st (tl bootstrap_steps) = Inr st'" and "books {} u 0 0 0 st"
  shows "books {} u 0 0 0 st'"
  using assms
proof (rule foldr_res_invariant)
  fix s step s' assume step: "step \<in> set (tl bootstrap_steps)" and b: "books {} u 0 0 0 s" and s: "step current s = Inr s'"
  show "books {} u 0 0 0 s'"
  proof (cases "step = enforcement_v2")
    case True
    with b s show ?thesis using enforcement_books by blast
  next
    case False
    with step s have "untouched s s'"
      by (intro later_steps_untouched [of step]) (simp_all add: bootstrap_steps_def)
    with b show ?thesis by (rule books_untouched)
  qed
qed

lemma bootstrap_split: "bootstrap_billing current st =
    bindr (migration_v1 current st) (\<lambda>st1. foldr_res (\<lambda>s step. step current s) st1 (tl bootstrap_steps))"
  by (simp add: bootstrap_billing_def bootstrap_steps_def)

lemma bootstrap_fresh_books:
  "fresh_db st \<Longrightarrow> bootstrap_billing current st = Inr st' \<Longrightarrow> books {} 0 0 0 0 st'"
  unfolding bootstrap_split bindr_eq_Inr using migration_v1_books later_steps_books by blast

lemma restart_books:
  "get_config ''commercial_billing_migration_v1'' st \<noteq> None \<Longrightarrow> bootstrap_billing current st = Inr st' \<Longrightarrow>
    books {} u 0 0 0 st \<Longrightarrow> books {} u 0 0 0 st'"
  unfolding bootstrap_split by (auto simp: migration_v1_def intro: later_steps_books)

section \<open>Steps\<close>

text \<open>
  One rule per operation of webapp/commercial_billing.py that may write.  A raised exception
  is a rolled back transaction, hence no step.  \<open>restart\<close> is \<open>bootstrap_billing\<close> on an
  installation that has started before; \<open>others\<close> is whatever the other components do to the
  tables and the environment that billing only reads; they draw identifiers from the same
  generator.
\<close>

inductive bill_step :: "bdb \<Rightarrow> bdb \<Rightarrow> bool" where
  ensure: "ensure_wallet uid t st = Inr (w, st') \<Longrightarrow> bill_step st st'"
| new_user: "initialize_new_user_wallet uid extra actor source t st = Inr (w, st') \<Longrightarrow> bill_step st st'"
| adjust: "adjust_credit uid delta actor reason t st = Inr (v, st') \<Longrightarrow> bill_step st st'"
| unlimited: "set_unlimited_compute uid enabled actor reason t st = Inr (v, st') \<Longrightarrow> bill_step st st'"
| reserve: "reserve_charge q t st = Inr (v, st') \<Longrightarrow> bill_step st st'"
| reserve_exact: "plain_meta x \<Longrightarrow> reserve_exact_cash_charge x t st = Inr (v, st') \<Longrightarrow> bill_step st st'"
| settle: "settle_reservation rid actual success t st = Inr (v, st') \<Longrightarrow> bill_step st st'"
| release: "release_reservation rid t st = Inr (v, st') \<Longrightarrow> bill_step st st'"
| refund_exact: "refund_settled_exact_cash_charge rid reason t st = Inr (v, st') \<Longrightarrow> bill_step st st'"
| order: "create_order oq t st = Inr (ov, st') \<Longrightarrow> bill_step st st'"
| review: "review_order oid actor desired note t st = Inr (ov, st') \<Longrightarrow> bill_step st st'"
| cancel: "cancel_order oid uid t st = Inr (ov, st') \<Longrightarrow> bill_step st st'"
| refund: "refund_approved_order oid actor reason t st = Inr (ov, st') \<Longrightarrow> bill_step st st'"
| terminate: "terminate_subscription sid actor reason t st = Inr (sv, st') \<Longrightarrow> bill_step st st'"
| draft: "create_catalog_draft actor source_id t st = Inr (c, st') \<Longrightarrow> bill_step st st'"
| edit: "update_catalog_draft cid catalog actor st = Inr (c, st') \<Longrightarrow> bill_step st st'"
| publish: "publish_catalog cid actor t st = Inr (p, st') \<Longrightarrow> bill_step st st'"
| restart: "get_config ''commercial_billing_migration_v1'' st \<noteq> None \<Longrightarrow> bootstrap_billing t st = Inr st' \<Longrightarrow>
    bill_step st st'"
| others: "draws st \<le> n \<Longrightarrow> bill_step st (st\<lparr>db_users := us, environ := env, draws := n\<rparr>)"

inductive bill_reachable :: "bdb \<Rightarrow> bool" where
  start: "fresh_db st \<Longrightarrow> bootstrap_billing t st = Inr st' \<Longrightarrow> bill_reachable st'"
| step: "bill_reachable st \<Longrightarrow> bill_step st st' \<Longrightarrow> bill_reachable st'"

lemma untouched_draft: "create_catalog_draft actor source_id t st = Inr (c, st') \<Longrightarrow> untouched st st'"
proof -
  assume d: "create_catalog_draft actor source_id t st = Inr (c, st')"
  obtain i st1 where i: "new_id ''catalog'' st = (i, st1)" by (cases "new_id ''catalog'' st")
  with d have "untouched st1 st'"
    by (auto simp: create_catalog_draft_def insert_catalog_def untouched_def bindr_eq_Inr Let_def split: if_splits)
  with untouched_new_id [OF i] show ?thesis by (rule untouched_trans)
qed

lemma untouched_edit: "update_catalog_draft cid catalog actor st = Inr (c, st') \<Longrightarrow> untouched st st'"
  by (auto simp: update_catalog_draft_def bindr_eq_Inr Let_def untouched_def split: option.splits if_splits)

lemma untouched_publish: "publish_catalog cid actor t st = Inr (p, st') \<Longrightarrow> untouched st st'"
  by (auto simp: publish_catalog_def bindr_eq_Inr Let_def untouched_def retire_active_def split: option.splits if_splits)

lemma step_books:
  assumes "bill_step st st'" and b: "books {} u 0 0 0 st"
  shows "books {} u 0 0 0 st'"
  using assms(1)
proof cases
  case (ensure uid t w)
  with b show ?thesis by (blast intro: books_user ensure_wallet_books(1))
next
  case others
  then show ?thesis by (auto intro: books_cong [OF b])
qed (use b in \<open>blast intro: initialize_books adjust_books unlimited_books reserve_books exact_books settle_books
    release_books exact_refund_books create_order_books review_books cancel_books refund_books terminate_books
    restart_books books_untouched untouched_draft untouched_edit untouched_publish\<close>)+

lemma reachable_books: "bill_reachable st \<Longrightarrow> books {} u 0 0 0 st"
proof (induction rule: bill_reachable.induct)
  case (start st t st')
  then show ?case using bootstrap_fresh_books books_user by blast
next
  case (step st st')
  then show ?case by (blast intro: step_books)
qed

end
