(* ===== verification/BillingDemo.thy ===== *)
theory BillingDemo
  imports BillingMachine
begin

text \<open>
  A small concrete installation, on which the witnesses of the billing properties run: two
  users, one active catalog with an image action, a credit package and a plan, and the
  migration markers of an installation that is up to date.
\<close>

definition demo_catalog :: pydict where
  "demo_catalog = [(''packages'', PList [PDict [(''sku'', PStr ''pack''), (''price_ntd'', PInt 100),
       (''total_points'', PInt 12), (''bonus_images'', PInt 0)]]),
     (''actions'', PList [PDict [(''sku'', PStr ''poster''), (''points'', PInt 3), (''implemented'', PBool True)]])]"

definition demo_markers :: "string list" where
  "demo_markers = [''commercial_billing_migration_v1'', ''commercial_billing_catalog_v2'',
     ''commercial_billing_catalog_v3'', ''commercial_billing_catalog_v4'',
     ''commercial_billing_catalog_v5_timezone_shanghai'', ''commercial_billing_catalog_v6_automation_modules'',
     ''commercial_billing_catalog_v7_complete_subscription_details'',
     ''commercial_billing_catalog_v8_video_workbench'', ''commercial_billing_catalog_v9_crm_actions'',
     ''commercial_billing_catalog_v10_social_content_rates'',
     ''commercial_billing_catalog_v11_pdf_subscription_prices'',
     ''commercial_billing_catalog_v12_latest_pdf_plans'', ''commercial_billing_enforcement_v2'']"

definition demo_uuids :: "nat \<Rightarrow> string" where
  "demo_uuids n = replicate n CHR ''a''"

definition demo0 :: bdb where
  "demo0 = \<lparr>db_users = [\<lparr>u_id = 7, u_username = ''ann'', u_is_admin = False, u_balance_cents = 3\<rparr>,
       \<lparr>u_id = 8, u_username = ''bob'', u_is_admin = False, u_balance_cents = 0\<rparr>],
     db_wallets = [],
     db_catalogs = [\<lparr>c_id = ''catalog_x'', c_version = 1, c_status = Active, c_catalog = PDict demo_catalog,
       c_effective_at = 0, c_created_by = 0, c_created_at = 0, c_published_at = 0\<rparr>],
     db_orders = [], db_subscriptions = [], db_periods = [], db_grants = [], db_reservations = [], db_ledger = [],
     db_config = map (\<lambda>k. (k, PDict [])) demo_markers, uuids = demo_uuids, draws = 0,
     environ = (\<lambda>_. None)\<rparr>"

lemma demo_uuids_ok: "uuids_ok demo_uuids"
  by (auto simp: uuids_ok_def demo_uuids_def inj_def replicate_eq_replicate)

lemma demo0_fresh: "fresh_db demo0"
  using demo_uuids_ok by (simp add: fresh_db_def demo0_def catalogs_ok_def)

lemma demo0_bootstrap: "bootstrap_billing t demo0 = Inr demo0"
proof -
  have c: "get_config k demo0 = Some (PDict [])" if "k \<in> set demo_markers" for k
    using that by (auto simp: get_config_def demo0_def demo_markers_def)
  have a: "\<exists>c \<in> set (db_catalogs demo0). c_status c = Active" by (simp add: demo0_def)
  show ?thesis
    using a by (simp add: bootstrap_billing_def bootstrap_steps_def migration_v1_def bootstrap_active_def
        migration_v2_def migration_v3_def migration_v4_def migration_v5_def migration_v6_def migration_v7_def
        migration_v8_def migration_v9_def migration_v10_def migration_v11_def migration_v12_def enforcement_v2_def
        catalog_migration_def c demo_markers_def)
qed

lemma demo0_reachable: "bill_reachable demo0"
  using bill_reachable.start [OF demo0_fresh demo0_bootstrap] .

section \<open>A run\<close>

text \<open>The database after an operation, and whether the operation returned.\<close>

definition after :: "('v \<times> bdb) res \<Rightarrow> bdb" where
  "after r = (case r of Inr p \<Rightarrow> snd p | Inl _ \<Rightarrow> demo0)"

definition returned :: "'v res \<Rightarrow> bool" where
  "returned r = (case r of Inr _ \<Rightarrow> True | Inl _ \<Rightarrow> False)"

lemma returned_Inr: "returned r \<Longrightarrow> \<exists>v. r = Inr (v, after r)"
  by (auto simp: returned_def after_def split: sum.splits)

definition demo1_op :: "(credit_view \<times> bdb) res" where
  "demo1_op = adjust_credit 7 500 1 ''gift'' 1000 demo0"

definition demo1 :: bdb where
  "demo1 = after demo1_op"

definition demo_request :: charge_request where
  "demo_request = \<lparr>cr_user_id = 7, cr_ref_type = ''job'', cr_ref_id = ''j1'', cr_sku = ''poster'', cr_quantity = 2,
     cr_image = True, cr_waived = False, cr_idem = []\<rparr>"

definition demo_wallet :: wallet where
  "demo_wallet = \<lparr>w_user_id = 7, w_credit = 800, w_cash = 0, w_mode = Legacy, w_unlimited = False, w_migrated = 3,
     w_created_at = 1000, w_updated_at = 1000\<rparr>"

definition demo2_op :: "(reservation_view \<times> bdb) res" where
  "demo2_op = reserve_held demo_request 2 (charge_idem demo_request) 300 ''catalog_x'' demo_wallet 1001 demo1"

definition demo2 :: bdb where
  "demo2 = after demo2_op"

lemma demo1_run: "returned demo1_op \<and> credit_of 7 demo1 = 800"
  by code_simp

lemma demo2_run: "returned demo2_op \<and> credit_of 7 demo2 = 200 \<and> outstanding 7 demo2 = 600"
  by code_simp

text \<open>The price of the action does not depend on the plans, which the lookup of the active
  catalog replaces.\<close>

lemma active_catalog_lookup:
  assumes r: "active_row st = Some row" "c_catalog row = PDict d" and d: "distinct (map fst d)"
    and k: "k \<notin> {''subscription'', ''subscriptions''}" "has_key k d"
  shows "\<exists>c. get_active_catalog st = Inr c \<and> dget c k = dget d k
    \<and> (\<not> has_key ''id'' d \<longrightarrow> dget c ''id'' = PStr (c_id row))"
proof -
  let ?d = "dset ''subscription'' (last LATEST_PDF_SUBSCRIPTION_PLANS)
      (dset ''subscriptions'' (PList LATEST_PDF_SUBSCRIPTION_PLANS) d)"
  have d': "distinct (map fst ?d)" by (intro dset_keys d)
  have m: "map_of ?d j = map_of d j" if "j \<notin> {''subscription'', ''subscriptions''}" for j
    using that by (simp add: map_of_dset)
  have "dget (dupdate e ?d) k = dget d k" for e
    unfolding dget_dupdate [OF d'] m [OF k(1)] using k by (auto simp: has_key_def dget_def)
  moreover have "\<not> has_key ''id'' d \<Longrightarrow> dget (dupdate ((''id'', v) # e) ?d) ''id'' = v" for v e
    using m [of "''id''"] by (simp add: dget_dupdate [OF d'] has_key_def)
  ultimately show ?thesis
    using r by (simp add: get_active_catalog_def with_latest_pdf_subscription_plans_def)
qed

lemma demo_active: "(case active_row demo1 of None \<Rightarrow> False
    | Some row \<Rightarrow> c_catalog row = PDict demo_catalog \<and> c_id row = ''catalog_x'')"
  by code_simp

lemma demo_rate: "action_rate_units ''poster'' demo1 = Inr (300, ''catalog_x'')"
proof -
  obtain row where row: "active_row demo1 = Some row" "c_catalog row = PDict demo_catalog" "c_id row = ''catalog_x''"
    using demo_active by (auto split: option.splits)
  have "distinct (map fst demo_catalog)" "has_key ''actions'' demo_catalog" "\<not> has_key ''id'' demo_catalog"
    by (simp_all add: demo_catalog_def has_key_def)
  then obtain c where "get_active_catalog demo1 = Inr c" "dget c ''actions'' = dget demo_catalog ''actions''"
    "dget c ''id'' = PStr ''catalog_x''"
    using active_catalog_lookup [OF row(1,2), of "''actions''"] row(3) by auto
  moreover have "units_from_points (PInt 3) = Inr 300" by code_simp
  ultimately show ?thesis
    by (simp add: action_rate_units_def demo_catalog_def item_sku_def)
qed

lemma demo2_op_alt: "reserve_charge demo_request 1001 demo1 = demo2_op"
proof -
  have w: "get_wallet 7 demo1 = Some demo_wallet"
    and i: "reservation_by_idem (charge_idem demo_request) demo1 = None" "enforcement_enabled demo1"
    by code_simp+
  have "ensure_wallet 7 1001 demo1 = Inr (demo_wallet, demo1)"
    by (rule ensure_wallet_existing [OF w]) (simp add: demo_wallet_def)
  then show ?thesis
    using i demo_rate
    by (simp add: reserve_charge_def demo2_op_def demo_request_def demo_wallet_def)
qed

lemma demo1_reachable: "bill_reachable demo1"
proof -
  obtain v where "demo1_op = Inr (v, demo1)" using demo1_run returned_Inr unfolding demo1_def by blast
  then have "bill_step demo0 demo1" unfolding demo1_op_def by (rule bill_step.adjust)
  with demo0_reachable show ?thesis by (rule bill_reachable.step)
qed

lemma demo2_reachable: "bill_reachable demo2"
proof -
  obtain v where "demo2_op = Inr (v, demo2)" using demo2_run returned_Inr unfolding demo2_def by blast
  then have "bill_step demo1 demo2" unfolding demo2_op_alt [symmetric] by (rule bill_step.reserve)
  with demo1_reachable show ?thesis by (rule bill_reachable.step)
qed

end
