(* ===== verification/BillingProps.thy ===== *)
theory BillingProps
  imports BillingDemo
begin

text \<open>
  The properties of the billing component.  Each rests on the library: the books of
  \<open>BillingBooks\<close>, their preservation by every operation (\<open>BillingSafety\<close>, \<open>BillingCharges\<close>,
  \<open>BillingOrderSafety\<close>), and reachability (\<open>BillingMachine\<close>).
\<close>

section \<open>The ledger\<close>

text \<open>C1: In every reachable database every user's wallet is what the ledger says.  The credit and
  the cash-backed credit are the sums of the user's credit entries, and each entry carries
  the balance right after it.\<close>

theorem wallet_is_the_ledger:
  assumes "bill_reachable st"
  shows "credit_of uid st = ledger_credit uid st \<and> cash_of uid st = ledger_cash uid st
    \<and> running 0 0 (credit_entries uid st)"
  using reachable_books [OF assms, of uid] by (simp add: books_def funds_ok_def)

theorem wallet_is_the_ledger_witness:
  "bill_reachable demo2 \<and> credit_of 7 demo2 = 200 \<and> ledger_credit 7 demo2 = 200
    \<and> length (credit_entries 7 demo2) = 3"
proof -
  have "length (credit_entries 7 demo2) = 3" by code_simp
  with demo2_reachable demo2_run wallet_is_the_ledger [OF demo2_reachable, of 7] show ?thesis by simp
qed

text \<open>The points a user was ever given or had taken away, reservations aside.\<close>

definition granted :: "int \<Rightarrow> bdb \<Rightarrow> int" where
  "granted uid st = sum_list (map l_amount (filter (\<lambda>l. l_event l \<notin> set charge_events) (credit_entries uid st)))"

lemma sum_list_split:
  "sum_list (map f (filter P xs)) + sum_list (map f (filter (\<lambda>x. \<not> P x) xs)) = (sum_list (map f xs) :: int)"
  by (induction xs) auto

text \<open>C2: No point is lost or made by reservations: in every reachable database what a user was granted is
  exactly what is in the wallet plus what running tasks hold plus what finished tasks
  were charged (less what was refunded).\<close>

theorem no_point_is_lost:
  assumes "bill_reachable st"
  shows "granted uid st = credit_of uid st + outstanding uid st"
proof -
  have "credit_of uid st = ledger_credit uid st" "outstanding uid st = charged uid st"
    using reachable_books [OF assms, of uid] by (simp_all add: books_def funds_ok_def)
  then show ?thesis
    using sum_list_split [of l_amount "\<lambda>l. l_event l \<in> set charge_events" "credit_entries uid st"]
    by (simp add: granted_def charged_def ledger_credit_def)
qed

theorem no_point_is_lost_witness:
  "bill_reachable demo2 \<and> granted 7 demo2 = 800 \<and> credit_of 7 demo2 + outstanding 7 demo2 = 800"
  using demo2_reachable demo2_run no_point_is_lost [OF demo2_reachable, of 7] by simp



end
