(* ===== verification/BillingStatements.thy ===== *)
theory BillingStatements
  imports BillingMachine
begin

text \<open>
  The billing operations as sequences of SQL statements.  \<open>statement\<close> has one rule per way
  in which the code writes a table: rows are added under the table's constraints, an order
  or a reservation moves along an edge of its life cycle, a published catalog is never
  edited.  Every operation of the component is shown to be a sequence of such statements
  (\<open>step_runs\<close>), so a property of the tables that each statement keeps holds in every
  reachable database; the locale \<open>kept_by_statements\<close> states that once.
\<close>

section \<open>Moves of a row\<close>

definition catalog_content :: "catalog_row \<Rightarrow> string \<times> int \<times> pyval" where
  "catalog_content c = (c_id c, c_version c, c_catalog c)"

definition order_terms :: "order_row \<Rightarrow> order_row" where
  "order_terms r = r\<lparr>o_status := Pending, o_reviewed_by := 0, o_reviewed_at := 0, o_review_note := [],
     o_refunded_by := 0, o_refunded_at := 0, o_refund_note := [], o_updated_at := 0\<rparr>"

definition order_edges :: "(order_status \<times> order_status) set" where
  "order_edges = {(Pending, Approved), (Pending, Rejected), (Pending, Cancelled), (Approved, Refunded)}"

definition order_edge :: "order_row \<Rightarrow> order_row \<Rightarrow> bool" where
  "order_edge x y = (y = x \<or> order_terms y = order_terms x \<and> (o_status x, o_status y) \<in> order_edges)"

definition hold_terms :: "reservation_row \<Rightarrow> reservation_row" where
  "hold_terms r = r\<lparr>r_status := Held, r_settled_credit := 0, r_settled_cash := 0, r_refunded_cash := 0,
     r_settled_images := 0, r_updated_at := 0\<rparr>"

definition charge_of :: "reservation_row \<Rightarrow> int \<times> int \<times> int" where
  "charge_of r = (r_settled_credit r, r_settled_cash r, r_settled_images r)"

text \<open>A hold ends once; a settled one may later be marked as refunded, with what it charged unchanged.\<close>

definition hold_edge :: "reservation_row \<Rightarrow> reservation_row \<Rightarrow> bool" where
  "hold_edge x y = (y = x \<or> hold_terms y = hold_terms x \<and> (r_status x = Held \<and> r_status y \<in> {Settled, Released}
     \<or> r_status x = Settled \<and> r_status y = Settled \<and> charge_of y = charge_of x \<and> r_refunded_cash y = r_settled_cash x))"

definition grant_terms :: "grant_row \<Rightarrow> grant_row" where
  "grant_terms g = g\<lparr>g_remaining := 0, g_updated_at := 0\<rparr>"

definition grant_edge :: "grant_row \<Rightarrow> grant_row \<Rightarrow> bool" where
  "grant_edge x y = (grant_terms y = grant_terms x \<and> 0 \<le> g_remaining y
     \<and> (g_remaining x \<le> g_total x \<longrightarrow> g_remaining y \<le> g_total y))"

section \<open>Statements\<close>

inductive statement :: "bdb \<Rightarrow> bdb \<Rightarrow> bool" where
  draw: "draws st \<le> n \<Longrightarrow> statement st (st\<lparr>draws := n\<rparr>)"
| wallets: "statement st (st\<lparr>db_wallets := ws\<rparr>)"
| ledger: "\<forall>x \<in> set (db_ledger st). l_id x \<noteq> l_id l \<and> l_idem x \<noteq> l_idem l \<Longrightarrow>
    statement st (st\<lparr>db_ledger := db_ledger st @ [l]\<rparr>)"
| config: "get_config k st = None \<Longrightarrow> statement st (st\<lparr>db_config := db_config st @ [(k, v)]\<rparr>)"
| others: "statement st (st\<lparr>db_users := us, environ := env\<rparr>)"
| catalog_add: "insert_catalog c st = Inr st' \<Longrightarrow> statement st st'"
| catalog_edit: "\<lbrakk>d \<in> set (db_catalogs st); c_id d = k; c_status d = Draft;
    \<And>c. c_id (f c) = c_id c \<and> c_version (f c) = c_version c \<and> c_status (f c) = c_status c\<rbrakk> \<Longrightarrow>
    statement st (st\<lparr>db_catalogs := row_modify c_id k f (db_catalogs st)\<rparr>)"
| catalog_retire_drafts: "statement st (retire_drafts st)"
| catalog_supersede: "insert_catalog c (retire_active st) = Inr st' \<Longrightarrow> c_status c = Active \<Longrightarrow> statement st st'"
| catalog_publish: "\<lbrakk>get_catalog_row k st = Some r; c_status r = Draft;
    \<And>c. catalog_content (f c) = catalog_content c \<and> c_status (f c) = Active\<rbrakk> \<Longrightarrow>
    statement st (st\<lparr>db_catalogs := row_modify c_id k f (db_catalogs (retire_active st))\<rparr>)"
| order_add: "insert_order x st = Inr st' \<Longrightarrow> o_status x = Pending \<Longrightarrow> statement st st'"
| order_move: "(\<And>x. get_order k st = Some x \<Longrightarrow> order_edge x (f x)) \<Longrightarrow> (\<And>x. o_id (f x) = o_id x) \<Longrightarrow>
    statement st (st\<lparr>db_orders := row_modify o_id k f (db_orders st)\<rparr>)"
| hold_add: "insert_reservation r st = Inr st' \<Longrightarrow> statement st st'"
| hold_move: "(\<And>x. get_reservation k st = Some x \<Longrightarrow> hold_edge x (f x)) \<Longrightarrow> (\<And>x. r_id (f x) = r_id x) \<Longrightarrow>
    statement st (st\<lparr>db_reservations := row_modify r_id k f (db_reservations st)\<rparr>)"
| subscription_add: "insert_subscription s st = Inr st' \<Longrightarrow> statement st st'"
| subscription_update: "(\<And>s. s_id (f s) = s_id s \<and> s_user_id (f s) = s_user_id s) \<Longrightarrow>
    statement st (update_subscription k f st)"
| period_add: "insert_period p st = Inr st' \<Longrightarrow> statement st st'"
| period_cancel: "statement st (cancel_period k st)"
| grant_add: "insert_grant g st = Inr st' \<Longrightarrow> g_remaining g = g_total g \<Longrightarrow> statement st st'"
| grant_move: "(\<And>g. get_grant k st = Some g \<Longrightarrow> grant_edge g (f g)) \<Longrightarrow> (\<And>g. g_id (f g) = g_id g) \<Longrightarrow>
    statement st (st\<lparr>db_grants := row_modify g_id k f (db_grants st)\<rparr>)"

abbreviation runs :: "bdb \<Rightarrow> bdb \<Rightarrow> bool" where
  "runs \<equiv> statement\<^sup>*\<^sup>*"

section \<open>What holds of every result\<close>

text \<open>\<open>every r Q\<close>: if the computation returns a value, the value satisfies \<open>Q\<close>.  The rules
  below follow the code: sequencing and branching by simplification, each operation by its
  lemma in \<open>runs\<close>.\<close>

definition every :: "'a res \<Rightarrow> ('a \<Rightarrow> bool) \<Rightarrow> bool" where
  "every r Q = (\<forall>x. r = Inr x \<longrightarrow> Q x)"

lemma every_simps [simp]:
  "every (Inl e) Q" "every (Inr x) Q = Q x" "every (bindr r k) Q = every r (\<lambda>x. every (k x) Q)"
  by (auto simp: every_def bindr_eq_Inr)

lemma every_mono: "every r P \<Longrightarrow> (\<And>x. P x \<Longrightarrow> Q x) \<Longrightarrow> every r Q"
  by (simp add: every_def)

lemma everyD: "every r Q \<Longrightarrow> r = Inr x \<Longrightarrow> Q x"
  by (simp add: every_def)

lemma every_any: "(\<And>x. Q x) \<Longrightarrow> every r Q"
  by (simp add: every_def)

lemma every_foldr:
  assumes "P s" and "\<And>s x. x \<in> set xs \<Longrightarrow> P s \<Longrightarrow> every (f s x) P"
  shows "every (foldr_res f s xs) P"
  using assms foldr_res_invariant [of f s xs _ P] unfolding every_def by blast

named_theorems runs \<open>the operations are sequences of statements\<close>

text \<open>An operation that returns a value and a database.\<close>

abbreviation runs_op :: "bdb \<Rightarrow> ('v \<times> bdb) res \<Rightarrow> bool" where
  "runs_op s r \<equiv> every r (\<lambda>(_, s'). runs s s')"

lemma runs_opI:
  assumes "runs_op st r" and "runs s st" and "\<And>v st'. runs s st' \<Longrightarrow> Q (v, st')"
  shows "every r Q"
  using assms(1) by (rule every_mono) (use assms(2,3) in \<open>auto intro: rtranclp_trans split: prod.splits\<close>)

lemma runs_stI:
  assumes "every r (runs st)" and "runs s st" and "\<And>st'. runs s st' \<Longrightarrow> Q st'"
  shows "every r Q"
  using assms(1) by (rule every_mono) (use assms(2,3) in \<open>auto intro: rtranclp_trans\<close>)

lemma runs_then: "runs s st \<Longrightarrow> statement st st' \<Longrightarrow> runs s st'"
  by (rule rtranclp.rtrancl_into_rtrancl)

lemma runs_draw [runs]: "runs s st \<Longrightarrow> draws st \<le> n \<Longrightarrow> runs s (st\<lparr>draws := n\<rparr>)"
  by (erule runs_then) (simp add: statement.draw)

lemma runs_wallets [runs]: "runs s st \<Longrightarrow> runs s (st\<lparr>db_wallets := ws\<rparr>)"
  by (erule runs_then) (rule statement.wallets)

lemma runs_touch [runs]: "runs s st \<Longrightarrow> runs s (touch_wallet uid f st)"
  unfolding touch_wallet_def by (rule runs_wallets)

lemma runs_ledger_row: "runs s st \<Longrightarrow> runs s (insert_ledger_row l st)"
  unfolding insert_ledger_row_def by (auto intro!: runs_then [OF _ statement.ledger])

lemma runs_ledger [runs]: "runs s st \<Longrightarrow> runs s (insert_ledger uid asset event amount bal key opts current st)"
  unfolding insert_ledger_def new_id_def Let_def by (simp add: runs_ledger_row runs_draw)

lemma runs_insert_wallet_or_ignore [runs]: "runs s st \<Longrightarrow> runs s (insert_wallet_or_ignore w st)"
  by (auto simp: insert_wallet_or_ignore_def insert_wallet_def intro: runs_wallets)

lemma runs_grant_add [runs]: "g_remaining g = g_total g \<Longrightarrow> runs s st \<Longrightarrow> runs s (insert_grant_or_ignore g st)"
  by (auto simp: insert_grant_or_ignore_def intro: runs_then [OF _ statement.grant_add] split: sum.splits)

lemma runs_subscription_update [runs]:
  "runs s st \<Longrightarrow> (\<And>s. s_id (f s) = s_id s \<and> s_user_id (f s) = s_user_id s) \<Longrightarrow> runs s (update_subscription k f st)"
  by (erule runs_then) (rule statement.subscription_update)

lemma runs_cancel_period [runs]: "runs s st \<Longrightarrow> runs s (cancel_period k st)"
  by (erule runs_then) (rule statement.period_cancel)

lemma runs_retire [runs]: "runs s st \<Longrightarrow> runs s (retire_drafts st)"
  by (erule runs_then) (rule statement.catalog_retire_drafts)

lemma every_statement:
  "runs s st \<Longrightarrow> (\<And>st'. r = Inr st' \<Longrightarrow> statement st st') \<Longrightarrow> (\<And>st'. runs s st' \<Longrightarrow> Q st') \<Longrightarrow> every r Q"
  unfolding every_def using runs_then by metis

lemma every_inserts [runs]:
  assumes "runs s st" "\<And>st'. runs s st' \<Longrightarrow> Q st'"
  shows "every (insert_wallet w st) Q" "every (insert_catalog c st) Q"
    "o_status x = Pending \<Longrightarrow> every (insert_order x st) Q"
    "every (insert_subscription sub st) Q" "every (insert_period p st) Q"
    "g_remaining g = g_total g \<Longrightarrow> every (insert_grant g st) Q"
    "every (insert_reservation r st) Q"
  by (rule every_statement [OF assms(1) _ assms(2)];
      auto simp: insert_wallet_def intro: statement.intros split: if_splits)+

lemma every_insert_config [runs]: "runs s st \<Longrightarrow> (\<And>st'. runs s st' \<Longrightarrow> Q st') \<Longrightarrow> every (insert_config k v st) Q"
  by (rule every_statement) (auto simp: insert_config_def intro: statement.intros split: if_splits)

lemma every_update_wallet [runs]: "runs s st \<Longrightarrow> (\<And>st'. runs s st' \<Longrightarrow> Q st') \<Longrightarrow> every (update_wallet uid P f st) Q"
  by (auto simp: every_def update_wallet_def intro: runs_wallets split: if_splits option.splits)

lemma every_update_grant [runs]:
  assumes "runs s st" "\<And>st'. runs s st' \<Longrightarrow> Q st'"
    and "\<And>g. get_grant gid st = Some g \<Longrightarrow> 0 \<le> g_remaining (f g) \<Longrightarrow> grant_edge g (f g)" "\<And>g. g_id (f g) = g_id g"
  shows "every (update_grant gid f st) Q"
proof -
  have "runs s st'" if "update_grant gid f st = Inr st'" for st'
    using that assms(1,3,4)
    by (auto simp: update_grant_def intro!: runs_then [OF _ statement.grant_move] split: if_splits option.splits)
  with assms(2) show ?thesis by (simp add: every_def)
qed

text \<open>The computations that read only.\<close>

lemma every_pure [runs]:
  assumes "\<And>x. Q x"
  shows "every (units_from_points v) Q"
  using assms by (rule every_any)

lemma every_reads [runs]:
  "(\<And>x. Q1 x) \<Longrightarrow> every (action_rate_units sku st) Q1"
  "(\<And>x. Q2 x) \<Longrightarrow> every (int_field v) Q2"
  "(\<And>x. Q3 x) \<Longrightarrow> every (get_active_catalog st) Q3"
  "(\<And>x. Q4 x) \<Longrightarrow> every (validate_catalog c) Q4"
  "(\<And>x. Q2 x) \<Longrightarrow> every (int_or v d) Q2"
  "(\<And>x. Q2 x) \<Longrightarrow> every (py_int v) Q2"
  "(\<And>x. Q5 x) \<Longrightarrow> every (catalog_item cat sku) Q5"
  "(\<And>x. Q4 x) \<Longrightarrow> every (check_renewals q kind st) Q4"
  "(\<And>x. Q2 x) \<Longrightarrow> every (add_calendar_month n) Q2"
  "(\<And>x. Q4 x) \<Longrightarrow> every (ensure_image_grants_not_held uid gids st) Q4"
  "(\<And>x. Q6 x) \<Longrightarrow> every (draft_source sid st) Q6"
  "(\<And>x. Q6 x) \<Longrightarrow> every (require_key k v) Q6"
  by (rule every_any; assumption)+

section \<open>Wallets\<close>

lemma every_if [runs]: "(b \<Longrightarrow> every r Q) \<Longrightarrow> (\<not> b \<Longrightarrow> every s Q) \<Longrightarrow> every (if b then r else s) Q"
  by simp

lemma every_create_wallet [runs]:
  "runs s st \<Longrightarrow> (\<And>st'. runs s st' \<Longrightarrow> Q st') \<Longrightarrow> every (create_wallet uid t st) Q"
  by (auto simp: create_wallet_def Let_def intro!: runs split: option.splits)

lemma every_ensure_wallet [runs]:
  "runs s st \<Longrightarrow> (\<And>w st'. runs s st' \<Longrightarrow> Q (w, st')) \<Longrightarrow> every (ensure_wallet uid t st) Q"
  by (auto simp: ensure_wallet_def intro!: runs split: option.splits)

lemma every_apply_grant [runs]:
  "runs s st \<Longrightarrow> (\<And>st'. runs s st' \<Longrightarrow> Q st') \<Longrightarrow> every (apply_new_user_grant uid t st g) Q"
  by (auto simp: apply_new_user_grant_def Let_def intro!: runs split: option.splits prod.splits)

lemma initialize_runs: "runs_op s (initialize_new_user_wallet uid extra actor source t s)"
  by (auto simp: initialize_new_user_wallet_def Let_def
      intro!: runs every_mono [OF every_foldr [where P = "runs s"]] split: option.splits)

lemma adjust_runs: "runs_op s (adjust_credit uid delta actor reason t s)"
  by (auto simp: adjust_credit_def Let_def new_id_def intro!: runs)

lemma unlimited_runs: "runs_op s (set_unlimited_compute uid enabled actor reason t s)"
  by (auto simp: set_unlimited_compute_def Let_def new_id_def intro!: runs)

section \<open>Reservations\<close>

lemma every_show_reservation [runs]: "runs s st \<Longrightarrow> (\<And>v. Q (v, st)) \<Longrightarrow> every (show_reservation rid st) Q"
  by (auto simp: show_reservation_def split: option.splits)

lemma runs_hold_move [runs]:
  assumes "runs s st" "\<And>x. get_reservation k st = Some x \<Longrightarrow> P x \<Longrightarrow> hold_edge x (f x)" "\<And>x. r_id (f x) = r_id x"
  shows "runs s (update_reservation k P f st)"
  using assms unfolding update_reservation_def
  by (auto intro!: runs_then [OF _ statement.hold_move] simp: hold_edge_def [of x x for x])

lemma every_debit [runs]:
  "runs s st \<Longrightarrow> (\<And>st'. runs s st' \<Longrightarrow> Q st') \<Longrightarrow> every (debit_wallet uid a b t st) Q"
  "runs s st \<Longrightarrow> (\<And>st'. runs s st' \<Longrightarrow> Q st') \<Longrightarrow> every (credit_wallet uid a b t st) Q"
  unfolding debit_wallet_def credit_wallet_def by (rule every_update_wallet; assumption)+

lemma every_take_grants [runs]:
  "runs s st \<Longrightarrow> (\<And>hs f n st'. runs s st' \<Longrightarrow> Q (hs, f, n, st')) \<Longrightarrow> every (take_grants t gs n holds free st) Q"
proof (induction gs arbitrary: n holds free st)
  case (Cons g gs)
  show ?case
    using Cons by (auto simp: Let_def grant_edge_def grant_terms_def intro!: runs)
qed simp

lemma reserve_branches_run [runs]:
  "runs_op st (reserve_waived q qty idem reason rate cid w t st)"
  "runs_op st (reserve_unlimited q qty idem rate cid w t st)"
  "runs_op st (reserve_held q qty idem rate cid w t st)"
  by (auto simp: reserve_waived_def reserve_unlimited_def reserve_held_def Let_def new_id_def intro!: runs)

lemma replay_runs: "runs_op st (replay_charge q qty existing st)" "runs_op st (replay_exact eq existing st)"
  by (auto simp: replay_charge_def replay_exact_def Let_def intro!: runs)

lemma reserve_runs: "runs_op s (reserve_charge q t s)"
  by (auto simp: reserve_charge_def Let_def intro!: every_ensure_wallet every_reads replay_runs
      runs_opI [OF reserve_branches_run(1)] runs_opI [OF reserve_branches_run(2)]
      runs_opI [OF reserve_branches_run(3)] split: option.splits)

lemma exact_branches_run:
  "runs_op st (reserve_exact_waived eq w t st)" "runs_op st (reserve_exact_held eq w t st)"
  by (auto simp: reserve_exact_waived_def reserve_exact_held_def insufficient_cash_def Let_def new_id_def intro!: runs)

lemma exact_runs: "runs_op s (reserve_exact_cash_charge eq t s)"
  by (auto simp: reserve_exact_cash_charge_def insufficient_cash_def intro!: every_ensure_wallet replay_runs
      runs_opI [OF exact_branches_run(1)] runs_opI [OF exact_branches_run(2)] split: option.splits)

section \<open>Ending a hold\<close>

lemma every_restore [runs]:
  "runs s st \<Longrightarrow> (\<And>st'. runs s st' \<Longrightarrow> Q st') \<Longrightarrow> every (restore_loop t hs n st) Q"
proof (induction hs arbitrary: n st)
  case (Cons h hs)
  show ?case
    using Cons by (auto simp: Let_def grant_edge_def grant_terms_def intro!: runs)
qed simp

lemma every_give_back [runs]:
  "runs s st \<Longrightarrow> (\<And>st'. runs s st' \<Longrightarrow> Q st') \<Longrightarrow> every (give_back_credit r c k event suffix meta w t st) Q"
  "runs s st \<Longrightarrow> (\<And>st'. runs s st' \<Longrightarrow> Q st') \<Longrightarrow> every (give_back_images r i event suffix meta t st) Q"
  by (auto simp: give_back_credit_def give_back_images_def restore_grants_def intro!: runs)

lemma release_runs: "runs_op s (release_reservation rid t s)"
  by (auto simp: release_reservation_def hold_edge_def hold_terms_def intro!: runs split: option.splits)

lemma settle_branches_run:
  "runs_op st (settle_unlimited r actual rate t st)" "runs_op st (settle_held r actual rate t st)"
  by (auto simp: settle_unlimited_def settle_held_def hold_edge_def hold_terms_def Let_def split_def intro!: runs)

lemma settle_runs: "runs_op s (settle_reservation rid actual success t s)"
  by (auto simp: settle_reservation_def Let_def intro!: every_reads release_runs settle_branches_run split: option.splits)

lemma ensure_wallet_reservations: "ensure_wallet uid t st = Inr (w, st') \<Longrightarrow> db_reservations st' = db_reservations st"
  by (auto simp: ensure_wallet_def create_wallet_def insert_wallet_def update_wallet_def bindr_eq_Inr Let_def
      split: option.splits if_splits)

lemma every_ensure_same:
  "runs s st \<Longrightarrow> (\<And>w st'. runs s st' \<Longrightarrow> db_reservations st' = db_reservations st \<Longrightarrow> Q (w, st')) \<Longrightarrow>
    every (ensure_wallet uid t st) Q"
  using every_ensure_wallet [of s st "runs s \<circ> snd"] ensure_wallet_reservations unfolding every_def by fastforce

lemma refund_exact_runs: "runs_op s (refund_settled_exact_cash_charge rid reason t s)"
proof (cases "get_reservation rid s")
  case None
  then show ?thesis by (simp add: refund_settled_exact_cash_charge_def)
next
  case (Some r)
  let ?P = "\<lambda>x. r_status x = Settled \<and> r_refunded_cash x = r_refunded_cash r"
  let ?f = "\<lambda>x. x\<lparr>r_refunded_cash := r_settled_cash r, r_updated_at := t\<rparr>"
  have move: "runs s (update_reservation rid ?P ?f st)"
    if "runs s st" "db_reservations st = db_reservations s" for st
  proof (rule runs_hold_move [OF that(1)])
    fix x assume "get_reservation rid st = Some x" "?P x"
    with Some that have "x = r" "r_status r = Settled" by (simp_all add: get_reservation_def)
    then show "hold_edge x (?f x)" by (simp add: hold_edge_def hold_terms_def charge_of_def)
  qed simp
  show ?thesis
    using Some unfolding refund_settled_exact_cash_charge_def Let_def
    by (simp, intro impI every_ensure_same every_if every_debit(2) [OF move] every_show_reservation)
      (auto intro!: move every_debit(2) [OF move] every_show_reservation runs_ledger)
qed

section \<open>Orders\<close>

lemma every_show_order [runs]: "runs s st \<Longrightarrow> (\<And>v. Q (v, st)) \<Longrightarrow> every (show_order oid st) Q"
  by (auto simp: show_order_def split: option.splits)

lemma runs_order_move [runs]:
  assumes "runs s st" "\<And>x. get_order k st = Some x \<Longrightarrow> P x \<Longrightarrow> order_edge x (f x)" "\<And>x. o_id (f x) = o_id x"
  shows "runs s (update_order k P f st)"
  using assms unfolding update_order_def
  by (auto intro!: runs_then [OF _ statement.order_move] simp: order_edge_def [of x x for x])

lemma pending_order_status [simp]: "o_status (pending_order q oid kind a cid v t) = Pending"
  by (simp add: pending_order_def)

lemma place_order_runs: "runs_op s (place_order q t s)"
proof -
  have d: "runs s (s\<lparr>draws := Suc (draws s)\<rparr>)" by (simp add: runs_draw)
  have "runs_op s (bindr (insert_order (pending_order q oid kind a cid v t) (s\<lparr>draws := Suc (draws s)\<rparr>)) (show_order oid))"
    for oid kind a cid v
    unfolding every_simps by (rule every_inserts(3) [OF d]) (simp_all add: every_show_order)
  then show ?thesis
    unfolding place_order_def Let_def new_id_def every_simps
    by (intro every_reads) (simp add: split_def every_reads del: every_simps(3), simp add: every_reads)
qed

lemma create_order_runs: "runs_op s (create_order oq t s)"
  by (simp add: create_order_def Let_def place_order_runs split: option.splits)

lemma order_edge_moves:
  "o_status x = Pending \<Longrightarrow> z \<in> {Approved, Rejected, Cancelled} \<Longrightarrow>
    order_edge x (x\<lparr>o_status := z, o_reviewed_by := a, o_reviewed_at := b, o_review_note := c, o_updated_at := d\<rparr>)"
  "o_status x = Pending \<Longrightarrow> order_edge x (x\<lparr>o_status := Cancelled, o_updated_at := d\<rparr>)"
  "o_status x = Approved \<Longrightarrow>
    order_edge x (x\<lparr>o_status := Refunded, o_refunded_by := a, o_refunded_at := b, o_refund_note := c, o_updated_at := d\<rparr>)"
  by (auto simp: order_edge_def order_terms_def order_edges_def)

lemma every_approve_credit [runs]:
  assumes "runs s st" "\<And>st'. runs s st' \<Longrightarrow> Q st'"
  shows "every (approve_credit_pack r w t st) Q"
  by (auto simp: approve_credit_pack_def new_grant_def Let_def new_id_def intro!: assms runs)

lemma every_new_subscriptions [runs]:
  "runs s st \<Longrightarrow> (\<And>ids st'. runs s st' \<Longrightarrow> Q (ids, st')) \<Longrightarrow> every (new_subscriptions r t n st) Q"
  by (induction n arbitrary: st Q) (auto simp: Let_def new_id_def intro!: runs)

lemma every_approve_month [runs]:
  "runs s st \<Longrightarrow> (\<And>e st'. runs s st' \<Longrightarrow> Q (e, st')) \<Longrightarrow> every (approve_month r sid i m k a t st) Q"
  by (auto simp: approve_month_def new_grant_def Let_def new_id_def intro!: runs)

lemma every_approve_months [runs]:
  "runs s st \<Longrightarrow> (\<And>e st'. runs s st' \<Longrightarrow> Q (e, st')) \<Longrightarrow> every (approve_months r sid i m t n a st) Q"
  by (induction n arbitrary: st a) (auto intro!: runs)

lemma every_extend [runs]:
  assumes "runs s st" "\<And>st'. runs s st' \<Longrightarrow> Q st'"
  shows "every (extend_subscription r i m t st sid) Q"
  by (auto simp: extend_subscription_def intro!: assms runs split: option.splits)

lemma every_approve_subscription [runs]:
  assumes "runs s st" "\<And>st'. runs s st' \<Longrightarrow> Q st'"
  shows "every (approve_subscription r t st) Q"
  by (auto simp: approve_subscription_def Let_def
      intro!: assms runs every_mono [OF every_foldr [where P = "runs s"]])

lemma approve_runs: "runs_op s (approve_order oid actor note t s)"
  unfolding approve_order_def
  by (simp split: option.splits) (auto intro!: order_edge_moves runs)

lemma order_status_of_cases: "order_status_of d = Some x \<Longrightarrow> x = Rejected \<or> x = Cancelled"
  by (auto simp: order_status_of_def split: if_splits)

lemma review_runs: "runs_op s (review_order oid actor desired note t s)"
  unfolding review_order_def
  by (simp add: approve_runs split: option.splits)
    (auto intro!: order_edge_moves runs dest: order_status_of_cases)

lemma find_by_key: "row_get key k t = Some x \<Longrightarrow> P x \<Longrightarrow> find_row (\<lambda>r. key r = k \<and> P r) t = Some x"
  by (induction t) (auto split: if_splits)

lemma cancel_runs: "runs_op s (cancel_order oid uid t s)"
proof -
  have "order_edge x (x\<lparr>o_status := Cancelled, o_updated_at := t\<rparr>)"
    if "find_row (\<lambda>r. o_id r = oid \<and> o_user_id r = uid) (db_orders s) = Some r" "o_status r = Pending"
      "get_order oid s = Some x" "o_user_id x = uid" for r x
    using that find_by_key [of o_id oid "db_orders s" x "\<lambda>r. o_user_id r = uid"]
    by (simp add: get_order_def order_edge_moves)
  then show ?thesis
    unfolding cancel_order_def by (simp split: option.splits) (auto intro!: runs)
qed

section \<open>Refunds and terminations\<close>

lemma every_revoke [runs]:
  assumes "runs s st" "\<And>st'. runs s st' \<Longrightarrow> Q st'"
  shows "every (revoke_remaining_image_grant k t g st) Q"
proof -
  have "grant_edge x (if g_remaining x = g_remaining g then x\<lparr>g_remaining := 0, g_updated_at := t\<rparr> else x)"
    if "0 < g_remaining g" "0 \<le> g_remaining (if g_remaining x = g_remaining g then x\<lparr>g_remaining := 0, g_updated_at := t\<rparr> else x)"
    for x
    using that by (auto simp: grant_edge_def grant_terms_def split: if_splits)
  then show ?thesis
    unfolding revoke_remaining_image_grant_def Let_def
    by (auto simp del: if_image_distrib intro!: assms runs_ledger every_update_grant)
qed

lemma every_period_loops [runs]:
  assumes "runs s st" "\<And>st'. runs s st' \<Longrightarrow> Q st'"
  shows "every (terminate_period st0 k t st p) Q" "every (refund_period st0 r actor reason t st p) Q"
  by (auto simp: terminate_period_def refund_period_def Let_def intro!: assms runs split: option.splits)

lemma terminate_runs: "runs_op s (terminate_subscription sid actor reason t s)"
  by (auto simp: terminate_subscription_def Let_def intro!: every_reads runs_ledger runs_subscription_update
      every_mono [OF every_foldr [where P = "runs s"]] every_period_loops split: option.splits)

lemma runs_recompute [runs]: "runs s st \<Longrightarrow> runs s (recompute_subscription_state now st sid)"
  by (auto simp: recompute_subscription_state_def Let_def split_def intro!: runs)

lemma runs_foldl: "runs s st \<Longrightarrow> (\<And>st x. runs s st \<Longrightarrow> runs s (f st x)) \<Longrightarrow> runs s (foldl f st xs)"
  by (induction xs arbitrary: st) auto

lemma every_refund_subscription [runs]:
  assumes "runs s st" "\<And>st'. runs s st' \<Longrightarrow> Q st'"
  shows "every (refund_subscription r actor reason t st) Q"
  by (auto simp: refund_subscription_def Let_def intro!: assms every_reads every_period_loops runs_foldl runs_recompute
      every_mono [OF every_foldr [where P = "runs s"]])

lemma every_refund_credit_pack [runs]:
  assumes "runs s st" "\<And>st'. runs s st' \<Longrightarrow> Q st'"
  shows "every (refund_credit_pack r actor reason w t st) Q"
  by (auto simp: refund_credit_pack_def refund_credit_def benefits_used_def Let_def
      intro!: assms every_reads every_debit runs_ledger every_revoke split: option.splits)

lemma refund_runs: "runs_op s (refund_approved_order oid actor reason t s)"
  unfolding refund_approved_order_def Let_def
  by (simp split: option.splits) (auto intro!: order_edge_moves runs split: option.splits)

section \<open>Catalogs\<close>

lemma draft_runs: "runs_op s (create_catalog_draft actor sid t s)"
  by (auto simp: create_catalog_draft_def Let_def new_id_def
      intro!: every_reads every_inserts(2) [where s = s] runs_draw)

lemma edit_runs: "runs_op s (update_catalog_draft cid c actor s)"
proof -
  have "statement s (s\<lparr>db_catalogs := row_modify c_id cid f (db_catalogs s)\<rparr>)"
    if "get_catalog_row cid s = Some row" "c_status row = Draft"
      "\<And>c. c_id (f c) = c_id c \<and> c_version (f c) = c_version c \<and> c_status (f c) = c_status c" for row f
    using that catalogs_tbl.get_key [of cid "db_catalogs s" row]
    by (intro statement.catalog_edit [of row]) (auto simp: get_catalog_row_def)
  then show ?thesis
    by (auto simp: update_catalog_draft_def Let_def intro!: every_reads r_into_rtranclp split: option.splits)
qed

lemma publish_runs: "runs_op s (publish_catalog cid actor t s)"
proof (cases "get_catalog_row cid s")
  case (Some row)
  let ?f = "\<lambda>c. c\<lparr>c_status := Active, c_effective_at := t, c_published_at := t, c_created_by := actor\<rparr>"
  have "runs s (s\<lparr>db_catalogs := row_modify c_id cid ?f (db_catalogs (retire_active s))\<rparr>)" if "c_status row = Draft"
    using Some that by (intro r_into_rtranclp statement.catalog_publish) (auto simp: catalog_content_def)
  then show ?thesis
    using Some by (simp add: publish_catalog_def Let_def every_reads retire_active_def)
qed (simp add: publish_catalog_def)

section \<open>Starts\<close>

lemma every_insert_active [runs]:
  assumes "runs s st" "\<And>st'. runs s st' \<Longrightarrow> Q st'"
  shows "every (insert_active n c t st) Q" "every (supersede c t st) Q"
proof -
  let ?st = "st\<lparr>draws := Suc (draws st)\<rparr>"
  have d: "runs s ?st" using assms(1) by (simp add: runs_draw)
  from assms(2) show "every (insert_active n c t st) Q"
    by (auto simp: insert_active_def Let_def new_id_def intro!: every_inserts(2) [OF d])
  have r: "(retire_active st)\<lparr>draws := Suc (draws st)\<rparr> = retire_active ?st" by (simp add: retire_active_def)
  have e: "draws (retire_active st) = draws st" "uuids (retire_active st) = uuids st" by (simp_all add: retire_active_def)
  show "every (supersede c t st) Q"
    unfolding supersede_def insert_active_def Let_def new_id_def e r
    by simp (rule every_statement [OF d _ assms(2)], erule statement.catalog_supersede, simp)
qed

lemma every_bootstrap [runs]:
  assumes "runs s st" "\<And>st'. runs s st' \<Longrightarrow> Q st'"
  shows "every (bootstrap_active t st) Q" "every (marker k t extra st) Q"
  using assms by (auto simp: bootstrap_active_def marker_def intro!: every_insert_active every_insert_config)

lemma every_catalog_reads [runs]:
  "(\<And>x. Q1 x) \<Longrightarrow> every (actions_of v) Q1"
  "(\<And>x. Q2 x) \<Longrightarrow> every (set_actions a v) Q2"
  "(\<And>x. Q2 x) \<Longrightarrow> every (py_get v k) Q2"
  "(\<And>x. Q2 x) \<Longrightarrow> every (with_complete_subscription_details v) Q2"
  by (rule every_any; assumption)+

lemma every_early_migrations:
  assumes "runs s st"
  shows "every (migration_v2 t st) (runs s)" "every (migration_v3 t st) (runs s)"
    "every (migration_v4 t st) (runs s)" "every (migration_v5 t st) (runs s)"
  unfolding migration_v2_def migration_v3_def migration_v4_def migration_v5_def Let_def
  by (auto intro!: assms every_catalog_reads every_reads every_insert_active every_bootstrap runs_retire)

lemma edit_draft:
  assumes "d \<in> set (db_catalogs st)" "c_status d = Draft"
  shows "statement st (st\<lparr>db_catalogs := row_modify c_id (c_id d) (\<lambda>x. x\<lparr>c_catalog := c\<rparr>) (db_catalogs st)\<rparr>)"
  using assms by (intro statement.catalog_edit) auto

text \<open>While the drafts are upgraded one by one, the rest of them are still drafts.\<close>

lemma every_upgrade_drafts [runs]:
  assumes "runs s st" "\<And>n st'. runs s st' \<Longrightarrow> Q (n, st')"
  shows "every (upgrade_drafts f st) Q"
proof -
  let ?rows = "filter (\<lambda>c. c_status c = Draft) (db_catalogs st)"
  let ?P = "\<lambda>acc :: int \<times> bdb. runs s (snd acc) \<and> (\<forall>row \<in> set ?rows. \<exists>d \<in> set (db_catalogs (snd acc)). c_id d = c_id row \<and> c_status d = Draft)"
  have "every (foldr_res (upgrade_draft f) (0, st) ?rows) ?P"
  proof (rule every_foldr)
    show "?P (0, st)" using assms(1) by auto
  next
    fix acc :: "int \<times> bdb" and row assume row: "row \<in> set ?rows" and acc: "?P acc"
    have "?P (n, (snd acc)\<lparr>db_catalogs := row_modify c_id (c_id row) (\<lambda>x. x\<lparr>c_catalog := c\<rparr>) (db_catalogs (snd acc))\<rparr>)"
      for n :: int and c
    proof (intro conjI ballI)
      from row acc obtain d where "d \<in> set (db_catalogs (snd acc))" "c_id d = c_id row" "c_status d = Draft" by blast
      then show "runs s (snd (n, (snd acc)\<lparr>db_catalogs := row_modify c_id (c_id row) (\<lambda>x. x\<lparr>c_catalog := c\<rparr>) (db_catalogs (snd acc))\<rparr>))"
        using acc edit_draft [of d "snd acc" c] by (auto intro: runs_then)
    next
      fix r assume "r \<in> set ?rows"
      with acc obtain d where "d \<in> set (db_catalogs (snd acc))" "c_id d = c_id r" "c_status d = Draft" by blast
      then show "\<exists>d \<in> set (db_catalogs (snd (n, (snd acc)\<lparr>db_catalogs := row_modify c_id (c_id row) (\<lambda>x. x\<lparr>c_catalog := c\<rparr>)
          (db_catalogs (snd acc))\<rparr>))). c_id d = c_id r \<and> c_status d = Draft"
        by (intro bexI [of _ "if c_id d = c_id row then d\<lparr>c_catalog := c\<rparr> else d"])
          (auto simp: row_modify_def set_update_where)
    qed
    with acc show "every (upgrade_draft f acc row) ?P"
      unfolding upgrade_draft_def by (auto intro!: every_any split: option.splits simp del: snd_conv)
  qed
  then show ?thesis
    unfolding upgrade_drafts_def by (rule every_mono) (use assms(2) in auto)
qed

lemma every_catalog_migration:
  assumes "runs s st"
  shows "every (catalog_migration key f g t st) (runs s)"
proof -
  have a: "every (upgrade_active f t st) Q" if "\<And>b st'. runs s st' \<Longrightarrow> Q (b, st')" for Q
    using assms that unfolding upgrade_active_def
    by (auto intro!: every_any [where 'a = "pyval option"] every_reads every_insert_active split: option.splits)
  show ?thesis
    unfolding catalog_migration_def using assms
    by (auto intro!: a every_upgrade_drafts every_bootstrap)
qed

lemma every_transition [runs]:
  assumes "runs s st" "\<And>st'. runs s st' \<Longrightarrow> Q st'"
  shows "every (transition_subscription uid sid pid ref n e t st) Q"
  by (auto simp: transition_subscription_def new_grant_def Let_def new_id_def intro!: assms every_inserts [where s = s] runs_draw)

lemma every_enforce_user [runs]:
  assumes "runs s st" "\<And>st'. runs s st' \<Longrightarrow> Q st'"
  shows "every (enforce_user n e t st row) Q"
proof -
  have d: "runs s (touch_wallet u f (st\<lparr>draws := Suc (Suc (draws st))\<rparr>))" for u f
    using assms(1) by (intro runs_touch runs_draw) simp_all
  show ?thesis
    unfolding enforce_user_def Let_def new_id_def
    by (simp, intro every_transition [OF d] every_ensure_wallet, assumption) (simp add: assms(2) runs_ledger)
qed

lemma every_enforcement:
  assumes "runs s st"
  shows "every (enforcement_v2 t st) (runs s)"
  unfolding enforcement_v2_def Let_def
  by (auto intro!: assms every_reads every_bootstrap every_enforce_user every_mono [OF every_foldr [where P = "runs s"]])

lemma migrate_user_runs: "runs s st \<Longrightarrow> runs s (migrate_user_v1 t u st)"
  by (auto simp: migrate_user_v1_def Let_def new_id_def intro!: runs_ledger_row runs_draw runs_insert_wallet_or_ignore)

lemma every_migration_v1: "runs s st \<Longrightarrow> every (migration_v1 t st) (runs s)"
  by (auto simp: migration_v1_def Let_def intro!: every_insert_config runs_foldl migrate_user_runs)

lemma bootstrap_runs: "every (bootstrap_billing t st) (runs st)"
  unfolding bootstrap_billing_def
proof (rule every_foldr)
  fix s step assume "step \<in> set bootstrap_steps" and s: "runs st s"
  then show "every (step t s) (runs st)"
    unfolding bootstrap_steps_def
    by (auto simp: migration_v6_def migration_v7_def migration_v8_def migration_v9_def migration_v10_def
        migration_v11_def migration_v12_def intro: every_early_migrations every_catalog_migration every_enforcement
        every_migration_v1 every_bootstrap)
qed simp

section \<open>Invariants\<close>

lemma step_runs:
  assumes "bill_step st st'"
  shows "runs st st'"
  using assms
proof cases
  case (restart t)
  with bootstrap_runs show ?thesis by (blast dest: everyD)
next
  case others
  then obtain n us env where o: "st' = st\<lparr>db_users := us, environ := env, draws := n\<rparr>" "draws st \<le> n" by blast
  have "runs st (st\<lparr>db_users := us, environ := env\<rparr>)" by (auto intro: r_into_rtranclp statement.others)
  then have "runs st (st\<lparr>db_users := us, environ := env, draws := n\<rparr>)"
    using runs_draw [of st "st\<lparr>db_users := us, environ := env\<rparr>" n] o(2) by simp
  then show ?thesis using o(1) by simp
next
  case (ensure uid t w)
  have "runs_op st (ensure_wallet uid t st)" by (auto intro!: every_ensure_wallet)
  with ensure show ?thesis by (auto dest: everyD)
qed (auto dest: everyD [OF initialize_runs] everyD [OF adjust_runs] everyD [OF unlimited_runs] everyD [OF reserve_runs]
    everyD [OF exact_runs] everyD [OF settle_runs] everyD [OF release_runs] everyD [OF refund_exact_runs]
    everyD [OF create_order_runs] everyD [OF review_runs] everyD [OF cancel_runs] everyD [OF refund_runs]
    everyD [OF terminate_runs] everyD [OF draft_runs] everyD [OF edit_runs] everyD [OF publish_runs])

text \<open>The interface of an invariant: every statement keeps it.  Then every operation does.\<close>

locale kept_by_statements =
  fixes I :: "bdb \<Rightarrow> bool"
  assumes kept: "statement st st' \<Longrightarrow> I st \<Longrightarrow> I st'"
begin

lemma kept_by_runs: "runs st st' \<Longrightarrow> I st \<Longrightarrow> I st'"
  by (induction rule: rtranclp_induct) (auto intro: kept)

lemma kept_by_steps: "bill_step\<^sup>*\<^sup>* st st' \<Longrightarrow> I st \<Longrightarrow> I st'"
  by (induction rule: rtranclp_induct) (auto intro: kept_by_runs step_runs)

lemma reachable:
  assumes "\<And>st. fresh_db st \<Longrightarrow> I st" and "bill_reachable st"
  shows "I st"
  using assms(2)
proof (induction rule: bill_reachable.induct)
  case (start st t st')
  then show ?case using assms(1) bootstrap_runs kept_by_runs by (blast dest: everyD)
next
  case (step st st')
  then show ?case by (blast intro: kept_by_runs step_runs)
qed

end

end
