(* ===== verification/BillingInvariants.thy ===== *)
theory BillingInvariants
  imports BillingStatements
begin

text \<open>
  Invariants of the billing tables, each an interpretation of \<open>kept_by_statements\<close>: the
  constraints of the schema (\<open>schema\<close>), the active catalog (\<open>active\<close>), the ledger that only
  grows (\<open>growing\<close>), the life cycles of orders and reservations and the contents of published
  catalogs (\<open>history\<close>, relative to an earlier database).
\<close>

section \<open>The constraints of the schema\<close>

definition order_key_of :: "order_row \<Rightarrow> int \<times> string" where
  "order_key_of r = (o_user_id r, o_idem r)"

definition subject_of :: "reservation_row \<Rightarrow> string \<times> string \<times> string" where
  "subject_of r = (r_ref_type r, r_ref_id r, r_sku r)"

definition source_of :: "grant_row \<Rightarrow> grant_source \<times> string" where
  "source_of g = (g_source_type g, g_source_ref g)"

definition month_of :: "period_row \<Rightarrow> string \<times> int" where
  "month_of p = (p_subscription_id p, p_start_at p)"

definition schema_ok :: "bdb \<Rightarrow> bool" where
  "schema_ok st = (catalogs_ok (db_catalogs st)
     \<and> distinct (map l_id (db_ledger st)) \<and> distinct (map l_idem (db_ledger st))
     \<and> distinct (map o_id (db_orders st)) \<and> distinct (map order_key_of (db_orders st))
     \<and> (\<forall>r \<in> set (db_orders st). 0 < o_quantity r \<and> 0 \<le> o_amount_cents r)
     \<and> distinct (map r_id (db_reservations st)) \<and> distinct (map r_idem (db_reservations st))
     \<and> distinct (map subject_of (db_reservations st))
     \<and> distinct (map s_id (db_subscriptions st))
     \<and> distinct (map p_id (db_periods st)) \<and> distinct (map month_of (db_periods st))
     \<and> distinct (map g_id (db_grants st)) \<and> distinct (map source_of (db_grants st))
     \<and> (\<forall>g \<in> set (db_grants st). 0 \<le> g_remaining g \<and> g_remaining g \<le> g_total g))"

lemma map_modify_key:
  assumes "distinct (map key t)" and "\<And>x. row_get key k t = Some x \<Longrightarrow> g (f x) = g x"
  shows "map g (row_modify key k f t) = map g t"
  using assms
proof (induction t)
  case (Cons a t)
  show ?case
  proof (cases "key a = k")
    case True
    with Cons.prems(1) have "\<forall>x \<in> set t. key x \<noteq> k" by (auto simp: image_iff)
    then have "row_modify key k f t = t" by (simp add: row_modify_def update_where_none)
    with True Cons.prems(2) show ?thesis by simp
  next
    case False
    with Cons show ?thesis by simp
  qed
qed simp

lemma row_modify_mem:
  assumes "distinct (map key t)" "y \<in> set (row_modify key k f t)"
  shows "y \<in> set t \<or> (\<exists>x. row_get key k t = Some x \<and> y = f x)"
  using assms
proof (induction t)
  case (Cons a t)
  show ?case
  proof (cases "key a = k")
    case True
    with Cons.prems(1) have "\<forall>x \<in> set t. key x \<noteq> k" by (auto simp: image_iff)
    then have "row_modify key k f t = t" by (simp add: row_modify_def update_where_none)
    with True Cons.prems(2) show ?thesis by auto
  next
    case False
    with Cons show ?thesis by auto
  qed
qed simp

lemma order_edge_fields:
  "order_edge x y \<Longrightarrow> o_id y = o_id x \<and> o_user_id y = o_user_id x \<and> o_idem y = o_idem x
    \<and> o_quantity y = o_quantity x \<and> o_amount_cents y = o_amount_cents x"
  unfolding order_edge_def order_terms_def by (auto dest: arg_cong [where f = o_id] arg_cong [where f = o_user_id]
    arg_cong [where f = o_idem] arg_cong [where f = o_quantity] arg_cong [where f = o_amount_cents])

lemma hold_edge_fields:
  "hold_edge x y \<Longrightarrow> r_id y = r_id x \<and> r_idem y = r_idem x \<and> subject_of y = subject_of x"
  unfolding hold_edge_def hold_terms_def subject_of_def
  by (auto dest: arg_cong [where f = r_id] arg_cong [where f = r_idem] arg_cong [where f = r_ref_type]
    arg_cong [where f = r_ref_id] arg_cong [where f = r_sku])

lemma grant_edge_fields:
  "grant_edge x y \<Longrightarrow> g_id y = g_id x \<and> source_of y = source_of x \<and> g_total y = g_total x"
  unfolding grant_edge_def grant_terms_def source_of_def
  by (auto dest: arg_cong [where f = g_id] arg_cong [where f = g_source_type] arg_cong [where f = g_source_ref]
    arg_cong [where f = g_total])

text \<open>The catalog statements.\<close>

lemma catalogs_ok_publish:
  assumes ok: "catalogs_ok cs" and row: "row_get c_id k cs = Some r" "c_status r = Draft"
    and f: "\<And>c. catalog_content (f c) = catalog_content c \<and> c_status (f c) = Active"
  shows "filter (\<lambda>c. c_status c = Active) (row_modify c_id k f (db_catalogs (retire_active (st\<lparr>db_catalogs := cs\<rparr>)))) = [f r]
    \<and> catalogs_ok (row_modify c_id k f (db_catalogs (retire_active (st\<lparr>db_catalogs := cs\<rparr>))))"
proof -
  let ?cs = "db_catalogs (retire_active (st\<lparr>db_catalogs := cs\<rparr>))"
  have i: "c_id (f c) = c_id c" "c_version (f c) = c_version c" "c_status (f c) = Active" for c
    using f [of c] by (simp_all add: catalog_content_def)
  have "row_get c_id k ?cs = Some r" using row by (simp add: retire_active_def row_get_update_where)
  moreover have d: "distinct (map c_id ?cs)" using ok by (simp add: catalogs_ok_def retire_active_ids)
  moreover have "map c_id (row_modify c_id k f ?cs) = map c_id ?cs" "map c_version (row_modify c_id k f ?cs) = map c_version ?cs"
    by (simp_all add: row_modify_def map_update_where_cong i)
  ultimately show ?thesis
    using ok single_active [OF d retire_active_none i(3) i(1)] by (simp add: catalogs_ok_def retire_active_ids)
qed

lemma catalogs_ok_supersede:
  assumes ok: "catalogs_ok (db_catalogs st)" and i: "insert_catalog c (retire_active st) = Inr st'"
  shows "catalogs_ok (db_catalogs st')" "filter (\<lambda>c. c_status c = Active) (db_catalogs st') =
    (if c_status c = Active then [c] else [])"
proof -
  have none: "filter (\<lambda>c. c_status c = Active) (db_catalogs (retire_active st)) = []"
    using retire_active_none by (simp add: filter_empty_conv)
  then have "catalogs_ok (db_catalogs (retire_active st))" using ok by (simp add: catalogs_ok_def retire_active_ids)
  then show "catalogs_ok (db_catalogs st')" using i by (rule insert_catalog_ok)
  have "db_catalogs st' = db_catalogs (retire_active st) @ [c]" using i by (auto simp: insert_catalog_def split: if_splits)
  then show "filter (\<lambda>c. c_status c = Active) (db_catalogs st') = (if c_status c = Active then [c] else [])"
    by (simp add: none)
qed

lemma retire_drafts_active:
  "filter (\<lambda>c. c_status c = Active) (db_catalogs (retire_drafts st)) = filter (\<lambda>c. c_status c = Active) (db_catalogs st)"
proof -
  have "filter (\<lambda>c. c_status c = Active) (update_where (\<lambda>c. c_status c = Draft) (\<lambda>c. c\<lparr>c_status := Retired\<rparr>) cs)
      = filter (\<lambda>c. c_status c = Active) cs" for cs
    by (induction cs) auto
  then show ?thesis by (simp add: retire_drafts_def)
qed

lemma catalogs_ok_retire_drafts: "catalogs_ok (db_catalogs st) \<Longrightarrow> catalogs_ok (db_catalogs (retire_drafts st))"
  using retire_drafts_active [of st] by (simp add: catalogs_ok_def retire_drafts_def map_update_where_cong)

lemma update_subscription_ids:
  "(\<And>s. s_id (f s) = s_id s) \<Longrightarrow> map s_id (db_subscriptions (update_subscription k f st)) = map s_id (db_subscriptions st)"
  by (simp add: update_subscription_def row_modify_def map_update_where_cong)

lemma cancel_period_ids:
  "map p_id (db_periods (cancel_period k st)) = map p_id (db_periods st)"
  "map month_of (db_periods (cancel_period k st)) = map month_of (db_periods st)"
  by (simp_all add: cancel_period_def update_period_def row_modify_def map_update_where_cong month_of_def)

lemma schema_order_move:
  assumes ok: "schema_ok st" and f: "\<And>x. get_order k st = Some x \<Longrightarrow> order_edge x (f x)"
  shows "schema_ok (st\<lparr>db_orders := row_modify o_id k f (db_orders st)\<rparr>)"
proof -
  let ?os = "db_orders st"
  have d: "distinct (map o_id ?os)" using ok by (simp add: schema_ok_def)
  have f': "row_get o_id k ?os = Some x \<Longrightarrow> order_edge x (f x)" for x using f by (simp add: get_order_def)
  have m: "map o_id (row_modify o_id k f ?os) = map o_id ?os" "map order_key_of (row_modify o_id k f ?os) = map order_key_of ?os"
    using order_edge_fields [OF f'] by (auto intro!: map_modify_key [OF d] simp: order_key_of_def)
  have "0 < o_quantity y \<and> 0 \<le> o_amount_cents y" if y: "y \<in> set (row_modify o_id k f ?os)" for y
  proof -
    from row_modify_mem [OF d y] obtain x where "x \<in> set ?os" "o_quantity y = o_quantity x" "o_amount_cents y = o_amount_cents x"
      using order_edge_fields [OF f'] orders_tbl.get_key by blast
    with ok show ?thesis by (auto simp: schema_ok_def)
  qed
  with ok m show ?thesis by (simp add: schema_ok_def)
qed

lemma schema_grant_move:
  assumes ok: "schema_ok st" and f: "\<And>x. get_grant k st = Some x \<Longrightarrow> grant_edge x (f x)"
  shows "schema_ok (st\<lparr>db_grants := row_modify g_id k f (db_grants st)\<rparr>)"
proof -
  let ?gs = "db_grants st"
  have d: "distinct (map g_id ?gs)" using ok by (simp add: schema_ok_def)
  have f': "row_get g_id k ?gs = Some x \<Longrightarrow> grant_edge x (f x)" for x using f by (simp add: get_grant_def)
  have m: "map g_id (row_modify g_id k f ?gs) = map g_id ?gs" "map source_of (row_modify g_id k f ?gs) = map source_of ?gs"
    using grant_edge_fields [OF f'] by (auto intro!: map_modify_key [OF d])
  have "0 \<le> g_remaining y \<and> g_remaining y \<le> g_total y" if y: "y \<in> set (row_modify g_id k f ?gs)" for y
    using row_modify_mem [OF d y]
  proof
    assume "y \<in> set ?gs"
    with ok show ?thesis by (simp add: schema_ok_def)
  next
    assume "\<exists>x. row_get g_id k ?gs = Some x \<and> y = f x"
    then obtain x where x: "row_get g_id k ?gs = Some x" "y = f x" by blast
    then have "x \<in> set ?gs" using grants_tbl.get_key by blast
    with ok have "g_remaining x \<le> g_total x" by (simp add: schema_ok_def)
    with f' [OF x(1)] x(2) show ?thesis by (simp add: grant_edge_def)
  qed
  with ok m show ?thesis by (simp add: schema_ok_def)
qed

lemma schema_catalogs: "schema_ok st \<Longrightarrow> catalogs_ok cs \<Longrightarrow> schema_ok (st\<lparr>db_catalogs := cs\<rparr>)"
  by (simp add: schema_ok_def)

lemma hold_move_map:
  assumes "distinct (map r_id rs)" "\<And>x. row_get r_id k rs = Some x \<Longrightarrow> hold_edge x (f x)"
    and "\<And>x y. hold_edge x y \<Longrightarrow> g y = g x"
  shows "map g (row_modify r_id k f rs) = map g rs"
  using assms by (intro map_modify_key) auto

lemma insert_order_Inr:
  assumes "insert_order x st = Inr st'"
  shows "st' = st\<lparr>db_orders := db_orders st @ [x]\<rparr>" "o_id x \<notin> o_id ` set (db_orders st) \<and> order_key_of x \<notin> order_key_of ` set (db_orders st) \<and> 0 < o_quantity x \<and> 0 \<le> o_amount_cents x"
proof -
  show "st' = st\<lparr>db_orders := db_orders st @ [x]\<rparr>" using assms by (simp add: insert_order_def split: if_splits)
  show "o_id x \<notin> o_id ` set (db_orders st) \<and> order_key_of x \<notin> order_key_of ` set (db_orders st) \<and> 0 < o_quantity x \<and> 0 \<le> o_amount_cents x" using assms unfolding insert_order_def order_key_of_def by (force split: if_splits)
qed

lemma insert_reservation_Inr:
  assumes "insert_reservation r st = Inr st'"
  shows "st' = st\<lparr>db_reservations := db_reservations st @ [r]\<rparr>" "r_id r \<notin> r_id ` set (db_reservations st) \<and> r_idem r \<notin> r_idem ` set (db_reservations st) \<and> subject_of r \<notin> subject_of ` set (db_reservations st)"
proof -
  show "st' = st\<lparr>db_reservations := db_reservations st @ [r]\<rparr>" using assms by (simp add: insert_reservation_def split: if_splits)
  show "r_id r \<notin> r_id ` set (db_reservations st) \<and> r_idem r \<notin> r_idem ` set (db_reservations st) \<and> subject_of r \<notin> subject_of ` set (db_reservations st)" using assms unfolding insert_reservation_def subject_of_def by (force split: if_splits)
qed

lemma insert_period_Inr:
  assumes "insert_period p st = Inr st'"
  shows "st' = st\<lparr>db_periods := db_periods st @ [p]\<rparr>" "p_id p \<notin> p_id ` set (db_periods st) \<and> month_of p \<notin> month_of ` set (db_periods st)"
proof -
  show "st' = st\<lparr>db_periods := db_periods st @ [p]\<rparr>" using assms by (simp add: insert_period_def split: if_splits)
  show "p_id p \<notin> p_id ` set (db_periods st) \<and> month_of p \<notin> month_of ` set (db_periods st)" using assms unfolding insert_period_def month_of_def by (force split: if_splits)
qed

lemma insert_grant_Inr:
  assumes "insert_grant g st = Inr st'"
  shows "st' = st\<lparr>db_grants := db_grants st @ [g]\<rparr>" "g_id g \<notin> g_id ` set (db_grants st) \<and> source_of g \<notin> source_of ` set (db_grants st) \<and> 0 \<le> g_remaining g"
proof -
  show "st' = st\<lparr>db_grants := db_grants st @ [g]\<rparr>" using assms by (simp add: insert_grant_def split: if_splits)
  show "g_id g \<notin> g_id ` set (db_grants st) \<and> source_of g \<notin> source_of ` set (db_grants st) \<and> 0 \<le> g_remaining g" using assms unfolding insert_grant_def source_of_def by (force split: if_splits)
qed

lemma schema_kept:
  assumes "statement st st'" and ok: "schema_ok st"
  shows "schema_ok st'"
  using assms(1)
proof cases
  case (catalog_add c)
  with ok have "catalogs_ok (db_catalogs st')" using insert_catalog_ok by (auto simp: schema_ok_def)
  moreover from catalog_add have "st' = st\<lparr>db_catalogs := db_catalogs st'\<rparr>" by (auto simp: insert_catalog_def split: if_splits)
  ultimately show ?thesis using schema_catalogs [OF ok] by metis
next
  case (catalog_edit d k f)
  have "catalogs_ok (row_modify c_id k f (db_catalogs st))"
    using catalog_edit ok by (intro catalogs_ok_modify_content) (auto simp: schema_ok_def)
  with ok catalog_edit show ?thesis by (simp add: schema_ok_def)
next
  case catalog_retire_drafts
  with ok catalogs_ok_retire_drafts [of st] show ?thesis by (simp add: schema_ok_def retire_drafts_def)
next
  case (catalog_supersede c)
  with ok have "catalogs_ok (db_catalogs st')" using catalogs_ok_supersede by (auto simp: schema_ok_def)
  moreover from catalog_supersede have "st' = st\<lparr>db_catalogs := db_catalogs st'\<rparr>"
    by (auto simp: insert_catalog_def retire_active_def split: if_splits)
  ultimately show ?thesis using schema_catalogs [OF ok] by metis
next
  case (catalog_publish k r f)
  then have "catalogs_ok (row_modify c_id k f (db_catalogs (retire_active (st\<lparr>db_catalogs := db_catalogs st\<rparr>))))"
    using ok by (intro catalogs_ok_publish [THEN conjunct2]) (auto simp: schema_ok_def get_catalog_row_def)
  with ok catalog_publish show ?thesis by (simp add: schema_ok_def)
next
  case (order_add x)
  with ok insert_order_Inr [OF order_add(1)] show ?thesis by (simp add: schema_ok_def)
next
  case (order_move k f)
  then show ?thesis using schema_order_move [OF ok] by simp
next
  case (hold_add r)
  with ok insert_reservation_Inr [OF hold_add] show ?thesis by (simp add: schema_ok_def)
next
  case (hold_move k f)
  have d: "distinct (map r_id (db_reservations st))" using ok by (simp add: schema_ok_def)
  note m = hold_move_map [OF d hold_move(2) [unfolded get_reservation_def]]
  note ms = m [where g = r_id] m [where g = r_idem] m [where g = subject_of]
  with hold_edge_fields ok hold_move(1) ms show ?thesis by (simp add: schema_ok_def)
next
  case (subscription_add s)
  then show ?thesis
    using ok subscriptions_tbl.get_None [of "s_id s" "db_subscriptions st"]
    by (auto simp: insert_subscription_def schema_ok_def get_subscription_def split: if_splits)
next
  case (subscription_update f k)
  then show ?thesis using ok update_subscription_ids [of f k st] by (simp add: schema_ok_def update_subscription_def)
next
  case (period_add p)
  with ok insert_period_Inr [OF period_add] show ?thesis by (simp add: schema_ok_def)
next
  case (period_cancel k)
  then show ?thesis using ok cancel_period_ids [of k st] by (simp add: schema_ok_def cancel_period_def update_period_def)
next
  case (grant_add g)
  with ok insert_grant_Inr [OF grant_add(1)] show ?thesis by (simp add: schema_ok_def)
next
  case (grant_move k f)
  then show ?thesis using schema_grant_move [OF ok] by simp
next
  case (ledger l)
  then have "l_id l \<notin> l_id ` set (db_ledger st)" "l_idem l \<notin> l_idem ` set (db_ledger st)" by force+
  with ok ledger(1) show ?thesis by (simp add: schema_ok_def)
qed (use ok in \<open>simp_all add: schema_ok_def\<close>)

interpretation schema: kept_by_statements schema_ok
  by unfold_locales (rule schema_kept)

lemma fresh_schema: "fresh_db st \<Longrightarrow> schema_ok st"
  by (simp add: fresh_db_def schema_ok_def)

lemma reachable_schema: "bill_reachable st \<Longrightarrow> schema_ok st"
  using schema.reachable fresh_schema by blast

section \<open>The active catalog\<close>

definition one_active :: "bdb \<Rightarrow> bool" where
  "one_active st = (schema_ok st \<and> length (filter (\<lambda>c. c_status c = Active) (db_catalogs st)) = 1)"

lemma active_content:
  assumes "\<And>c. c_status (f c) = c_status c"
  shows "length (filter (\<lambda>c. c_status c = Active) (row_modify c_id k f cs)) = length (filter (\<lambda>c. c_status c = Active) cs)"
  by (induction cs) (auto simp: assms)

lemma insert_catalog_active:
  assumes "schema_ok st" "length (filter (\<lambda>c. c_status c = Active) (db_catalogs st)) = 1" "insert_catalog c st = Inr st'"
  shows "filter (\<lambda>c. c_status c = Active) (db_catalogs st') = filter (\<lambda>c. c_status c = Active) (db_catalogs st)"
proof -
  obtain x where "x \<in> set (filter (\<lambda>c. c_status c = Active) (db_catalogs st))"
    using assms(2) by (cases "filter (\<lambda>c. c_status c = Active) (db_catalogs st)") auto
  then show ?thesis using assms(3) by (auto simp: insert_catalog_def split: if_splits)
qed

lemma one_active_kept:
  assumes "statement st st'" and o: "one_active st"
  shows "one_active st'"
proof -
  have ok: "schema_ok st" "catalogs_ok (db_catalogs st)" and n: "length (filter (\<lambda>c. c_status c = Active) (db_catalogs st)) = 1"
    using o by (simp_all add: one_active_def schema_ok_def)
  have ok': "schema_ok st'" using schema_kept [OF assms(1) ok(1)] .
  from assms(1) have "length (filter (\<lambda>c. c_status c = Active) (db_catalogs st')) = 1"
  proof cases
    case (catalog_publish k r f)
    have "filter (\<lambda>c. c_status c = Active)
        (row_modify c_id k f (db_catalogs (retire_active (st\<lparr>db_catalogs := db_catalogs st\<rparr>)))) = [f r]"
      using catalog_publish ok by (intro catalogs_ok_publish [THEN conjunct1]) (auto simp: get_catalog_row_def)
    with catalog_publish show ?thesis by simp
  next
    case (catalog_supersede c)
    with catalogs_ok_supersede(2) [OF ok(2)] show ?thesis by simp
  next
    case (catalog_add c)
    with insert_catalog_active [OF ok(1) n] n show ?thesis by simp
  next
    case (catalog_edit d k f)
    then show ?thesis using n active_content [of f] by simp
  next
    case catalog_retire_drafts
    then show ?thesis using n retire_drafts_active by simp
  qed (use n in \<open>auto simp: insert_order_def insert_reservation_def insert_subscription_def insert_period_def insert_grant_def
      update_subscription_def cancel_period_def update_period_def split: if_splits\<close>)
  with ok' show ?thesis by (simp add: one_active_def)
qed

interpretation active: kept_by_statements one_active
  by unfold_locales (rule one_active_kept)

lemma bootstrap_one_active:
  assumes "schema_ok st" "bootstrap_billing t st = Inr st'"
  shows "one_active st'"
proof -
  from assms(2) obtain st1 st2 where 1: "migration_v1 t st = Inr st1" and 2: "bootstrap_active t st1 = Inr st2"
    and 3: "foldr_res (\<lambda>s step. step t s) st2 (tl (tl bootstrap_steps)) = Inr st'"
    by (auto simp: bootstrap_billing_def bootstrap_steps_def bindr_eq_Inr)
  have s1: "schema_ok st1"
    using assms(1) everyD [OF every_migration_v1 1] schema.kept_by_runs by blast
  have s2: "schema_ok st2"
    using s1 2 every_bootstrap(1) [of st1 st1 "runs st1"] schema.kept_by_runs by (blast dest: everyD)
  have "one_active st2"
  proof (cases "\<exists>c \<in> set (db_catalogs st1). c_status c = Active")
    case True
    then have "filter (\<lambda>c. c_status c = Active) (db_catalogs st1) \<noteq> []" by (auto simp: filter_empty_conv)
    with True 2 s1 show ?thesis
      by (cases "filter (\<lambda>c. c_status c = Active) (db_catalogs st1)")
        (auto simp: bootstrap_active_def one_active_def schema_ok_def catalogs_ok_def)
  next
    case False
    then have "filter (\<lambda>c. c_status c = Active) (db_catalogs st1) = []" by (auto simp: filter_empty_conv)
    with False 2 s2 show ?thesis
      by (auto simp: bootstrap_active_def insert_active_def insert_catalog_def new_id_def Let_def one_active_def split: if_splits)
  qed
  moreover have "runs st2 st'"
  proof -
    have "every (foldr_res (\<lambda>s step. step t s) st2 (tl (tl bootstrap_steps))) (runs st2)"
    proof (rule every_foldr)
      fix s step assume "step \<in> set (tl (tl bootstrap_steps))" and s: "runs st2 s"
      then show "every (step t s) (runs st2)"
        unfolding bootstrap_steps_def
        by (auto simp: migration_v6_def migration_v7_def migration_v8_def migration_v9_def migration_v10_def
            migration_v11_def migration_v12_def intro: every_early_migrations every_catalog_migration every_enforcement)
    qed simp
    with 3 show ?thesis by (blast dest: everyD)
  qed
  ultimately show ?thesis using active.kept_by_runs by blast
qed

lemma reachable_one_active: "bill_reachable st \<Longrightarrow> one_active st"
proof (induction rule: bill_reachable.induct)
  case (start st t st')
  then show ?case using bootstrap_one_active fresh_schema by blast
next
  case (step st st')
  then show ?case by (blast intro: active.kept_by_runs step_runs)
qed

section \<open>The ledger only grows\<close>

definition extends_ledger :: "bdb \<Rightarrow> bdb \<Rightarrow> bool" where
  "extends_ledger st0 st = (\<exists>ls. db_ledger st = db_ledger st0 @ ls)"

lemma extends_ledger_kept: "statement st st' \<Longrightarrow> extends_ledger st0 st \<Longrightarrow> extends_ledger st0 st'"
  by (erule statement.cases) (auto simp: extends_ledger_def insert_order_def insert_reservation_def insert_subscription_def
      insert_period_def insert_grant_def insert_catalog_def retire_active_def retire_drafts_def update_subscription_def
      cancel_period_def update_period_def split: if_splits)

interpretation growing: kept_by_statements "extends_ledger st0" for st0
  by unfold_locales (rule extends_ledger_kept)

section \<open>Life cycles\<close>

lemma row_modify_get:
  assumes "\<And>x. key (f x) = key x"
  shows "row_get key k (row_modify key j f t) = (if k = j then map_option f (row_get key k t) else row_get key k t)"
  using keyed_table.get_modify [OF row_tables, of key f k j t] assms by simp

definition order_history :: "bdb \<Rightarrow> bdb \<Rightarrow> bool" where
  "order_history st0 st = (\<forall>k x. get_order k st0 = Some x \<longrightarrow> (\<exists>y. get_order k st = Some y \<and> order_edge\<^sup>*\<^sup>* x y))"

lemma order_history_step:
  assumes "order_history st0 st" and "\<And>k x. get_order k st = Some x \<Longrightarrow> \<exists>y. get_order k st' = Some y \<and> order_edge x y"
  shows "order_history st0 st'"
  using assms unfolding order_history_def by (meson rtranclp.rtrancl_into_rtrancl)

lemma order_history_kept:
  assumes "statement st st'" and h: "order_history st0 st"
  shows "order_history st0 st'"
  using assms(1)
proof cases
  case (order_add x)
  have "db_orders st' = db_orders st @ [x]" using insert_order_Inr [OF order_add(1)] by simp
  then show ?thesis
    by (intro order_history_step [OF h]) (auto simp: get_order_def orders_tbl.get_append_old order_edge_def)
next
  case (order_move k f)
  then show ?thesis
    by (intro order_history_step [OF h]) (auto simp: get_order_def row_modify_get order_edge_def [of x x for x])
qed (use h in \<open>auto simp: order_history_def get_order_def insert_reservation_def insert_subscription_def
      insert_period_def insert_grant_def insert_catalog_def retire_active_def retire_drafts_def update_subscription_def
      cancel_period_def update_period_def split: if_splits\<close>)

interpretation order_life: kept_by_statements "order_history st0" for st0
  by unfold_locales (rule order_history_kept)

definition hold_history :: "bdb \<Rightarrow> bdb \<Rightarrow> bool" where
  "hold_history st0 st = (\<forall>k x. get_reservation k st0 = Some x \<longrightarrow>
     (\<exists>y. get_reservation k st = Some y \<and> hold_edge\<^sup>*\<^sup>* x y))"

lemma hold_history_step:
  assumes "hold_history st0 st"
    and "\<And>k x. get_reservation k st = Some x \<Longrightarrow> \<exists>y. get_reservation k st' = Some y \<and> hold_edge x y"
  shows "hold_history st0 st'"
  using assms unfolding hold_history_def by (meson rtranclp.rtrancl_into_rtrancl)

lemma hold_history_kept:
  assumes "statement st st'" and h: "hold_history st0 st"
  shows "hold_history st0 st'"
  using assms(1)
proof cases
  case (hold_add r)
  have "db_reservations st' = db_reservations st @ [r]" using insert_reservation_Inr [OF hold_add] by simp
  then show ?thesis
    by (intro hold_history_step [OF h]) (auto simp: get_reservation_def reservations_tbl.get_append_old hold_edge_def)
next
  case (hold_move k f)
  then show ?thesis
    by (intro hold_history_step [OF h]) (auto simp: get_reservation_def row_modify_get hold_edge_def [of x x for x])
qed (use h in \<open>auto simp: hold_history_def get_reservation_def insert_order_def insert_subscription_def
      insert_period_def insert_grant_def insert_catalog_def retire_active_def retire_drafts_def update_subscription_def
      cancel_period_def update_period_def split: if_splits\<close>)

interpretation hold_life: kept_by_statements "hold_history st0" for st0
  by unfold_locales (rule hold_history_kept)

text \<open>What follows from the edges: the terms of an order and of a hold never change, and the last
  states are final.\<close>

lemma order_edges_path:
  assumes "order_edge\<^sup>*\<^sup>* x y"
  shows "order_terms y = order_terms x \<and> (o_status x, o_status y) \<in> order_edges\<^sup>*
    \<and> (o_status x \<in> {Rejected, Cancelled, Refunded} \<longrightarrow> y = x)"
  using assms
proof (induction rule: rtranclp_induct)
  case (step y z)
  show ?case
  proof (cases "z = y")
    case False
    with step have "order_terms z = order_terms y" "(o_status y, o_status z) \<in> order_edges" by (auto simp: order_edge_def)
    with step.IH show ?thesis by (auto simp: order_edges_def intro: rtrancl_into_rtrancl)
  qed (use step in simp)
qed simp

lemma hold_edge_cases:
  assumes "hold_edge x y"
  shows "hold_terms y = hold_terms x \<and> (r_status x \<in> {Released, Waived} \<longrightarrow> y = x)
    \<and> (r_status x = Settled \<longrightarrow> r_status y = Settled \<and> charge_of y = charge_of x
        \<and> r_refunded_cash y \<in> {r_refunded_cash x, r_settled_cash x})"
  using assms unfolding hold_edge_def by auto

lemma hold_edges_path:
  assumes "hold_edge\<^sup>*\<^sup>* x y"
  shows "hold_terms y = hold_terms x \<and> (r_status x \<in> {Released, Waived} \<longrightarrow> y = x)
    \<and> (r_status x = Settled \<longrightarrow> r_status y = Settled \<and> charge_of y = charge_of x
        \<and> r_refunded_cash y \<in> {r_refunded_cash x, r_settled_cash x})"
  using assms
proof (induction rule: rtranclp_induct)
  case (step y z)
  have "charge_of y = charge_of x \<Longrightarrow> r_settled_cash y = r_settled_cash x" by (simp add: charge_of_def)
  with step.IH hold_edge_cases [OF step.hyps(2)] show ?case by auto
qed simp

section \<open>Published catalogs\<close>

definition catalog_history :: "bdb \<Rightarrow> bdb \<Rightarrow> bool" where
  "catalog_history st0 st = (schema_ok st \<and> (\<forall>c \<in> set (db_catalogs st0). c_status c \<noteq> Draft \<longrightarrow>
     (\<exists>c' \<in> set (db_catalogs st). catalog_content c' = catalog_content c \<and> c_status c' \<noteq> Draft)))"

lemma catalog_history_step:
  assumes "catalog_history st0 st" "schema_ok st'"
    and "\<And>c. c \<in> set (db_catalogs st) \<Longrightarrow> c_status c \<noteq> Draft \<Longrightarrow>
      \<exists>c' \<in> set (db_catalogs st'). catalog_content c' = catalog_content c \<and> c_status c' \<noteq> Draft"
  shows "catalog_history st0 st'"
  using assms unfolding catalog_history_def by metis

lemma retire_active_content:
  "c \<in> set (db_catalogs st) \<Longrightarrow> c_status c \<noteq> Draft \<Longrightarrow>
    \<exists>c' \<in> set (db_catalogs (retire_active st)). catalog_content c' = catalog_content c \<and> c_status c' \<noteq> Draft"
  by (intro bexI [of _ "if c_status c = Active then c\<lparr>c_status := Retired\<rparr> else c"])
    (auto simp: retire_active_def set_update_where catalog_content_def)

lemma catalog_history_kept:
  assumes st: "statement st st'" and h: "catalog_history st0 st"
  shows "catalog_history st0 st'"
proof -
  have ok: "schema_ok st" using h by (simp add: catalog_history_def)
  have ok': "schema_ok st'" using schema_kept [OF st ok] .
  from st show ?thesis
  proof cases
    case (catalog_add c)
    then show ?thesis by (intro catalog_history_step [OF h ok']) (auto simp: insert_catalog_def split: if_splits)
  next
    case (catalog_edit d k f)
    show ?thesis
    proof (rule catalog_history_step [OF h ok'])
      fix c assume c: "c \<in> set (db_catalogs st)" "c_status c \<noteq> Draft"
      then have "c_id c \<noteq> k"
        using catalog_edit ok catalogs_tbl.get_unique [of "db_catalogs st" c d] by (auto simp: schema_ok_def catalogs_ok_def)
      with c show "\<exists>c' \<in> set (db_catalogs st'). catalog_content c' = catalog_content c \<and> c_status c' \<noteq> Draft"
        unfolding catalog_edit(1) by (intro bexI [of _ c]) (auto simp: row_modify_def set_update_where)
    qed
  next
    case catalog_retire_drafts
    have "c \<in> set (db_catalogs st')" if "c \<in> set (db_catalogs st)" "c_status c \<noteq> Draft" for c
      unfolding catalog_retire_drafts retire_drafts_def using that
      by (simp add: set_update_where image_iff)
    then show ?thesis by (intro catalog_history_step [OF h ok']) auto
  next
    case (catalog_supersede c)
    then have "db_catalogs st' = db_catalogs (retire_active st) @ [c]" by (auto simp: insert_catalog_def split: if_splits)
    then show ?thesis
      by (intro catalog_history_step [OF h ok']) (auto dest: retire_active_content)
  next
    case (catalog_publish k r f)
    show ?thesis
    proof (rule catalog_history_step [OF h ok'])
      fix c assume c: "c \<in> set (db_catalogs st)" "c_status c \<noteq> Draft"
      then obtain c' where "c' \<in> set (db_catalogs (retire_active st))" "catalog_content c' = catalog_content c" "c_status c' \<noteq> Draft"
        using retire_active_content by blast
      then show "\<exists>c' \<in> set (db_catalogs st'). catalog_content c' = catalog_content c \<and> c_status c' \<noteq> Draft"
        unfolding catalog_publish(1) using catalog_publish(4)
        by (intro bexI [of _ "if c_id c' = k then f c' else c'"]) (auto simp: row_modify_def set_update_where)
    qed
  qed (use h ok' in \<open>auto simp: catalog_history_def insert_order_def insert_reservation_def insert_subscription_def
      insert_period_def insert_grant_def update_subscription_def cancel_period_def update_period_def split: if_splits\<close>)
qed

interpretation catalog_life: kept_by_statements "catalog_history st0" for st0
  by unfold_locales (rule catalog_history_kept)

end
