(* ===== verification/BillingEndings.thy ===== *)
theory BillingEndings
  imports BillingInvariants
begin

text \<open>
  What ending a hold does: in a database with its books and its schema in order, settling
  and releasing a hold always return, put back exactly what was not used, and end the hold
  once and for all (\<open>release_effect\<close>, \<open>settle_effect\<close>).
\<close>

section \<open>Funds\<close>

text \<open>The effect on the balances of a credit of \<open>(c, k)\<close> to one user.\<close>

definition credited :: "int \<Rightarrow> int \<Rightarrow> int \<Rightarrow> bdb \<Rightarrow> bdb \<Rightarrow> bool" where
  "credited uid c k st st' = (\<forall>u. credit_of u st' = credit_of u st + (if u = uid then c else 0)
     \<and> cash_of u st' = cash_of u st + (if u = uid then k else 0))"

lemma credited_trans: "credited uid a b st st' \<Longrightarrow> credited uid c d st' st'' \<Longrightarrow> credited uid (a + c) (b + d) st st''"
  by (simp add: credited_def)

lemma credited_same: "db_wallets st' = db_wallets st \<Longrightarrow> credited uid 0 0 st st'"
  by (simp add: credited_def credit_of_def cash_of_def get_wallet_def)

lemma credit_wallet_total:
  assumes w: "get_wallet uid st = Some w" "0 \<le> w_cash w" "w_cash w \<le> w_credit w" and c: "0 \<le> k" "k \<le> c"
  shows "\<exists>ws. credit_wallet uid c k t st = Inr (st\<lparr>db_wallets := ws\<rparr>) \<and> credited uid c k st (st\<lparr>db_wallets := ws\<rparr>)"
proof -
  let ?f = "\<lambda>w. cash_trigger (w\<lparr>w_credit := w_credit w + c, w_cash := w_cash w + k, w_updated_at := t\<rparr>)"
  let ?ws = "row_modify w_user_id uid ?f (db_wallets st)"
  have f: "?f w = w\<lparr>w_credit := w_credit w + c, w_cash := w_cash w + k, w_updated_at := t\<rparr>"
    using w c by (simp add: cash_trigger_id)
  have "credit_wallet uid c k t st = Inr (st\<lparr>db_wallets := ?ws\<rparr>)"
    using w c by (simp add: credit_wallet_def update_wallet_def wallet_check_def)
  moreover have "credited uid c k st (st\<lparr>db_wallets := ?ws\<rparr>)"
    using w(1) f get_wallet_modify [where f = ?f and st = st and uid = uid]
    by (simp add: credited_def credit_of_def cash_of_def)
  ultimately show ?thesis by blast
qed

lemma give_back_credit_total:
  assumes w: "get_wallet (r_user_id r) st = Some w" "0 \<le> w_cash w" "w_cash w \<le> w_credit w" and c: "0 \<le> k" "k \<le> c"
  shows "\<exists>st'. give_back_credit r c k event suffix meta w t st = Inr st' \<and> credited (r_user_id r) c k st st'
    \<and> db_reservations st' = db_reservations st \<and> db_grants st' = db_grants st"
proof (cases "c = 0")
  case True
  with c credited_same [of st st] show ?thesis by (simp add: give_back_credit_def)
next
  case False
  from credit_wallet_total [OF w c, of t] obtain ws where
    1: "credit_wallet (r_user_id r) c k t st = Inr (st\<lparr>db_wallets := ws\<rparr>)" "credited (r_user_id r) c k st (st\<lparr>db_wallets := ws\<rparr>)"
    by blast
  have "credited (r_user_id r) (c + 0) (k + 0) st (insert_ledger (r_user_id r) Credit event c (w_credit w + c) (r_id r @ suffix)
      ((row_opts r meta)\<lparr>lo_cash_amount := k, lo_cash_after := Some (w_cash w + k)\<rparr>) t (st\<lparr>db_wallets := ws\<rparr>))"
    by (rule credited_trans [OF 1(2) credited_same]) simp
  with 1(1) False show ?thesis by (simp add: give_back_credit_def)
qed

section \<open>Images\<close>

definition grants_ok :: "grant_row list \<Rightarrow> bool" where
  "grants_ok gs = (distinct (map g_id gs) \<and> (\<forall>g \<in> set gs. 0 \<le> g_remaining g \<and> g_remaining g \<le> g_total g))"

lemma schema_grants: "schema_ok st \<Longrightarrow> grants_ok (db_grants st)"
  by (simp add: schema_ok_def grants_ok_def)

lemma grants_okD: "grants_ok (db_grants st) \<Longrightarrow> get_grant k st = Some g \<Longrightarrow> 0 \<le> g_remaining g \<and> g_remaining g \<le> g_total g"
  unfolding get_grant_def grants_ok_def using grants_tbl.get_key by blast

text \<open>Only the grants change.\<close>

definition same_but_grants :: "bdb \<Rightarrow> bdb \<Rightarrow> bool" where
  "same_but_grants st st' = (st' = st\<lparr>db_grants := db_grants st'\<rparr>)"

lemma same_but_grants_trans: "same_but_grants st st' \<Longrightarrow> same_but_grants st' st'' \<Longrightarrow> same_but_grants st st''"
  unfolding same_but_grants_def by (metis bdb.surjective bdb.update_convs(7))

lemma same_but_grants_tables:
  "same_but_grants st st' \<Longrightarrow> db_wallets st' = db_wallets st \<and> db_reservations st' = db_reservations st"
  unfolding same_but_grants_def by (erule ssubst) simp

lemma update_grant_total:
  assumes ok: "grants_ok (db_grants st)"
    and f: "\<And>g. g_id (f g) = g_id g" "\<And>g. g_total (f g) = g_total g"
      "\<And>g. get_grant k st = Some g \<Longrightarrow> 0 \<le> g_remaining (f g) \<and> g_remaining (f g) \<le> g_total g"
  shows "\<exists>st'. update_grant k f st = Inr st' \<and> grants_ok (db_grants st') \<and> same_but_grants st st'"
proof (cases "get_grant k st")
  case None
  with ok show ?thesis by (simp add: update_grant_def same_but_grants_def)
next
  case (Some g)
  let ?gs = "row_modify g_id k f (db_grants st)"
  have d: "distinct (map g_id (db_grants st))" using ok by (simp add: grants_ok_def)
  have "0 \<le> g_remaining y \<and> g_remaining y \<le> g_total y" if "y \<in> set ?gs" for y
    using row_modify_mem [OF d that] ok f by (auto simp: grants_ok_def get_grant_def)
  then have "grants_ok ?gs" using d f(1) by (simp add: grants_ok_def grants_tbl.keys_modify)
  then show ?thesis using Some f(3) by (auto simp: update_grant_def same_but_grants_def)
qed

lemma restore_loop_total:
  assumes "grants_ok (db_grants st)" and "\<And>h. h \<in> set hs \<Longrightarrow> \<exists>n. int_field (vget h ''count'') = Inr n"
  shows "\<exists>st'. restore_loop t hs n st = Inr st' \<and> grants_ok (db_grants st') \<and> same_but_grants st st'"
  using assms
proof (induction hs arbitrary: n st)
  case Nil
  then show ?case by (simp add: same_but_grants_def)
next
  case (Cons h hs)
  obtain c where c: "int_field (vget h ''count'') = Inr c" using Cons.prems(2) [of h] by auto
  let ?c = "min n (max c 0)"
  have hs: "\<exists>n. int_field (vget h' ''count'') = Inr n" if "h' \<in> set hs" for h' using Cons.prems(2) that by simp
  show ?case
  proof (cases "n \<le> 0 \<or> ?c = 0")
    case True
    with Cons.IH [OF Cons.prems(1) hs, of n] Cons.prems(1) c show ?thesis by (auto simp: same_but_grants_def)
  next
    case False
    let ?f = "\<lambda>g. g\<lparr>g_remaining := min (g_total g) (g_remaining g + ?c), g_updated_at := t\<rparr>"
    obtain st1 where 1: "update_grant (str_field (vget h ''grant_id'')) ?f st = Inr st1" "grants_ok (db_grants st1)"
      "same_but_grants st st1"
      using update_grant_total [OF Cons.prems(1), of ?f "str_field (vget h ''grant_id'')"] False
        grants_okD [OF Cons.prems(1)] by force
    from Cons.IH [OF 1(2) hs, of "n - ?c"] obtain st2 where
      2: "restore_loop t hs (n - ?c) st1 = Inr st2" "grants_ok (db_grants st2)" "same_but_grants st1 st2" by blast
    with same_but_grants_trans [OF 1(3) 2(3)] 1(1) False c show ?thesis by (auto simp: Let_def)
  qed
qed

lemma holds_json_counts: "h \<in> set (list_or_empty (holds_json hs)) \<Longrightarrow> \<exists>n. int_field (vget h ''count'') = Inr n"
  by (auto simp: holds_json_def int_field_def py_or_def)

lemma give_back_images_total:
  assumes g: "grants_ok (db_grants st)" and h: "n = 0 \<or> (\<exists>hs. vget (r_meta r) ''grant_holds'' = holds_json hs)"
  shows "\<exists>st'. give_back_images r n event suffix meta t st = Inr st' \<and> db_wallets st' = db_wallets st
    \<and> db_reservations st' = db_reservations st \<and> grants_ok (db_grants st')"
proof (cases "n = 0")
  case True
  with g show ?thesis by (simp add: give_back_images_def)
next
  case False
  with h obtain hs where hs: "vget (r_meta r) ''grant_holds'' = holds_json hs" by blast
  have "\<exists>st'. restore_grants (list_or_empty (holds_json hs)) n t st = Inr st' \<and> grants_ok (db_grants st') \<and> same_but_grants st st'"
    unfolding restore_grants_def using holds_json_counts by (intro restore_loop_total [OF g]) auto
  then obtain st1 where "restore_grants (list_or_empty (holds_json hs)) n t st = Inr st1" "grants_ok (db_grants st1)"
    "same_but_grants st st1" by blast
  moreover from this(3) have "db_wallets st1 = db_wallets st" "db_reservations st1 = db_reservations st"
    by (simp_all add: same_but_grants_tables)
  ultimately show ?thesis using False hs by (simp add: give_back_images_def)
qed

section \<open>Releasing\<close>

lemma held_row:
  assumes b: "books {} u 0 0 0 st" and r: "get_reservation rid st = Some r" "r_status r = Held"
  shows "r_id r = rid" "held_ok r" "\<exists>w. get_wallet (r_user_id r) st = Some w \<and> 0 \<le> w_cash w \<and> w_cash w \<le> w_credit w
    \<and> ensure_wallet (r_user_id r) t st = Inr (w, st)"
proof -
  note m = in_table [OF r(1)]
  show "r_id r = rid" "held_ok r" using b m by (auto simp: books_def)
  obtain w where w: "get_wallet (r_user_id r) st = Some w" using b m by (auto simp: books_def payers_ok_def)
  with books_wallet_bounds [OF b w] ensure_wallet_existing [OF w]
  show "\<exists>w. get_wallet (r_user_id r) st = Some w \<and> 0 \<le> w_cash w \<and> w_cash w \<le> w_credit w
    \<and> ensure_wallet (r_user_id r) t st = Inr (w, st)" by simp
qed

lemma get_update_reservation:
  assumes "get_reservation rid st = Some r" "P r" "\<And>x. r_id (f x) = r_id x"
  shows "get_reservation rid (update_reservation rid P f st) = Some (f r)"
  using assms by (simp add: get_reservation_def update_reservation_def row_modify_get)

lemma update_reservation_wallets [simp]: "db_wallets (update_reservation rid P f st) = db_wallets st"
  by (simp add: update_reservation_def)

lemma release_effect:
  assumes b: "books {} u 0 0 0 st" and sc: "schema_ok st"
    and r: "get_reservation rid st = Some r" "r_status r = Held"
  shows "\<exists>v st'. release_reservation rid t st = Inr (v, st')
    \<and> get_reservation rid st' = Some (r\<lparr>r_status := Released, r_updated_at := t\<rparr>)
    \<and> credited (r_user_id r) (r_reserved_credit r) (r_reserved_cash r) st st'"
proof -
  have id: "r_id r = rid" and ok: "held_ok r" using held_row [OF b r] by blast+
  obtain w where w: "get_wallet (r_user_id r) st = Some w" "0 \<le> w_cash w" "w_cash w \<le> w_credit w"
    "ensure_wallet (r_user_id r) t st = Inr (w, st)"
    using held_row(3) [OF b r, of t] by blast
  have c: "0 \<le> r_reserved_cash r" "r_reserved_cash r \<le> r_reserved_credit r"
    and i: "r_reserved_images r = 0 \<or> (\<exists>hs. vget (r_meta r) ''grant_holds'' = holds_json hs)"
    using ok r(2) by (auto simp: held_ok_def)
  obtain st1 where 1: "give_back_credit r (r_reserved_credit r) (r_reserved_cash r) ''release'' '':release_credit'' [] w t st = Inr st1"
    "credited (r_user_id r) (r_reserved_credit r) (r_reserved_cash r) st st1" "db_reservations st1 = db_reservations st"
    "db_grants st1 = db_grants st"
    using give_back_credit_total [OF w(1,2,3) c] by blast
  have "grants_ok (db_grants st1)" using schema_grants [OF sc] 1(4) by simp
  then obtain st2 where 2: "give_back_images r (r_reserved_images r) ''release'' '':release_image'' [] t st1 = Inr st2"
    "db_wallets st2 = db_wallets st1" "db_reservations st2 = db_reservations st1"
    using give_back_images_total [OF _ i] by blast
  let ?f = "\<lambda>x. x\<lparr>r_status := Released, r_updated_at := t\<rparr>"
  let ?st' = "update_reservation rid (\<lambda>x. r_status x = Held) ?f st2"
  have g: "get_reservation rid ?st' = Some (?f r)"
    using r 1(3) 2(3) by (intro get_update_reservation) (simp_all add: get_reservation_def)
  have "credited (r_user_id r) (r_reserved_credit r + 0) (r_reserved_cash r + 0) st ?st'"
    by (rule credited_trans [OF 1(2) credited_same]) (simp add: 2(2))
  with r w(4) 1(1) 2(1) g show ?thesis by (simp add: release_reservation_def show_reservation_def)
qed

section \<open>Settling\<close>

text \<open>The charge for \<open>n\<close> used units of a hold: images, credit and cash, as the code splits it.\<close>

definition hold_quantity :: "reservation_row \<Rightarrow> int" where
  "hold_quantity r = (case int_field (vget (r_meta r) ''quantity'') of Inr q \<Rightarrow> max q 0 | Inl _ \<Rightarrow> 0)"

definition hold_rate :: "reservation_row \<Rightarrow> int" where
  "hold_rate r = (case int_field (vget (r_meta r) ''unit_credit_units'') of Inr u \<Rightarrow> max u 0 | Inl _ \<Rightarrow> 0)"

definition used_quantity :: "reservation_row \<Rightarrow> int option \<Rightarrow> int" where
  "used_quantity r actual = (case actual of None \<Rightarrow> hold_quantity r | Some a \<Rightarrow> max (min a (hold_quantity r)) 0)"

definition settle_charge :: "reservation_row \<Rightarrow> int option \<Rightarrow> int \<times> int \<times> int" where
  "settle_charge r actual = (if truthy (vget (r_meta r) ''unlimited_compute'') then (0, 0, 0)
     else settlement_split r (truthy (vget (r_meta r) ''image'')) (used_quantity r actual) (hold_rate r))"

text \<open>The charge is within the hold.\<close>

lemma settle_charge_bounds:
  assumes ok: "held_ok r" "r_status r = Held" and s: "settle_charge r actual = (images, credit, cash)"
  shows "0 \<le> credit" "credit \<le> r_reserved_credit r" "0 \<le> cash" "cash \<le> r_reserved_cash r" "cash \<le> credit"
    "r_reserved_cash r - cash \<le> r_reserved_credit r - credit"
proof -
  obtain q u where q: "int_field (vget (r_meta r) ''quantity'') = Inr q" and u: "int_field (vget (r_meta r) ''unit_credit_units'') = Inr u"
    using ok by (auto simp: held_ok_def)
  have "0 \<le> credit \<and> credit \<le> r_reserved_credit r \<and> 0 \<le> cash \<and> cash \<le> r_reserved_cash r \<and> cash \<le> credit
    \<and> r_reserved_cash r - cash \<le> r_reserved_credit r - credit"
  proof (cases "truthy (vget (r_meta r) ''unlimited_compute'')")
    case True
    with ok s show ?thesis by (auto simp: held_ok_def settle_charge_def)
  next
    case False
    have a: "0 \<le> used_quantity r actual" "used_quantity r actual \<le> max q 0"
      by (auto simp: used_quantity_def hold_quantity_def q split: option.splits)
    have "settlement_split r (truthy (vget (r_meta r) ''image'')) (used_quantity r actual) (max u 0) = (images, credit, cash)"
      using s False by (simp add: settle_charge_def hold_rate_def u)
    from settlement_split_bounds [OF ok False q u a this] show ?thesis by blast
  qed
  then show "0 \<le> credit" "credit \<le> r_reserved_credit r" "0 \<le> cash" "cash \<le> r_reserved_cash r" "cash \<le> credit"
    "r_reserved_cash r - cash \<le> r_reserved_credit r - credit" by blast+
qed

lemma settle_held_effect:
  assumes b: "books {} u 0 0 0 st" and sc: "schema_ok st"
    and r: "get_reservation rid st = Some r" "r_status r = Held"
    and s: "settlement_split r (truthy (vget (r_meta r) ''image'')) actual rate = (images, credit, cash)"
    and bounds: "0 \<le> credit" "credit \<le> r_reserved_credit r" "0 \<le> cash" "cash \<le> r_reserved_cash r"
      "r_reserved_cash r - cash \<le> r_reserved_credit r - credit" and a: "0 \<le> actual"
  shows "\<exists>v st'. settle_held r actual rate t st = Inr (v, st')
    \<and> get_reservation rid st' = Some (r\<lparr>r_status := Settled, r_settled_credit := credit, r_settled_cash := cash,
        r_settled_images := images, r_updated_at := t\<rparr>)
    \<and> credited (r_user_id r) (r_reserved_credit r - credit) (r_reserved_cash r - cash) st st'"
proof -
  have id: "r_id r = rid" and ok: "held_ok r" using held_row [OF b r] by blast+
  obtain w where w: "get_wallet (r_user_id r) st = Some w" "0 \<le> w_cash w" "w_cash w \<le> w_credit w"
    "ensure_wallet (r_user_id r) t st = Inr (w, st)"
    using held_row(3) [OF b r, of t] by blast
  let ?c = "r_reserved_credit r - credit" and ?k = "r_reserved_cash r - cash" and ?i = "max (r_reserved_images r - images) 0"
  let ?note = "[(''actual_quantity'', PInt actual)]"
  have m: "max ?c 0 = ?c" "max ?k 0 = ?k" using bounds by simp_all
  have "?i = 0 \<or> (\<exists>hs. vget (r_meta r) ''grant_holds'' = holds_json hs)"
    using ok r(2) s a by (auto simp: held_ok_def settlement_split_def Let_def split: if_splits)
  note i = this
  obtain st1 where 1: "give_back_credit r ?c ?k ''reservation_refund'' '':settle_credit_refund'' ?note w t st = Inr st1"
    "credited (r_user_id r) ?c ?k st st1" "db_reservations st1 = db_reservations st" "db_grants st1 = db_grants st"
    using give_back_credit_total [OF w(1,2,3) _ bounds(5)] bounds(4) by (metis diff_ge_0_iff_ge)
  have "grants_ok (db_grants st1)" using schema_grants [OF sc] 1(4) by simp
  then obtain st2 where 2: "give_back_images r ?i ''reservation_refund'' '':settle_image_refund'' ?note t st1 = Inr st2"
    "db_wallets st2 = db_wallets st1" "db_reservations st2 = db_reservations st1"
    using give_back_images_total [OF _ i] by blast
  let ?f = "\<lambda>x. x\<lparr>r_status := Settled, r_settled_credit := credit, r_settled_cash := cash,
      r_settled_images := images, r_updated_at := t\<rparr>"
  let ?st3 = "update_reservation rid (\<lambda>x. r_status x = Held) ?f st2"
  let ?opts = "row_opts r [(''sku'', PStr (r_sku r)), (''actual_quantity'', PInt actual),
      (''charged_credit_units'', PInt credit), (''free_images'', PInt images)]"
  let ?st' = "insert_ledger (r_user_id r) Audit ''settled'' 0 (max (w_credit w + ?c) 0) (rid @ '':settled'') ?opts t ?st3"
  have "get_reservation rid ?st3 = Some (?f r)"
    using r 1(3) 2(3) by (intro get_update_reservation) (simp_all add: get_reservation_def)
  then have g: "get_reservation rid ?st' = Some (?f r)" by (simp add: get_reservation_def)
  have "credited (r_user_id r) (?c + 0) (?k + 0) st ?st'"
    by (rule credited_trans [OF 1(2) credited_same]) (simp add: 2(2))
  moreover have "settle_held r actual rate t st = Inr (reservation_public (?f r), ?st')"
    using w(4) 1(1) 2(1) g by (simp add: settle_held_def s m id show_reservation_def)
  ultimately show ?thesis using g by simp
qed

lemma settle_unlimited_effect:
  assumes b: "books {} u 0 0 0 st" and r: "get_reservation rid st = Some r" "r_status r = Held"
  shows "\<exists>v st'. settle_unlimited r actual rate t st = Inr (v, st')
    \<and> get_reservation rid st' = Some (r\<lparr>r_status := Settled, r_updated_at := t\<rparr>) \<and> credited (r_user_id r) 0 0 st st'"
proof -
  have id: "r_id r = rid" using held_row [OF b r] by blast
  obtain w where w: "ensure_wallet (r_user_id r) t st = Inr (w, st)"
    using held_row(3) [OF b r, of t] by blast
  let ?f = "\<lambda>x. x\<lparr>r_status := Settled, r_updated_at := t\<rparr>"
  let ?st2 = "update_reservation rid (\<lambda>x. r_status x = Held) ?f st"
  have "get_reservation rid ?st2 = Some (?f r)" using r by (intro get_update_reservation) simp_all
  then show ?thesis
    using w id by (auto simp: settle_unlimited_def show_reservation_def get_reservation_def intro!: credited_same)
qed

lemma settle_effect:
  assumes b: "books {} u 0 0 0 st" and sc: "schema_ok st"
    and r: "get_reservation rid st = Some r" "r_status r = Held"
    and s: "settle_charge r actual = (images, credit, cash)"
  shows "\<exists>v st'. settle_reservation rid actual True t st = Inr (v, st')
    \<and> get_reservation rid st' = Some (r\<lparr>r_status := Settled, r_settled_credit := credit, r_settled_cash := cash,
        r_settled_images := (if truthy (vget (r_meta r) ''unlimited_compute'') then r_settled_images r else images),
        r_updated_at := t\<rparr>)
    \<and> credited (r_user_id r) (r_reserved_credit r - credit) (r_reserved_cash r - cash) st st'"
proof -
  have ok: "held_ok r" using held_row [OF b r] by blast
  note bounds = settle_charge_bounds [OF ok r(2) s]
  obtain q v where q: "int_field (vget (r_meta r) ''quantity'') = Inr q"
    and v: "int_field (vget (r_meta r) ''unit_credit_units'') = Inr v"
    using ok r(2) by (auto simp: held_ok_def)
  let ?a = "used_quantity r actual" and ?n = "hold_rate r"
  have d: "settle_reservation rid actual True t st =
      (if truthy (vget (r_meta r) ''unlimited_compute'') then settle_unlimited r ?a ?n t st else settle_held r ?a ?n t st)"
    using r q v
    by (cases actual) (simp_all add: settle_reservation_def used_quantity_def hold_quantity_def hold_rate_def Let_def)
  show ?thesis
  proof (cases "truthy (vget (r_meta r) ''unlimited_compute'')")
    case True
    have z: "r_settled_credit r = 0" "r_settled_cash r = 0" "r_reserved_credit r = 0" "r_reserved_cash r = 0"
      using ok r(2) True by (auto simp: held_ok_def)
    then have e: "r\<lparr>r_status := Settled, r_updated_at := t\<rparr> = r\<lparr>r_status := Settled, r_settled_credit := credit,
        r_settled_cash := cash, r_settled_images := r_settled_images r, r_updated_at := t\<rparr>"
      using True s by (cases r) (simp add: settle_charge_def)
    have "credit = 0" "cash = 0" using True s by (simp_all add: settle_charge_def)
    with settle_unlimited_effect [OF b r, of ?a ?n t, unfolded e] True z d show ?thesis by auto
  next
    case False
    then have "settlement_split r (truthy (vget (r_meta r) ''image'')) ?a ?n = (images, credit, cash)"
      using s by (simp add: settle_charge_def)
    moreover have "0 \<le> ?a" by (simp add: used_quantity_def hold_quantity_def q split: option.splits)
    ultimately show ?thesis using settle_held_effect [OF b sc r _ bounds(1-4,6), of ?a ?n images t] False d by simp
  qed
qed

end
