(* ===== verification/BillingReplay.thy ===== *)
theory BillingReplay
  imports BillingEndings
begin

text \<open>
  Repeating a request.  The callers retry, so every operation that moves points has an
  idempotency key or a status that makes its second run harmless: the same view comes
  back and the database does not change.
\<close>

section \<open>Ending a hold twice\<close>

lemma updated_row:
  "get_reservation k (update_reservation rid P f st) = Some x \<Longrightarrow> (\<And>x. r_id (f x) = r_id x) \<Longrightarrow>
    \<exists>y. get_reservation k st = Some y \<and> x = (if k = rid \<and> P y then f y else y)"
  by (cases "k = rid") (auto simp: get_reservation_def update_reservation_def row_modify_get)

lemma get_reservation_ledger [simp]:
  "get_reservation rid (insert_ledger uid asset event amount bal key opts t st) = get_reservation rid st"
  by (simp add: get_reservation_def)

text \<open>The row is there afterwards, it is not held, and its view is what was returned.\<close>

definition ended :: "string \<Rightarrow> reservation_view \<Rightarrow> bdb \<Rightarrow> bool" where
  "ended rid v st = (\<exists>r. get_reservation rid st = Some r \<and> r_status r \<noteq> Held \<and> v = reservation_public r)"

lemma show_ended:
  assumes "show_reservation rid st2 = Inr (v, st')"
    and "get_reservation rid st2 = get_reservation rid (update_reservation rid (\<lambda>x. r_status x = Held) f st)"
    and "\<And>x. r_id (f x) = r_id x" "\<And>x. r_status (f x) \<noteq> Held"
  shows "ended rid v st'"
proof -
  from assms(1) obtain r where r: "get_reservation rid st2 = Some r" "st' = st2" "v = reservation_public r"
    by (auto simp: show_reservation_Inr)
  then obtain y where "r = (if r_status y = Held then f y else y)"
    using updated_row [of rid rid "\<lambda>x. r_status x = Held" f st r, OF _ assms(3)] assms(2) by auto
  then have "r_status r \<noteq> Held" using assms(4) by (cases "r_status y = Held") simp_all
  with r show ?thesis by (simp add: ended_def)
qed

lemma release_ended:
  assumes "release_reservation rid t st = Inr (v, st')"
  shows "ended rid v st'"
proof -
  from assms obtain r where r: "get_reservation rid st = Some r" by (auto simp: release_reservation_def split: option.splits)
  show ?thesis
  proof (cases "r_status r = Held")
    case False
    with assms r show ?thesis by (auto simp: release_reservation_def ended_def)
  next
    case True
    with assms r obtain st3 where "show_reservation rid (update_reservation rid (\<lambda>x. r_status x = Held)
        (\<lambda>x. x\<lparr>r_status := Released, r_updated_at := t\<rparr>) st3) = Inr (v, st')"
      by (auto simp: release_reservation_def bindr_eq_Inr)
    then show ?thesis by (rule show_ended [OF _ refl]) simp_all
  qed
qed

lemma settle_branches_ended:
  "settle_unlimited r a n t st = Inr (v, st') \<Longrightarrow> ended (r_id r) v st'"
  "settle_held r a n t st = Inr (v, st') \<Longrightarrow> ended (r_id r) v st'"
  by (auto simp: settle_unlimited_def settle_held_def Let_def split_def bindr_eq_Inr intro: show_ended)

lemma settle_ended:
  assumes "settle_reservation rid actual success t st = Inr (v, st')"
  shows "ended rid v st'"
proof -
  from assms obtain r where r: "get_reservation rid st = Some r" by (auto simp: settle_reservation_def split: option.splits)
  have id: "r_id r = rid" using in_table [OF r] by simp
  show ?thesis
  proof (cases "r_status r \<in> {Settled, Released, Waived}")
    case True
    with assms r show ?thesis by (auto simp: settle_reservation_def ended_def)
  next
    case False
    show ?thesis
    proof (cases success)
      case True
      with False assms r obtain a n where
        "settle_unlimited r a n t st = Inr (v, st') \<or> settle_held r a n t st = Inr (v, st')"
        by (auto simp: settle_reservation_def bindr_eq_Inr Let_def split: if_splits)
      then show ?thesis using settle_branches_ended id by blast
    next
      case f: False
      with False assms r have "release_reservation rid t st = Inr (v, st')" by (simp add: settle_reservation_def)
      then show ?thesis by (rule release_ended)
    qed
  qed
qed

lemma ended_again:
  assumes "ended rid v st"
  shows "settle_reservation rid actual success t st = Inr (v, st)" "release_reservation rid t st = Inr (v, st)"
proof -
  obtain r where r: "get_reservation rid st = Some r" "r_status r \<noteq> Held" "v = reservation_public r"
    using assms by (auto simp: ended_def)
  then have "r_status r \<in> {Settled, Released, Waived}" by (cases "r_status r") simp_all
  with r show "settle_reservation rid actual success t st = Inr (v, st)" "release_reservation rid t st = Inr (v, st)"
    by (simp_all add: settle_reservation_def release_reservation_def)
qed

section \<open>Reserving twice\<close>

text \<open>The row a new reservation leaves: the request's identity and the flags a replay compares.\<close>

definition answers :: "charge_request \<Rightarrow> reservation_row \<Rightarrow> bool" where
  "answers q r = (r_user_id r = cr_user_id q \<and> r_ref_type r = cr_ref_type q \<and> r_ref_id r = cr_ref_id q
     \<and> r_sku r = cr_sku q \<and> int_field (vget (r_meta r) ''quantity'') = Inr (max (cr_quantity q) 0)
     \<and> truthy (vget_default (r_meta r) ''image'' (PBool (0 < r_reserved_images r))) = cr_image q
     \<and> (truthy (vget (r_meta r) ''admin_waived'') \<or> str_field (vget (r_meta r) ''waived_reason'') = ''admin'') = cr_waived q)"

lemma replay_answers:
  "replay_charge q (max (cr_quantity q) 0) r st = (case int_field (vget (r_meta r) ''quantity'') of Inl e \<Rightarrow> Inl e
     | Inr n \<Rightarrow> if answers q r then Inr (reservation_public r, st)
       else Inl (BillingError ''RESERVATION_IDEMPOTENCY_CONFLICT'' 409))"
  by (auto simp: replay_charge_def answers_def split: sum.splits)

lemma blank_fields:
  "r_meta (blank_reservation rid uid rt ri sku status cid meta idem t) = PDict meta"
  "r_ref_type (blank_reservation rid uid rt ri sku status cid meta idem t) = rt"
  "r_ref_id (blank_reservation rid uid rt ri sku status cid meta idem t) = ri"
  "r_sku (blank_reservation rid uid rt ri sku status cid meta idem t) = sku"
  by (simp_all add: blank_reservation_def)

text \<open>After the insertion of a row with a fresh key, the key finds the row, and the row is shown.\<close>

lemma inserted_row:
  assumes i: "insert_reservation r st = Inr st1" and s: "show_reservation (r_id r) st2 = Inr (v, st')"
    and e: "db_reservations st2 = db_reservations st1"
  shows "st' = st2 \<and> v = reservation_public r \<and> reservation_by_idem (r_idem r) st' = Some r"
proof -
  have n: "\<forall>x \<in> set (db_reservations st). r_id x \<noteq> r_id r \<and> r_idem x \<noteq> r_idem r"
    and st1: "db_reservations st1 = db_reservations st @ [r]"
    using i by (auto simp: insert_reservation_def split: if_splits)
  have "row_get r_id (r_id r) (db_reservations st) = None" using n by (auto simp: reservations_tbl.get_None)
  then have "get_reservation (r_id r) st2 = Some r"
    by (simp add: get_reservation_def e st1 reservations_tbl.get_append)
  moreover have "find_row (\<lambda>x. r_idem x = r_idem r) (db_reservations st) = None" using n by (simp add: find_row_None)
  then have "reservation_by_idem (r_idem r) st2 = Some r"
    by (simp add: reservation_by_idem_def e st1 find_row_append)
  ultimately show ?thesis using s by (auto simp: show_reservation_def)
qed

lemma insert_ledger_if_reservations:
  "db_reservations (if b then insert_ledger uid asset event amount bal key opts t st else st) = db_reservations st"
  by simp

definition answered :: "charge_request \<Rightarrow> string \<Rightarrow> reservation_view \<Rightarrow> bdb \<Rightarrow> bool" where
  "answered q idem v st = (\<exists>r. reservation_by_idem idem st = Some r \<and> answers q r \<and> v = reservation_public r)"

lemma waived_answered:
  assumes "reserve_waived q (max (cr_quantity q) 0) idem reason rate cid w t st = Inr (v, st')"
    and "cr_waived q \<or> reason \<noteq> ''admin''"
  shows "answered q idem v st'"
proof -
  from assms(1) obtain r st1 st2 st3 where i: "insert_reservation r st1 = Inr st2"
    and r: "r = blank_reservation (r_id r) (cr_user_id q) (cr_ref_type q) (cr_ref_id q) (cr_sku q) Waived cid
        [(''quantity'', PInt (max (cr_quantity q) 0)), (''unit_credit_units'', PInt rate), (''image'', PBool (cr_image q)),
         (''admin_waived'', PBool (cr_waived q)), (''waived_reason'', PStr reason)] idem t"
    and s: "show_reservation (r_id r) st3 = Inr (v, st')" and e: "db_reservations st3 = db_reservations st2"
    by (auto simp: reserve_waived_def Let_def new_id_def bindr_eq_Inr) 
  have "r_idem r = idem" by (subst r) simp
  moreover have "answers q r"
    using assms(2) by (subst r) (auto simp: answers_def blank_fields vget_default_def has_key_def int_field_def py_or_def)
  ultimately show ?thesis using inserted_row [OF i s e] by (auto simp: answered_def)
qed

lemma unlimited_answered:
  assumes "reserve_unlimited q (max (cr_quantity q) 0) idem rate cid w t st = Inr (v, st')" and "\<not> cr_waived q"
  shows "answered q idem v st'"
proof -
  from assms(1) obtain r st1 st2 st3 where i: "insert_reservation r st1 = Inr st2"
    and r: "r = blank_reservation (r_id r) (cr_user_id q) (cr_ref_type q) (cr_ref_id q) (cr_sku q) Held cid
        [(''quantity'', PInt (max (cr_quantity q) 0)), (''unit_credit_units'', PInt rate), (''image'', PBool (cr_image q)),
         (''admin_waived'', PBool False), (''unlimited_compute'', PBool True),
         (''theoretical_credit_units'', PInt (max (cr_quantity q) 0 * rate))] idem t"
    and s: "show_reservation (r_id r) st3 = Inr (v, st')" and e: "db_reservations st3 = db_reservations st2"
    by (auto simp: reserve_unlimited_def Let_def new_id_def bindr_eq_Inr)
  have "r_idem r = idem" by (subst r) simp
  moreover have "answers q r"
    using assms(2) by (subst r) (auto simp: answers_def blank_fields vget_default_def has_key_def int_field_def py_or_def)
  ultimately show ?thesis using inserted_row [OF i s e] by (auto simp: answered_def)
qed

lemma held_answered:
  assumes "reserve_held q (max (cr_quantity q) 0) idem rate cid w t st = Inr (v, st')" and "\<not> cr_waived q"
  shows "answered q idem v st'"
proof -
  from assms(1) obtain r st1 st2 st3 credit cash free holds where i: "insert_reservation r st1 = Inr st2"
    and r: "r = (blank_reservation (r_id r) (cr_user_id q) (cr_ref_type q) (cr_ref_id q) (cr_sku q) Held cid
        [(''quantity'', PInt (max (cr_quantity q) 0)), (''unit_credit_units'', PInt rate), (''image'', PBool (cr_image q)),
         (''admin_waived'', PBool False), (''grant_holds'', holds_json holds), (''cash_backed_credit_units'', PInt cash)] idem t)
        \<lparr>r_reserved_credit := credit, r_reserved_cash := cash, r_reserved_images := free\<rparr>"
    and s: "show_reservation (r_id r) st3 = Inr (v, st')" and e: "db_reservations st3 = db_reservations st2"
    unfolding reserve_held_def new_id_def Let_def prod.case by (auto simp: bindr_eq_Inr split: if_splits)
  have "r_idem r = idem" by (subst r) simp
  moreover have "answers q r"
    using assms(2) by (subst r) (auto simp: answers_def blank_fields vget_default_def has_key_def int_field_def py_or_def)
  ultimately show ?thesis using inserted_row [OF i s e] by (auto simp: answered_def)
qed

lemma reserve_answered:
  assumes r: "reserve_charge q t st = Inr (v, st')"
  shows "0 < cr_quantity q" "answered q (charge_idem q) v st'"
proof -
  let ?n = "max (cr_quantity q) 0"
  show n: "0 < cr_quantity q" using r by (cases "cr_quantity q \<le> 0") (simp_all add: reserve_charge_def Let_def)
  show "answered q (charge_idem q) v st'"
  proof (cases "reservation_by_idem (charge_idem q) st")
    case (Some x)
    then have "replay_charge q ?n x st = Inr (v, st')" using r n by (simp add: reserve_charge_def max_def)
    then show ?thesis unfolding replay_answers using Some by (auto simp: answered_def split: sum.splits if_splits)
  next
    case None
    have nn: "max (cr_quantity q) 0 = cr_quantity q" using n by simp
    note ans = waived_answered [of q, unfolded nn] unlimited_answered [of q, unfolded nn] held_answered [of q, unfolded nn]
    from None r n obtain w st1 rate cid where
      b: "(let reason = (if \<not> enforcement_enabled st1 then ''feature_disabled'' else if cr_waived q then ''admin'' else []) in
        if reason \<noteq> [] then reserve_waived q (cr_quantity q) (charge_idem q) reason rate cid w t st1
        else if w_unlimited w then reserve_unlimited q (cr_quantity q) (charge_idem q) rate cid w t st1
        else reserve_held q (cr_quantity q) (charge_idem q) rate cid w t st1) = Inr (v, st')"
      by (auto simp: reserve_charge_def bindr_eq_Inr Let_def)
    show ?thesis
    proof (cases "enforcement_enabled st1 \<and> \<not> cr_waived q")
      case True
      with b have "(if w_unlimited w then reserve_unlimited q (cr_quantity q) (charge_idem q) rate cid w t st1
        else reserve_held q (cr_quantity q) (charge_idem q) rate cid w t st1) = Inr (v, st')" by (simp add: Let_def)
      with True show ?thesis
        by (cases "w_unlimited w") (simp_all add: ans(2,3))
    next
      case False
      with b obtain reason where "reserve_waived q (cr_quantity q) (charge_idem q) reason rate cid w t st1 = Inr (v, st')"
        "cr_waived q \<or> reason \<noteq> ''admin''"
        by (auto simp: Let_def split: if_splits)
      then show ?thesis by (rule ans(1))
    qed
  qed
qed

lemma answered_again:
  assumes "0 < cr_quantity q" "answered q (charge_idem q) v st"
  shows "reserve_charge q t st = Inr (v, st)"
proof -
  obtain r where r: "reservation_by_idem (charge_idem q) st = Some r" "answers q r" "v = reservation_public r"
    using assms(2) by (auto simp: answered_def)
  have n: "max (cr_quantity q) 0 = cr_quantity q" using assms(1) by simp
  have "replay_charge q (max (cr_quantity q) 0) r st = Inr (v, st)"
    using r by (auto simp: replay_answers answers_def)
  with assms(1) r n show ?thesis by (simp add: reserve_charge_def)
qed

section \<open>Ordering twice\<close>

lemma create_order_placed:
  assumes r: "create_order q t st = Inr (v, st')"
  shows "\<exists>x. find_row (\<lambda>r. o_user_id r = oq_user_id (normal_request q) \<and> o_idem r = oq_idem (normal_request q)) (db_orders st') = Some x
    \<and> same_order x (normal_request q) \<and> v = order_public x"
proof -
  let ?q = "normal_request q"
  let ?P = "\<lambda>r. o_user_id r = oq_user_id ?q \<and> o_idem r = oq_idem ?q"
  show ?thesis
  proof (cases "find_row ?P (db_orders st)")
    case (Some x)
    with r show ?thesis by (auto simp: create_order_def Let_def split: if_splits)
  next
    case None
    with r have "place_order ?q t st = Inr (v, st')" by (auto simp: create_order_def Let_def split: if_splits)
    then obtain oid kind a cid snap st1 st2 where
      i: "insert_order (pending_order ?q oid kind a cid snap t) st1 = Inr st2" and s: "show_order oid st2 = Inr (v, st')"
      and o1: "db_orders st1 = db_orders st"
      by (auto simp: place_order_def bindr_eq_Inr Let_def new_id_def split: if_splits)
    let ?x = "pending_order ?q oid kind a cid snap t"
    have x: "o_id ?x = oid" "?P ?x" "same_order ?x ?q" by (simp_all add: pending_order_def same_order_def)
    have n: "\<forall>y \<in> set (db_orders st1). o_id y \<noteq> o_id ?x" and st2: "db_orders st2 = db_orders st @ [?x]"
      using i o1 by (auto simp: insert_order_def split: if_splits)
    then have "row_get o_id oid (db_orders st) = None" using x(1) o1 by (auto simp: orders_tbl.get_None)
    then have "get_order oid st2 = Some ?x" using x(1) by (simp add: get_order_def st2 orders_tbl.get_append)
    with s None x st2 show ?thesis by (auto simp: show_order_Inr find_row_append)
  qed
qed

lemma create_order_again:
  assumes r: "create_order q t st = Inr (v, st')"
  shows "create_order q t' st' = Inr (v, st')"
proof -
  from create_order_placed [OF r] obtain x where
    "find_row (\<lambda>r. o_user_id r = oq_user_id (normal_request q) \<and> o_idem r = oq_idem (normal_request q)) (db_orders st') = Some x"
    "same_order x (normal_request q)" "v = order_public x" by blast
  moreover have "oq_idem (normal_request q) \<noteq> []" "\<not> 128 < length (oq_idem (normal_request q))"
    using r by (auto simp: create_order_def Let_def split: if_splits)
  ultimately show ?thesis by (simp add: create_order_def Let_def)
qed

end
