(* ===== verification/BillingImages.thy ===== *)
theory BillingImages
  imports BillingReplay "HOL-Library.Product_Lexorder" "HOL-Library.Multiset"
begin

text \<open>
  Free images: the order in which grants are consumed (\<open>grant_order\<close>, three stable sorts,
  is one sort by a lexicographic key), what a reservation takes from them (\<open>take_plan\<close>) and
  what a release gives back.  With them, the price of a reservation is exactly known, and
  releasing an untouched hold restores the wallet and every grant.
\<close>

section \<open>The order of the grants\<close>

lemma insort_key_refine:
  fixes f :: "'a \<Rightarrow> 'b::linorder" and g :: "'a \<Rightarrow> 'c::linorder"
  shows "\<forall>y \<in> set ys. g x \<le> g y \<Longrightarrow> insort_key f x ys = insort_key (\<lambda>x. (f x, g x)) x ys"
  by (induction ys) (auto simp: less_eq_prod_def order_le_less)

lemma sort_key_refine:
  fixes f :: "'a \<Rightarrow> 'b::linorder" and g :: "'a \<Rightarrow> 'c::linorder"
  shows "sorted (map g xs) \<Longrightarrow> sort_key f xs = sort_key (\<lambda>x. (f x, g x)) xs"
proof (induction xs)
  case (Cons x xs)
  then have "\<forall>y \<in> set (sort_key (\<lambda>x. (f x, g x)) xs). g x \<le> g y" by simp
  with Cons show ?case using insort_key_refine [of "sort_key (\<lambda>x. (f x, g x)) xs" g x f] by simp
qed simp

lemma sort_key_sorted_first:
  fixes f :: "'a \<Rightarrow> 'b::linorder" and g :: "'a \<Rightarrow> 'c::linorder"
  shows "sort_key (\<lambda>x. (f x, g x)) (sort_key g xs) = sort_key (\<lambda>x. (f x, g x)) xs"
proof (rule properties_for_sort_key)
  let ?h = "\<lambda>x. (f x, g x)"
  fix k
  have "filter (\<lambda>x. ?h k = ?h x) (sort_key ?h xs) = filter (\<lambda>x. ?h k = ?h x) xs"
    using sort_key_stable [of ?h "?h k" xs] by (simp add: eq_commute)
  also have "\<dots> = filter (\<lambda>x. f k = f x) (filter (\<lambda>x. g x = g k) xs)"
    by (simp add: conj_commute eq_commute [of "g k"])
  also have "\<dots> = filter (\<lambda>x. f k = f x) (filter (\<lambda>x. g x = g k) (sort_key g xs))" by (simp add: sort_key_stable)
  also have "\<dots> = filter (\<lambda>x. ?h k = ?h x) (sort_key g xs)" by (simp add: conj_commute eq_commute [of "g k"])
  finally show "filter (\<lambda>x. ?h k = ?h x) (sort_key ?h xs) = filter (\<lambda>x. ?h k = ?h x) (sort_key g xs)" .
qed (simp_all add: sorted_sort_key)

lemma sort_key_twice:
  fixes f :: "'a \<Rightarrow> 'b::linorder" and g :: "'a \<Rightarrow> 'c::linorder"
  shows "sort_key f (sort_key g xs) = sort_key (\<lambda>x. (f x, g x)) xs"
  using sort_key_refine [of g "sort_key g xs" f] sort_key_sorted_first [of f g xs] by (simp add: sorted_sort_key)

text \<open>Grants that expire come before permanent ones, the soonest to expire first.\<close>

definition grant_rank :: "grant_row \<Rightarrow> int \<times> int \<times> int" where
  "grant_rank g = (if g_expires_at g = 0 then 1 else 0, g_expires_at g, g_created_at g)"

lemma grant_order_rank: "grant_order gs = sort_key grant_rank gs"
  unfolding grant_order_def sort_key_twice by (simp add: grant_rank_def [abs_def])

section \<open>Taking images\<close>

fun take_plan :: "int \<Rightarrow> grant_row list \<Rightarrow> (string \<times> int) list" where
  "take_plan n [] = []"
| "take_plan n (g # gs) = (if n \<le> 0 then []
     else (g_id g, min n (g_remaining g)) # take_plan (n - min n (g_remaining g)) gs)"

definition spend :: "int \<Rightarrow> string \<times> int \<Rightarrow> grant_row list \<Rightarrow> grant_row list" where
  "spend t h = row_modify g_id (fst h) (\<lambda>x. x\<lparr>g_remaining := g_remaining x - snd h, g_updated_at := t\<rparr>)"

definition give :: "int \<Rightarrow> string \<times> int \<Rightarrow> grant_row list \<Rightarrow> grant_row list" where
  "give t h = row_modify g_id (fst h) (\<lambda>x. x\<lparr>g_remaining := min (g_total x) (g_remaining x + snd h), g_updated_at := t\<rparr>)"

definition planned :: "(string \<times> int) list \<Rightarrow> int" where
  "planned hs = sum_list (map snd hs)"

lemma planned_simps [simp]: "planned [] = 0" "planned (h # hs) = snd h + planned hs" "planned (hs @ ks) = planned hs + planned ks"
  by (simp_all add: planned_def)

lemma take_plan_planned:
  "(\<And>g. g \<in> set gs \<Longrightarrow> 0 < g_remaining g) \<Longrightarrow> 0 \<le> n \<Longrightarrow>
    planned (take_plan n gs) = min n (sum_list (map g_remaining gs)) \<and> (\<forall>h \<in> set (take_plan n gs). 0 < snd h)"
proof (induction n gs rule: take_plan.induct)
  case (2 n g gs)
  have p: "0 < g_remaining g" and s: "0 \<le> sum_list (map g_remaining gs)"
    using 2(2) sum_list_filter_nonneg [of gs g_remaining] by (force+)
  show ?case
  proof (cases "n \<le> 0")
    case True
    with 2(3) p s show ?thesis by simp
  next
    case False
    have "planned (take_plan (n - min n (g_remaining g)) gs) = min (n - min n (g_remaining g)) (sum_list (map g_remaining gs))
        \<and> (\<forall>h \<in> set (take_plan (n - min n (g_remaining g)) gs). 0 < snd h)"
      using 2(1) [OF False] 2(2) by simp
    with False p s show ?thesis by (auto simp: min_def)
  qed
qed simp

lemma take_plan_ids: "set (map fst (take_plan n gs)) \<subseteq> g_id ` set gs"
  by (induction n gs rule: take_plan.induct) auto

lemma take_plan_distinct: "distinct (map g_id gs) \<Longrightarrow> distinct (map fst (take_plan n gs))"
proof (induction n gs rule: take_plan.induct)
  case (2 n g gs)
  then show ?case using take_plan_ids [of "n - min n (g_remaining g)" gs] by auto
qed simp

lemma spend_get:
  "row_get g_id k (spend t h gs) =
    (if k = fst h then map_option (\<lambda>x. x\<lparr>g_remaining := g_remaining x - snd h, g_updated_at := t\<rparr>) (row_get g_id k gs)
     else row_get g_id k gs)"
  unfolding spend_def by (rule row_modify_get) simp

lemma give_get:
  "row_get g_id k (give t h gs) =
    (if k = fst h then map_option (\<lambda>x. x\<lparr>g_remaining := min (g_total x) (g_remaining x + snd h), g_updated_at := t\<rparr>) (row_get g_id k gs)
     else row_get g_id k gs)"
  unfolding give_def by (rule row_modify_get) simp

text \<open>What the loop over the grants does: it follows the plan.\<close>

lemma take_grants_follows:
  assumes "\<And>g. g \<in> set gs \<Longrightarrow> row_get g_id (g_id g) (db_grants st) = Some g \<and> 0 < g_remaining g"
    and "distinct (map g_id gs)" "0 \<le> n"
  shows "take_grants t gs n holds free st =
    Inr (holds @ take_plan n gs, free + planned (take_plan n gs), n - planned (take_plan n gs),
      st\<lparr>db_grants := fold (spend t) (take_plan n gs) (db_grants st)\<rparr>)"
  using assms
proof (induction gs arbitrary: n holds free st)
  case (Cons g gs)
  show ?case
  proof (cases "n \<le> 0")
    case False
    let ?c = "min n (g_remaining g)"
    let ?f = "\<lambda>x. x\<lparr>g_remaining := g_remaining x - ?c, g_updated_at := t\<rparr>"
    let ?st = "st\<lparr>db_grants := spend t (g_id g, ?c) (db_grants st)\<rparr>"
    have g: "row_get g_id (g_id g) (db_grants st) = Some g" "0 < g_remaining g" using Cons.prems(1) by simp_all
    have u: "update_grant (g_id g) ?f st = Inr ?st"
      using g by (simp add: update_grant_def get_grant_def spend_def)
    have "take_grants t gs (n - ?c) (holds @ [(g_id g, ?c)]) (free + ?c) ?st = Inr ((holds @ [(g_id g, ?c)]) @ take_plan (n - ?c) gs,
        free + ?c + planned (take_plan (n - ?c) gs), n - ?c - planned (take_plan (n - ?c) gs),
        ?st\<lparr>db_grants := fold (spend t) (take_plan (n - ?c) gs) (db_grants ?st)\<rparr>)"
    proof (rule Cons.IH)
      fix x assume x: "x \<in> set gs"
      with Cons.prems(2) have "g_id x \<noteq> g_id g" by (auto simp: image_iff)
      with Cons.prems(1) x show "row_get g_id (g_id x) (db_grants ?st) = Some x \<and> 0 < g_remaining x"
        by (simp add: spend_get)
    qed (use Cons.prems in auto)
    moreover have "\<not> ?c \<le> 0" using False g(2) by auto
    ultimately show ?thesis using u False by (simp add: Let_def algebra_simps)
  qed (use Cons.prems in simp)
qed simp

section \<open>Giving them back\<close>

definition hold_json :: "string \<times> int \<Rightarrow> pyval" where
  "hold_json h = PDict [(''grant_id'', PStr (fst h)), (''count'', PInt (snd h))]"

lemma holds_json_alt: "holds_json hs = PList (map hold_json hs)"
  by (simp add: holds_json_def hold_json_def split_def)

lemma restore_loop_follows:
  assumes "grants_ok (db_grants st)" "\<And>h. h \<in> set hs \<Longrightarrow> 0 < snd h"
  shows "restore_loop t (map hold_json hs) (planned hs) st = Inr (st\<lparr>db_grants := fold (give t) hs (db_grants st)\<rparr>)"
  using assms
proof (induction hs arbitrary: st)
  case (Cons h hs)
  have c: "0 < snd h" and p: "0 \<le> planned hs"
    using Cons.prems(2) sum_list_filter_nonneg [of hs snd] by (auto simp: planned_def less_imp_le)
  let ?c = "snd h"
  let ?f = "\<lambda>g. g\<lparr>g_remaining := min (g_total g) (g_remaining g + ?c), g_updated_at := t\<rparr>"
  have m: "min (?c + planned hs) (max ?c 0) = ?c" using c p by simp
  have i: "int_field (vget (hold_json h) ''count'') = Inr ?c" "str_field (vget (hold_json h) ''grant_id'') = fst h"
    using c by (simp_all add: hold_json_def int_field_def py_or_def)
  obtain st1 where u: "update_grant (fst h) ?f st = Inr st1" "grants_ok (db_grants st1)" "same_but_grants st st1"
    using update_grant_total [OF Cons.prems(1), of ?f "fst h"] grants_okD [OF Cons.prems(1)] c by force
  have st1: "st1 = st\<lparr>db_grants := give t h (db_grants st)\<rparr>"
  proof (cases "get_grant (fst h) st")
    case None
    then have "\<forall>x \<in> set (db_grants st). g_id x \<noteq> fst h" by (auto simp: get_grant_def grants_tbl.get_None image_iff)
    then have "give t h (db_grants st) = db_grants st" by (simp add: give_def row_modify_def update_where_none)
    with None u show ?thesis by (simp add: update_grant_def)
  next
    case (Some g)
    with u show ?thesis by (auto simp: update_grant_def give_def split: if_splits)
  qed
  have "restore_loop t (map hold_json hs) (planned hs) st1 = Inr (st1\<lparr>db_grants := fold (give t) hs (db_grants st1)\<rparr>)"
    using Cons.prems(2) by (intro Cons.IH u(2)) simp
  with u(1) c p m i st1 show ?case by (simp add: Let_def)
qed simp

section \<open>The price of a hold\<close>

lemma usable_follows:
  assumes "grants_ok (db_grants st)"
  shows "distinct (map g_id (usable_grants uid t st))"
    and "g \<in> set (usable_grants uid t st) \<Longrightarrow> row_get g_id (g_id g) (db_grants st) = Some g \<and> 0 < g_remaining g"
proof -
  have d: "distinct (map g_id (db_grants st))" using assms by (simp add: grants_ok_def)
  then have "distinct (filter (usable_grant uid t) (db_grants st))" "inj_on g_id (set (filter (usable_grant uid t) (db_grants st)))"
    by (auto simp: distinct_map inj_on_def)
  then show "distinct (map g_id (usable_grants uid t st))"
    by (simp add: usable_grants_def grant_order_rank distinct_map)
  show "g \<in> set (usable_grants uid t st) \<Longrightarrow> row_get g_id (g_id g) (db_grants st) = Some g \<and> 0 < g_remaining g"
    using grants_tbl.get_in [OF d] by (simp add: usable_grants_def grant_order_rank usable_grant_def)
qed

lemma usable_balance: "sum_list (map g_remaining (usable_grants uid t st)) = image_balance uid t st"
proof -
  have "mset (map g_remaining (usable_grants uid t st)) = mset (map g_remaining (filter (usable_grant uid t) (db_grants st)))"
    by (simp add: usable_grants_def grant_order_rank)
  then show ?thesis unfolding image_balance_def by (metis sum_mset_sum_list)
qed

text \<open>The images a request takes, and what it pays for the rest.\<close>

definition hold_plan :: "charge_request \<Rightarrow> int \<Rightarrow> int \<Rightarrow> bdb \<Rightarrow> (string \<times> int) list" where
  "hold_plan q qty t st = (if cr_image q then take_plan qty (usable_grants (cr_user_id q) t st) else [])"

definition hold_price :: "charge_request \<Rightarrow> int \<Rightarrow> int \<Rightarrow> int \<Rightarrow> bdb \<Rightarrow> int" where
  "hold_price q qty rate t st = (qty - planned (hold_plan q qty t st)) * rate"

lemma hold_plan_images:
  assumes "grants_ok (db_grants st)" "0 \<le> qty"
  shows "planned (hold_plan q qty t st) = (if cr_image q then min qty (image_balance (cr_user_id q) t st) else 0)"
    and "h \<in> set (hold_plan q qty t st) \<Longrightarrow> 0 < snd h" and "distinct (map fst (hold_plan q qty t st))"
  using take_plan_planned [of "usable_grants (cr_user_id q) t st" qty] usable_follows [OF assms(1)] assms(2)
    take_plan_distinct [of "usable_grants (cr_user_id q) t st" qty]
  by (auto simp: hold_plan_def usable_balance)

lemma hold_price_nonneg:
  assumes "grants_ok (db_grants st)" "0 \<le> qty" "0 \<le> rate"
  shows "0 \<le> hold_price q qty rate t st"
  unfolding hold_price_def using hold_plan_images(1) [OF assms(1,2), of q t] assms by (intro mult_nonneg_nonneg) auto

lemma hold_taken:
  assumes "grants_ok (db_grants st)" "0 \<le> qty"
  shows "(if cr_image q then take_grants t (usable_grants (cr_user_id q) t st) qty [] 0 st else Inr ([], 0, qty, st)) =
    Inr (hold_plan q qty t st, planned (hold_plan q qty t st), qty - planned (hold_plan q qty t st),
      st\<lparr>db_grants := fold (spend t) (hold_plan q qty t st) (db_grants st)\<rparr>)"
  using take_grants_follows [OF usable_follows(2) [OF assms(1)] usable_follows(1) [OF assms(1)] assms(2),
    where holds = "[]" and free = 0] by (simp add: hold_plan_def)

lemma debit_wallet_total:
  assumes w: "get_wallet uid st = Some w" and c: "c \<le> w_credit w" "k \<le> w_cash w" "0 \<le> w_cash w - k" "w_cash w - k \<le> w_credit w - c"
  shows "\<exists>ws. debit_wallet uid c k t st = Inr (st\<lparr>db_wallets := ws\<rparr>) \<and> credited uid (- c) (- k) st (st\<lparr>db_wallets := ws\<rparr>)"
proof -
  let ?f = "\<lambda>w. cash_trigger (w\<lparr>w_credit := w_credit w - c, w_cash := w_cash w - k, w_updated_at := t\<rparr>)"
  let ?ws = "row_modify w_user_id uid ?f (db_wallets st)"
  have f: "?f w = w\<lparr>w_credit := w_credit w - c, w_cash := w_cash w - k, w_updated_at := t\<rparr>"
    using c by (simp add: cash_trigger_id)
  have "debit_wallet uid c k t st = Inr (st\<lparr>db_wallets := ?ws\<rparr>)"
    using w c by (simp add: debit_wallet_def update_wallet_def wallet_check_def)
  moreover have "credited uid (- c) (- k) st (st\<lparr>db_wallets := ?ws\<rparr>)"
    using w f get_wallet_modify [where f = ?f and st = st and uid = uid]
    by (simp add: credited_def credit_of_def cash_of_def)
  ultimately show ?thesis by blast
qed

text \<open>A request whose key and subject are new.\<close>

definition fresh_request :: "charge_request \<Rightarrow> bdb \<Rightarrow> bool" where
  "fresh_request q st = (\<forall>x \<in> set (db_reservations st). r_id x \<noteq> fst (new_id ''bill_hold'' st)
     \<and> r_idem x \<noteq> charge_idem q \<and> subject_of x \<noteq> (cr_ref_type q, cr_ref_id q, cr_sku q))"

lemma reserve_held_insufficient:
  assumes "grants_ok (db_grants st)" "0 \<le> qty" "w_credit w < hold_price q qty rate t st"
  shows "reserve_held q qty idem rate cid w t st = Inl (BillingError ''INSUFFICIENT_POINTS'' 402)"
proof -
  let ?st = "st\<lparr>draws := Suc (draws st)\<rparr>"
  have p: "hold_plan q qty t ?st = hold_plan q qty t st" by (simp add: hold_plan_def usable_grants_def)
  have t: "(if cr_image q then take_grants t (usable_grants (cr_user_id q) t ?st) qty [] 0 ?st else Inr ([], 0, qty, ?st)) =
    Inr (hold_plan q qty t st, planned (hold_plan q qty t st), qty - planned (hold_plan q qty t st),
      ?st\<lparr>db_grants := fold (spend t) (hold_plan q qty t st) (db_grants st)\<rparr>)"
    using hold_taken [of ?st qty q t] assms(1,2) p by simp
  show ?thesis
    unfolding reserve_held_def new_id_def Let_def using assms(3) by (simp add: t hold_price_def)
qed

text \<open>The code after the images have been taken and the wallet debited.\<close>

lemma reserve_held_run:
  assumes i: "new_id ''bill_hold'' st = (rid, st1)"
    and t: "(if cr_image q then take_grants t (usable_grants (cr_user_id q) t st1) qty [] 0 st1 else Inr ([], 0, qty, st1)) =
      Inr (holds, free, n, st2)"
    and c: "n * rate = c" "c \<le> w_credit w" "cash_part (w_credit w) (w_cash w) c = k"
    and d: "(if c \<noteq> 0 then debit_wallet (cr_user_id q) c k t st2 else Inr st2) = Inr st3"
    and r: "r = (blank_reservation rid (cr_user_id q) (cr_ref_type q) (cr_ref_id q) (cr_sku q) Held cid
        [(''quantity'', PInt qty), (''unit_credit_units'', PInt rate), (''image'', PBool (cr_image q)),
         (''admin_waived'', PBool False), (''grant_holds'', holds_json holds), (''cash_backed_credit_units'', PInt k)] idem t)
        \<lparr>r_reserved_credit := c, r_reserved_cash := k, r_reserved_images := free\<rparr>"
    and ins: "insert_reservation r st3 = Inr st4"
    and get: "\<And>s. db_reservations s = db_reservations st4 \<Longrightarrow> get_reservation rid s = Some r"
  shows "\<exists>st'. reserve_held q qty idem rate cid w t st = Inr (reservation_public r, st')
    \<and> db_reservations st' = db_reservations st4 \<and> db_wallets st' = db_wallets st4 \<and> db_grants st' = db_grants st4"
proof -
  have c': "\<not> w_credit w < c" using c(2) by simp
  show ?thesis
    unfolding reserve_held_def i
    by (simp only: Let_def prod.case t bindr_Inr c(1,3) c' if_False d r [symmetric] ins) (simp add: show_reservation_def get)
qed

lemma reserve_held_effect:
  assumes g: "grants_ok (db_grants st)" and n: "0 \<le> qty" "0 \<le> rate"
    and w: "get_wallet (cr_user_id q) st = Some w" "0 \<le> w_cash w" "w_cash w \<le> w_credit w"
    and price: "hold_price q qty rate t st \<le> w_credit w" and fresh: "fresh_request q st"
  shows "\<exists>st' r. reserve_held q qty (charge_idem q) rate cid w t st = Inr (reservation_public r, st')
    \<and> db_reservations st' = db_reservations st @ [r] \<and> get_reservation (r_id r) st' = Some r
    \<and> r_user_id r = cr_user_id q \<and> r_status r = Held
    \<and> r_reserved_credit r = hold_price q qty rate t st
    \<and> r_reserved_cash r = cash_part (w_credit w) (w_cash w) (hold_price q qty rate t st)
    \<and> r_reserved_images r = planned (hold_plan q qty t st)
    \<and> vget (r_meta r) ''grant_holds'' = holds_json (hold_plan q qty t st)
    \<and> credited (cr_user_id q) (- r_reserved_credit r) (- r_reserved_cash r) st st'
    \<and> db_grants st' = fold (spend t) (hold_plan q qty t st) (db_grants st)"
proof -
  let ?u = "cr_user_id q" and ?plan = "hold_plan q qty t st" and ?price = "hold_price q qty rate t st"
  let ?cash = "cash_part (w_credit w) (w_cash w) ?price"
  let ?rid = "''bill_hold'' @ ''_'' @ uuids st (draws st)"
  let ?st1 = "st\<lparr>draws := Suc (draws st)\<rparr>"
  let ?st2 = "?st1\<lparr>db_grants := fold (spend t) ?plan (db_grants st)\<rparr>"
  have p: "hold_plan q qty t ?st1 = ?plan" by (simp add: hold_plan_def usable_grants_def)
  have t: "(if cr_image q then take_grants t (usable_grants ?u t ?st1) qty [] 0 ?st1 else Inr ([], 0, qty, ?st1)) =
    Inr (?plan, planned ?plan, qty - planned ?plan, ?st2)"
    using hold_taken [of ?st1 qty q t] g n p by simp
  have price0: "0 \<le> ?price" by (rule hold_price_nonneg [OF g n])
  note cb = cash_part_bounds [OF w(2,3) price0 price]
  have w2: "get_wallet ?u ?st2 = Some w" using w(1) by (simp add: get_wallet_def)
  have c0: "?price = 0 \<Longrightarrow> ?cash = 0" using cb(1,3) by simp
  let ?meta = "[(''quantity'', PInt qty), (''unit_credit_units'', PInt rate), (''image'', PBool (cr_image q)),
      (''admin_waived'', PBool False), (''grant_holds'', holds_json ?plan), (''cash_backed_credit_units'', PInt ?cash)]"
  let ?r = "(blank_reservation ?rid ?u (cr_ref_type q) (cr_ref_id q) (cr_sku q) Held cid ?meta (charge_idem q) t)
      \<lparr>r_reserved_credit := ?price, r_reserved_cash := ?cash, r_reserved_images := planned ?plan\<rparr>"
  have i: "insert_reservation ?r s = Inr (s\<lparr>db_reservations := db_reservations st @ [?r]\<rparr>)"
    if "db_reservations s = db_reservations st" for s
    using fresh that by (auto simp: fresh_request_def insert_reservation_def new_id_def subject_of_def blank_fields)
  have "row_get r_id ?rid (db_reservations st) = None"
    using fresh by (auto simp: fresh_request_def new_id_def reservations_tbl.get_None)
  then have g4: "get_reservation ?rid st' = Some ?r" if "db_reservations st' = db_reservations st @ [?r]" for st'
    using that by (simp add: get_reservation_def reservations_tbl.get_append)
  have i1: "new_id ''bill_hold'' st = (?rid, ?st1)" by (simp add: new_id_def)
  obtain st3 where d: "(if ?price \<noteq> 0 then debit_wallet ?u ?price ?cash t ?st2 else Inr ?st2) = Inr st3"
    and c: "credited ?u (- ?price) (- ?cash) ?st2 st3" and e: "db_reservations st3 = db_reservations st" "db_grants st3 = db_grants ?st2"
  proof (cases "?price = 0")
    case True
    have "credited ?u (- ?price) (- ?cash) ?st2 ?st2" using c0 True by (simp add: credited_same)
    with True show ?thesis by (intro that [of ?st2]) simp_all
  next
    case False
    obtain ws where "debit_wallet ?u ?price ?cash t ?st2 = Inr (?st2\<lparr>db_wallets := ws\<rparr>)"
      "credited ?u (- ?price) (- ?cash) ?st2 (?st2\<lparr>db_wallets := ws\<rparr>)"
      using debit_wallet_total [OF w2 price cb(2), of t] cb by auto
    with False show ?thesis by (intro that [of "?st2\<lparr>db_wallets := ws\<rparr>"]) simp_all
  qed
  obtain st' where s: "reserve_held q qty (charge_idem q) rate cid w t st = Inr (reservation_public ?r, st')"
    "db_reservations st' = db_reservations st @ [?r]" "db_wallets st' = db_wallets st3"
    "db_grants st' = fold (spend t) ?plan (db_grants st)"
    using reserve_held_run [OF i1 t hold_price_def [symmetric] price refl d refl i [OF e(1)]] g4 e(2) by auto
  have "credited ?u (- ?price) (- ?cash) st st'"
    using c s(3) by (simp add: credited_def credit_of_def cash_of_def get_wallet_def)
  with s g4 [OF s(2)] show ?thesis by (intro exI [of _ st'] exI [of _ ?r]) (simp add: blank_fields)
qed

section \<open>Releasing an untouched hold\<close>

lemma fold_spend_get:
  "distinct (map fst hs) \<Longrightarrow> row_get g_id k (fold (spend t) hs gs) =
    map_option (\<lambda>x. case map_of hs k of None \<Rightarrow> x | Some c \<Rightarrow> x\<lparr>g_remaining := g_remaining x - c, g_updated_at := t\<rparr>)
      (row_get g_id k gs)"
proof (induction hs arbitrary: gs)
  case (Cons h hs)
  have "map_of hs (fst h) = None" using Cons.prems by (simp add: map_of_eq_None_iff)
  with Cons show ?case by (cases h) (auto simp: spend_get option.map_comp o_def split: option.splits)
qed (simp add: option.map_ident)

lemma fold_give_get:
  "distinct (map fst hs) \<Longrightarrow> row_get g_id k (fold (give t) hs gs) =
    map_option (\<lambda>x. case map_of hs k of None \<Rightarrow> x
        | Some c \<Rightarrow> x\<lparr>g_remaining := min (g_total x) (g_remaining x + c), g_updated_at := t\<rparr>) (row_get g_id k gs)"
proof (induction hs arbitrary: gs)
  case (Cons h hs)
  have "map_of hs (fst h) = None" using Cons.prems by (simp add: map_of_eq_None_iff)
  with Cons show ?case by (cases h) (auto simp: give_get option.map_comp o_def split: option.splits)
qed (simp add: option.map_ident)

lemma give_after_spend:
  assumes "distinct (map fst hs)" "grants_ok gs"
  shows "map_option g_remaining (row_get g_id k (fold (give t') (rev hs) (fold (spend t) hs gs))) =
    map_option g_remaining (row_get g_id k gs)"
proof -
  have "map_of (rev hs) k = map_of hs k" using assms(1) map_of_inject_set [of "rev hs" hs] by (simp add: rev_map [symmetric])
  moreover have "g_remaining x \<le> g_total x" if "row_get g_id k gs = Some x" for x
    using that assms(2) grants_tbl.get_key [of k gs x] by (auto simp: grants_ok_def)
  ultimately show ?thesis
    using assms(1) by (cases "row_get g_id k gs") (auto simp: fold_spend_get fold_give_get rev_map [symmetric] split: option.splits)
qed

text \<open>Any order of giving back does: the database of a release, image by image.\<close>

lemma release_images:
  assumes b: "books {} u 0 0 0 st" and ok: "grants_ok (db_grants st)"
    and r: "get_reservation rid st = Some r" "r_status r = Held"
    and h: "r_reserved_images r = planned hs" "hs = [] \<or> vget (r_meta r) ''grant_holds'' = holds_json hs"
      "\<And>h. h \<in> set hs \<Longrightarrow> 0 < snd h"
    and rel: "release_reservation rid t st = Inr (v, st')"
  shows "db_grants st' = fold (give t) (rev hs) (db_grants st)"
proof -
  obtain w where w: "get_wallet (r_user_id r) st = Some w" "0 \<le> w_cash w" "w_cash w \<le> w_credit w"
    "ensure_wallet (r_user_id r) t st = Inr (w, st)"
    using held_row(3) [OF b r, of t] by blast
  have c: "0 \<le> r_reserved_cash r" "r_reserved_cash r \<le> r_reserved_credit r"
    using held_row(2) [OF b r] r(2) by (auto simp: held_ok_def)
  obtain st1 where 1: "give_back_credit r (r_reserved_credit r) (r_reserved_cash r) ''release'' '':release_credit'' [] w t st = Inr st1"
    "db_grants st1 = db_grants st"
    using give_back_credit_total [OF w(1,2,3) c] by blast
  from rel r w(4) 1(1) obtain st2 where 2: "give_back_images r (planned hs) ''release'' '':release_image'' [] t st1 = Inr st2"
    and st': "db_grants st' = db_grants st2"
    by (auto simp: release_reservation_def bindr_eq_Inr show_reservation_Inr h(1) update_reservation_def)
  have p: "0 \<le> planned hs" using h(3) sum_list_filter_nonneg [of hs snd] by (auto simp: planned_def less_imp_le)
  have "db_grants st2 = fold (give t) (rev hs) (db_grants st1)"
  proof (cases hs)
    case Nil
    with 2 show ?thesis by (simp add: give_back_images_def)
  next
    case (Cons a l)
    then have "0 < snd a" "0 \<le> planned l"
      using h(3) sum_list_filter_nonneg [of l snd] by (auto simp: planned_def less_imp_le)
    with Cons have n: "planned hs \<noteq> 0" by simp
    have "restore_loop t (map hold_json (rev hs)) (planned (rev hs)) st1 =
        Inr (st1\<lparr>db_grants := fold (give t) (rev hs) (db_grants st1)\<rparr>)"
      using ok 1(2) h(3) by (intro restore_loop_follows) auto
    moreover have "planned (rev hs) = planned hs" by (simp add: planned_def rev_map [symmetric] sum_list_rev)
    ultimately have "restore_grants (list_or_empty (holds_json hs)) (planned hs) t st1 =
        Inr (st1\<lparr>db_grants := fold (give t) (rev hs) (db_grants st1)\<rparr>)"
      using p by (simp add: restore_grants_def holds_json_alt rev_map)
    with 2 n h(2) Cons show ?thesis by (auto simp: give_back_images_def)
  qed
  with st' 1(2) show ?thesis by simp
qed

section \<open>What a reservation does\<close>

text \<open>The row a reservation leaves, and its effect on the balances and the grants.\<close>

definition reserved_by :: "charge_request \<Rightarrow> reservation_row \<Rightarrow> (string \<times> int) list \<Rightarrow> int \<Rightarrow> bdb \<Rightarrow> bdb \<Rightarrow> bool" where
  "reserved_by q r hs t st st' = (get_reservation (r_id r) st' = Some r \<and> r_user_id r = cr_user_id q
     \<and> (r_status r = Held \<or> r_status r = Waived \<and> r_reserved_credit r = 0 \<and> r_reserved_cash r = 0 \<and> hs = [])
     \<and> credited (cr_user_id q) (- r_reserved_credit r) (- r_reserved_cash r) st st'
     \<and> db_grants st' = fold (spend t) hs (db_grants st) \<and> r_reserved_images r = planned hs
     \<and> (hs = [] \<or> vget (r_meta r) ''grant_holds'' = holds_json hs)
     \<and> (\<forall>h \<in> set hs. 0 < snd h) \<and> distinct (map fst hs))"

lemma inserted_reserved:
  assumes i: "insert_reservation r st1 = Inr st2" and s: "show_reservation (r_id r) st3 = Inr (v, st')"
    and e: "db_reservations st3 = db_reservations st2" "db_wallets st3 = db_wallets st" "db_grants st3 = db_grants st"
    and r: "r_user_id r = cr_user_id q" "r_status r \<in> {Held, Waived}" "r_reserved_credit r = 0" "r_reserved_cash r = 0"
      "r_reserved_images r = 0"
  shows "v = reservation_public r \<and> reserved_by q r [] t st st'"
proof -
  have st': "st' = st3" and v: "v = reservation_public r" using inserted_row [OF i s e(1)] by auto
  have "row_get r_id (r_id r) (db_reservations st1) = None" "db_reservations st2 = db_reservations st1 @ [r]"
    using insert_reservation_Inr [OF i] by (simp_all add: reservations_tbl.get_None)
  then have "get_reservation (r_id r) st3 = Some r" by (simp add: get_reservation_def e(1) reservations_tbl.get_append)
  moreover have "credited (cr_user_id q) 0 0 st st3" using e(2) by (rule credited_same)
  ultimately show ?thesis unfolding st' v reserved_by_def using r e(3) by simp
qed

lemma insert_reservation_wallets:
  "insert_reservation r st = Inr st' \<Longrightarrow> db_wallets st' = db_wallets st \<and> db_grants st' = db_grants st"
  by (auto simp: insert_reservation_def split: if_splits)

lemma blank_reserved:
  fixes rid st meta idem t cid status q
  defines "r \<equiv> blank_reservation rid (cr_user_id q) (cr_ref_type q) (cr_ref_id q) (cr_sku q) status cid meta idem t"
  assumes i: "insert_reservation r (st\<lparr>draws := n\<rparr>) = Inr st2" and s: "show_reservation rid st3 = Inr (v, st')"
    and e: "db_reservations st3 = db_reservations st2" "db_wallets st3 = db_wallets st2" "db_grants st3 = db_grants st2"
    and status: "status \<in> {Held, Waived}"
  shows "\<exists>r. v = reservation_public r \<and> reserved_by q r [] t st st'"
proof -
  have f: "r_user_id r = cr_user_id q" "r_status r \<in> {Held, Waived}" "r_reserved_credit r = 0" "r_reserved_cash r = 0"
    "r_reserved_images r = 0" "r_id r = rid" using status by (simp_all add: r_def)
  have "db_wallets st3 = db_wallets st" "db_grants st3 = db_grants st"
    using insert_reservation_wallets [OF i] e by simp_all
  from inserted_reserved [OF i s [folded f(6)] e(1) this f(1-5)] show ?thesis by blast
qed

lemma waived_reserved:
  assumes "reserve_waived q qty idem reason rate cid w t st = Inr (v, st')"
  shows "\<exists>r. v = reservation_public r \<and> reserved_by q r [] t st st'"
proof -
  let ?rid = "''bill_hold'' @ ''_'' @ uuids st (draws st)"
  let ?note = "\<lambda>st2. if cr_waived q then insert_ledger (cr_user_id q) Audit ''admin_waived'' 0 (w_credit w) (idem @ '':waived'')
      (charge_opts q ?rid [(''sku'', PStr (cr_sku q)), (''quantity'', PInt qty)]) t st2 else st2"
  from assms obtain meta st2 where
    "insert_reservation (blank_reservation ?rid (cr_user_id q) (cr_ref_type q) (cr_ref_id q) (cr_sku q) Waived cid meta idem t)
      (st\<lparr>draws := Suc (draws st)\<rparr>) = Inr st2" "show_reservation ?rid (?note st2) = Inr (v, st')"
    unfolding reserve_waived_def Let_def new_id_def prod.case bindr_eq_Inr by blast
  then show ?thesis by (rule blank_reserved) simp_all
qed

lemma unlimited_reserved:
  assumes "reserve_unlimited q qty idem rate cid w t st = Inr (v, st')"
  shows "\<exists>r. v = reservation_public r \<and> reserved_by q r [] t st st'"
proof -
  let ?rid = "''bill_hold'' @ ''_'' @ uuids st (draws st)"
  from assms obtain meta st2 key opts where
    "insert_reservation (blank_reservation ?rid (cr_user_id q) (cr_ref_type q) (cr_ref_id q) (cr_sku q) Held cid meta idem t)
      (st\<lparr>draws := Suc (draws st)\<rparr>) = Inr st2"
    "show_reservation ?rid (insert_ledger (cr_user_id q) Audit ''unlimited_compute_reserved'' 0 (w_credit w) key opts t st2)
      = Inr (v, st')"
    unfolding reserve_unlimited_def Let_def new_id_def prod.case bindr_eq_Inr by blast
  then show ?thesis by (rule blank_reserved) simp_all
qed

lemma update_wallet_reservations: "update_wallet uid P f st = Inr st' \<Longrightarrow> db_reservations st' = db_reservations st"
  by (auto simp: update_wallet_def split: option.splits if_splits)

lemma held_fresh:
  assumes "reserve_held q qty (charge_idem q) rate cid w t st = Inr (v, st')"
  shows "fresh_request q st"
proof -
  let ?st = "st\<lparr>draws := Suc (draws st)\<rparr>"
  from assms obtain holds free n st2 st3 st4 r where
    t: "(if cr_image q then take_grants t (usable_grants (cr_user_id q) t ?st) qty [] 0 ?st else Inr ([], 0, qty, ?st)) =
      Inr (holds, free, n, st2)"
    and d: "(if n * rate \<noteq> 0 then debit_wallet (cr_user_id q) (n * rate) (cash_part (w_credit w) (w_cash w) (n * rate)) t st2
      else Inr st2) = Inr st3"
    and i: "insert_reservation r st3 = Inr st4"
    and r: "r_id r = fst (new_id ''bill_hold'' st)" "r_idem r = charge_idem q"
      "subject_of r = (cr_ref_type q, cr_ref_id q, cr_sku q)"
    unfolding reserve_held_def new_id_def Let_def prod.case
    by (auto simp: bindr_eq_Inr subject_of_def blank_fields split: if_splits)
  have "db_reservations st2 = db_reservations st"
    using t take_grants_untouched by (auto simp: untouched_def split: if_splits)
  moreover have "db_reservations st3 = db_reservations st2"
    using d update_wallet_reservations by (auto simp: debit_wallet_def split: if_splits)
  ultimately show ?thesis
    using i r by (auto simp: fresh_request_def insert_reservation_def subject_of_def split: if_splits)
qed

lemma held_reserved:
  assumes s: "reserve_held q qty (charge_idem q) rate cid w t st = Inr (v, st')"
    and g: "grants_ok (db_grants st)" and n: "0 \<le> qty" "0 \<le> rate"
    and w: "get_wallet (cr_user_id q) st = Some w" "0 \<le> w_cash w" "w_cash w \<le> w_credit w"
  shows "\<exists>r. v = reservation_public r \<and> reserved_by q r (hold_plan q qty t st) t st st'
    \<and> r_reserved_credit r = hold_price q qty rate t st"
proof -
  have p: "hold_price q qty rate t st \<le> w_credit w"
    using s reserve_held_insufficient [OF g n(1), of w q rate t "charge_idem q" cid] by (force simp: not_less)
  from reserve_held_effect [OF g n w p held_fresh [OF s], of cid] obtain st'' r where
    e: "reserve_held q qty (charge_idem q) rate cid w t st = Inr (reservation_public r, st'')"
    "get_reservation (r_id r) st'' = Some r"
    "r_user_id r = cr_user_id q" "r_status r = Held" "r_reserved_credit r = hold_price q qty rate t st"
    "r_reserved_images r = planned (hold_plan q qty t st)" "vget (r_meta r) ''grant_holds'' = holds_json (hold_plan q qty t st)"
    "credited (cr_user_id q) (- r_reserved_credit r) (- r_reserved_cash r) st st''"
    "db_grants st'' = fold (spend t) (hold_plan q qty t st) (db_grants st)" by blast
  with s have "v = reservation_public r" "st'' = st'" by simp_all
  with e hold_plan_images(2,3) [OF g n(1)] show ?thesis unfolding reserved_by_def by blast
qed

lemma reserve_branches:
  assumes b: "books {} u 0 0 0 st" and r: "reserve_charge q t st = Inr (v, st')"
    and new: "reservation_by_idem (charge_idem q) st = None" and w: "get_wallet (cr_user_id q) st = Some w"
  obtains reason rate cid where "reserve_waived q (max (cr_quantity q) 0) (charge_idem q) reason rate cid w t st = Inr (v, st')"
  | rate cid where "reserve_unlimited q (max (cr_quantity q) 0) (charge_idem q) rate cid w t st = Inr (v, st')"
  | rate cid where "reserve_held q (max (cr_quantity q) 0) (charge_idem q) rate cid w t st = Inr (v, st')" "0 \<le> rate"
proof -
  have wb: "0 \<le> w_cash w" "w_cash w \<le> w_credit w" using books_wallet_bounds [OF b w] by simp_all
  have e: "ensure_wallet (cr_user_id q) t st = Inr (w, st)" using ensure_wallet_existing [OF w wb(2)] .
  have n: "0 < cr_quantity q" using reserve_answered(1) [OF r] .
  from r n new e obtain rate cid where a: "action_rate_units (cr_sku q) st = Inr (rate, cid)"
    and br: "(if (if \<not> enforcement_enabled st then ''feature_disabled'' else if cr_waived q then ''admin'' else []) \<noteq> []
      then reserve_waived q (max (cr_quantity q) 0) (charge_idem q)
        (if \<not> enforcement_enabled st then ''feature_disabled'' else if cr_waived q then ''admin'' else []) rate cid w t st
      else if w_unlimited w then reserve_unlimited q (max (cr_quantity q) 0) (charge_idem q) rate cid w t st
      else reserve_held q (max (cr_quantity q) 0) (charge_idem q) rate cid w t st) = Inr (v, st')"
    unfolding reserve_charge_def Let_def by (auto simp: bindr_eq_Inr)
  from br action_rate_units_nonneg [OF a] that show ?thesis by metis
qed

lemma reserve_reserved:
  assumes b: "books {} u 0 0 0 st" and sc: "schema_ok st" and r: "reserve_charge q t st = Inr (v, st')"
    and new: "reservation_by_idem (charge_idem q) st = None" and w: "get_wallet (cr_user_id q) st = Some w"
  shows "\<exists>r hs. v = reservation_public r \<and> reserved_by q r hs t st st'"
proof -
  have wb: "0 \<le> w_cash w" "w_cash w \<le> w_credit w" using books_wallet_bounds [OF b w] by simp_all
  from b r new w show ?thesis
  proof (cases rule: reserve_branches)
    case 1
    then show ?thesis using waived_reserved by blast
  next
    case 2
    then show ?thesis using unlimited_reserved by blast
  next
    case (3 rate cid)
    from held_reserved [OF 3(1) schema_grants [OF sc] _ 3(2) w wb] show ?thesis by auto
  qed
qed

lemma reserve_release_identity:
  assumes b: "books {} u 0 0 0 st" "schema_ok st" and b': "books {} u 0 0 0 st1" "schema_ok st1"
    and r: "reserved_by q r hs t st st1" and rel: "release_reservation (r_id r) t' st1 = Inr (v, st2)"
  shows "credit_of x st2 = credit_of x st \<and> cash_of x st2 = cash_of x st
    \<and> map_option g_remaining (get_grant k st2) = map_option g_remaining (get_grant k st)"
proof (cases "r_status r = Held")
  case True
  note rb = r [unfolded reserved_by_def]
  from release_effect [OF b' _ True, of "r_id r" t'] rb rel
  have c: "credited (r_user_id r) (r_reserved_credit r) (r_reserved_cash r) st1 st2" by auto
  have "db_grants st2 = fold (give t') (rev hs) (db_grants st1)"
    using rb by (intro release_images [OF b'(1) schema_grants [OF b'(2)] _ True _ _ _ rel]) auto
  then have "map_option g_remaining (get_grant k st2) = map_option g_remaining (get_grant k st)"
    using give_after_spend [OF _ schema_grants [OF b(2)], of hs k t' t] rb by (simp add: get_grant_def)
  with c rb show ?thesis by (simp add: credited_def)
next
  case False
  with r have w: "get_reservation (r_id r) st1 = Some r" "r_status r = Waived" "r_reserved_credit r = 0" "r_reserved_cash r = 0" "hs = []"
    and c: "credited (cr_user_id q) (- r_reserved_credit r) (- r_reserved_cash r) st st1" "db_grants st1 = fold (spend t) hs (db_grants st)"
    unfolding reserved_by_def by auto
  with rel have "st2 = st1" by (simp add: release_reservation_def)
  with w c show ?thesis by (simp add: credited_def get_grant_def)
qed

end
