(* ===== verification/BillingAccounts.thy ===== *)
theory BillingAccounts
  imports BillingImages BillingReplay
begin

text \<open>
  The contract of the reservation component, without tables: an account is a credit, its
  cash-backed part, and the open holds on it.  A hold moves an amount from the balance into
  the hold (\<open>account_hold\<close>); ending one charges part of it and returns the rest
  (\<open>account_end\<close>).  \<open>account_of\<close> reads a user's account off the database, and the lemmas
  show that \<open>reserve_charge\<close>, \<open>settle_reservation\<close> and \<open>release_reservation\<close> implement the
  two moves and leave every other account alone.
\<close>

section \<open>Accounts\<close>

record account =
  acc_credit :: int
  acc_cash :: int
  acc_holds :: "string \<Rightarrow> (int \<times> int) option"

definition account_hold :: "string \<Rightarrow> int \<Rightarrow> int \<Rightarrow> account \<Rightarrow> account option" where
  "account_hold rid c k a =
     (if acc_holds a rid = None \<and> 0 \<le> k \<and> k \<le> c \<and> k \<le> acc_cash a \<and> acc_cash a - k \<le> acc_credit a - c
      then Some \<lparr>acc_credit = acc_credit a - c, acc_cash = acc_cash a - k, acc_holds = (acc_holds a)(rid \<mapsto> (c, k))\<rparr>
      else None)"

definition account_end :: "string \<Rightarrow> int \<Rightarrow> int \<Rightarrow> account \<Rightarrow> account option" where
  "account_end rid c k a =
     (case acc_holds a rid of
        None \<Rightarrow> None
      | Some (hc, hk) \<Rightarrow>
        if 0 \<le> c \<and> c \<le> hc \<and> 0 \<le> k \<and> k \<le> hk
        then Some \<lparr>acc_credit = acc_credit a + (hc - c), acc_cash = acc_cash a + (hk - k), acc_holds = (acc_holds a)(rid := None)\<rparr>
        else None)"

text \<open>The abstract moves undo each other, and conserve credit, holds and charge.\<close>

lemma account_hold_end: "account_hold rid c k a = Some a' \<Longrightarrow> account_end rid 0 0 a' = Some a"
  by (cases a) (auto simp: account_hold_def account_end_def fun_eq_iff split: if_splits)

section \<open>The account of a user\<close>

definition open_hold :: "int \<Rightarrow> reservation_row \<Rightarrow> (int \<times> int) option" where
  "open_hold uid r = (if r_user_id r = uid \<and> r_status r = Held then Some (r_reserved_credit r, r_reserved_cash r) else None)"

definition account_of :: "int \<Rightarrow> bdb \<Rightarrow> account" where
  "account_of uid st = \<lparr>acc_credit = credit_of uid st, acc_cash = cash_of uid st,
     acc_holds = (\<lambda>rid. Option.bind (get_reservation rid st) (open_hold uid))\<rparr>"

text \<open>An operation that moves credit of one user and rewrites or adds one reservation row.\<close>

definition one_row :: "string \<Rightarrow> bdb \<Rightarrow> bdb \<Rightarrow> bool" where
  "one_row rid st st' = (\<forall>k. k \<noteq> rid \<longrightarrow> get_reservation k st' = get_reservation k st)"

lemma account_moved:
  assumes c: "credited uid c k st st'" and o: "one_row rid st st'"
    and r: "get_reservation rid st' = Some r'" "r_user_id r' = uid"
    and old: "\<And>r. get_reservation rid st = Some r \<Longrightarrow> r_user_id r = uid"
  shows "account_of uid st' = \<lparr>acc_credit = credit_of uid st + c, acc_cash = cash_of uid st + k,
      acc_holds = (acc_holds (account_of uid st))(rid := open_hold uid r')\<rparr>"
    and "u \<noteq> uid \<Longrightarrow> account_of u st' = account_of u st"
proof -
  have h: "get_reservation x st' = (if x = rid then Some r' else get_reservation x st)" for x
    using o r(1) by (auto simp: one_row_def)
  show "account_of uid st' = \<lparr>acc_credit = credit_of uid st + c, acc_cash = cash_of uid st + k,
      acc_holds = (acc_holds (account_of uid st))(rid := open_hold uid r')\<rparr>"
    using c by (auto simp: account_of_def credited_def h)
  assume u: "u \<noteq> uid"
  have "Option.bind (get_reservation rid st) (open_hold u) = None" "open_hold u r' = None"
    using old u r(2) by (auto simp: open_hold_def split: option.splits Option.bind_splits)
  then have "(\<lambda>x. Option.bind (get_reservation x st') (open_hold u)) = (\<lambda>x. Option.bind (get_reservation x st) (open_hold u))"
    by (auto simp: h)
  then show "account_of u st' = account_of u st" using c u by (simp add: account_of_def credited_def)
qed

section \<open>Ending a hold\<close>

lemma update_reservation_row: "one_row rid st (update_reservation rid P f st')"
  if "db_reservations st' = db_reservations st" "\<And>x. r_id (f x) = r_id x" for f
  using that by (simp add: one_row_def get_reservation_def update_reservation_def row_modify_get)

lemma credit_wallet_holds: "credit_wallet uid c k t st = Inr st' \<Longrightarrow> db_reservations st' = db_reservations st"
  by (auto simp: credit_wallet_def update_wallet_reservations)

lemma give_back_credit_holds:
  "give_back_credit r c k e s m w t st = Inr st' \<Longrightarrow> db_reservations st' = db_reservations st"
  by (auto simp: give_back_credit_def bindr_eq_Inr dest: credit_wallet_holds split: if_splits)

lemma give_back_images_holds:
  "give_back_images r n e s m t st = Inr st' \<Longrightarrow> db_reservations st' = db_reservations st"
  using restore_grants_untouched by (auto simp: give_back_images_def bindr_eq_Inr untouched_def split: if_splits)

lemma one_row_ledger [simp]: "one_row rid st (insert_ledger uid asset event amount bal key opts t st') = one_row rid st st'"
  by (simp add: one_row_def)

lemma shown_row:
  assumes "show_reservation rid (update_reservation rid P f st1) = Inr (v, st')"
    and "db_reservations st1 = db_reservations st" "\<And>x. r_id (f x) = r_id x"
  shows "one_row rid st st'"
  using assms update_reservation_row [of st1 st f rid P] by (auto simp: show_reservation_Inr)

lemma release_one_row:
  assumes "release_reservation rid t st = Inr (v, st')"
  shows "one_row rid st st'"
proof (cases "\<exists>r. get_reservation rid st = Some r \<and> r_status r = Held")
  case True
  then obtain r where r: "get_reservation rid st = Some r" "r_status r = Held" by blast
  with assms obtain w st1 st2 st3 where "ensure_wallet (r_user_id r) t st = Inr (w, st1)"
    "give_back_credit r (r_reserved_credit r) (r_reserved_cash r) ''release'' '':release_credit'' [] w t st1 = Inr st2"
    "give_back_images r (r_reserved_images r) ''release'' '':release_image'' [] t st2 = Inr st3"
    and s: "show_reservation rid (update_reservation rid (\<lambda>x. r_status x = Held)
      (\<lambda>x. x\<lparr>r_status := Released, r_updated_at := t\<rparr>) st3) = Inr (v, st')"
    by (auto simp: release_reservation_def bindr_eq_Inr)
  then have "db_reservations st3 = db_reservations st"
    by (simp add: ensure_wallet_reservations give_back_credit_holds give_back_images_holds)
  with s show ?thesis by (rule shown_row) simp
next
  case False
  with assms show ?thesis by (auto simp: release_reservation_def one_row_def split: option.splits if_splits)
qed

lemma settle_branches_one_row:
  "settle_unlimited r a n t st = Inr (v, st') \<Longrightarrow> one_row (r_id r) st st'"
  "settle_held r a n t st = Inr (v, st') \<Longrightarrow> one_row (r_id r) st st'"
proof -
  assume "settle_unlimited r a n t st = Inr (v, st')"
  then obtain w st1 where w: "ensure_wallet (r_user_id r) t st = Inr (w, st1)"
    and s: "st' = insert_ledger (r_user_id r) Audit ''unlimited_compute_settled'' 0 (w_credit w)
         (r_id r @ '':unlimited_settled'')
         (row_opts r [(''sku'', PStr (r_sku r)), (''actual_quantity'', PInt a),
            (''theoretical_credit_units'', PInt (a * n))]) t
         (update_reservation (r_id r) (\<lambda>x. r_status x = Held) (\<lambda>x. x\<lparr>r_status := Settled, r_updated_at := t\<rparr>) st1)"
    unfolding settle_unlimited_def Let_def bindr_eq_Inr prod.case by (auto simp: show_reservation_Inr)
  show "one_row (r_id r) st st'"
    unfolding s by (simp add: update_reservation_row ensure_wallet_reservations [OF w])
next
  assume h: "settle_held r a n t st = Inr (v, st')"
  obtain images credit cash where sp: "settlement_split r (truthy (vget (r_meta r) ''image'')) a n = (images, credit, cash)"
    by (rule prod_cases3)
  from h obtain w st1 c k m st2 i st3 b o' where w: "ensure_wallet (r_user_id r) t st = Inr (w, st1)"
    and c: "give_back_credit r c k ''reservation_refund'' '':settle_credit_refund'' m w t st1 = Inr st2"
    and i: "give_back_images r i ''reservation_refund'' '':settle_image_refund'' m t st2 = Inr st3"
    and s: "show_reservation (r_id r) (insert_ledger (r_user_id r) Audit ''settled'' 0 b (r_id r @ '':settled'') o' t
         (update_reservation (r_id r) (\<lambda>x. r_status x = Held) (\<lambda>x. x\<lparr>r_status := Settled, r_settled_credit := credit,
            r_settled_cash := cash, r_settled_images := images, r_updated_at := t\<rparr>) st3)) = Inr (v, st')"
    unfolding settle_held_def sp Let_def prod.case bindr_eq_Inr split_paired_Ex by blast
  have "db_reservations st3 = db_reservations st"
    using ensure_wallet_reservations [OF w] give_back_credit_holds [OF c] give_back_images_holds [OF i] by simp
  then show "one_row (r_id r) st st'" using s by (auto simp: show_reservation_Inr update_reservation_row)
qed

lemma settle_one_row:
  assumes s: "settle_reservation rid actual True t st = Inr (v, st')"
  shows "one_row rid st st'"
proof -
  from s obtain r where r: "get_reservation rid st = Some r" by (auto simp: settle_reservation_def split: option.splits)
  have id: "r_id r = rid" using in_table [OF r] by simp
  show ?thesis
  proof (cases "r_status r \<in> {Settled, Released, Waived}")
    case True
    with s r show ?thesis by (auto simp: settle_reservation_def one_row_def)
  next
    case False
    with s r obtain a n where "settle_unlimited r a n t st = Inr (v, st') \<or> settle_held r a n t st = Inr (v, st')"
      by (auto simp: settle_reservation_def bindr_eq_Inr Let_def split: if_splits)
    then show ?thesis using settle_branches_one_row id by blast
  qed
qed

text \<open>Ending a hold implements \<open>account_end\<close>.\<close>

lemma ended_account:
  assumes r: "get_reservation rid st = Some r" "r_status r = Held"
    and c: "credited (r_user_id r) (r_reserved_credit r - c) (r_reserved_cash r - k) st st'"
    and o: "one_row rid st st'"
    and r': "get_reservation rid st' = Some r'" "r_user_id r' = r_user_id r" "r_status r' \<noteq> Held"
    and b: "0 \<le> c" "c \<le> r_reserved_credit r" "0 \<le> k" "k \<le> r_reserved_cash r"
  shows "account_end rid c k (account_of (r_user_id r) st) = Some (account_of (r_user_id r) st')
    \<and> (\<forall>u. u \<noteq> r_user_id r \<longrightarrow> account_of u st' = account_of u st)"
proof -
  have old: "r_user_id x = r_user_id r" if "get_reservation rid st = Some x" for x using that r by simp
  have "open_hold (r_user_id r) r' = None" using r'(3) by (simp add: open_hold_def)
  with account_moved(1) [OF c o r'(1,2) old] b r
  have "account_end rid c k (account_of (r_user_id r) st) = Some (account_of (r_user_id r) st')"
    by (simp add: account_end_def account_of_def open_hold_def)
  with account_moved(2) [OF c o r'(1,2) old] show ?thesis by blast
qed

lemma settle_account:
  assumes b: "books {} u 0 0 0 st" and sc: "schema_ok st"
    and r: "get_reservation rid st = Some r" "r_status r = Held"
    and s: "settle_charge r actual = (images, credit, cash)"
  shows "\<exists>v st'. settle_reservation rid actual True t st = Inr (v, st')
    \<and> account_end rid credit cash (account_of (r_user_id r) st) = Some (account_of (r_user_id r) st')
    \<and> (\<forall>u. u \<noteq> r_user_id r \<longrightarrow> account_of u st' = account_of u st)"
proof -
  have ok: "held_ok r" using held_row [OF b r] by blast
  note bounds = settle_charge_bounds [OF ok r(2) s]
  from settle_effect [OF b sc r s, of t] obtain v st' where e: "settle_reservation rid actual True t st = Inr (v, st')"
    "get_reservation rid st' = Some (r\<lparr>r_status := Settled, r_settled_credit := credit, r_settled_cash := cash,
        r_settled_images := (if truthy (vget (r_meta r) ''unlimited_compute'') then r_settled_images r else images),
        r_updated_at := t\<rparr>)"
    "credited (r_user_id r) (r_reserved_credit r - credit) (r_reserved_cash r - cash) st st'" by blast
  from ended_account [OF r e(3) settle_one_row [OF e(1)] e(2) _ _ bounds(1-4)] e(1) show ?thesis by auto
qed

lemma release_account:
  assumes b: "books {} u 0 0 0 st" and sc: "schema_ok st"
    and r: "get_reservation rid st = Some r" "r_status r = Held"
  shows "\<exists>v st'. release_reservation rid t st = Inr (v, st')
    \<and> account_end rid 0 0 (account_of (r_user_id r) st) = Some (account_of (r_user_id r) st')
    \<and> (\<forall>u. u \<noteq> r_user_id r \<longrightarrow> account_of u st' = account_of u st)"
proof -
  have ok: "held_ok r" using held_row [OF b r] by blast
  then have c: "0 \<le> r_reserved_credit r" "0 \<le> r_reserved_cash r" using r(2) by (auto simp: held_ok_def)
  from release_effect [OF b sc r, of t] obtain v st' where e: "release_reservation rid t st = Inr (v, st')"
    "get_reservation rid st' = Some (r\<lparr>r_status := Released, r_updated_at := t\<rparr>)"
    "credited (r_user_id r) (r_reserved_credit r - 0) (r_reserved_cash r - 0) st st'" by auto
  from ended_account [OF r e(3) release_one_row [OF e(1)] e(2) _ _ _ c(1) _ c(2)] e(1) show ?thesis by auto
qed

section \<open>Taking a hold\<close>

text \<open>A new reservation appends one row under a new id.\<close>

definition adds_row :: "reservation_view \<Rightarrow> bdb \<Rightarrow> bdb \<Rightarrow> bool" where
  "adds_row v st st' = (\<exists>r. db_reservations st' = db_reservations st @ [r] \<and> v = reservation_public r
     \<and> get_reservation (r_id r) st = None)"

lemma inserted_adds:
  assumes i: "insert_reservation r st1 = Inr st2" and s: "show_reservation (r_id r) st3 = Inr (v, st')"
    and e: "db_reservations st3 = db_reservations st2" "db_reservations st1 = db_reservations st"
  shows "adds_row v st st'"
proof -
  have "get_reservation (r_id r) st = None" "db_reservations st3 = db_reservations st @ [r]"
    using insert_reservation_Inr [OF i] e by (simp_all add: reservations_tbl.get_None get_reservation_def)
  then show ?thesis using inserted_row [OF i s e(1)] unfolding adds_row_def by blast
qed

lemma blank_adds:
  assumes i: "insert_reservation (blank_reservation rid uid rt ri sku status cid meta idem t) (st\<lparr>draws := n\<rparr>) = Inr st2"
    and s: "show_reservation rid st3 = Inr (v, st')" and e: "db_reservations st3 = db_reservations st2"
  shows "adds_row v st st'"
  using inserted_adds [OF i, of st3 v st' st] s e by simp

lemma waived_adds:
  assumes "reserve_waived q qty idem reason rate cid w t st = Inr (v, st')"
  shows "adds_row v st st'"
proof -
  let ?rid = "''bill_hold'' @ ''_'' @ uuids st (draws st)"
  let ?note = "\<lambda>st2. if cr_waived q then insert_ledger (cr_user_id q) Audit ''admin_waived'' 0 (w_credit w) (idem @ '':waived'')
      (charge_opts q ?rid [(''sku'', PStr (cr_sku q)), (''quantity'', PInt qty)]) t st2 else st2"
  from assms obtain meta st2 where
    "insert_reservation (blank_reservation ?rid (cr_user_id q) (cr_ref_type q) (cr_ref_id q) (cr_sku q) Waived cid meta idem t)
      (st\<lparr>draws := Suc (draws st)\<rparr>) = Inr st2" "show_reservation ?rid (?note st2) = Inr (v, st')"
    unfolding reserve_waived_def Let_def new_id_def prod.case bindr_eq_Inr by blast
  then show ?thesis by (rule blank_adds) simp
qed

lemma unlimited_adds:
  assumes "reserve_unlimited q qty idem rate cid w t st = Inr (v, st')"
  shows "adds_row v st st'"
proof -
  let ?rid = "''bill_hold'' @ ''_'' @ uuids st (draws st)"
  from assms obtain meta st2 key opts where
    "insert_reservation (blank_reservation ?rid (cr_user_id q) (cr_ref_type q) (cr_ref_id q) (cr_sku q) Held cid meta idem t)
      (st\<lparr>draws := Suc (draws st)\<rparr>) = Inr st2"
    "show_reservation ?rid (insert_ledger (cr_user_id q) Audit ''unlimited_compute_reserved'' 0 (w_credit w) key opts t st2)
      = Inr (v, st')"
    unfolding reserve_unlimited_def Let_def new_id_def prod.case bindr_eq_Inr by blast
  then show ?thesis by (rule blank_adds) simp
qed

lemma held_adds:
  assumes s: "reserve_held q qty (charge_idem q) rate cid w t st = Inr (v, st')"
    and g: "grants_ok (db_grants st)" and n: "0 \<le> qty" "0 \<le> rate"
    and w: "get_wallet (cr_user_id q) st = Some w" "0 \<le> w_cash w" "w_cash w \<le> w_credit w"
    and d: "distinct (map r_id (db_reservations st'))"
  shows "adds_row v st st'"
proof -
  have p: "hold_price q qty rate t st \<le> w_credit w"
    using s reserve_held_insufficient [OF g n(1), of w q rate t "charge_idem q" cid] by (force simp: not_less)
  from reserve_held_effect [OF g n w p held_fresh [OF s], of cid] obtain st'' r where
    e: "reserve_held q qty (charge_idem q) rate cid w t st = Inr (reservation_public r, st'')"
    "db_reservations st'' = db_reservations st @ [r]" by blast
  with s have e': "v = reservation_public r" "db_reservations st' = db_reservations st @ [r]" by simp_all
  with d have "get_reservation (r_id r) st = None" by (simp add: get_reservation_def reservations_tbl.get_None)
  with e' show ?thesis by (auto simp: adds_row_def)
qed

text \<open>Reserving implements \<open>account_hold\<close>; a waived task leaves every account as it is.\<close>

lemma reserve_account:
  assumes b: "books {} u 0 0 0 st" and sc: "schema_ok st" and b': "books {} (cr_user_id q) 0 0 0 st'" and sc': "schema_ok st'"
    and r: "reserve_charge q t st = Inr (v, st')"
    and new: "reservation_by_idem (charge_idem q) st = None" and w: "get_wallet (cr_user_id q) st = Some w"
  shows "\<exists>r. v = reservation_public r \<and> get_reservation (r_id r) st' = Some r
    \<and> (if r_status r = Held
       then account_hold (r_id r) (r_reserved_credit r) (r_reserved_cash r) (account_of (cr_user_id q) st)
         = Some (account_of (cr_user_id q) st')
       else account_of (cr_user_id q) st' = account_of (cr_user_id q) st)
    \<and> (\<forall>x. x \<noteq> cr_user_id q \<longrightarrow> account_of x st' = account_of x st)"
proof -
  let ?u = "cr_user_id q"
  have d: "distinct (map r_id (db_reservations st'))" using sc' by (simp add: schema_ok_def)
  have wb: "0 \<le> w_cash w" "w_cash w \<le> w_credit w" using books_wallet_bounds [OF b w] by simp_all
  have "adds_row v st st'"
    using reserve_branches [OF b r new w] waived_adds unlimited_adds held_adds [OF _ schema_grants [OF sc] max.cobounded2 _ w wb d]
    by metis
  then obtain r0 where r0: "db_reservations st' = db_reservations st @ [r0]" "v = reservation_public r0"
    "get_reservation (r_id r0) st = None" unfolding adds_row_def by blast
  from reserve_reserved [OF b sc r new w] obtain r1 hs where r1: "v = reservation_public r1" "reserved_by q r1 hs t st st'" by blast
  have id: "r_id r1 = r_id r0" using r0(2) r1(1) by (simp add: reservation_public_def)
  have "get_reservation (r_id r0) st' = Some r0"
    using r0 by (simp add: get_reservation_def reservations_tbl.get_append)
  with r1(2) id have eq: "r1 = r0" by (simp add: reserved_by_def)
  have f: "get_reservation (r_id r0) st' = Some r0" "r_user_id r0 = ?u"
    "r_status r0 = Held \<or> r_status r0 = Waived \<and> r_reserved_credit r0 = 0 \<and> r_reserved_cash r0 = 0"
    "credited ?u (- r_reserved_credit r0) (- r_reserved_cash r0) st st'"
    using r1(2) unfolding eq reserved_by_def by blast+
  have o1: "one_row (r_id r0) st st'"
    using r0 by (auto simp: one_row_def get_reservation_def reservations_tbl.get_append split: option.splits)
  have old: "r_user_id x = ?u" if "get_reservation (r_id r0) st = Some x" for x using that r0(3) by simp
  note m = account_moved [OF f(4) o1 f(1,2) old]
  have h: "acc_holds (account_of ?u st) (r_id r0) = None" by (simp add: account_of_def r0(3))
  have "(if r_status r0 = Held
       then account_hold (r_id r0) (r_reserved_credit r0) (r_reserved_cash r0) (account_of ?u st) = Some (account_of ?u st')
       else account_of ?u st' = account_of ?u st)"
  proof (cases "r_status r0 = Held")
    case True
    have "held_ok r0" using held_row(2) [OF b' f(1) True] .
    then have c: "0 \<le> r_reserved_cash r0" "r_reserved_cash r0 \<le> r_reserved_credit r0" using True by (auto simp: held_ok_def)
    have "0 \<le> cash_of ?u st' \<and> cash_of ?u st' \<le> credit_of ?u st'"
      using books_wallet_bounds [OF b'] by (cases "get_wallet ?u st'") (auto simp: cash_of_def credit_of_def)
    then have k: "r_reserved_cash r0 \<le> cash_of ?u st"
      "cash_of ?u st - r_reserved_cash r0 \<le> credit_of ?u st - r_reserved_credit r0"
      using f(4) by (auto simp: credited_def)
    show ?thesis
      using True c k h m(1) f(2) by (simp add: account_hold_def open_hold_def) (simp add: account_of_def)
  next
    case False
    with f(3) m(1) f(2) h show ?thesis by (auto simp: open_hold_def account_of_def fun_upd_idem_iff)
  qed
  with m(2) r0(2) f(1) show ?thesis by blast
qed

end
