(* ===== verification/BillingReservationProps.thy ===== *)
theory BillingReservationProps
  imports BillingProps BillingAccounts
begin

text \<open>
  What reserving, settling and releasing do, on every reachable database: the hold has the
  price of the request less the free images, it always ends, the charge is within it, the rest
  comes back, and a repeated call changes nothing.
\<close>

lemma reachable_facts:
  assumes "bill_reachable st"
  shows "books {} u 0 0 0 st" "schema_ok st"
  using reachable_books reachable_schema assms by blast+

section \<open>The hold of the demo run\<close>

definition demo_hold :: reservation_row where
  "demo_hold = hd (db_reservations demo2)"

lemma demo_hold_row: "get_reservation ''bill_hold_aaa'' demo2 = Some demo_hold" "r_status demo_hold = Held"
  "r_user_id demo_hold = 7" "r_reserved_credit demo_hold = 600" "r_reserved_cash demo_hold = 0"
  by code_simp+

lemma demo_charge: "settle_charge demo_hold (Some 1) = (0, 300, 0)"
  by code_simp

lemma demo2_reserve: "\<exists>v. reserve_charge demo_request 1001 demo1 = Inr (v, demo2)"
  unfolding demo2_op_alt using demo2_run returned_Inr unfolding demo2_def by blast

lemma demo1_wallet: "get_wallet 7 demo1 = Some demo_wallet" "reservation_by_idem (charge_idem demo_request) demo1 = None"
  by code_simp+

section \<open>Settling and releasing\<close>

text \<open>C4: Settling an open hold of a reachable database always returns.  It marks the row settled with the
  charge of the used quantity, the charge is never more than the hold (in credit and in cash),
  and the payer, nobody else, gets the exact rest back.\<close>

theorem settle_charges_within_hold:
  assumes "bill_reachable st" and "get_reservation rid st = Some r" and "r_status r = Held"
    and "settle_charge r actual = (images, credit, cash)"
  shows "0 \<le> credit \<and> credit \<le> r_reserved_credit r \<and> 0 \<le> cash \<and> cash \<le> r_reserved_cash r
    \<and> (\<exists>v st'. settle_reservation rid actual True t st = Inr (v, st')
        \<and> map_option (\<lambda>x. (r_status x, r_settled_credit x, r_settled_cash x)) (get_reservation rid st')
          = Some (Settled, credit, cash)
        \<and> credited (r_user_id r) (r_reserved_credit r - credit) (r_reserved_cash r - cash) st st')"
proof -
  note b = reachable_books [OF assms(1)]
  have "held_ok r" using held_row [OF b assms(2,3)] by blast
  from settle_charge_bounds [OF this assms(3,4)] settle_effect [OF b reachable_schema [OF assms(1)] assms(2-4), of t]
  show ?thesis by fastforce
qed

theorem settle_charges_within_hold_witness:
  "\<exists>v st'. settle_reservation ''bill_hold_aaa'' (Some 1) True 1002 demo2 = Inr (v, st') \<and> credited 7 300 0 demo2 st'"
  using settle_charges_within_hold [OF demo2_reachable demo_hold_row(1,2) demo_charge, of 1002]
  by (auto simp: demo_hold_row)

text \<open>C5: Releasing an open hold of a reachable database always returns, marks the row released and gives
  the whole hold back to the payer.\<close>

theorem release_returns_hold:
  assumes "bill_reachable st" and "get_reservation rid st = Some r" and "r_status r = Held"
  shows "\<exists>v st'. release_reservation rid t st = Inr (v, st')
    \<and> get_reservation rid st' = Some (r\<lparr>r_status := Released, r_updated_at := t\<rparr>)
    \<and> credited (r_user_id r) (r_reserved_credit r) (r_reserved_cash r) st st'"
  using release_effect [OF reachable_facts] assms by blast

theorem release_returns_hold_witness:
  "\<exists>v st'. release_reservation ''bill_hold_aaa'' 1002 demo2 = Inr (v, st') \<and> credited 7 600 0 demo2 st'"
  using release_returns_hold [OF demo2_reachable demo_hold_row(1,2), of 1002] by (auto simp: demo_hold_row)

text \<open>C6: Reserving and then releasing is the identity on every user's credit and cash and on what
  remains of every image grant.\<close>

theorem reserve_then_release:
  assumes "bill_reachable st" and "reserve_charge q t st = Inr (v, st1)"
    and "reservation_by_idem (charge_idem q) st = None" and "get_wallet (cr_user_id q) st = Some w"
    and "release_reservation (rv_id v) t' st1 = Inr (v', st2)"
  shows "credit_of x st2 = credit_of x st \<and> cash_of x st2 = cash_of x st
    \<and> map_option g_remaining (get_grant k st2) = map_option g_remaining (get_grant k st)"
proof -
  have r1: "bill_reachable st1" using bill_reachable.step [OF assms(1) bill_step.reserve [OF assms(2)]] .
  from reserve_reserved [OF reachable_facts [OF assms(1)] assms(2-4)] obtain r hs where
    r: "v = reservation_public r" "reserved_by q r hs t st st1" by blast
  from assms(5) r(1) have "release_reservation (r_id r) t' st1 = Inr (v', st2)" by (simp add: reservation_public_def)
  with reserve_release_identity [OF reachable_facts [OF assms(1)] reachable_facts [OF r1] r(2)] show ?thesis .
qed

theorem reserve_then_release_witness:
  "\<exists>v v' st2. reserve_charge demo_request 1001 demo1 = Inr (v, demo2)
    \<and> release_reservation (rv_id v) 1002 demo2 = Inr (v', st2) \<and> credit_of 7 st2 = credit_of 7 demo1"
proof -
  obtain v where v: "reserve_charge demo_request 1001 demo1 = Inr (v, demo2)" using demo2_reserve by blast
  have c: "(case demo2_op of Inr p \<Rightarrow> rv_id (fst p) = ''bill_hold_aaa'' | Inl _ \<Rightarrow> False)" by code_simp
  have i: "rv_id v = ''bill_hold_aaa''" using c unfolding v [unfolded demo2_op_alt] sum.case fst_conv .
  obtain v' st2 where r: "release_reservation (rv_id v) 1002 demo2 = Inr (v', st2)"
    using release_effect [OF reachable_facts [OF demo2_reachable] demo_hold_row(1,2)] i by metis
  from reserve_then_release [OF demo1_reachable v _ _ r, of demo_wallet 7] demo1_wallet v r show ?thesis
    by (auto simp: demo_request_def)
qed

text \<open>C7: Whatever ended a reservation, ending it again, by settling or releasing it, with any quantity,
  returns the same view and changes nothing.\<close>

theorem ending_is_final:
  assumes "settle_reservation rid actual success t st = Inr (v, st') \<or> release_reservation rid t st = Inr (v, st')"
  shows "settle_reservation rid actual' success' t' st' = Inr (v, st') \<and> release_reservation rid t' st' = Inr (v, st')"
  using assms settle_ended release_ended ended_again by metis

theorem ending_is_final_witness:
  "\<exists>v st'. settle_reservation ''bill_hold_aaa'' (Some 1) True 1002 demo2 = Inr (v, st')
    \<and> release_reservation ''bill_hold_aaa'' 1003 st' = Inr (v, st')"
proof -
  obtain v st' where s: "settle_reservation ''bill_hold_aaa'' (Some 1) True 1002 demo2 = Inr (v, st')"
    using settle_effect [OF reachable_facts [OF demo2_reachable] demo_hold_row(1,2) demo_charge] by metis
  from ending_is_final [OF disjI1 [OF s]] s show ?thesis by blast
qed

text \<open>C8: A repeated reservation request is answered with the stored reservation and changes nothing,
  whatever the clock says.\<close>

theorem reserve_again:
  assumes "reserve_charge q t st = Inr (v, st')"
  shows "reserve_charge q t' st' = Inr (v, st')"
  using reserve_answered [OF assms] answered_again by blast

theorem reserve_again_witness:
  "\<exists>v. reserve_charge demo_request 1001 demo1 = Inr (v, demo2) \<and> reserve_charge demo_request 2000 demo2 = Inr (v, demo2)"
  using demo2_reserve reserve_again by blast

section \<open>The price\<close>

text \<open>C9: For a new request of a user without unlimited compute, under enforcement, the reservation
  fails with INSUFFICIENT_POINTS exactly when the credit is below the price, which is the rate
  times the quantity left after the free images; otherwise it holds exactly that price.\<close>

theorem reserve_price:
  assumes "bill_reachable st" and "fresh_request q st" and "0 < cr_quantity q"
    and "get_wallet (cr_user_id q) st = Some w" and "\<not> w_unlimited w" and "enforcement_enabled st" and "\<not> cr_waived q"
    and "action_rate_units (cr_sku q) st = Inr (rate, cid)"
  shows "let free = (if cr_image q then min (cr_quantity q) (image_balance (cr_user_id q) t st) else 0);
      price = (cr_quantity q - free) * rate in
    if w_credit w < price then reserve_charge q t st = Inl (BillingError ''INSUFFICIENT_POINTS'' 402)
    else \<exists>r st'. reserve_charge q t st = Inr (reservation_public r, st') \<and> r_status r = Held
      \<and> r_reserved_credit r = price \<and> r_reserved_images r = free
      \<and> credited (cr_user_id q) (- price) (- r_reserved_cash r) st st'"
proof -
  note b = reachable_books [OF assms(1)] and g = schema_grants [OF reachable_schema [OF assms(1)]]
  have wb: "0 \<le> w_cash w" "w_cash w \<le> w_credit w" using books_wallet_bounds [OF b assms(4)] by simp_all
  have n: "0 \<le> cr_quantity q" "0 \<le> rate" using assms(3) action_rate_units_nonneg [OF assms(8)] by simp_all
  have new: "reservation_by_idem (charge_idem q) st = None"
    using assms(2) by (auto simp: fresh_request_def reservation_by_idem_None)
  have r: "reserve_charge q t st = reserve_held q (cr_quantity q) (charge_idem q) rate cid w t st"
    using assms(3-8) new ensure_wallet_existing [OF assms(4) wb(2), of t] by (simp add: reserve_charge_def Let_def max_def)
  have p: "hold_price q (cr_quantity q) rate t st = (cr_quantity q - (if cr_image q
      then min (cr_quantity q) (image_balance (cr_user_id q) t st) else 0)) * rate"
    unfolding hold_price_def hold_plan_images(1) [OF g n(1)] ..
  show ?thesis
  proof (cases "w_credit w < hold_price q (cr_quantity q) rate t st")
    case True
    then show ?thesis using reserve_held_insufficient [OF g n(1) True] unfolding r p Let_def by simp
  next
    case False
    then have "hold_price q (cr_quantity q) rate t st \<le> w_credit w" by simp
    from reserve_held_effect [OF g n assms(4) wb this assms(2), of cid] obtain st' r' where
      e: "reserve_held q (cr_quantity q) (charge_idem q) rate cid w t st = Inr (reservation_public r', st')"
      "r_status r' = Held" "r_reserved_credit r' = hold_price q (cr_quantity q) rate t st"
      "r_reserved_images r' = planned (hold_plan q (cr_quantity q) t st)"
      "credited (cr_user_id q) (- r_reserved_credit r') (- r_reserved_cash r') st st'" by blast
    with False show ?thesis unfolding r p hold_plan_images(1) [OF g n(1)] Let_def by auto
  qed
qed

theorem reserve_price_witness:
  "\<exists>r st'. reserve_charge demo_request 1001 demo1 = Inr (reservation_public r, st') \<and> r_reserved_credit r = 600
    \<and> credited 7 (- 600) (- r_reserved_cash r) demo1 st'"
proof -
  have f: "fresh_request demo_request demo1" "enforcement_enabled demo1"
    by code_simp+
  have i: "image_balance 7 1001 demo1 = 0" by code_simp
  from reserve_price [OF demo1_reachable f(1) _ _ _ f(2) _, of demo_wallet 300 "''catalog_x''" 1001] demo1_wallet(1) demo_rate i
  have "\<exists>r st'. reserve_charge demo_request 1001 demo1 = Inr (reservation_public r, st') \<and> r_status r = Held
      \<and> r_reserved_credit r = 600 \<and> r_reserved_images r = 0 \<and> credited 7 (- 600) (- r_reserved_cash r) demo1 st'"
    by (simp add: demo_request_def demo_wallet_def)
  then show ?thesis by blast
qed

end
