(* ===== verification/BillingOrderFlow.thy ===== *)
theory BillingOrderFlow
  imports BillingImages
begin

text \<open>
  What approving and refunding an order do: the credit of a package goes in once and comes
  out again, the months of a subscription follow each other without a gap, and a decision
  that is repeated changes nothing.
\<close>

section \<open>Deciding twice\<close>

definition decided :: "string \<Rightarrow> order_status \<Rightarrow> order_view \<Rightarrow> bdb \<Rightarrow> bool" where
  "decided oid s v st = (\<exists>r. get_order oid st = Some r \<and> o_status r = s \<and> v = order_public r)"

lemma get_order_ledger [simp]:
  "get_order oid (insert_ledger uid asset event amount bal key opts t st) = get_order oid st"
  by (simp add: get_order_def)

lemma updated_order:
  "get_order k (update_order oid P f st) = Some x \<Longrightarrow> (\<And>x. o_id (f x) = o_id x) \<Longrightarrow>
    \<exists>y. get_order k st = Some y \<and> x = (if k = oid \<and> P y then f y else y)"
  by (cases "k = oid") (auto simp: get_order_def update_order_def row_modify_get)

lemma get_update_order:
  "get_order oid st = Some r \<Longrightarrow> P r \<Longrightarrow> (\<And>x. o_id (f x) = o_id x) \<Longrightarrow> get_order oid (update_order oid P f st) = Some (f r)"
  by (simp add: get_order_def update_order_def row_modify_get)

text \<open>An approval leaves the orders table alone until the status is written.\<close>

lemma every_orders:
  assumes "every r (\<lambda>(_, s). db_orders s = os)" "r = Inr (v, st')"
  shows "db_orders st' = os"
  using everyD [OF assms] by simp

lemma approve_decided:
  assumes b: "books {} u 0 0 0 st" and s: "approve_order oid actor note t st = Inr (v, st')"
  shows "decided oid Approved v st'"
proof -
  from s obtain r where r: "get_order oid st = Some r" by (auto simp: approve_order_def split: option.splits)
  show ?thesis
  proof (cases "o_status r = Pending")
    case False
    with s r show ?thesis by (auto simp: approve_order_def decided_def split: if_splits)
  next
    case True
    let ?f = "\<lambda>x. x\<lparr>o_status := Approved, o_reviewed_by := actor, o_reviewed_at := t, o_review_note := take 1000 note, o_updated_at := t\<rparr>"
    from s r True obtain w st1 st2 where e: "ensure_wallet (o_user_id r) t st = Inr (w, st1)"
      and k: "(if o_kind r = CreditPack then approve_credit_pack r w t st1 else approve_subscription r t st1) = Inr st2"
      and sh: "show_order oid (update_order oid (\<lambda>x. o_status x = Pending) ?f st2) = Inr (v, st')"
      by (auto simp: approve_order_def bindr_eq_Inr)
    have b0: "books {} (o_user_id r) 0 0 0 st" using b by (rule books_user)
    note ew = ensure_wallet_books [OF b0 e]
    have r1: "get_order oid st1 = Some r" using ew(2) r by (simp add: same_tables_def get_order_def)
    have "db_orders st2 = db_orders st1"
    proof (cases "o_kind r = CreditPack")
      case c: True
      with k approve_credit_books(2) [OF ew(1) r1 True refl ew(3)] show ?thesis by simp
    next
      case False
      with k approve_subscription_books(2) [OF ew(1)] show ?thesis by simp
    qed
    then have "get_order oid st2 = Some r" using r1 by (simp add: get_order_def)
    then have "get_order oid (update_order oid (\<lambda>x. o_status x = Pending) ?f st2) = Some (?f r)"
      using True by (intro get_update_order) simp_all
    with sh show ?thesis by (auto simp: show_order_Inr decided_def)
  qed
qed

lemma decided_approve: "decided oid Approved v st \<Longrightarrow> approve_order oid actor note t st = Inr (v, st)"
  by (auto simp: decided_def approve_order_def)

section \<open>A credit package\<close>

definition pack_units :: "order_row \<Rightarrow> int" where
  "pack_units r = (case int_field (vget (snapshot_item r) ''total_points'') of
     Inr p \<Rightarrow> p * POINT_SCALE * row_quantity r | Inl _ \<Rightarrow> 0)"

lemma insert_grant_or_ignore_wallets [simp]: "db_wallets (insert_grant_or_ignore g st) = db_wallets st"
  by (auto simp: insert_grant_or_ignore_def insert_grant_def split: sum.splits)

lemma approve_credit_effect:
  assumes w: "get_wallet (o_user_id r) st = Some w" "0 \<le> w_cash w" "w_cash w \<le> w_credit w"
    and s: "approve_credit_pack r w t st = Inr st'"
  shows "credited (o_user_id r) (pack_units r) (pack_units r) st st'"
proof -
  let ?u = "o_user_id r" and ?c = "pack_units r"
  from s obtain p where p: "int_field (vget (snapshot_item r) ''total_points'') = Inr p"
    by (auto simp: approve_credit_pack_def Let_def bindr_eq_Inr)
  then have c: "p * POINT_SCALE * row_quantity r = ?c" by (simp add: pack_units_def)
  from s obtain st1 where st1: "credit_wallet ?u ?c ?c t st = Inr st1"
    unfolding approve_credit_pack_def Let_def p bindr_Inr c by (auto simp: bindr_eq_Inr)
  from s obtain bonus where bonus: "int_field (vget (snapshot_item r) ''bonus_images'') = Inr bonus"
    unfolding approve_credit_pack_def Let_def p bindr_Inr c st1 by (auto simp: bindr_eq_Inr)
  have ws: "db_wallets st' = db_wallets st1"
    using s unfolding approve_credit_pack_def Let_def p bindr_Inr c st1 bonus new_id_def by (auto split: if_splits)
  let ?f = "\<lambda>w. cash_trigger (w\<lparr>w_credit := w_credit w + ?c, w_cash := w_cash w + ?c, w_updated_at := t\<rparr>)"
  have c: "0 \<le> w_cash w + ?c" and st1': "db_wallets st1 = row_modify w_user_id ?u ?f (db_wallets st)"
    using st1 w(1) by (auto simp: credit_wallet_def update_wallet_def wallet_check_def split: if_splits)
  have f: "?f w = w\<lparr>w_credit := w_credit w + ?c, w_cash := w_cash w + ?c, w_updated_at := t\<rparr>"
    using w(2,3) c by (simp add: cash_trigger_id)
  have "get_wallet x st' = (if x = ?u then map_option ?f (get_wallet x st) else get_wallet x st)" for x
    using get_wallet_modify [where f = ?f and st = st and uid = ?u and u = x] by (simp add: get_wallet_def ws st1')
  then show ?thesis using w(1) f by (simp add: credited_def credit_of_def cash_of_def)
qed

lemma approve_pack_effect:
  assumes b: "books {} u 0 0 0 st" and r: "get_order oid st = Some r" "o_status r = Pending" "o_kind r = CreditPack"
    and w: "get_wallet (o_user_id r) st \<noteq> None" and s: "approve_order oid actor note t st = Inr (v, st')"
  shows "credited (o_user_id r) (pack_units r) (pack_units r) st st'"
proof -
  from w obtain x where x: "get_wallet (o_user_id r) st = Some x" by blast
  note wb = books_wallet_bounds [OF b x]
  from s r ensure_wallet_existing [OF x] wb obtain st2 where k: "approve_credit_pack r x t st = Inr st2"
    and ws: "db_wallets st' = db_wallets st2"
    by (auto simp: approve_order_def bindr_eq_Inr show_order_Inr update_order_def)
  have "credited (o_user_id r) (pack_units r + 0) (pack_units r + 0) st st'"
    by (rule credited_trans [OF approve_credit_effect [OF x _ _ k] credited_same [OF ws]]) (use wb in simp_all)
  then show ?thesis by simp
qed

text \<open>The refund takes the same amount, or refuses when part of it has been used.\<close>

lemma refund_credit_effect:
  assumes w: "get_wallet (o_user_id r) st = Some w" "0 \<le> w_cash w" "w_cash w \<le> w_credit w" and c: "0 \<le> c" "c \<le> w_cash w"
    and s: "refund_credit r c actor reason w t st = Inr st'"
  shows "credited (o_user_id r) (- c) (- c) st st'"
proof (cases "c = 0")
  case True
  with s credited_same [of st st] show ?thesis by (simp add: refund_credit_def)
next
  case False
  obtain ws where d: "debit_wallet (o_user_id r) c c t st = Inr (st\<lparr>db_wallets := ws\<rparr>)"
    "credited (o_user_id r) (- c) (- c) st (st\<lparr>db_wallets := ws\<rparr>)"
    using debit_wallet_total [OF w(1), of c c t] w c by auto
  with s False c have "db_wallets st' = ws" by (auto simp: refund_credit_def bindr_eq_Inr)
  with d(2) show ?thesis by (simp add: credited_def credit_of_def cash_of_def get_wallet_def)
qed

lemma revoke_wallets: "revoke_remaining_image_grant k t g st = Inr st' \<Longrightarrow> db_wallets st' = db_wallets st"
  by (auto simp: revoke_remaining_image_grant_def Let_def bindr_eq_Inr update_grant_def split: if_splits option.splits)

lemma refund_pack_effect:
  assumes b: "books {} u 0 0 0 st" and r: "get_order oid st = Some r" "o_status r = Approved" "o_kind r = CreditPack"
    and w: "get_wallet (o_user_id r) st \<noteq> None" and p: "0 \<le> pack_units r"
    and s: "refund_approved_order oid actor reason t st = Inr (v, st')"
  shows "credited (o_user_id r) (- pack_units r) (- pack_units r) st st' \<and> decided oid Refunded v st'"
proof -
  from w obtain x where x: "get_wallet (o_user_id r) st = Some x" by blast
  have wb: "0 \<le> w_cash x" "w_cash x \<le> w_credit x" using books_wallet_bounds [OF b x] by simp_all
  let ?f = "\<lambda>x. x\<lparr>o_status := Refunded, o_refunded_by := actor, o_refunded_at := t,
                      o_refund_note := take 1000 (strip reason), o_updated_at := t\<rparr>"
  from s r ensure_wallet_existing [OF x wb(2)] obtain st2 where
    k: "refund_credit_pack r actor (strip reason) x t st = Inr st2"
    and sh: "(case get_wallet (o_user_id r) (update_order oid (\<lambda>x. o_status x = Approved) ?f st2) of
            None \<Rightarrow> Inl TypeError
          | Some x \<Rightarrow> show_order oid
              (insert_ledger (o_user_id r) Audit ''order_refunded'' 0 (w_credit x) (order_key r '':refunded'')
                (order_opts r [(''actor_user_id'', PInt actor), (''reason'', PStr (strip reason)),
                   (''kind'', PStr (kind_name (o_kind r)))]) t
                (update_order oid (\<lambda>x. o_status x = Approved) ?f st2))) = Inr (v, st')"
    unfolding refund_approved_order_def Let_def by (auto simp: bindr_eq_Inr split: if_splits)
  from sh obtain y where st': "v = order_public y" "get_order oid st' = Some y"
    "get_order oid (update_order oid (\<lambda>x. o_status x = Approved) ?f st2) = Some y" and ws: "db_wallets st' = db_wallets st2"
    by (auto simp: show_order_Inr update_order_def split: option.splits)
  have "get_order oid st2 = Some r"
    using refund_credit_pack_books(2) [OF books_user [OF b] r(1,2) refl x k] r(1) by (simp add: get_order_def)
  then have "get_order oid (update_order oid (\<lambda>x. o_status x = Approved) ?f st2) = Some (?f r)"
    using r(2) by (intro get_update_order) simp_all
  with st' have d: "decided oid Refunded v st'" by (auto simp: decided_def)
  from k obtain c st1 where c: "c = pack_units r" "c \<le> w_cash x" and f: "refund_credit r c actor (strip reason) x t st = Inr st1"
    and g: "st2 = st1 \<or> (\<exists>k g. revoke_remaining_image_grant k t g st1 = Inr st2)"
    by (auto simp: refund_credit_pack_def benefits_used_def pack_units_def bindr_eq_Inr Let_def not_less
        split: if_splits option.splits)
  have "db_wallets st2 = db_wallets st1" using g revoke_wallets by blast
  then have "credited (o_user_id r) (- pack_units r + 0) (- pack_units r + 0) st st'"
    using ws by (intro credited_trans [OF refund_credit_effect [OF x wb _ c(2) f, unfolded c(1)] credited_same]) (simp_all add: p)
  with d show ?thesis by simp
qed

lemma decided_refund:
  "strip reason \<noteq> [] \<Longrightarrow> decided oid Refunded v st \<Longrightarrow> refund_approved_order oid actor reason t st = Inr (v, st)"
  by (auto simp: decided_def refund_approved_order_def Let_def)

section \<open>The months of a subscription\<close>

text \<open>The periods cover \<open>[s, e)\<close> without gap or overlap, each a calendar month long.\<close>

fun consecutive :: "int \<Rightarrow> int \<Rightarrow> period_row list \<Rightarrow> bool" where
  "consecutive s e [] = (s = e)"
| "consecutive s e (p # ps) = (p_start_at p = s \<and> add_calendar_month s = Inr (p_end_at p) \<and> consecutive (p_end_at p) e ps)"

lemma consecutive_days: "consecutive s e ps \<Longrightarrow> \<exists>d. 28 * int (length ps) \<le> d \<and> d \<le> 31 * int (length ps) \<and> e = s + d * 86400"
proof (induction ps arbitrary: s)
  case Nil
  then show ?case by (intro exI [of _ 0]) simp
next
  case (Cons p ps)
  then obtain d where d: "28 * int (length ps) \<le> d" "d \<le> 31 * int (length ps)" "e = p_end_at p + d * 86400" by auto
  from Cons.prems have "add_calendar_month s = Inr (p_end_at p)" by simp
  from add_calendar_month_days [OF this] obtain k where k: "28 \<le> k" "k \<le> 31" "p_end_at p = s + k * 86400" by blast
  with d show ?case by (intro exI [of _ "k + d"]) (simp add: algebra_simps)
qed

lemma insert_grant_periods: "insert_grant g st = Inr st' \<Longrightarrow> db_periods st' = db_periods st"
  by (auto simp: insert_grant_def split: if_splits)

lemma approve_month_period:
  assumes "approve_month r sid images months i s t st = Inr (e, st')"
  shows "\<exists>p. db_periods st' = db_periods st @ [p] \<and> p_subscription_id p = sid \<and> p_source_order_id p = o_id r
    \<and> p_user_id p = o_user_id r \<and> p_start_at p = s \<and> p_end_at p = e \<and> add_calendar_month s = Inr e"
proof -
  from assms obtain p st2 g st4 where e: "add_calendar_month s = Inr e"
    and i: "insert_period p (st\<lparr>draws := Suc (draws st)\<rparr>) = Inr st2"
    and g: "insert_grant g (st2\<lparr>draws := Suc (draws st2)\<rparr>) = Inr st4"
    and p: "p_subscription_id p = sid" "p_source_order_id p = o_id r" "p_user_id p = o_user_id r" "p_start_at p = s" "p_end_at p = e"
    and st': "db_periods st' = db_periods st4"
    unfolding approve_month_def Let_def new_id_def prod.case by (auto simp: bindr_eq_Inr)
  have "db_periods st' = db_periods st @ [p]"
    using insert_period_Inr(1) [OF i] insert_grant_periods [OF g] st' by simp
  with p e show ?thesis by blast
qed

lemma approve_months_periods:
  "approve_months r sid images months t n s st = Inr (e, st') \<Longrightarrow>
    \<exists>ps. db_periods st' = db_periods st @ ps \<and> length ps = n \<and> consecutive s e ps
      \<and> (\<forall>p \<in> set ps. p_subscription_id p = sid \<and> p_source_order_id p = o_id r \<and> p_user_id p = o_user_id r)"
proof (induction n arbitrary: s st)
  case 0
  then show ?case by simp
next
  case (Suc n)
  from Suc.prems obtain m st1 where 1: "approve_month r sid images months (months - 1 - int n) s t st = Inr (m, st1)"
    and 2: "approve_months r sid images months t n m st1 = Inr (e, st')" by (auto simp: bindr_eq_Inr)
  from approve_month_period [OF 1] obtain p where p: "db_periods st1 = db_periods st @ [p]" "p_subscription_id p = sid"
    "p_source_order_id p = o_id r" "p_user_id p = o_user_id r" "p_start_at p = s" "p_end_at p = m" "add_calendar_month s = Inr m" by blast
  from Suc.IH [OF 2] obtain ps where "db_periods st' = db_periods st1 @ ps" "length ps = n" "consecutive m e ps"
    "\<forall>p \<in> set ps. p_subscription_id p = sid \<and> p_source_order_id p = o_id r \<and> p_user_id p = o_user_id r" by blast
  with p show ?case by (intro exI [of _ "p # ps"]) simp
qed

lemma extend_subscription_months:
  assumes s: "extend_subscription r images months t st sid = Inr st'"
    and sub: "get_subscription sid st = Some x" "s_user_id x = o_user_id r"
  shows "\<exists>ps e. db_periods st' = db_periods st @ ps \<and> length ps = nat months
    \<and> consecutive (max t (s_period_end x)) e ps
    \<and> (\<forall>p \<in> set ps. p_subscription_id p = sid \<and> p_source_order_id p = o_id r \<and> p_user_id p = o_user_id r)
    \<and> (\<forall>y. get_subscription sid st' = Some y \<longrightarrow> s_period_end y = e \<and> s_status y = SubActive)"
proof -
  have "find_row (\<lambda>s. s_id s = sid \<and> s_user_id s = o_user_id r) (db_subscriptions st) = Some x"
    using sub by (intro find_by_key [where P = "\<lambda>s. s_user_id s = o_user_id r"]) (simp_all add: get_subscription_def)
  with s obtain e st1 where m: "approve_months r sid images months t (nat months) (max t (s_period_end x)) st = Inr (e, st1)"
    and st': "st' = update_subscription sid (\<lambda>s. s\<lparr>s_status := SubActive, s_plan_sku := o_sku r, s_period_end := e,
        s_updated_at := t\<rparr>) st1"
    by (auto simp: extend_subscription_def bindr_eq_Inr)
  from approve_months_periods [OF m] obtain ps where "db_periods st1 = db_periods st @ ps" "length ps = nat months"
    "consecutive (max t (s_period_end x)) e ps"
    "\<forall>p \<in> set ps. p_subscription_id p = sid \<and> p_source_order_id p = o_id r \<and> p_user_id p = o_user_id r" by blast
  moreover have "s_period_end y = e \<and> s_status y = SubActive" if "get_subscription sid st' = Some y" for y
    using that by (auto simp: st' get_subscription_def update_subscription_def row_modify_get)
  moreover have "db_periods st' = db_periods st1" by (simp add: st' update_subscription_def)
  ultimately show ?thesis by metis
qed

end
