(* ===== verification/BillingStart.thy ===== *)
theory BillingStart
  imports BillingOrderFlow BillingQueries
begin

text \<open>
  Starting the application.  The first start turns every legacy balance into a wallet
  (\<open>migration_v1_wallets\<close>, and \<open>migration_report\<close> then finds nothing missing); a second start
  on the same database finds every marker and changes nothing (\<open>bootstrap_again\<close>).
\<close>

section \<open>Markers\<close>

lemma marker_kept:
  assumes "statement st st'" and "get_config k st \<noteq> None"
  shows "get_config k st' \<noteq> None"
  using assms
  by (cases rule: statement.cases) (auto simp: get_config_def map_add_def insert_order_def insert_reservation_def
      insert_subscription_def insert_period_def insert_grant_def insert_catalog_def retire_active_def retire_drafts_def
      update_subscription_def cancel_period_def update_period_def split: if_splits option.splits)

interpretation markers: kept_by_statements "\<lambda>st. get_config k st \<noteq> None" for k
  by unfold_locales (rule marker_kept)

lemma foldr_res_through:
  assumes "foldr_res f s xs = Inr s'" "x \<in> set xs" "\<And>s y s'. y \<in> set xs \<Longrightarrow> f s y = Inr s' \<Longrightarrow> runs s s'"
  shows "\<exists>s1 s2. f s1 x = Inr s2 \<and> runs s2 s'"
  using assms
proof (induction xs arbitrary: s)
  case (Cons y xs)
  then obtain s1 where s1: "f s y = Inr s1" "foldr_res f s1 xs = Inr s'" by (auto simp: bindr_eq_Inr)
  have "every (foldr_res f s1 xs) (runs s1)"
    by (rule every_foldr) (use Cons.prems(3) in \<open>auto simp: every_def intro: rtranclp_trans\<close>)
  from this s1(2) have r: "runs s1 s'" by (rule everyD)
  show ?case
  proof (cases "x = y")
    case True
    with s1(1) r show ?thesis by blast
  next
    case False
    with Cons.prems s1(2) show ?thesis by (intro Cons.IH) auto
  qed
qed simp

lemma foldr_res_id: "(\<And>x. x \<in> set xs \<Longrightarrow> f s x = Inr s) \<Longrightarrow> foldr_res f s xs = Inr s"
  by (induction xs) simp_all

lemma foldr_res_last: "foldr_res f s (xs @ [x]) = Inr s' \<Longrightarrow> \<exists>s1. f s1 x = Inr s'"
  by (induction xs arbitrary: s) (auto simp: bindr_eq_Inr)

lemma bootstrap_step_runs: "step \<in> set bootstrap_steps \<Longrightarrow> step t s = Inr s' \<Longrightarrow> runs s s'"
proof (rule everyD [where r = "step t s" and Q = "runs s"])
  assume "step \<in> set bootstrap_steps"
  then show "every (step t s) (runs s)"
    unfolding bootstrap_steps_def
    by (auto simp: migration_v6_def migration_v7_def migration_v8_def migration_v9_def migration_v10_def
        migration_v11_def migration_v12_def intro: every_early_migrations every_catalog_migration every_enforcement
        every_migration_v1 every_bootstrap)
qed

text \<open>The marker each migration leaves, and that with the marker it does nothing.\<close>

definition marked_steps :: "(string \<times> (int \<Rightarrow> bdb \<Rightarrow> bdb res)) list" where
  "marked_steps = [(''commercial_billing_migration_v1'', migration_v1), (''commercial_billing_catalog_v2'', migration_v2),
     (''commercial_billing_catalog_v3'', migration_v3), (''commercial_billing_catalog_v4'', migration_v4),
     (''commercial_billing_catalog_v5_timezone_shanghai'', migration_v5),
     (''commercial_billing_catalog_v6_automation_modules'', migration_v6),
     (''commercial_billing_catalog_v7_complete_subscription_details'', migration_v7),
     (''commercial_billing_catalog_v8_video_workbench'', migration_v8),
     (''commercial_billing_catalog_v9_crm_actions'', migration_v9),
     (''commercial_billing_catalog_v10_social_content_rates'', migration_v10),
     (''commercial_billing_catalog_v11_pdf_subscription_prices'', migration_v11),
     (''commercial_billing_catalog_v12_latest_pdf_plans'', migration_v12)]"

lemma insert_config_sets: "insert_config k v st = Inr st' \<Longrightarrow> get_config k st' \<noteq> None"
  by (auto simp: insert_config_def get_config_def map_add_def split: if_splits option.splits)

lemma marker_sets: "marker k t extra st = Inr st' \<Longrightarrow> get_config k st' \<noteq> None"
  unfolding marker_def by (rule insert_config_sets)

lemma catalog_migration_marks: "catalog_migration key f g t st = Inr st' \<Longrightarrow> get_config key st' \<noteq> None"
  using marker_sets by (auto simp: catalog_migration_def bindr_eq_Inr split: if_splits)

lemma early_migration_marks:
  "migration_v1 t st = Inr st' \<Longrightarrow> get_config ''commercial_billing_migration_v1'' st' \<noteq> None"
  "migration_v2 t st = Inr st' \<Longrightarrow> get_config ''commercial_billing_catalog_v2'' st' \<noteq> None"
  "migration_v3 t st = Inr st' \<Longrightarrow> get_config ''commercial_billing_catalog_v3'' st' \<noteq> None"
  "migration_v4 t st = Inr st' \<Longrightarrow> get_config ''commercial_billing_catalog_v4'' st' \<noteq> None"
  "migration_v5 t st = Inr st' \<Longrightarrow> get_config ''commercial_billing_catalog_v5_timezone_shanghai'' st' \<noteq> None"
  unfolding migration_v1_def migration_v2_def migration_v3_def migration_v4_def migration_v5_def Let_def
  using insert_config_sets marker_sets by (auto simp: bindr_eq_Inr split: if_splits)

lemma marked_all:
  assumes "(key, step) \<in> set marked_steps" and "list_all (\<lambda>(key, step). P key step) marked_steps"
  shows "P key step"
  using assms by (auto simp: list_all_iff)

lemma marked_step_marks:
  "(key, step) \<in> set marked_steps \<Longrightarrow> \<forall>st st'. step t st = Inr st' \<longrightarrow> get_config key st' \<noteq> None"
  apply (erule marked_all [where P = "\<lambda>key step. \<forall>st st'. step t st = Inr st' \<longrightarrow> get_config key st' \<noteq> None"])
  unfolding marked_steps_def list.pred_inject(2) prod.case migration_v6_def migration_v7_def migration_v8_def
    migration_v9_def migration_v10_def migration_v11_def migration_v12_def
  by (intro conjI allI impI; ((erule early_migration_marks catalog_migration_marks) | (rule list.pred_inject(1))))

lemma marked_step_skips:
  "(key, step) \<in> set marked_steps \<Longrightarrow> \<forall>st. get_config key st \<noteq> None \<longrightarrow> step t st = Inr st"
  apply (erule marked_all [where P = "\<lambda>key step. \<forall>st. get_config key st \<noteq> None \<longrightarrow> step t st = Inr st"])
  unfolding marked_steps_def list.pred_inject(2) prod.case migration_v1_def migration_v2_def migration_v3_def
    migration_v4_def migration_v5_def migration_v6_def migration_v7_def migration_v8_def
    migration_v9_def migration_v10_def migration_v11_def migration_v12_def catalog_migration_def
  by (intro conjI allI impI; (erule if_P | rule list.pred_inject(1)))

lemma set_bootstrap_steps: "set bootstrap_steps = insert bootstrap_active (insert enforcement_v2 (snd ` set marked_steps))"
  unfolding bootstrap_steps_def marked_steps_def list.set image_insert image_empty snd_conv by blast

lemma bootstrap_steps_marked:
  "step \<in> set bootstrap_steps \<Longrightarrow> step = bootstrap_active \<or> step = enforcement_v2 \<or> (\<exists>key. (key, step) \<in> set marked_steps)"
  by (auto simp: set_bootstrap_steps)

section \<open>The second start\<close>

text \<open>After \<open>enforcement_v2\<close> has run, its condition is false.\<close>

lemma enforcement_done:
  assumes "enforcement_v2 t st = Inr st'"
  shows "enforcement_v2 t' st' = Inr st'"
proof (cases "get_config ''commercial_billing_enforcement_v2'' st = None \<and> enforcement_enabled st
      \<and> env_enabled st ''COMMERCIAL_BILLING_MIGRATE_LEGACY'' ''0''")
  case True
  with assms obtain extra st1 where "marker ''commercial_billing_enforcement_v2'' t extra st1 = Inr st'"
    by (auto simp: enforcement_v2_def bindr_eq_Inr Let_def)
  then have "get_config ''commercial_billing_enforcement_v2'' st' \<noteq> None" by (rule marker_sets)
  then have "\<not> (get_config ''commercial_billing_enforcement_v2'' st' = None \<and> enforcement_enabled st'
      \<and> env_enabled st' ''COMMERCIAL_BILLING_MIGRATE_LEGACY'' ''0'')" by blast
  then show ?thesis unfolding enforcement_v2_def by (rule if_not_P)
next
  case False
  with assms have "st' = st" unfolding enforcement_v2_def by (simp only: if_False sum.inject)
  with False show ?thesis unfolding enforcement_v2_def by (simp only: if_False)
qed

lemma bootstrap_again:
  assumes ok: "schema_ok st" and s: "bootstrap_billing t st = Inr st'"
  shows "bootstrap_billing t' st' = Inr st'"
  unfolding bootstrap_billing_def
proof (rule foldr_res_id)
  fix step assume step: "step \<in> set bootstrap_steps"
  have f: "foldr_res (\<lambda>s step. step t s) st bootstrap_steps = Inr st'" using s by (simp add: bootstrap_billing_def)
  from bootstrap_steps_marked [OF step] consider "step = bootstrap_active" | "step = enforcement_v2"
    | key where "(key, step) \<in> set marked_steps" by blast
  then show "step t' st' = Inr st'"
  proof cases
    case 1
    have "filter (\<lambda>c. c_status c = Active) (db_catalogs st') \<noteq> []"
      using bootstrap_one_active [OF ok s] by (auto simp: one_active_def)
    then show ?thesis by (auto simp: 1 bootstrap_active_def filter_empty_conv)
  next
    case 2
    have "bootstrap_steps = butlast bootstrap_steps @ [enforcement_v2]" by (simp add: bootstrap_steps_def)
    with f have "foldr_res (\<lambda>s step. step t s) st (butlast bootstrap_steps @ [enforcement_v2]) = Inr st'" by simp
    then obtain s1 where "enforcement_v2 t s1 = Inr st'" by (blast dest: foldr_res_last)
    then show ?thesis unfolding 2 by (rule enforcement_done)
  next
    case (3 key)
    from foldr_res_through [OF f step] bootstrap_step_runs obtain s1 s2 where "step t s1 = Inr s2" "runs s2 st'" by blast
    with marked_step_marks [OF 3] have "get_config key st' \<noteq> None" using markers.kept_by_runs [of s2 st' key] by blast
    with marked_step_skips [OF 3] show ?thesis by blast
  qed
qed

section \<open>Legacy balances\<close>

definition legacy_wallet :: "int \<Rightarrow> user_row \<Rightarrow> wallet" where
  "legacy_wallet t u = fresh_wallet (u_id u) (u_balance_cents u * POINT_SCALE) Legacy (u_balance_cents u) t"

lemma migrate_user_wallets:
  "db_wallets (migrate_user_v1 t u st) = db_wallets (insert_wallet_or_ignore (legacy_wallet t u) st)"
  unfolding migrate_user_v1_def legacy_wallet_def Let_def new_id_def prod.case insert_ledger_row_def by simp

lemma migrate_user_users: "db_users (migrate_user_v1 t u st) = db_users st"
  unfolding migrate_user_v1_def insert_wallet_or_ignore_def insert_wallet_def Let_def new_id_def prod.case
    insert_ledger_row_def by (simp split: sum.split)

lemma legacy_wallet_id [simp]: "w_user_id (legacy_wallet t u) = u_id u"
  by (simp add: legacy_wallet_def fresh_wallet_def)

lemma migrate_user_row:
  assumes "0 \<le> u_balance_cents u" and "get_wallet (u_id u) st = None"
  shows "db_wallets (migrate_user_v1 t u st) = db_wallets st @ [legacy_wallet t u]"
proof -
  have "0 \<le> u_balance_cents u * POINT_SCALE" using assms(1) by (simp add: POINT_SCALE_def)
  then have "cash_trigger (legacy_wallet t u) = legacy_wallet t u" "wallet_check (legacy_wallet t u)"
    by (simp_all add: legacy_wallet_def fresh_wallet_def cash_trigger_def wallet_check_def)
  with assms(2) show ?thesis by (simp add: migrate_user_wallets insert_wallet_or_ignore_def insert_wallet_def)
qed

lemma migrate_users_wallets:
  assumes "distinct (map u_id us)" "\<forall>u \<in> set us. 0 \<le> u_balance_cents u \<and> get_wallet (u_id u) st = None"
  shows "db_wallets (foldl (\<lambda>s u. migrate_user_v1 t u s) st us) = db_wallets st @ map (legacy_wallet t) us"
  using assms
proof (induction us arbitrary: st)
  case (Cons u us)
  then have w: "db_wallets (migrate_user_v1 t u st) = db_wallets st @ [legacy_wallet t u]"
    by (intro migrate_user_row) simp_all
  have "get_wallet (u_id x) (migrate_user_v1 t u st) = None" if "x \<in> set us" for x
  proof -
    have "u_id x \<noteq> u_id u" "get_wallet (u_id x) st = None" using Cons.prems that by (auto simp: image_iff)
    then show ?thesis unfolding get_wallet_def w wallets_tbl.get_append by simp
  qed
  then show ?case using Cons w by simp
qed simp

lemma legacy_wallet_found:
  "distinct (map u_id us) \<Longrightarrow> row_get w_user_id i (map (legacy_wallet t) us) = map_option (legacy_wallet t) (row_get u_id i us)"
  by (induction us) (auto simp: legacy_wallet_def fresh_wallet_def)

lemma row_get_filter: "distinct (map key xs) \<Longrightarrow> x \<in> set xs \<Longrightarrow> row_get key (key x) (filter P xs) = (if P x then Some x else None)"
proof (induction xs)
  case (Cons a xs)
  have n: "x \<in> set xs \<Longrightarrow> key a \<noteq> key x" using Cons.prems(1) by (auto simp: image_iff)
  have none: "key a \<notin> key ` set xs \<Longrightarrow> row_get key (key a) (filter P xs) = None"
    by (induction xs) auto
  show ?case using Cons n none by auto
qed simp

lemma migration_v1_first:
  assumes "migration_v1 t st = Inr st'" and "get_config ''commercial_billing_migration_v1'' st = None"
    and "s1 = foldl (\<lambda>s u. migrate_user_v1 t u s) st (filter (\<lambda>u. 0 \<le> u_balance_cents u) (db_users st))"
  shows "db_wallets st' = db_wallets s1 \<and> db_users st' = db_users s1"
  using assms(1,2) unfolding migration_v1_def Let_def insert_config_def assms(3) [symmetric] by (auto split: if_splits)

lemma migration_v1_users: 
  assumes "migration_v1 t st = Inr st'"
  shows "db_users st' = db_users st"
proof -
  have "db_users (foldl (\<lambda>s u. migrate_user_v1 t u s) st us) = db_users st" for us
    by (induction us arbitrary: st) (simp_all add: migrate_user_users)
  with assms show ?thesis
    unfolding migration_v1_def Let_def insert_config_def by (auto split: if_splits)
qed

lemma migration_v1_wallets:
  assumes f: "fresh_db st" and m: "migration_v1 t st = Inr st'" and c: "get_config ''commercial_billing_migration_v1'' st = None"
    and u: "u \<in> set (db_users st)"
  shows "get_wallet (u_id u) st' = (if 0 \<le> u_balance_cents u then Some (legacy_wallet t u) else None)"
proof -
  let ?us = "filter (\<lambda>u. 0 \<le> u_balance_cents u) (db_users st)"
  have d: "distinct (map u_id (db_users st))" and w: "db_wallets st = []" using f unfolding fresh_db_def by blast+
  have "db_wallets (foldl (\<lambda>s u. migrate_user_v1 t u s) st ?us) = db_wallets st @ map (legacy_wallet t) ?us"
    by (rule migrate_users_wallets [OF distinct_map_filter [OF d]]) (simp add: get_wallet_def w)
  then have "db_wallets st' = map (legacy_wallet t) ?us" unfolding w using migration_v1_first [OF m c refl] by simp
  then have "get_wallet (u_id u) st' = map_option (legacy_wallet t) (row_get u_id (u_id u) ?us)"
    by (simp only: get_wallet_def legacy_wallet_found [OF distinct_map_filter [OF d]])
  then show ?thesis using row_get_filter [OF d u] by auto
qed

lemma migration_v1_report:
  assumes f: "fresh_db st" and m: "migration_v1 t st = Inr st'" and c: "get_config ''commercial_billing_migration_v1'' st = None"
  shows "fst (migration_report st') MigrationMissing = 0 \<and> fst (migration_report st') MigrationMismatch = 0
    \<and> fst (migration_report st') ReviewRequired = length (filter (\<lambda>u. u_balance_cents u < 0) (db_users st))"
proof -
  have s: "migration_status_of st' u = (if u_balance_cents u < 0 then ReviewRequired else MigrationOk)"
    if "u \<in> set (db_users st)" for u
    using migration_v1_wallets [OF f m c that] by (auto simp: migration_status_of_def legacy_wallet_def fresh_wallet_def)
  let ?us = "sort_key u_id (db_users st)"
  have "length (filter (\<lambda>i. mi_status i = x) (map (migration_item_of st') ?us)) =
      length (filter (\<lambda>u. (if u_balance_cents u < 0 then ReviewRequired else MigrationOk) = x) ?us)" for x
    unfolding filter_map length_map by (intro arg_cong [where f = length] filter_cong) (auto simp: migration_item_of_def s)
  moreover have "length (filter P ?us) = length (filter P (db_users st))" for P
    by (metis mset_filter mset_sort size_mset)
  ultimately show ?thesis
    using migration_v1_users [OF m] by (simp add: migration_report_def Let_def filter_empty_conv if_distrib)
qed

end
