(* ===== verification/BillingOrderProps.thy ===== *)
theory BillingOrderProps
  imports BillingReservationProps BillingStart
begin

text \<open>
  Orders: a repeated request places nothing, an approval counts once, a package gives what its
  snapshot says and a refund takes the same back, and the months of a subscription follow
  each other.
\<close>

section \<open>A package order of the demo run\<close>

definition demo_order_request :: order_request where
  "demo_order_request = \<lparr>oq_user_id = 7, oq_sku = ''pack'', oq_quantity = 1, oq_idem = ''k1'', oq_renewals = [],
     oq_payer_name = ''ann'', oq_payment_reference = ''r1'', oq_paid_at = 900, oq_note = [], oq_proof_path = []\<rparr>"

definition demo_pack :: pyval where
  "demo_pack = PDict [(''sku'', PStr ''pack''), (''price_ntd'', PInt 100), (''total_points'', PInt 12), (''bonus_images'', PInt 0)]"

definition demo_order :: order_row where
  "demo_order = pending_order (normal_request demo_order_request) ''bill_order_aaa'' CreditPack 10000 ''catalog_x''
     (PDict [(''kind'', PStr ''credit_pack''), (''item'', demo_pack), (''catalog_version'', PInt 1),
        (''catalog_id'', PStr ''catalog_x'')]) 1100"

definition demo3 :: bdb where
  "demo3 = demo1\<lparr>draws := 4, db_orders := [demo_order]\<rparr>"

lemma demo_catalog_item:
  assumes "active_row st = Some row" "c_catalog row = PDict demo_catalog" "c_id row = ''catalog_x''" "c_version row = 1"
  shows "\<exists>c. get_active_catalog st = Inr c \<and> catalog_item c ''pack'' = Inr (CreditPack, demo_pack)
    \<and> dget c ''id'' = PStr ''catalog_x'' \<and> dget c ''version'' = PInt 1"
proof -
  let ?d = "dset ''subscription'' (last LATEST_PDF_SUBSCRIPTION_PLANS)
      (dset ''subscriptions'' (PList LATEST_PDF_SUBSCRIPTION_PLANS) demo_catalog)"
  have d': "distinct (map fst ?d)" by (intro dset_keys) (simp add: demo_catalog_def)
  have m: "map_of ?d ''subscriptions'' = Some (PList LATEST_PDF_SUBSCRIPTION_PLANS)"
    "map_of ?d ''packages'' = map_of demo_catalog ''packages''" "map_of ?d ''id'' = None" "map_of ?d ''version'' = None"
    by (simp_all add: map_of_dset) (simp_all add: demo_catalog_def)
  have f: "List.find (\<lambda>item. is_dict item \<and> item_sku item = ''pack'') LATEST_PDF_SUBSCRIPTION_PLANS = None"
    by (simp add: LATEST_PDF_SUBSCRIPTION_PLANS_def item_sku_def)
  have p: "map_of demo_catalog ''packages'' = Some (PList [demo_pack])" "item_sku demo_pack = ''pack''"
    by (simp_all add: demo_catalog_def demo_pack_def item_sku_def)
  show ?thesis
    using assms p m f
    by (simp add: get_active_catalog_def with_latest_pdf_subscription_plans_def catalog_item_def dget_dupdate [OF d'] Let_def)
      (simp add: demo_pack_def)
qed

lemma demo_order_placed: "create_order demo_order_request 1100 demo1 = Inr (order_public demo_order, demo3)"
proof -
  have "(case active_row demo1 of None \<Rightarrow> False | Some row \<Rightarrow> c_catalog row = PDict demo_catalog
      \<and> c_id row = ''catalog_x'' \<and> c_version row = 1)" by code_simp
  then obtain row where "active_row demo1 = Some row" "c_catalog row = PDict demo_catalog" "c_id row = ''catalog_x''"
    "c_version row = 1" by (auto split: option.splits)
  then obtain c where c: "get_active_catalog demo1 = Inr c" "catalog_item c ''pack'' = Inr (CreditPack, demo_pack)"
    "dget c ''id'' = PStr ''catalog_x''" "dget c ''version'' = PInt 1" using demo_catalog_item by blast
  have n: "db_orders demo1 = []" "draws demo1 = 3" "uuids demo1 3 = ''aaa''" "strip ''k1'' = ''k1''" by code_simp+
  have o1: "db_orders demo1 = []" "new_id ''bill_order'' demo1 = (''bill_order_aaa'', demo1\<lparr>draws := 4\<rparr>)"
    "strip ''k1'' = ''k1''" using n by (simp_all add: new_id_def)
  have p: "int_field (vget demo_pack ''price_ntd'') = Inr 100" "vget demo_pack ''purchasable'' = PNone" by code_simp+
  have r: "check_renewals (normal_request demo_order_request) CreditPack demo1 = Inr ()"
    by (simp add: check_renewals_def normal_request_def demo_order_request_def)
  have "place_order (normal_request demo_order_request) 1100 demo1 = Inr (order_public demo_order, demo3)"
    using c o1 p r by (simp add: place_order_def demo_order_def normal_request_def demo_order_request_def normal_quantity_def
        insert_order_def pending_order_def show_order_def get_order_def kind_name_def demo3_def Let_def)
  moreover have "oq_idem (normal_request demo_order_request) = ''k1''"
    using o1(3) by (simp add: normal_request_def demo_order_request_def)
  ultimately show ?thesis using o1(1) by (simp add: create_order_def Let_def)
qed

lemma demo3_reachable: "bill_reachable demo3"
  using bill_reachable.step [OF demo1_reachable bill_step.order [OF demo_order_placed]] .

definition demo4_op :: "(order_view \<times> bdb) res" where
  "demo4_op = review_order ''bill_order_aaa'' 1 ''approved'' [] 1200 demo3"

definition demo4 :: bdb where
  "demo4 = after demo4_op"

definition demo5_op :: "(order_view \<times> bdb) res" where
  "demo5_op = refund_approved_order ''bill_order_aaa'' 1 ''unused'' 1300 demo4"

definition demo5 :: bdb where
  "demo5 = after demo5_op"

lemma demo4_run: "returned demo4_op \<and> credit_of 7 demo4 = 2000 \<and> cash_of 7 demo4 = 1200"
  by code_simp

lemma demo5_run: "returned demo5_op \<and> credit_of 7 demo5 = 800 \<and> cash_of 7 demo5 = 0"
  by code_simp

lemma demo4_approved: "\<exists>v. approve_order ''bill_order_aaa'' 1 [] 1200 demo3 = Inr (v, demo4)"
  using demo4_run returned_Inr [of demo4_op] unfolding demo4_def by (simp add: demo4_op_def review_order_def)

lemma demo5_refunded: "\<exists>v. refund_approved_order ''bill_order_aaa'' 1 ''unused'' 1300 demo4 = Inr (v, demo5)"
  using demo5_run returned_Inr [of demo5_op] unfolding demo5_def demo5_op_def by blast

lemma demo4_reachable: "bill_reachable demo4"
proof -
  obtain v where "review_order ''bill_order_aaa'' 1 ''approved'' [] 1200 demo3 = Inr (v, demo4)"
    using demo4_approved by (auto simp: review_order_def)
  then show ?thesis using bill_reachable.step [OF demo3_reachable bill_step.review] by blast
qed

lemma demo3_order: "get_order ''bill_order_aaa'' demo3 = Some demo_order" "o_status demo_order = Pending"
  "o_kind demo_order = CreditPack" "o_user_id demo_order = 7" "pack_units demo_order = 1200"
  by (simp_all add: demo3_def get_order_def) (simp add: demo_order_def pending_order_def, code_simp)+

lemma demo3_wallet: "get_wallet 7 demo3 \<noteq> None"
  by code_simp

section \<open>Placing, approving and refunding\<close>

text \<open>C10: Placing an order again with the same key and the same terms returns the stored order and
  changes nothing.\<close>

theorem place_order_again:
  assumes "create_order q t st = Inr (v, st')"
  shows "create_order q t' st' = Inr (v, st')"
  using create_order_again [OF assms] .

theorem place_order_again_witness:
  "create_order demo_order_request 1100 demo1 = Inr (order_public demo_order, demo3)
    \<and> create_order demo_order_request 5000 demo3 = Inr (order_public demo_order, demo3)"
  using demo_order_placed place_order_again [OF demo_order_placed, of 5000] by blast

text \<open>C11: Approving an approved order again changes nothing, so no order is ever credited twice.\<close>

theorem approve_once:
  assumes "bill_reachable st" and "approve_order oid actor note t st = Inr (v, st')"
  shows "approve_order oid actor' note' t' st' = Inr (v, st')"
  using approve_decided [OF reachable_books [OF assms(1)] assms(2)] decided_approve by blast

theorem approve_once_witness:
  "\<exists>v. approve_order ''bill_order_aaa'' 1 [] 1200 demo3 = Inr (v, demo4)
    \<and> approve_order ''bill_order_aaa'' 2 [] 1201 demo4 = Inr (v, demo4)"
  using demo4_approved approve_once [OF demo3_reachable] by blast

lemma order_terms_fields:
  assumes "order_terms x = order_terms y"
  shows "o_user_id x = o_user_id y \<and> o_kind x = o_kind y \<and> o_snapshot x = o_snapshot y \<and> o_quantity x = o_quantity y"
  using arg_cong [OF assms, of o_user_id] arg_cong [OF assms, of o_kind] arg_cong [OF assms, of o_snapshot]
    arg_cong [OF assms, of o_quantity] by (simp add: order_terms_def)

text \<open>C12: Approving a package credits the buyer with exactly the points of the order's snapshot times the
  quantity, all of it cash-backed, and refunding the approved order takes exactly that back:
  the two together leave every balance as it was.\<close>

theorem approve_then_refund:
  assumes "bill_reachable st" and "get_order oid st = Some r" and "o_status r = Pending" and "o_kind r = CreditPack"
    and "get_wallet (o_user_id r) st \<noteq> None" and "0 < pack_units r"
    and "approve_order oid actor note t st = Inr (v, st1)"
    and "refund_approved_order oid actor' reason t' st1 = Inr (v', st2)"
  shows "credited (o_user_id r) (pack_units r) (pack_units r) st st1 \<and> credited u 0 0 st st2"
proof -
  have c: "credited (o_user_id r) (pack_units r) (pack_units r) st st1"
    using approve_pack_effect [OF reachable_books [OF assms(1)] assms(2-5,7)] .
  have step: "bill_step st st1" by (rule bill_step.review [of oid actor "''approved''" "note" t st v]) (simp add: review_order_def assms(7))
  have r1: "bill_reachable st1" using bill_reachable.step [OF assms(1) step] .
  have "order_history st st" by (auto simp: order_history_def)
  then have "order_history st st1" using order_life.kept_by_steps [OF r_into_rtranclp [of bill_step, OF step]] by blast
  with assms(2) obtain r1 where o1: "get_order oid st1 = Some r1" "order_terms r1 = order_terms r"
    using order_edges_path unfolding order_history_def by blast
  then have same: "o_user_id r1 = o_user_id r" "o_kind r1 = o_kind r" "pack_units r1 = pack_units r"
    using order_terms_fields [OF o1(2)] unfolding pack_units_def snapshot_item_def row_quantity_def by metis+
  have a: "o_status r1 = Approved"
    using approve_decided [OF reachable_books [OF assms(1)] assms(7)] o1(1) by (auto simp: decided_def)
  obtain x where x: "get_wallet (o_user_id r) st = Some x" using assms(5) by blast
  have "0 \<le> cash_of (o_user_id r) st"
    using books_wallet_bounds [OF reachable_books [OF assms(1)] x] x by (simp add: cash_of_def)
  with c assms(6) have "cash_of (o_user_id r) st1 \<noteq> 0" by (simp add: credited_def)
  then have w: "get_wallet (o_user_id r1) st1 \<noteq> None" using same(1) by (auto simp: cash_of_def split: option.splits)
  have "credited (o_user_id r) (- pack_units r) (- pack_units r) st1 st2"
    using refund_pack_effect [OF reachable_books [OF r1] o1(1) a _ w _ assms(8)] same assms(4,6) by auto
  with c have "credited u 0 0 st st2" by (auto simp: credited_def)
  with c show ?thesis by blast
qed

theorem approve_then_refund_witness:
  "\<exists>v v'. approve_order ''bill_order_aaa'' 1 [] 1200 demo3 = Inr (v, demo4)
    \<and> refund_approved_order ''bill_order_aaa'' 1 ''unused'' 1300 demo4 = Inr (v', demo5) \<and> credited 7 0 0 demo3 demo5"
proof -
  obtain v v' where r: "approve_order ''bill_order_aaa'' 1 [] 1200 demo3 = Inr (v, demo4)"
    "refund_approved_order ''bill_order_aaa'' 1 ''unused'' 1300 demo4 = Inr (v', demo5)"
    using demo4_approved demo5_refunded by blast
  have "get_wallet (o_user_id demo_order) demo3 \<noteq> None" using demo3_wallet demo3_order by simp
  from approve_then_refund [OF demo3_reachable demo3_order(1-3) this _ r] demo3_order(5) r show ?thesis by auto
qed

section \<open>The months of a subscription\<close>

definition demo_sub_order :: order_row where
  "demo_sub_order = demo_order\<lparr>o_kind := SubscriptionOrder, o_status := Approved\<rparr>"

definition demo_sub :: bdb where
  "demo_sub = demo1\<lparr>db_orders := [demo_sub_order], db_subscriptions := [\<lparr>s_id = ''s1'', s_user_id = 7, s_plan_sku = ''pack'',
     s_status = SubActive, s_period_end = 86400, s_created_at = 0, s_updated_at = 0\<rparr>]\<rparr>"

text \<open>C13: Extending a subscription by n months adds n periods to it, each a calendar month long and each
  starting where the one before ended, the first at the end of the paid time or now, whichever
  is later; the subscription then ends where the last period does.  A month is 28 to 31 days.\<close>

theorem extension_is_gapless:
  assumes "extend_subscription r images months t st sid = Inr st'"
    and "get_subscription sid st = Some x" and "s_user_id x = o_user_id r"
  shows "\<exists>ps e. db_periods st' = db_periods st @ ps \<and> length ps = nat months
    \<and> consecutive (max t (s_period_end x)) e ps
    \<and> (\<exists>d. e = max t (s_period_end x) + d * 86400 \<and> 28 * int (nat months) \<le> d \<and> d \<le> 31 * int (nat months))
    \<and> (\<forall>y. get_subscription sid st' = Some y \<longrightarrow> s_period_end y = e \<and> s_status y = SubActive)"
proof -
  from extend_subscription_months [OF assms] obtain ps e where p: "db_periods st' = db_periods st @ ps" "length ps = nat months"
    "consecutive (max t (s_period_end x)) e ps"
    "\<forall>y. get_subscription sid st' = Some y \<longrightarrow> s_period_end y = e \<and> s_status y = SubActive" by blast
  from consecutive_days [OF p(3)] p(2) obtain d where
    "28 * int (nat months) \<le> d" "d \<le> 31 * int (nat months)" "e = max t (s_period_end x) + d * 86400" by auto
  with p show ?thesis by blast
qed

definition demo_extended :: "bdb res" where
  "demo_extended = extend_subscription demo_sub_order 10 2 1000 demo_sub ''s1''"

lemma demo_extended_run: "(case demo_extended of Inr st' \<Rightarrow> True | Inl _ \<Rightarrow> False)"
  by code_simp

theorem extension_is_gapless_witness:
  "\<exists>st' ps e. demo_extended = Inr st' \<and> db_periods st' = ps \<and> length ps = 2 \<and> consecutive 86400 e ps"
proof -
  obtain st' where s: "demo_extended = Inr st'" using demo_extended_run by (auto split: sum.splits)
  define x where "x = hd (db_subscriptions demo_sub)"
  have x: "get_subscription ''s1'' demo_sub = Some x" "s_user_id x = o_user_id demo_sub_order" "s_period_end x = 86400"
    by (simp_all add: x_def demo_sub_def get_subscription_def demo_sub_order_def demo_order_def pending_order_def
        normal_request_def demo_order_request_def)
  have "db_periods demo_sub = []" by code_simp
  with extension_is_gapless [OF s [unfolded demo_extended_def] x(1,2)] x(3) s show ?thesis by auto
qed

end
