(* ===== verification/BillingHistoryProps.thy ===== *)
theory BillingHistoryProps
  imports BillingOrderProps
begin

text \<open>
  What no operation changes: the constraints of the tables, the published catalogs, the ledger
  entries, the terms of an order or a hold.  And what a restart does: nothing.
\<close>

section \<open>Tables\<close>



text \<open>C15: A reachable database has exactly one active catalog version, so every price lookup has one
  answer.\<close>

theorem one_active_catalog:
  assumes "bill_reachable st"
  shows "\<exists>c. filter (\<lambda>c. c_status c = Active) (db_catalogs st) = [c] \<and> active_row st = Some c"
proof -
  have "length (filter (\<lambda>c. c_status c = Active) (db_catalogs st)) = 1"
    using reachable_one_active [OF assms] by (simp add: one_active_def)
  then obtain c where c: "filter (\<lambda>c. c_status c = Active) (db_catalogs st) = [c]" by (auto simp: length_Suc_conv)
  have "active_row st = Some c" unfolding active_row_def c by (simp add: latest_version_def)
  with c show ?thesis by blast
qed

theorem one_active_catalog_witness:
  "bill_reachable demo0 \<and> (\<exists>c. active_row demo0 = Some c \<and> c_id c = ''catalog_x'')"
proof -
  have "map c_id (filter (\<lambda>c. c_status c = Active) (db_catalogs demo0)) = [''catalog_x'']" by code_simp
  with one_active_catalog [OF demo0_reachable] demo0_reachable show ?thesis by fastforce
qed

text \<open>C16: A version that has been published keeps its identifier, number and content whatever happens later: it
  can only be retired.\<close>

theorem published_is_immutable:
  assumes "bill_reachable st" and "bill_step\<^sup>*\<^sup>* st st'" and "c \<in> set (db_catalogs st)" and "c_status c \<noteq> Draft"
  shows "\<exists>c' \<in> set (db_catalogs st'). catalog_content c' = catalog_content c \<and> c_status c' \<noteq> Draft"
proof -
  have "catalog_history st st" using reachable_schema [OF assms(1)] by (auto simp: catalog_history_def)
  then have "catalog_history st st'" using catalog_life.kept_by_steps [OF assms(2)] by blast
  with assms(3,4) show ?thesis by (simp add: catalog_history_def)
qed

lemma demo_steps: "bill_step\<^sup>*\<^sup>* demo3 demo4" "bill_step\<^sup>*\<^sup>* demo1 demo3"
proof -
  obtain v where v: "approve_order ''bill_order_aaa'' 1 [] 1200 demo3 = Inr (v, demo4)" using demo4_approved by blast
  have "bill_step demo3 demo4"
    by (rule bill_step.review [of "''bill_order_aaa''" 1 "''approved''" "[]" 1200 demo3 v]) (simp add: review_order_def v)
  then show "bill_step\<^sup>*\<^sup>* demo3 demo4" by (rule r_into_rtranclp)
  show "bill_step\<^sup>*\<^sup>* demo1 demo3" using bill_step.order [OF demo_order_placed] by (rule r_into_rtranclp)
qed

theorem published_is_immutable_witness:
  "\<exists>c' \<in> set (db_catalogs demo4). c_version c' = 1 \<and> c_status c' \<noteq> Draft"
proof -
  define c where "c = hd (db_catalogs demo3)"
  have c: "c \<in> set (db_catalogs demo3)" "c_status c \<noteq> Draft" "c_version c = 1"
    unfolding c_def by code_simp+
  from published_is_immutable [OF demo3_reachable demo_steps(1) c(1,2)] obtain c' where
    "c' \<in> set (db_catalogs demo4)" "catalog_content c' = catalog_content c" "c_status c' \<noteq> Draft" by blast
  with c(3) show ?thesis by (auto simp: catalog_content_def)
qed



text \<open>C18: The life of an order: its terms (buyer, item, price, snapshot) never change, its status only moves
  from pending to approved, rejected or cancelled and from approved to refunded, and a rejected,
  cancelled or refunded order never changes again.\<close>

theorem order_life_cycle:
  assumes "bill_step\<^sup>*\<^sup>* st st'" and "get_order oid st = Some x"
  shows "\<exists>y. get_order oid st' = Some y \<and> order_terms y = order_terms x \<and> (o_status x, o_status y) \<in> order_edges\<^sup>*
    \<and> (o_status x \<in> {Rejected, Cancelled, Refunded} \<longrightarrow> y = x)"
proof -
  have "order_history st st" by (auto simp: order_history_def)
  then have "order_history st st'" using order_life.kept_by_steps [OF assms(1)] by blast
  with assms(2) show ?thesis using order_edges_path unfolding order_history_def by blast
qed

theorem order_life_cycle_witness:
  "\<exists>y. get_order ''bill_order_aaa'' demo4 = Some y \<and> (Pending, o_status y) \<in> order_edges\<^sup>*"
  using order_life_cycle [OF demo_steps(1) demo3_order(1)] demo3_order(2) by fastforce



section \<open>Starting again\<close>

text \<open>C20: Starting the application again on a database it has already started on changes nothing: every
  migration finds its marker.\<close>

theorem second_start:
  assumes "schema_ok st" and "bootstrap_billing t st = Inr st'"
  shows "bootstrap_billing t' st' = Inr st'"
  using bootstrap_again [OF assms] .

theorem second_start_witness:
  "bootstrap_billing 1 demo0 = Inr demo0 \<and> bootstrap_billing 2 demo0 = Inr demo0"
  using demo0_bootstrap second_start [OF fresh_schema [OF demo0_fresh] demo0_bootstrap] by blast

text \<open>C21: The first migration turns every legacy balance that is not negative into a wallet of exactly that
  many points and creates none for a negative one; the migration report then shows nothing
  missing and nothing mismatched, and lists the negative balances for review.\<close>

theorem legacy_balances:
  assumes "fresh_db st" and "migration_v1 t st = Inr st'" and "get_config ''commercial_billing_migration_v1'' st = None"
  shows "(\<forall>u \<in> set (db_users st). get_wallet (u_id u) st' =
        (if 0 \<le> u_balance_cents u then Some (legacy_wallet t u) else None))
    \<and> fst (migration_report st') MigrationMissing = 0 \<and> fst (migration_report st') MigrationMismatch = 0
    \<and> fst (migration_report st') ReviewRequired = length (filter (\<lambda>u. u_balance_cents u < 0) (db_users st))"
  using migration_v1_wallets [OF assms] migration_v1_report [OF assms] by blast

definition demo_legacy :: bdb where
  "demo_legacy = demo0\<lparr>db_config := [], db_users := [\<lparr>u_id = 7, u_username = ''ann'', u_is_admin = False, u_balance_cents = 3\<rparr>,
     \<lparr>u_id = 8, u_username = ''bob'', u_is_admin = False, u_balance_cents = - 5\<rparr>]\<rparr>"

theorem legacy_balances_witness:
  "\<exists>st'. migration_v1 1 demo_legacy = Inr st' \<and> credit_of 7 st' = 300 \<and> get_wallet 8 st' = None
    \<and> fst (migration_report st') ReviewRequired = 1"
proof -
  have f: "fresh_db demo_legacy"
    using demo_uuids_ok unfolding fresh_db_def demo_legacy_def demo0_def catalogs_ok_def by simp
  have c: "get_config ''commercial_billing_migration_v1'' demo_legacy = None"
    and legacy_run: "(case migration_v1 1 demo_legacy of Inr _ \<Rightarrow> True | Inl _ \<Rightarrow> False)" by code_simp+
  obtain st' where s: "migration_v1 1 demo_legacy = Inr st'"
    using legacy_run by (auto split: sum.splits)
  from legacy_balances [OF f s c] s show ?thesis
    by (auto simp: demo_legacy_def credit_of_def legacy_wallet_def fresh_wallet_def POINT_SCALE_def)
qed

end
