(* ===== verification/Decimal28.thy ===== *)
theory Decimal28
  imports PyValue
begin

text \<open>
  Python's \<open>decimal\<close> module in its default context, as far as the purchasing code uses it:
  28 significant digits, rounding half to even.  A finite \<open>Decimal\<close> is a sign, a coefficient
  and an exponent, because \<open>str\<close> shows all three; \<open>dval\<close> is the number it stands for.
  Construction from a string and comparison are exact, arithmetic rounds.  The exponent
  limits of the context (plus or minus 999999) are not modelled.
\<close>

section \<open>Values\<close>

datatype decimal = Dec (dneg: bool) (dcoef: int) (dexp: int)

datatype parsed_decimal = Finite decimal | DNan | DInfinity bool

definition dval :: "decimal \<Rightarrow> rat" where
  "dval d = (if dneg d then - 1 else 1) * of_int (dcoef d) * 10 powi dexp d"

definition dint :: "int \<Rightarrow> decimal" where
  "dint i = Dec (i < 0) \<bar>i\<bar> 0"

definition num_digits :: "int \<Rightarrow> nat" where
  "num_digits c = length (show_nonneg c)"

text \<open>\<open>_fix\<close>: a coefficient of more than 28 digits is rounded half to even.\<close>

definition dec_prec :: nat where "dec_prec = 28"

definition half_even_quot :: "int \<Rightarrow> int \<Rightarrow> int" where
  "half_even_quot c k = (let q = c div k; r = c mod k in
     if 2 * r < k then q else if k < 2 * r then q + 1 else if even q then q else q + 1)"

definition dec_fix :: "decimal \<Rightarrow> decimal" where
  "dec_fix d = (let n = num_digits (dcoef d) in
     if n \<le> dec_prec then d
     else let k = n - dec_prec; q = half_even_quot (dcoef d) (10 ^ k) in
       if num_digits q \<le> dec_prec then Dec (dneg d) q (dexp d + int k)
       else Dec (dneg d) (q div 10) (dexp d + int k + 1))"

section \<open>Arithmetic\<close>

definition signed_coef :: "decimal \<Rightarrow> int \<Rightarrow> int" where
  "signed_coef d e = (if dneg d then - 1 else 1) * dcoef d * 10 ^ nat (dexp d - e)"

definition dec_add :: "decimal \<Rightarrow> decimal \<Rightarrow> decimal" where
  "dec_add a b = (let e = min (dexp a) (dexp b); s = signed_coef a e + signed_coef b e in
     dec_fix (Dec (if s = 0 then dneg a \<and> dneg b else s < 0) \<bar>s\<bar> e))"

definition dec_mul :: "decimal \<Rightarrow> decimal \<Rightarrow> decimal" where
  "dec_mul a b = dec_fix (Dec (dneg a \<noteq> dneg b) (dcoef a * dcoef b) (dexp a + dexp b))"

text \<open>
  \<open>__truediv__\<close> on a non-zero divisor: one guard digit, sticky when inexact; an exact
  quotient drops trailing zeros down to the ideal exponent.
\<close>

fun strip_zeros :: "nat \<Rightarrow> int \<Rightarrow> int \<Rightarrow> int \<times> int" where
  "strip_zeros 0 c e = (c, e)"
| "strip_zeros (Suc n) c e = (if c mod 10 = 0 then strip_zeros n (c div 10) (e + 1) else (c, e))"

definition dec_div :: "decimal \<Rightarrow> decimal \<Rightarrow> decimal" where
  "dec_div a b =
     (if dcoef a = 0 then Dec (dneg a \<noteq> dneg b) 0 (dexp a - dexp b)
      else
        let shift = int (num_digits (dcoef b)) - int (num_digits (dcoef a)) + int dec_prec + 1;
            e = dexp a - dexp b - shift;
            n = (if 0 \<le> shift then dcoef a * 10 ^ nat shift else dcoef a);
            m = (if 0 \<le> shift then dcoef b else dcoef b * 10 ^ nat (- shift));
            c = n div m in
        if n mod m \<noteq> 0 then dec_fix (Dec (dneg a \<noteq> dneg b) (if c mod 5 = 0 then c + 1 else c) e)
        else let (c', e') = strip_zeros (nat (dexp a - dexp b - e)) c e in
          dec_fix (Dec (dneg a \<noteq> dneg b) c' e'))"

text \<open>\<open>int(x.quantize(Decimal("1"), rounding=ROUND_CEILING))\<close>.\<close>

definition dec_ceiling :: "decimal \<Rightarrow> int res" where
  "dec_ceiling d = (let n = \<lceil>dval d\<rceil> in
     if dec_prec < num_digits \<bar>n\<bar> then Inl InvalidOperation else Inr n)"

section \<open>Reading and writing\<close>

definition digits_val :: "string \<Rightarrow> int" where
  "digits_val s = foldl (\<lambda>acc c. acc * 10 + digit_val c) 0 s"

definition read_exponent :: "string \<Rightarrow> int option" where
  "read_exponent s = signed (\<lambda>t. if t = [] \<or> (\<exists>c \<in> set t. \<not> is_digit c) then None else Some (digits_val t)) uminus s"

definition read_unsigned_decimal :: "bool \<Rightarrow> string \<Rightarrow> parsed_decimal option" where
  "read_unsigned_decimal neg s =
     (let l = lower s in
      if l = ''inf'' \<or> l = ''infinity'' then Some (DInfinity neg)
      else if (starts_with ''nan'' l \<and> (\<forall>c \<in> set (drop 3 l). is_digit c))
           \<or> (starts_with ''snan'' l \<and> (\<forall>c \<in> set (drop 4 l). is_digit c)) then Some DNan
      else
        let m = takeWhile (\<lambda>c. c \<noteq> CHR ''e'') l; rest = dropWhile (\<lambda>c. c \<noteq> CHR ''e'') l;
            ip = takeWhile (\<lambda>c. c \<noteq> CHR ''.'') m; fp = drop 1 (dropWhile (\<lambda>c. c \<noteq> CHR ''.'') m) in
        if ip @ fp = [] \<or> (\<exists>c \<in> set (ip @ fp). \<not> is_digit c) then None
        else case (if rest = [] then Some 0 else read_exponent (tl rest)) of
          None \<Rightarrow> None
        | Some e \<Rightarrow> Some (Finite (Dec neg (digits_val (ip @ fp)) (e - int (length fp)))))"

text \<open>\<open>Decimal(s)\<close>; \<open>None\<close> is \<open>InvalidOperation\<close>.\<close>

definition dec_parse :: "string \<Rightarrow> parsed_decimal option" where
  "dec_parse s =
     (case filter (\<lambda>c. c \<noteq> CHR ''_'') (strip s) of
        [] \<Rightarrow> None
      | c # cs \<Rightarrow>
        if c = CHR ''-'' then read_unsigned_decimal True cs
        else if c = CHR ''+'' then read_unsigned_decimal False cs
        else read_unsigned_decimal False (c # cs))"

definition show_signed :: "int \<Rightarrow> string" where
  "show_signed i = (if i < 0 then CHR ''-'' # show_nonneg (- i) else CHR ''+'' # show_nonneg i)"

definition dec_str :: "decimal \<Rightarrow> string" where
  "dec_str d =
     (let ds = show_nonneg (dcoef d); len = int (length ds); left = dexp d + len;
          sgn = (if dneg d then ''-'' else []) in
      if dexp d \<le> 0 \<and> - 6 < left then
        (if left \<le> 0 then sgn @ ''0.'' @ replicate (nat (- left)) (CHR ''0'') @ ds
         else if len \<le> left then sgn @ ds
         else sgn @ take (nat left) ds @ ''.'' @ drop (nat left) ds)
      else sgn @ take 1 ds @ (if length ds \<le> 1 then [] else CHR ''.'' # drop 1 ds)
        @ (if left = 1 then [] else CHR ''E'' # show_signed (left - 1)))"

end
