(* ===== verification/ExchangeRates.thy ===== *)
theory ExchangeRates
  imports Decimal28
begin

text \<open>
  The USD/TWD reference rate (webapp/exchange_rates.py): a remote quote with a bounded
  cache.  The HTTP request is the parameter \<open>remote\<close>, the decoded JSON body or \<open>None\<close> when
  the request or its decoding failed; the environment override is the parameter
  \<open>override\<close>; the module variable \<open>_CACHE\<close> is passed in and out.
\<close>

record exchange_quote =
  xq_base :: string
  xq_quote :: string
  xq_rate :: decimal
  xq_source :: string
  xq_fetched_at :: int
  xq_source_date :: string
  xq_stale :: bool

definition CACHE_TTL_SECONDS :: int where "CACHE_TTL_SECONDS = 900"
definition STALE_TTL_SECONDS :: int where "STALE_TTL_SECONDS = 86400"

definition exchange_public :: "exchange_quote \<Rightarrow> pydict" where
  "exchange_public q =
     [(''base'', PStr (xq_base q)), (''quote'', PStr (xq_quote q)), (''rate'', PStr (dec_str (xq_rate q))),
      (''source'', PStr (xq_source q)), (''fetched_at'', PInt (xq_fetched_at q)),
      (''source_date'', PStr (xq_source_date q)), (''stale'', PBool (xq_stale q))]"

text \<open>\<open>_parse_rate\<close>; \<open>None\<close> is \<open>ExchangeRateError\<close>.\<close>

definition parse_rate :: "pyval \<Rightarrow> (decimal \<times> string) option" where
  "parse_rate payload =
     (if \<not> is_dict payload then None
      else case dec_parse (py_str (vget payload ''rate'')) of
        Some (Finite rate) \<Rightarrow>
          if dval rate \<le> 0 then None else Some (rate, take 32 (str_field (vget payload ''date'')))
      | _ \<Rightarrow> None)"

definition fetch_remote :: "pyval option \<Rightarrow> int \<Rightarrow> exchange_quote option" where
  "fetch_remote remote now =
     Option.bind remote (\<lambda>payload. map_option (\<lambda>(rate, date).
       \<lparr>xq_base = ''USD'', xq_quote = ''TWD'', xq_rate = rate, xq_source = ''Frankfurter'',
        xq_fetched_at = now, xq_source_date = date, xq_stale = False\<rparr>) (parse_rate payload))"

definition get_usd_twd_rate ::
  "bool \<Rightarrow> int \<Rightarrow> string \<Rightarrow> pyval option \<Rightarrow> exchange_quote option \<Rightarrow> exchange_quote option \<times> exchange_quote option" where
  "get_usd_twd_rate force_refresh current override remote cache =
     (if strip override \<noteq> [] then
        (map_option (\<lambda>(rate, _).
           \<lparr>xq_base = ''USD'', xq_quote = ''TWD'', xq_rate = rate, xq_source = ''test-override'',
            xq_fetched_at = current, xq_source_date = [], xq_stale = False\<rparr>)
           (parse_rate (PDict [(''rate'', PStr (strip override))])), cache)
      else case cache of
        Some cached \<Rightarrow>
          if \<not> force_refresh \<and> current - xq_fetched_at cached < CACHE_TTL_SECONDS then (Some cached, cache)
          else (case fetch_remote remote current of
              Some refreshed \<Rightarrow> (Some refreshed, Some refreshed)
            | None \<Rightarrow>
              (if current - xq_fetched_at cached < STALE_TTL_SECONDS
               then (Some (cached\<lparr>xq_stale := True\<rparr>), cache) else (None, cache)))
      | None \<Rightarrow> (case fetch_remote remote current of
            Some refreshed \<Rightarrow> (Some refreshed, Some refreshed)
          | None \<Rightarrow> (None, None)))"

section \<open>Properties\<close>

lemma parse_rate_positive: "parse_rate p = Some (r, d) \<Longrightarrow> 0 < dval r"
  by (auto simp: parse_rate_def split: if_splits option.splits parsed_decimal.splits)

lemma fetch_remote_fresh:
  "fetch_remote remote t = Some q \<Longrightarrow> 0 < dval (xq_rate q) \<and> xq_fetched_at q = t"
  by (auto simp: fetch_remote_def Option.bind_eq_Some_conv parse_rate_positive)

definition cache_ok :: "exchange_quote option \<Rightarrow> bool" where
  "cache_ok c = (\<forall>q. c = Some q \<longrightarrow> 0 < dval (xq_rate q))"

lemma rate_keeps_cache:
  "cache_ok c \<Longrightarrow> get_usd_twd_rate f t ov remote c = (r, c') \<Longrightarrow> cache_ok c'"
  by (auto simp: get_usd_twd_rate_def cache_ok_def dest: fetch_remote_fresh fetch_remote_fresh [OF sym] split: if_splits option.splits)

lemma rate_positive:
  "cache_ok c \<Longrightarrow> get_usd_twd_rate f t ov remote c = (Some q, c') \<Longrightarrow> 0 < dval (xq_rate q)"
  by (auto simp: get_usd_twd_rate_def cache_ok_def dest: fetch_remote_fresh fetch_remote_fresh [OF sym] parse_rate_positive
      split: if_splits option.splits)

lemma rate_age:
  "get_usd_twd_rate f t ov remote c = (Some q, c') \<Longrightarrow> t - xq_fetched_at q < STALE_TTL_SECONDS"
  by (auto simp: get_usd_twd_rate_def CACHE_TTL_SECONDS_def STALE_TTL_SECONDS_def dest: fetch_remote_fresh fetch_remote_fresh [OF sym]
      split: if_splits option.splits)

end
