(* ===== verification/ProxyPricing.thy ===== *)
theory ProxyPricing
  imports BillingVersions ExchangeRates
begin

text \<open>
  The pricing half of webapp/proxy_purchases.py: reading decimals out of a configuration
  (\<open>_decimal\<close>), what a purchase costs in points (\<open>_points_units\<close>), the revenue it must
  bring (\<open>_required_revenue_ntd\<close>, \<open>_assert_profitable\<close>), the exchange rate in force
  (\<open>_effective_usd_twd_rate\<close>), the checks on a configuration (\<open>validate_config\<close>) and the
  cheapest cash-backed point of the active catalog (\<open>_lowest_cash_per_point\<close>).
\<close>

section \<open>Reading a configuration\<close>

definition dget_default :: "pydict \<Rightarrow> string \<Rightarrow> pyval \<Rightarrow> pyval" where
  "dget_default d k v = (if has_key k d then dget d k else v)"

definition invalid_config :: "'a res" where
  "invalid_config = Inl (PurchaseError ''INVALID_CONFIG'' 400)"

definition decimal_of :: "pyval \<Rightarrow> decimal \<Rightarrow> decimal res" where
  "decimal_of v minimum =
     (case dec_parse (py_str v) of
        Some (Finite d) \<Rightarrow> if dval d < dval minimum then invalid_config else Inr d
      | _ \<Rightarrow> invalid_config)"

definition zero :: decimal where "zero = Dec False 0 0"
definition one :: decimal where "one = Dec False 1 0"
definition cent :: decimal where "cent = Dec False 1 (- 2)"
definition millionth :: decimal where "millionth = Dec False 1 (- 6)"

text \<open>\<open>value not in (None, "")\<close>.\<close>

definition given :: "pyval \<Rightarrow> bool" where
  "given v = (v \<noteq> PNone \<and> v \<noteq> PStr [])"

definition PURCHASE_POINT_SCALE :: decimal where "PURCHASE_POINT_SCALE = dint 100"

definition minor_units :: "decimal \<Rightarrow> int res" where
  "minor_units amount = dec_ceiling (dec_mul amount (dint 100))"

section \<open>Prices\<close>

definition points_units :: "decimal \<Rightarrow> pydict \<Rightarrow> decimal option \<Rightarrow> decimal option \<Rightarrow> int res" where
  "points_units amount config cash_per_point fx_rate =
     (if str_field (dget config ''pricing_mode'') = ''supplier_plus_profit_ntd'' then
        (case (cash_per_point, fx_rate) of
           (Some cash, Some fx) \<Rightarrow>
             if dval cash \<le> 0 \<or> dval fx \<le> 0 then invalid_config
             else bindr (decimal_of (dget_default config ''profit_ntd'' (PInt 0)) zero) (\<lambda>profit.
               dec_ceiling (dec_mul (dec_div (dec_add (dec_mul amount fx) profit) cash) PURCHASE_POINT_SCALE))
         | _ \<Rightarrow> invalid_config)
      else
        bindr (decimal_of (dget config ''points_per_usd'') cent) (\<lambda>per_usd.
        bindr (decimal_of (dget_default config ''fixed_fee_points'' (PInt 0)) zero) (\<lambda>fixed.
        bindr (decimal_of (dget_default config ''safety_buffer_usd'' (PInt 0)) zero) (\<lambda>safety.
        bindr (decimal_of (dget_default config ''minimum_profit_usd'' (PInt 0)) zero) (\<lambda>profit.
        dec_ceiling (dec_mul (dec_add (dec_mul (dec_add (dec_add amount safety) profit) per_usd) fixed)
          PURCHASE_POINT_SCALE))))))"

definition required_revenue_ntd :: "decimal \<Rightarrow> pydict \<Rightarrow> decimal option \<Rightarrow> decimal res" where
  "required_revenue_ntd amount config fx_rate =
     (if str_field (dget config ''pricing_mode'') = ''supplier_plus_profit_ntd'' then
        bindr (case fx_rate of
            Some fx \<Rightarrow> if dval fx \<noteq> 0 then Inr fx
              else decimal_of (py_or (dget config ''manual_usd_to_ntd_rate'') (dget config ''usd_to_ntd_rate'')) millionth
          | None \<Rightarrow> decimal_of (py_or (dget config ''manual_usd_to_ntd_rate'') (dget config ''usd_to_ntd_rate'')) millionth)
          (\<lambda>fx.
        bindr (decimal_of (dget_default config ''profit_ntd'' (PInt 0)) zero) (\<lambda>profit.
        Inr (dec_add (dec_mul amount fx) profit)))
      else
        bindr (decimal_of (dget config ''usd_to_ntd_rate'') millionth) (\<lambda>fx.
        bindr (decimal_of (dget_default config ''payment_fee_rate'' (PInt 0)) zero) (\<lambda>fee.
        if 1 < dval fee then invalid_config
        else
          bindr (decimal_of (dget_default config ''safety_buffer_usd'' (PInt 0)) zero) (\<lambda>safety.
          bindr (decimal_of (dget_default config ''minimum_profit_usd'' (PInt 0)) zero) (\<lambda>profit.
          Inr (dec_add (dec_mul (dec_mul (dec_add amount safety) fx) (dec_add one fee)) (dec_mul profit fx)))))))"

definition revenue_ntd :: "int \<Rightarrow> decimal \<Rightarrow> decimal" where
  "revenue_ntd credit_units cash_per_point =
     dec_mul (dec_div (dint credit_units) PURCHASE_POINT_SCALE) cash_per_point"

definition assert_profitable :: "decimal \<Rightarrow> int \<Rightarrow> pydict \<Rightarrow> decimal \<Rightarrow> decimal option \<Rightarrow> unit res" where
  "assert_profitable amount credit_units config cash_per_point fx_rate =
     bindr (required_revenue_ntd amount config fx_rate) (\<lambda>required.
     if dval (revenue_ntd credit_units cash_per_point) < dval required
     then Inl (PurchaseError ''UNPROFITABLE_PRICE'' 409) else Inr ())"

section \<open>The exchange rate in force\<close>

text \<open>\<open>reference\<close> is the result of \<open>exchange_rates.get_usd_twd_rate\<close>, \<open>None\<close> its exception.\<close>

definition effective_usd_twd_rate ::
  "exchange_quote option \<Rightarrow> pydict \<Rightarrow> int \<Rightarrow> (decimal \<times> pydict) res" where
  "effective_usd_twd_rate reference config now =
     (let mode = str_field (py_or (dget config ''fx_rate_mode'') (PStr ''auto'')) in
      case reference of
        None \<Rightarrow>
          if mode = ''manual'' then
            bindr (decimal_of (dget config ''manual_usd_to_ntd_rate'') millionth) (\<lambda>manual.
            Inr (manual, [(''base'', PStr ''USD''), (''quote'', PStr ''TWD''), (''rate'', PStr (dec_str manual)),
              (''reference_rate'', PStr []), (''mode'', PStr ''manual''), (''source'', PStr ''manual-fallback''),
              (''fetched_at'', PInt now), (''stale'', PBool True)]))
          else Inl (PurchaseError ''FX_RATE_UNAVAILABLE'' 503)
      | Some ref \<Rightarrow>
          bindr (if mode = ''manual'' then
              bindr (decimal_of (dget config ''manual_usd_to_ntd_rate'') millionth) (\<lambda>manual.
              Inr (if dval (xq_rate ref) < dval manual then manual else xq_rate ref))
            else Inr (xq_rate ref)) (\<lambda>effective.
          Inr (effective, dupdate (exchange_public ref)
            [(''rate'', PStr (dec_str effective)), (''reference_rate'', PStr (dec_str (xq_rate ref))),
             (''mode'', PStr mode)])))"

section \<open>Validating a configuration\<close>

definition DEFAULT_CONFIG :: pydict where
  "DEFAULT_CONFIG =
     [(''enabled'', PBool False), (''provider'', PStr ''proxycheap''),
      (''service_id'', PStr ''static-residential-ipv4''), (''plan_id'', PStr []),
      (''default_period_months'', PInt 1), (''min_period_months'', PInt 1), (''max_period_months'', PInt 1),
      (''pricing_mode'', PStr ''legacy_points_per_usd''), (''fx_rate_mode'', PStr ''auto''),
      (''manual_usd_to_ntd_rate'', PStr ''35.00''), (''profit_ntd'', PStr ''0.00''),
      (''points_per_usd'', PStr ''25.00''), (''fixed_fee_points'', PStr ''0.00''),
      (''max_vendor_cost_usd'', PStr ''100.00''), (''safety_buffer_usd'', PStr ''0.00''),
      (''minimum_profit_usd'', PStr ''0.00''), (''usd_to_ntd_rate'', PStr ''35.00''),
      (''payment_fee_rate'', PStr ''0.05''), (''quote_ttl_seconds'', PInt 180),
      (''default_parameters'', PDict [])]"

text \<open>\<open>int(x or d)\<close>.\<close>

definition int_or :: "pyval \<Rightarrow> int \<Rightarrow> int res" where
  "int_or v d = py_int (py_or v (PInt d))"

text \<open>Older names of three settings, accepted when the new name is absent.\<close>

definition rename_settings :: "pydict \<Rightarrow> pydict \<Rightarrow> pydict" where
  "rename_settings config merged0 =
     (let m1 = (if has_key ''default_period'' config \<and> \<not> has_key ''default_period_months'' config
            then let raw = dget config ''default_period'' in
              dset ''default_period_months''
                (case raw of PDict p \<Rightarrow> dget_default p ''value'' (PInt 1) | _ \<Rightarrow> raw) merged0
            else merged0);
          m2 = (if has_key ''setup_defaults'' config \<and> \<not> has_key ''default_parameters'' config
            then dset ''default_parameters'' (dget config ''setup_defaults'') m1 else m1) in
      if has_key ''live_purchasing_enabled'' config \<and> \<not> has_key ''enabled'' config
      then dset ''enabled'' (PBool (truthy (dget config ''live_purchasing_enabled''))) m2 else m2)"

definition clean_parameters :: "pyval \<Rightarrow> pydict" where
  "clean_parameters raw =
     (let p = (case raw of PDict d \<Rightarrow> d | _ \<Rightarrow> []);
          p' = (if truthy (dget p ''authentication'') \<and> \<not> truthy (dget p ''authenticationType'')
                then dset ''authenticationType'' (dget p ''authentication'') (AList.delete ''authentication'' p)
                else p) in
      filter (\<lambda>kv. given (snd kv)) p')"

definition STATIC_SERVICE :: string where "STATIC_SERVICE = ''static-residential-ipv4''"

text \<open>The price settings, parsed: what the checks of \<open>validate_config\<close> look at.\<close>

definition check_prices :: "pydict \<Rightarrow> (decimal \<times> decimal \<times> decimal \<times> decimal \<times> decimal) res" where
  "check_prices m =
     bindr (decimal_of (dget m ''points_per_usd'') cent) (\<lambda>_.
     bindr (decimal_of (dget m ''fixed_fee_points'') zero) (\<lambda>_.
     bindr (decimal_of (dget m ''max_vendor_cost_usd'') cent) (\<lambda>max_cost.
     bindr (decimal_of (dget m ''safety_buffer_usd'') zero) (\<lambda>safety.
     bindr (decimal_of (dget m ''minimum_profit_usd'') zero) (\<lambda>profit.
     bindr (decimal_of (dget m ''usd_to_ntd_rate'') millionth) (\<lambda>fx.
     bindr (decimal_of (dget_default m ''payment_fee_rate'' (PInt 0)) zero) (\<lambda>fee.
     if 1 < dval fee then invalid_config else Inr (max_cost, safety, profit, fx, fee))))))))"

definition check_modes :: "pydict \<Rightarrow> (string \<times> string \<times> decimal \<times> decimal) res" where
  "check_modes m =
     (let pricing_mode = str_field (py_or (dget m ''pricing_mode'') (PStr ''legacy_points_per_usd''));
          fx_mode = str_field (py_or (dget m ''fx_rate_mode'') (PStr ''auto'')) in
      if pricing_mode \<notin> {''legacy_points_per_usd'', ''supplier_plus_profit_ntd''} then invalid_config
      else if fx_mode \<notin> {''auto'', ''manual''} then invalid_config
      else
        bindr (decimal_of (py_or (dget m ''manual_usd_to_ntd_rate'') (dget m ''usd_to_ntd_rate'')) millionth)
          (\<lambda>manual_fx.
        bindr (decimal_of (dget_default m ''profit_ntd'' (PInt 0)) zero) (\<lambda>profit_ntd.
        Inr (pricing_mode, fx_mode, manual_fx, profit_ntd))))"

definition check_cash_price :: "string \<Rightarrow> decimal \<Rightarrow> pydict \<Rightarrow> unit res" where
  "check_cash_price pricing_mode max_cost m =
     (if \<not> given (dget m ''lowest_cash_per_point'') then Inr ()
      else bindr (decimal_of (dget m ''lowest_cash_per_point'') millionth) (\<lambda>cash_per_point.
        if pricing_mode = ''legacy_points_per_usd'' then
          bindr (points_units max_cost m None None) (\<lambda>max_units.
          assert_profitable max_cost max_units m cash_per_point None)
        else Inr ()))"

text \<open>The purchase duration: (default, minimum, maximum) in months.\<close>

definition check_months :: "pydict \<Rightarrow> pydict \<Rightarrow> (int \<times> int \<times> int) res" where
  "check_months config m =
     bindr (int_or (dget m ''default_period_months'') 1) (\<lambda>months.
     if months < 1 \<or> 36 < months then invalid_config
     else
       bindr (int_or (dget config ''min_period_months'') months) (\<lambda>min_months.
       bindr (int_or (dget config ''max_period_months'') months) (\<lambda>max_months.
       if min_months < 1 \<or> 36 < max_months \<or> max_months < min_months then invalid_config
       else Inr (if months < min_months \<or> max_months < months then min_months else months,
                 min_months, max_months))))"

definition validate_config :: "pydict \<Rightarrow> pydict res" where
  "validate_config config =
     (let merged0 = dupdate DEFAULT_CONFIG config;
          provider_key = filter (\<lambda>c. c \<noteq> CHR ''-'') (lower (strip (str_field (dget merged0 ''provider'')))) in
      if provider_key \<noteq> ''proxycheap'' then invalid_config
      else
        let m = rename_settings config (dset ''provider'' (PStr ''proxycheap'') merged0);
            service_id = strip (str_field (dget m ''service_id'')) in
        if service_id = [] \<or> 160 < length service_id then invalid_config
        else if service_id \<noteq> STATIC_SERVICE then Inl (PurchaseError ''UNSUPPORTED_SERVICE'' 409)
        else
          bindr (check_months config m) (\<lambda>(months, min_months, max_months).
          bindr (int_or (dget m ''quote_ttl_seconds'') 180) (\<lambda>ttl.
          if ttl < 120 \<or> 300 < ttl then invalid_config
          else
            bindr (check_prices m) (\<lambda>(max_cost, safety, profit, fx, fee).
            bindr (check_modes m) (\<lambda>(pricing_mode, fx_mode, manual_fx, profit_ntd).
            bindr (check_cash_price pricing_mode max_cost m) (\<lambda>_.
            bindr (decimal_of (dget m ''points_per_usd'') cent) (\<lambda>per_usd.
            bindr (decimal_of (dget_default m ''fixed_fee_points'' (PInt 0)) zero) (\<lambda>fixed.
            let clean =
              [(''enabled'', PBool (truthy (dget m ''enabled''))), (''provider'', PStr ''proxycheap''),
               (''service_id'', PStr service_id), (''plan_id'', PStr (take 160 (str_field (dget m ''plan_id'')))),
               (''default_period_months'', PInt months), (''min_period_months'', PInt min_months),
               (''max_period_months'', PInt max_months), (''pricing_mode'', PStr pricing_mode),
               (''fx_rate_mode'', PStr fx_mode), (''manual_usd_to_ntd_rate'', PStr (dec_str manual_fx)),
               (''profit_ntd'', PStr (dec_str profit_ntd)), (''points_per_usd'', PStr (dec_str per_usd)),
               (''fixed_fee_points'', PStr (dec_str fixed)), (''max_vendor_cost_usd'', PStr (dec_str max_cost)),
               (''safety_buffer_usd'', PStr (dec_str safety)), (''minimum_profit_usd'', PStr (dec_str profit)),
               (''usd_to_ntd_rate'', PStr (dec_str fx)), (''payment_fee_rate'', PStr (dec_str fee)),
               (''quote_ttl_seconds'', PInt ttl),
               (''default_parameters'', PDict (clean_parameters (dget m ''default_parameters'')))] in
            if given (dget m ''lowest_cash_per_point'') then
              bindr (decimal_of (dget m ''lowest_cash_per_point'') millionth) (\<lambda>cash.
              Inr (clean @ [(''lowest_cash_per_point'', PStr (dec_str cash))]))
            else Inr clean))))))))"

section \<open>The cheapest cash-backed point\<close>

definition package_rate :: "pyval \<Rightarrow> decimal option res" where
  "package_rate package =
     (case package of
        PDict p \<Rightarrow>
          bindr (decimal_of (dget_default p ''total_points'' (PInt 0)) zero) (\<lambda>total_points.
          bindr (decimal_of (dget_default p ''price_ntd'' (PInt 0)) zero) (\<lambda>price.
          Inr (if 0 < dval total_points \<and> 0 < dval price then Some (dec_div price total_points) else None)))
      | _ \<Rightarrow> Inr None)"

fun min_decimal :: "decimal list \<Rightarrow> decimal option" where
  "min_decimal [] = None"
| "min_decimal (d # ds) = Some (foldl (\<lambda>best x. if dval x < dval best then x else best) d ds)"

definition lowest_cash_per_point :: "bdb \<Rightarrow> decimal res" where
  "lowest_cash_per_point st =
     bindr (get_active_catalog st) (\<lambda>catalog.
     bindr (py_iter (py_or (dget catalog ''packages'') (PList []))) (\<lambda>packages.
     bindr (map_all package_rate packages) (\<lambda>rates.
     case min_decimal (map the (filter (\<lambda>r. r \<noteq> None) rates)) of
       None \<Rightarrow> Inl (PurchaseError ''NO_PAID_POINT_RATE'' 409)
     | Some d \<Rightarrow> Inr d)))"

definition config_public :: "pydict \<Rightarrow> pydict res" where
  "config_public config =
     (let defaults = (case py_or (dget config ''default_parameters'') (PDict []) of PDict d \<Rightarrow> d | _ \<Rightarrow> []) in
      bindr (int_or (dget config ''default_period_months'') 1) (\<lambda>period.
      Inr (dset ''live_purchasing_enabled'' (PBool (truthy (dget config ''enabled'')))
        (dset ''default_country'' (PStr (str_field (dget defaults ''country'')))
        (dset ''default_period'' (PInt period)
        (dset ''setup_defaults'' (PDict defaults) config))))))"

end
