(* ===== verification/CityNames.thy ===== *)
theory CityNames
  imports Main
begin

text \<open>
  The display names of cities (\<open>_CITY_ZH_NAMES\<close> in webapp/proxy_purchases.py), as UTF-8
  bytes.
\<close>

definition CITY_ZH_NAMES :: "(string \<times> string) list" where
  "CITY_ZH_NAMES =
    [(''Albany'', [CHR 0xE5, CHR 0xA5, CHR 0xA5, CHR 0xE5, CHR 0xB0, CHR 0x94, CHR 0xE5, CHR 0xB7, CHR 0xB4, CHR 0xE5, CHR 0xB0, CHR 0xBC]),
     (''Algiers'', [CHR 0xE9, CHR 0x98, CHR 0xBF, CHR 0xE5, CHR 0xB0, CHR 0x94, CHR 0xE5, CHR 0x8F, CHR 0x8A, CHR 0xE5, CHR 0xB0, CHR 0x94]),
     (''Almaty'', [CHR 0xE9, CHR 0x98, CHR 0xBF, CHR 0xE6, CHR 0x8B, CHR 0x89, CHR 0xE6, CHR 0x9C, CHR 0xA8, CHR 0xE5, CHR 0x9B, CHR 0xBE]),
     (''Amsterdam'', [CHR 0xE9, CHR 0x98, CHR 0xBF, CHR 0xE5, CHR 0xA7, CHR 0x86, CHR 0xE6, CHR 0x96, CHR 0xAF, CHR 0xE7, CHR 0x89, CHR 0xB9, CHR 0xE4, CHR 0xB8, CHR 0xB9]),
     (''Ashburn'', [CHR 0xE9, CHR 0x98, CHR 0xBF, CHR 0xE4, CHR 0xBB, CHR 0x80, CHR 0xE6, CHR 0x9C, CHR 0xAC]),
     (''Astana'', [CHR 0xE9, CHR 0x98, CHR 0xBF, CHR 0xE6, CHR 0x96, CHR 0xAF, CHR 0xE5, CHR 0xA1, CHR 0x94, CHR 0xE7, CHR 0xBA, CHR 0xB3]),
     (''Athens'', [CHR 0xE9, CHR 0x9B, CHR 0x85, CHR 0xE5, CHR 0x85, CHR 0xB8]),
     (''Bangkok'', [CHR 0xE6, CHR 0x9B, CHR 0xBC, CHR 0xE8, CHR 0xB0, CHR 0xB7]),
     (''Belgrade'', [CHR 0xE8, CHR 0xB4, CHR 0x9D, CHR 0xE5, CHR 0xB0, CHR 0x94, CHR 0xE6, CHR 0xA0, CHR 0xBC, CHR 0xE8, CHR 0x8E, CHR 0xB1, CHR 0xE5, CHR 0xBE, CHR 0xB7]),
     (''Berlin'', [CHR 0xE6, CHR 0x9F, CHR 0x8F, CHR 0xE6, CHR 0x9E, CHR 0x97]),
     (''Bogota'', [CHR 0xE6, CHR 0xB3, CHR 0xA2, CHR 0xE5, CHR 0x93, CHR 0xA5, CHR 0xE5, CHR 0xA4, CHR 0xA7]),
     (''Bratislava'', [CHR 0xE5, CHR 0xB8, CHR 0x83, CHR 0xE6, CHR 0x8B, CHR 0x89, CHR 0xE8, CHR 0xBF, CHR 0xAA, CHR 0xE6, CHR 0x96, CHR 0xAF, CHR 0xE6, CHR 0x8B, CHR 0x89, CHR 0xE5, CHR 0x8F, CHR 0x91]),
     (''Brussels'', [CHR 0xE5, CHR 0xB8, CHR 0x83, CHR 0xE9, CHR 0xB2, CHR 0x81, CHR 0xE5, CHR 0xA1, CHR 0x9E, CHR 0xE5, CHR 0xB0, CHR 0x94]),
     (''Bucharest'', [CHR 0xE5, CHR 0xB8, CHR 0x83, CHR 0xE5, CHR 0x8A, CHR 0xA0, CHR 0xE5, CHR 0x8B, CHR 0x92, CHR 0xE6, CHR 0x96, CHR 0xAF, CHR 0xE7, CHR 0x89, CHR 0xB9]),
     (''Budapest'', [CHR 0xE5, CHR 0xB8, CHR 0x83, CHR 0xE8, CHR 0xBE, CHR 0xBE, CHR 0xE4, CHR 0xBD, CHR 0xA9, CHR 0xE6, CHR 0x96, CHR 0xAF]),
     (''Buenos Aires'', [CHR 0xE5, CHR 0xB8, CHR 0x83, CHR 0xE5, CHR 0xAE, CHR 0x9C, CHR 0xE8, CHR 0xAF, CHR 0xBA, CHR 0xE6, CHR 0x96, CHR 0xAF, CHR 0xE8, CHR 0x89, CHR 0xBE, CHR 0xE5, CHR 0x88, CHR 0xA9, CHR 0xE6, CHR 0x96, CHR 0xAF]),
     (''Buffalo'', [CHR 0xE5, CHR 0xB8, CHR 0x83, CHR 0xE6, CHR 0xB3, CHR 0x95, CHR 0xE7, CHR 0xBD, CHR 0x97]),
     (''Cairo'', [CHR 0xE5, CHR 0xBC, CHR 0x80, CHR 0xE7, CHR 0xBD, CHR 0x97]),
     (''Caracas'', [CHR 0xE5, CHR 0x8A, CHR 0xA0, CHR 0xE6, CHR 0x8B, CHR 0x89, CHR 0xE5, CHR 0x8A, CHR 0xA0, CHR 0xE6, CHR 0x96, CHR 0xAF]),
     (''Chisinau'', [CHR 0xE5, CHR 0x9F, CHR 0xBA, CHR 0xE5, CHR 0xB8, CHR 0x8C, CHR 0xE8, CHR 0xAE, CHR 0xB7, CHR 0xE4, CHR 0xB9, CHR 0x8C]),
     (''Colombo'', [CHR 0xE7, CHR 0xA7, CHR 0x91, CHR 0xE4, CHR 0xBC, CHR 0xA6, CHR 0xE5, CHR 0x9D, CHR 0xA1]),
     (''Copenhagen'', [CHR 0xE5, CHR 0x93, CHR 0xA5, CHR 0xE6, CHR 0x9C, CHR 0xAC, CHR 0xE5, CHR 0x93, CHR 0x88, CHR 0xE6, CHR 0xA0, CHR 0xB9]),
     (''Dhaka'', [CHR 0xE8, CHR 0xBE, CHR 0xBE, CHR 0xE5, CHR 0x8D, CHR 0xA1]),
     (''Dover'', [CHR 0xE5, CHR 0xA4, CHR 0x9A, CHR 0xE4, CHR 0xBD, CHR 0x9B]),
     (''Dubai'', [CHR 0xE8, CHR 0xBF, CHR 0xAA, CHR 0xE6, CHR 0x8B, CHR 0x9C]),
     (''Dublin'', [CHR 0xE9, CHR 0x83, CHR 0xBD, CHR 0xE6, CHR 0x9F, CHR 0x8F, CHR 0xE6, CHR 0x9E, CHR 0x97]),
     (''Fair Lawn'', [CHR 0xE8, CHR 0xB4, CHR 0xB9, CHR 0xE5, CHR 0xB0, CHR 0x94, CHR 0xE5, CHR 0x8A, CHR 0xB3, CHR 0xE6, CHR 0x81, CHR 0xA9]),
     (''Frankfurt am Main'', [CHR 0xE6, CHR 0xB3, CHR 0x95, CHR 0xE5, CHR 0x85, CHR 0xB0, CHR 0xE5, CHR 0x85, CHR 0x8B, CHR 0xE7, CHR 0xA6, CHR 0x8F]),
     (''Guatemala City'', [CHR 0xE5, CHR 0x8D, CHR 0xB1, CHR 0xE5, CHR 0x9C, CHR 0xB0, CHR 0xE9, CHR 0xA9, CHR 0xAC, CHR 0xE6, CHR 0x8B, CHR 0x89, CHR 0xE5, CHR 0x9F, CHR 0x8E]),
     (''Hanoi'', [CHR 0xE6, CHR 0xB2, CHR 0xB3, CHR 0xE5, CHR 0x86, CHR 0x85]),
     (''Helsinki'', [CHR 0xE8, CHR 0xB5, CHR 0xAB, CHR 0xE5, CHR 0xB0, CHR 0x94, CHR 0xE8, CHR 0xBE, CHR 0x9B, CHR 0xE5, CHR 0x9F, CHR 0xBA]),
     (''Ho Chi Minh City'', [CHR 0xE8, CHR 0x83, CHR 0xA1, CHR 0xE5, CHR 0xBF, CHR 0x97, CHR 0xE6, CHR 0x98, CHR 0x8E, CHR 0xE5, CHR 0xB8, CHR 0x82]),
     (''Hong Kong'', [CHR 0xE4, CHR 0xB8, CHR 0xAD, CHR 0xE5, CHR 0x9B, CHR 0xBD, CHR 0xE9, CHR 0xA6, CHR 0x99, CHR 0xE6, CHR 0xB8, CHR 0xAF]),
     (''Honolulu'', [CHR 0xE6, CHR 0xAA, CHR 0x80, CHR 0xE9, CHR 0xA6, CHR 0x99, CHR 0xE5, CHR 0xB1, CHR 0xB1]),
     (''Hoofddorp'', [CHR 0xE9, CHR 0x9C, CHR 0x8D, CHR 0xE5, CHR 0xA4, CHR 0xAB, CHR 0xE5, CHR 0xA4, CHR 0x9A, CHR 0xE6, CHR 0x99, CHR 0xAE]),
     (''Istanbul'', [CHR 0xE4, CHR 0xBC, CHR 0x8A, CHR 0xE6, CHR 0x96, CHR 0xAF, CHR 0xE5, CHR 0x9D, CHR 0xA6, CHR 0xE5, CHR 0xB8, CHR 0x83, CHR 0xE5, CHR 0xB0, CHR 0x94]),
     (''Jakarta'', [CHR 0xE9, CHR 0x9B, CHR 0x85, CHR 0xE5, CHR 0x8A, CHR 0xA0, CHR 0xE8, CHR 0xBE, CHR 0xBE]),
     (''Johannesburg'', [CHR 0xE7, CHR 0xBA, CHR 0xA6, CHR 0xE7, CHR 0xBF, CHR 0xB0, CHR 0xE5, CHR 0x86, CHR 0x85, CHR 0xE6, CHR 0x96, CHR 0xAF, CHR 0xE5, CHR 0xA0, CHR 0xA1]),
     (''Kuala Lumpur'', [CHR 0xE5, CHR 0x90, CHR 0x89, CHR 0xE9, CHR 0x9A, CHR 0x86, CHR 0xE5, CHR 0x9D, CHR 0xA1]),
     (''Kyiv'', [CHR 0xE5, CHR 0x9F, CHR 0xBA, CHR 0xE8, CHR 0xBE, CHR 0x85]),
     (''Kyiv City'', [CHR 0xE5, CHR 0x9F, CHR 0xBA, CHR 0xE8, CHR 0xBE, CHR 0x85, CHR 0xE5, CHR 0xB8, CHR 0x82]),
     (''Lagos'', [CHR 0xE6, CHR 0x8B, CHR 0x89, CHR 0xE5, CHR 0x90, CHR 0x84, CHR 0xE6, CHR 0x96, CHR 0xAF]),
     (''Lisbon'', [CHR 0xE9, CHR 0x87, CHR 0x8C, CHR 0xE6, CHR 0x96, CHR 0xAF, CHR 0xE6, CHR 0x9C, CHR 0xAC]),
     (''London'', [CHR 0xE4, CHR 0xBC, CHR 0xA6, CHR 0xE6, CHR 0x95, CHR 0xA6]),
     (''Los Angeles'', [CHR 0xE6, CHR 0xB4, CHR 0x9B, CHR 0xE6, CHR 0x9D, CHR 0x89, CHR 0xE7, CHR 0x9F, CHR 0xB6]),
     (''Madrid'', [CHR 0xE9, CHR 0xA9, CHR 0xAC, CHR 0xE5, CHR 0xBE, CHR 0xB7, CHR 0xE9, CHR 0x87, CHR 0x8C]),
     (''Manila'', [CHR 0xE9, CHR 0xA9, CHR 0xAC, CHR 0xE5, CHR 0xB0, CHR 0xBC, CHR 0xE6, CHR 0x8B, CHR 0x89]),
     (''Melbourne'', [CHR 0xE5, CHR 0xA2, CHR 0xA8, CHR 0xE5, CHR 0xB0, CHR 0x94, CHR 0xE6, CHR 0x9C, CHR 0xAC]),
     (''Mesa'', [CHR 0xE6, CHR 0xA2, CHR 0x85, CHR 0xE8, CHR 0x90, CHR 0xA8]),
     (''Mexico City'', [CHR 0xE5, CHR 0xA2, CHR 0xA8, CHR 0xE8, CHR 0xA5, CHR 0xBF, CHR 0xE5, CHR 0x93, CHR 0xA5, CHR 0xE5, CHR 0x9F, CHR 0x8E]),
     (''Miami'', [CHR 0xE8, CHR 0xBF, CHR 0x88, CHR 0xE9, CHR 0x98, CHR 0xBF, CHR 0xE5, CHR 0xAF, CHR 0x86]),
     (''Milan'', [CHR 0xE7, CHR 0xB1, CHR 0xB3, CHR 0xE5, CHR 0x85, CHR 0xB0]),
     (''Montreal'', [CHR 0xE8, CHR 0x92, CHR 0x99, CHR 0xE7, CHR 0x89, CHR 0xB9, CHR 0xE5, CHR 0x88, CHR 0xA9, CHR 0xE5, CHR 0xB0, CHR 0x94]),
     (''Morocco'', [CHR 0xE6, CHR 0x91, CHR 0xA9, CHR 0xE6, CHR 0xB4, CHR 0x9B, CHR 0xE5, CHR 0x93, CHR 0xA5]),
     (''Mount Vernon'', [CHR 0xE8, CHR 0x8A, CHR 0x92, CHR 0xE7, CHR 0x89, CHR 0xB9, CHR 0xE5, CHR 0xBC, CHR 0x97, CHR 0xE5, CHR 0x86, CHR 0x9C]),
     (''Mumbai'', [CHR 0xE5, CHR 0xAD, CHR 0x9F, CHR 0xE4, CHR 0xB9, CHR 0xB0]),
     (''Nairobi'', [CHR 0xE5, CHR 0x86, CHR 0x85, CHR 0xE7, CHR 0xBD, CHR 0x97, CHR 0xE6, CHR 0xAF, CHR 0x95]),
     (''New Delhi'', [CHR 0xE6, CHR 0x96, CHR 0xB0, CHR 0xE5, CHR 0xBE, CHR 0xB7, CHR 0xE9, CHR 0x87, CHR 0x8C]),
     (''New Jersey'', [CHR 0xE6, CHR 0x96, CHR 0xB0, CHR 0xE6, CHR 0xB3, CHR 0xBD, CHR 0xE8, CHR 0xA5, CHR 0xBF]),
     (''New Rochelle'', [CHR 0xE6, CHR 0x96, CHR 0xB0, CHR 0xE7, CHR 0xBD, CHR 0x97, CHR 0xE8, CHR 0xB0, CHR 0xA2, CHR 0xE5, CHR 0xB0, CHR 0x94]),
     (''New York'', [CHR 0xE7, CHR 0xBA, CHR 0xBD, CHR 0xE7, CHR 0xBA, CHR 0xA6]),
     (''New York City'', [CHR 0xE7, CHR 0xBA, CHR 0xBD, CHR 0xE7, CHR 0xBA, CHR 0xA6, CHR 0xE5, CHR 0xB8, CHR 0x82]),
     (''Newark'', [CHR 0xE7, CHR 0xBA, CHR 0xBD, CHR 0xE7, CHR 0x93, CHR 0xA6, CHR 0xE5, CHR 0x85, CHR 0x8B]),
     (''Niagara Falls'', [CHR 0xE5, CHR 0xB0, CHR 0xBC, CHR 0xE4, CHR 0xBA, CHR 0x9A, CHR 0xE5, CHR 0x8A, CHR 0xA0, CHR 0xE6, CHR 0x8B, CHR 0x89, CHR 0xE7, CHR 0x80, CHR 0x91, CHR 0xE5, CHR 0xB8, CHR 0x83, CHR 0xE5, CHR 0x9F, CHR 0x8E]),
     (''Nicosia'', [CHR 0xE5, CHR 0xB0, CHR 0xBC, CHR 0xE7, CHR 0xA7, CHR 0x91, CHR 0xE8, CHR 0xA5, CHR 0xBF, CHR 0xE4, CHR 0xBA, CHR 0x9A]),
     (''Niteroi'', [CHR 0xE5, CHR 0xB0, CHR 0xBC, CHR 0xE6, CHR 0xB3, CHR 0xB0, CHR 0xE7, CHR 0xBD, CHR 0x97, CHR 0xE4, CHR 0xBC, CHR 0x8A]),
     (''Nyiregyhaza'', [CHR 0xE5, CHR 0xB0, CHR 0xBC, CHR 0xE8, CHR 0xB5, CHR 0x96, CHR 0xE5, CHR 0x90, CHR 0x89, CHR 0xE5, CHR 0x93, CHR 0x88, CHR 0xE4, CHR 0xBD, CHR 0x90]),
     (''Ontario'', [CHR 0xE5, CHR 0xAE, CHR 0x89, CHR 0xE5, CHR 0xA4, CHR 0xA7, CHR 0xE7, CHR 0x95, CHR 0xA5]),
     (''Osaka'', [CHR 0xE5, CHR 0xA4, CHR 0xA7, CHR 0xE9, CHR 0x98, CHR 0xAA]),
     (''Oslo'', [CHR 0xE5, CHR 0xA5, CHR 0xA5, CHR 0xE6, CHR 0x96, CHR 0xAF, CHR 0xE9, CHR 0x99, CHR 0x86]),
     (''Overland Park'', [CHR 0xE6, CHR 0xAC, CHR 0xA7, CHR 0xE5, CHR 0xBC, CHR 0x97, CHR 0xE5, CHR 0x85, CHR 0xB0, CHR 0xE5, CHR 0xB8, CHR 0x95, CHR 0xE5, CHR 0x85, CHR 0x8B]),
     (''Paris'', [CHR 0xE5, CHR 0xB7, CHR 0xB4, CHR 0xE9, CHR 0xBB, CHR 0x8E]),
     (''Philadelphia'', [CHR 0xE8, CHR 0xB4, CHR 0xB9, CHR 0xE5, CHR 0x9F, CHR 0x8E]),
     (''Phnom Penh'', [CHR 0xE9, CHR 0x87, CHR 0x91, CHR 0xE8, CHR 0xBE, CHR 0xB9]),
     (''Prague'', [CHR 0xE5, CHR 0xB8, CHR 0x83, CHR 0xE6, CHR 0x8B, CHR 0x89, CHR 0xE6, CHR 0xA0, CHR 0xBC]),
     (''Queretaro'', [CHR 0xE5, CHR 0x85, CHR 0x8B, CHR 0xE9, CHR 0x9B, CHR 0xB7, CHR 0xE5, CHR 0xA1, CHR 0x94, CHR 0xE7, CHR 0xBD, CHR 0x97]),
     (''Redmond'', [CHR 0xE9, CHR 0x9B, CHR 0xB7, CHR 0xE5, CHR 0xBE, CHR 0xB7, CHR 0xE8, CHR 0x92, CHR 0x99, CHR 0xE5, CHR 0xBE, CHR 0xB7]),
     (''Rehoboth Beach'', [CHR 0xE9, CHR 0x87, CHR 0x8C, CHR 0xE9, CHR 0x9C, CHR 0x8D, CHR 0xE5, CHR 0x8D, CHR 0x9A, CHR 0xE6, CHR 0x96, CHR 0xAF, CHR 0xE6, CHR 0xAF, CHR 0x94, CHR 0xE5, CHR 0xA5, CHR 0x87]),
     (''Riga'', [CHR 0xE9, CHR 0x87, CHR 0x8C, CHR 0xE5, CHR 0x8A, CHR 0xA0]),
     (''Riyadh'', [CHR 0xE5, CHR 0x88, CHR 0xA9, CHR 0xE9, CHR 0x9B, CHR 0x85, CHR 0xE5, CHR 0xBE, CHR 0x97]),
     (''Rochester'', [CHR 0xE7, CHR 0xBD, CHR 0x97, CHR 0xE5, CHR 0x88, CHR 0x87, CHR 0xE6, CHR 0x96, CHR 0xAF, CHR 0xE7, CHR 0x89, CHR 0xB9]),
     (''Rome'', [CHR 0xE7, CHR 0xBD, CHR 0x97, CHR 0xE9, CHR 0xA9, CHR 0xAC]),
     (''Santiago'', [CHR 0xE5, CHR 0x9C, CHR 0xA3, CHR 0xE5, CHR 0x9C, CHR 0xB0, CHR 0xE4, CHR 0xBA, CHR 0x9A, CHR 0xE5, CHR 0x93, CHR 0xA5]),
     (''San Francisco'', [CHR 0xE6, CHR 0x97, CHR 0xA7, CHR 0xE9, CHR 0x87, CHR 0x91, CHR 0xE5, CHR 0xB1, CHR 0xB1]),
     (''Sao Paulo'', [CHR 0xE5, CHR 0x9C, CHR 0xA3, CHR 0xE4, CHR 0xBF, CHR 0x9D, CHR 0xE7, CHR 0xBD, CHR 0x97]),
     (''Schenectady'', [CHR 0xE6, CHR 0x96, CHR 0xAF, CHR 0xE5, CHR 0x85, CHR 0x8B, CHR 0xE5, CHR 0x86, CHR 0x85, CHR 0xE5, CHR 0x85, CHR 0x8B, CHR 0xE5, CHR 0xA1, CHR 0x94, CHR 0xE8, CHR 0xBF, CHR 0xAA]),
     (''Seattle'', [CHR 0xE8, CHR 0xA5, CHR 0xBF, CHR 0xE9, CHR 0x9B, CHR 0x85, CHR 0xE5, CHR 0x9B, CHR 0xBE]),
     (''Seoul'', [CHR 0xE9, CHR 0xA6, CHR 0x96, CHR 0xE5, CHR 0xB0, CHR 0x94]),
     (''Singapore'', [CHR 0xE6, CHR 0x96, CHR 0xB0, CHR 0xE5, CHR 0x8A, CHR 0xA0, CHR 0xE5, CHR 0x9D, CHR 0xA1]),
     (''Sofia'', [CHR 0xE7, CHR 0xB4, CHR 0xA2, CHR 0xE8, CHR 0x8F, CHR 0xB2, CHR 0xE4, CHR 0xBA, CHR 0x9A]),
     (''Springfield'', [CHR 0xE6, CHR 0x96, CHR 0xAF, CHR 0xE6, CHR 0x99, CHR 0xAE, CHR 0xE6, CHR 0x9E, CHR 0x97, CHR 0xE8, CHR 0x8F, CHR 0xB2, CHR 0xE5, CHR 0xB0, CHR 0x94, CHR 0xE5, CHR 0xBE, CHR 0xB7]),
     (''Stockholm'', [CHR 0xE6, CHR 0x96, CHR 0xAF, CHR 0xE5, CHR 0xBE, CHR 0xB7, CHR 0xE5, CHR 0x93, CHR 0xA5, CHR 0xE5, CHR 0xB0, CHR 0x94, CHR 0xE6, CHR 0x91, CHR 0xA9]),
     (''Sydney'', [CHR 0xE6, CHR 0x82, CHR 0x89, CHR 0xE5, CHR 0xB0, CHR 0xBC]),
     (''Syracuse'', [CHR 0xE9, CHR 0x94, CHR 0xA1, CHR 0xE6, CHR 0x8B, CHR 0x89, CHR 0xE4, CHR 0xB8, CHR 0x98, CHR 0xE5, CHR 0x85, CHR 0xB9]),
     (''Taichung'', [CHR 0xE5, CHR 0x8F, CHR 0xB0, CHR 0xE4, CHR 0xB8, CHR 0xAD]),
     (''Taipei'', [CHR 0xE5, CHR 0x8F, CHR 0xB0, CHR 0xE5, CHR 0x8C, CHR 0x97]),
     (''Tallinn'', [CHR 0xE5, CHR 0xA1, CHR 0x94, CHR 0xE6, CHR 0x9E, CHR 0x97]),
     (''Tbilisi'', [CHR 0xE7, CHR 0xAC, CHR 0xAC, CHR 0xE6, CHR 0xAF, CHR 0x94, CHR 0xE5, CHR 0x88, CHR 0xA9, CHR 0xE6, CHR 0x96, CHR 0xAF]),
     (''Tegucigalpa'', [CHR 0xE7, CHR 0x89, CHR 0xB9, CHR 0xE5, CHR 0x8F, CHR 0xA4, CHR 0xE8, CHR 0xA5, CHR 0xBF, CHR 0xE5, CHR 0x8A, CHR 0xA0, CHR 0xE5, CHR 0xB0, CHR 0x94, CHR 0xE5, CHR 0xB7, CHR 0xB4]),
     (''Tel Aviv'', [CHR 0xE7, CHR 0x89, CHR 0xB9, CHR 0xE6, CHR 0x8B, CHR 0x89, CHR 0xE7, CHR 0xBB, CHR 0xB4, CHR 0xE5, CHR 0xA4, CHR 0xAB]),
     (''Tokyo'', [CHR 0xE4, CHR 0xB8, CHR 0x9C, CHR 0xE4, CHR 0xBA, CHR 0xAC]),
     (''Troy'', [CHR 0xE7, CHR 0x89, CHR 0xB9, CHR 0xE6, CHR 0xB4, CHR 0x9B, CHR 0xE4, CHR 0xBC, CHR 0x8A]),
     (''Utica'', [CHR 0xE5, CHR 0xB0, CHR 0xA4, CHR 0xE8, CHR 0x92, CHR 0x82, CHR 0xE5, CHR 0x8D, CHR 0xA1]),
     (''Valencia'', [CHR 0xE7, CHR 0x93, CHR 0xA6, CHR 0xE4, CHR 0xBC, CHR 0xA6, CHR 0xE8, CHR 0xA5, CHR 0xBF, CHR 0xE4, CHR 0xBA, CHR 0x9A]),
     (''Valletta'', [CHR 0xE7, CHR 0x93, CHR 0xA6, CHR 0xE8, CHR 0x8E, CHR 0xB1, CHR 0xE5, CHR 0xA1, CHR 0x94]),
     (''Vancouver'', [CHR 0xE6, CHR 0xB8, CHR 0xA9, CHR 0xE5, CHR 0x93, CHR 0xA5, CHR 0xE5, CHR 0x8D, CHR 0x8E]),
     (''Vienna'', [CHR 0xE7, CHR 0xBB, CHR 0xB4, CHR 0xE4, CHR 0xB9, CHR 0x9F, CHR 0xE7, CHR 0xBA, CHR 0xB3]),
     (''Vilnius'', [CHR 0xE7, CHR 0xBB, CHR 0xB4, CHR 0xE5, CHR 0xB0, CHR 0x94, CHR 0xE7, CHR 0xBA, CHR 0xBD, CHR 0xE6, CHR 0x96, CHR 0xAF]),
     (''Warsaw'', [CHR 0xE5, CHR 0x8D, CHR 0x8E, CHR 0xE6, CHR 0xB2, CHR 0x99]),
     (''Washington'', [CHR 0xE5, CHR 0x8D, CHR 0x8E, CHR 0xE7, CHR 0x9B, CHR 0x9B, CHR 0xE9, CHR 0xA1, CHR 0xBF]),
     (''White Plains'', [CHR 0xE6, CHR 0x80, CHR 0x80, CHR 0xE7, CHR 0x89, CHR 0xB9, CHR 0xE6, CHR 0x99, CHR 0xAE, CHR 0xE8, CHR 0x8E, CHR 0xB1, CHR 0xE6, CHR 0x81, CHR 0xA9, CHR 0xE6, CHR 0x96, CHR 0xAF]),
     (''Wilmington'', [CHR 0xE5, CHR 0xA8, CHR 0x81, CHR 0xE5, CHR 0xB0, CHR 0x94, CHR 0xE6, CHR 0x98, CHR 0x8E, CHR 0xE9, CHR 0xA1, CHR 0xBF]),
     (''Zagreb'', [CHR 0xE8, CHR 0x90, CHR 0xA8, CHR 0xE6, CHR 0xA0, CHR 0xBC, CHR 0xE5, CHR 0x8B, CHR 0x92, CHR 0xE5, CHR 0xB8, CHR 0x83]),
     (''Zurich'', [CHR 0xE8, CHR 0x8B, CHR 0x8F, CHR 0xE9, CHR 0xBB, CHR 0x8E, CHR 0xE4, CHR 0xB8, CHR 0x96])]"

end
