(* ===== verification/ProxyPayloads.thy ===== *)
theory ProxyPayloads
  imports ProxyPricing CityNames
begin

text \<open>
  Reading what the supplier sends (webapp/proxy_purchases.py): searching nested JSON for
  lists (\<open>_list_values\<close>), the regions, cities, ISPs and periods a setup offers, the request
  that is sent (\<open>_configuration\<close>), and the fields of orders, proxies and balances.  A
  response is a \<open>pydict\<close>.  Labels and keys are compared as bytes with ASCII case folding.
  ISO time stamps are read by \<open>datetime.fromisoformat\<close>, which consults the machine's time
  zone; it is the parameter \<open>iso_time\<close> of \<open>parse_timestamp\<close>.
\<close>

section \<open>Idioms\<close>

definition upper_char :: "char \<Rightarrow> char" where
  "upper_char c = (let n = (of_char c :: nat) in if 97 \<le> n \<and> n \<le> 122 then char_of (n - 32) else c)"

definition upper :: "string \<Rightarrow> string" where
  "upper s = map upper_char s"

text \<open>\<open>str(d.get(k1) or d.get(k2) or ... or "")\<close>.\<close>

definition pick :: "string list \<Rightarrow> pydict \<Rightarrow> string" where
  "pick ks d = (case List.find truthy (map (dget d) ks) of Some v \<Rightarrow> py_str v | None \<Rightarrow> [])"

fun as_dict :: "pyval \<Rightarrow> pydict option" where
  "as_dict (PDict d) = Some d"
| "as_dict _ = None"

definition dicts_of :: "pyval list \<Rightarrow> pydict list" where
  "dicts_of xs = map (\<lambda>x. the (as_dict x)) (filter is_dict xs)"

text \<open>\<open>data if isinstance(data, Mapping) else e\<close>.\<close>

definition dict_or :: "pyval \<Rightarrow> pydict \<Rightarrow> pydict" where
  "dict_or v e = (case v of PDict d \<Rightarrow> d | _ \<Rightarrow> e)"

section \<open>Searching nested JSON\<close>

fun pyval_weight :: "pyval \<Rightarrow> nat" where
  "pyval_weight (PList xs) = Suc (sum_list (map pyval_weight xs))"
| "pyval_weight (PDict d) = Suc (sum_list (map (\<lambda>kv. pyval_weight (snd kv)) d))"
| "pyval_weight _ = 1"

fun inner_values :: "pyval \<Rightarrow> pyval list" where
  "inner_values (PDict d) = filter (\<lambda>v. is_dict v \<or> is_list v) (map snd d)"
| "inner_values (PList xs) = xs"
| "inner_values _ = []"

definition first_list :: "string list \<Rightarrow> pyval \<Rightarrow> pyval list option" where
  "first_list keys v = (case v of
       PDict d \<Rightarrow> map_option list_or_empty (List.find is_list (map (dget d) keys))
     | _ \<Rightarrow> None)"

definition as_item :: "pyval \<Rightarrow> pydict" where
  "as_item v = (case v of PDict d \<Rightarrow> d | _ \<Rightarrow> [(''value'', v)])"

lemma weight_filter: "sum_list (map pyval_weight (filter P vs)) \<le> sum_list (map pyval_weight vs)"
  by (induction vs) auto

lemma weight_inner: "sum_list (map pyval_weight (inner_values v)) < pyval_weight v"
proof (cases v)
  case (PDict d)
  have "sum_list (map pyval_weight (filter (\<lambda>v. is_dict v \<or> is_list v) (map snd d)))
      \<le> sum_list (map pyval_weight (map snd d))" by (rule weight_filter)
  then show ?thesis by (simp add: PDict comp_def)
qed simp_all

function search_queue :: "string list \<Rightarrow> pyval list \<Rightarrow> pydict list" where
  "search_queue keys [] = []"
| "search_queue keys (current # queue) =
     (case first_list keys current of
        Some xs \<Rightarrow> map as_item xs
      | None \<Rightarrow> search_queue keys (queue @ inner_values current))"
  by pat_completeness auto
termination
  by (relation "measure (\<lambda>(keys, queue). sum_list (map pyval_weight queue))") (simp_all add: weight_inner)

definition list_values :: "pyval \<Rightarrow> string list \<Rightarrow> pydict list" where
  "list_values payload keys = search_queue keys [payload]"

section \<open>What a setup offers\<close>

definition setup_data :: "pydict \<Rightarrow> pydict" where
  "setup_data setup = dict_or (dget setup ''data'') setup"

definition country_key :: "string \<Rightarrow> string" where
  "country_key country = upper (strip country)"

text \<open>\<open>raw.get(country, [])\<close> of a table of lists per country.\<close>

definition per_country_list :: "pydict \<Rightarrow> string \<Rightarrow> string \<Rightarrow> pyval list" where
  "per_country_list setup table country =
     (case dget (setup_data setup) table of
        PDict raw \<Rightarrow> list_or_empty (dget_default raw (country_key country) (PList []))
      | _ \<Rightarrow> [])"

definition country_isp_items :: "pydict \<Rightarrow> string \<Rightarrow> pydict list" where
  "country_isp_items setup country = dicts_of (per_country_list setup ''isps'' country)"

record city_item =
  city_id :: string
  city_name :: string
  city_name_zh :: string
  city_region :: string

definition item_city_id :: "pydict \<Rightarrow> string" where
  "item_city_id item = strip (pick [''id'', ''value'', ''code'', ''name''] item)"

fun collect_cities :: "pydict list \<Rightarrow> string list \<Rightarrow> city_item list" where
  "collect_cities [] seen = []"
| "collect_cities (item # items) seen =
     (let cid = item_city_id item in
      if cid = [] \<or> cid \<in> set seen then collect_cities items seen
      else
        let picked = pick [''name'', ''label''] item; name = (if picked = [] then cid else picked) in
        \<lparr>city_id = cid, city_name = name,
         city_name_zh = (case map_of CITY_ZH_NAMES name of Some zh \<Rightarrow> zh | None \<Rightarrow> name),
         city_region = pick [''region'', ''state''] item\<rparr> # collect_cities items (cid # seen))"

definition city_items :: "pydict \<Rightarrow> string \<Rightarrow> city_item list" where
  "city_items setup country = collect_cities (dicts_of (per_country_list setup ''cities'' country)) []"

definition resolve_orderable_city_id :: "pydict \<Rightarrow> string \<Rightarrow> string \<Rightarrow> string res" where
  "resolve_orderable_city_id setup country city =
     (let clean = strip city; items = city_items setup country; needle = lower clean in
      if clean = [] then Inr []
      else if \<exists>item \<in> set items. city_id item = clean then Inr clean
      else case List.find (\<lambda>item. needle \<in>
            (\<lambda>alias. lower (strip alias)) ` {city_id item, city_name item, city_name_zh item}) items of
        Some item \<Rightarrow> Inr (city_id item)
      | None \<Rightarrow> Inl (PurchaseError ''INVALID_CITY'' 422))"

definition selected_purchase_location :: "pydict \<Rightarrow> string \<times> string" where
  "selected_purchase_location request =
     (strip (pick [''cityName'', ''city''] request), strip (str_field (dget request ''region'')))"

definition city_raw_item :: "pydict \<Rightarrow> string \<Rightarrow> string \<Rightarrow> pydict option" where
  "city_raw_item setup country cid =
     List.find (\<lambda>item. item_city_id item = strip cid) (dicts_of (per_country_list setup ''cities'' country))"

text \<open>The months an entry of the period list stands for, if it is a number of months.\<close>

definition period_months :: "pyval \<Rightarrow> int option res" where
  "period_months item =
     (let months = (\<lambda>v. case py_int v of
            Inr n \<Rightarrow> Inr (if 1 \<le> n \<and> n \<le> 36 then Some n else None)
          | Inl TypeError \<Rightarrow> Inr None | Inl ValueError \<Rightarrow> Inr None | Inl e \<Rightarrow> Inl e) in
      case item of
        PDict d \<Rightarrow>
          (if lower (str_field (py_or (dget d ''unit'') (PStr ''months''))) \<in> {''month'', ''months''}
           then months (py_or (dget d ''value'') (dget d ''months'')) else Inr None)
      | v \<Rightarrow> months v)"

definition supported_month_periods :: "pydict \<Rightarrow> int list res" where
  "supported_month_periods setup =
     bindr (case dget (setup_data setup) ''periods'' of
         PDict raw \<Rightarrow> py_iter (py_or (dget raw ''months'') (PList []))
       | PList xs \<Rightarrow> Inr xs
       | _ \<Rightarrow> Inr []) (\<lambda>values.
     bindr (map_all period_months values) (\<lambda>months.
     Inr (sort (remdups (map the (filter (\<lambda>m. m \<noteq> None) months))))))"

text \<open>(code, name) of every region, first mention first.\<close>

fun collect_regions :: "pydict list \<Rightarrow> string list \<Rightarrow> (string \<times> string) list" where
  "collect_regions [] seen = []"
| "collect_regions (item # items) seen =
     (let code = upper (pick [''code'', ''id'', ''value'', ''countryCode''] item) in
      if code = [] \<or> code \<in> set seen then collect_regions items seen
      else
        let name = pick [''name'', ''label'', ''country''] item in
        (code, if name = [] then code else name) # collect_regions items (code # seen))"

definition region_items :: "pydict \<Rightarrow> (string \<times> string) list" where
  "region_items setup =
     collect_regions (list_values (PDict setup) [''countries'', ''locations'', ''regions'']) []"

definition orderable_regions :: "pydict \<Rightarrow> string \<Rightarrow> (string \<times> string) list" where
  "orderable_regions setup service_id =
     (if service_id = STATIC_SERVICE \<and> is_dict (dget (setup_data setup) ''isps'')
      then filter (\<lambda>r. country_isp_items setup (fst r) \<noteq> []) (region_items setup)
      else region_items setup)"

section \<open>The request\<close>

definition isp_id :: "pydict \<Rightarrow> string" where
  "isp_id item = pick [''id'', ''value'', ''code''] item"

definition drop_keys :: "string list \<Rightarrow> pydict \<Rightarrow> pydict" where
  "drop_keys ks d = filter (\<lambda>kv. fst kv \<notin> set ks) d"

text \<open>The ISP: one that serves the chosen city, else the configured one, else the first.\<close>

definition choose_isp :: "pydict \<Rightarrow> pydict list \<Rightarrow> pydict option \<Rightarrow> string \<Rightarrow> bool \<Rightarrow> string" where
  "choose_isp result isps city_entry country same_country =
     (let available = map isp_id isps;
          mapped = (case dget_default result ''isp_by_country'' (PDict []) of PDict m \<Rightarrow> dget m country | _ \<Rightarrow> PStr []);
          configured_isp = pick [''isp'', ''ispId''] result;
          preferred = py_str (py_or mapped (PStr (if same_country then configured_isp else [])));
          city_isp_ids = (case city_entry of
              Some c \<Rightarrow> map py_str (list_or_empty (dget c ''isps'')) | None \<Rightarrow> []);
          city_preferred = (case List.find (\<lambda>v. v \<in> set available) city_isp_ids of Some v \<Rightarrow> v | None \<Rightarrow> []) in
      if city_preferred \<noteq> [] then city_preferred
      else if preferred \<in> set available then preferred else hd available)"

definition configuration :: "pydict \<Rightarrow> string \<Rightarrow> int \<Rightarrow> string \<Rightarrow> pydict option \<Rightarrow> pydict" where
  "configuration config country months city setup =
     (let defaults = dict_or (dget config ''default_parameters'') [];
          clean_country = country_key country;
          same_country = (country_key (str_field (dget defaults ''country'')) = clean_country);
          result = dupdate defaults
            [(''planId'', PStr (str_field (dget config ''plan_id''))), (''country'', PStr clean_country),
             (''quantity'', PInt 1),
             (''period'', PDict [(''unit'', PStr ''months''), (''value'', PInt months)])] in
      case setup of
        None \<Rightarrow> result
      | Some s \<Rightarrow>
        if str_field (dget config ''service_id'') \<noteq> STATIC_SERVICE then result
        else
          let r1 = (if same_country then result else drop_keys [''region'', ''city''] result);
              isps = country_isp_items s clean_country;
              clean_city = strip city;
              city_entry = (if clean_city = [] then None else city_raw_item s clean_country clean_city);
              city_region = (case city_entry of Some c \<Rightarrow> pick [''region'', ''state''] c | None \<Rightarrow> []);
              r2 = (if clean_city = [] then r1 else dset ''city'' (PStr clean_city) r1);
              r3 = (if clean_city = [] \<or> city_region = [] then r2 else dset ''region'' (PStr city_region) r2) in
          if isps = [] then drop_keys [''isp'', ''ispId'', ''isp_by_country''] r3
          else drop_keys [''isp'']
            (dset ''ispId'' (PStr (choose_isp r3 isps city_entry clean_country same_country))
              (drop_keys [''isp_by_country''] r3)))"

section \<open>Orders, proxies, balances\<close>

definition provider_order_id :: "pydict \<Rightarrow> string" where
  "provider_order_id payload =
     (let data = dict_or (dget payload ''data'') []; own = pick [''orderId'', ''id''] payload in
      if own = [] then pick [''orderId'', ''id''] data else own)"

definition status_of :: "pydict \<Rightarrow> string" where
  "status_of payload =
     (let data = dict_or (dget payload ''data'') [];
          v = py_or (dget payload ''status'') (py_or (dget data ''status'') (PStr ''pending'')) in
      lower (strip (py_str v)))"

definition summary_keys :: "string list" where
  "summary_keys = [''id'', ''orderId'', ''status'', ''createdAt'', ''expiresAt'']"

definition keep_keys :: "string list \<Rightarrow> pydict \<Rightarrow> pydict" where
  "keep_keys ks d = map (\<lambda>k. (k, dget d k)) (filter (\<lambda>k. has_key k d) ks)"

definition safe_provider_summary :: "pydict \<Rightarrow> pydict" where
  "safe_provider_summary payload =
     (case dget payload ''data'' of
        PDict data \<Rightarrow> keep_keys summary_keys payload @ [(''data'', PDict (keep_keys summary_keys data))]
      | _ \<Rightarrow> keep_keys summary_keys payload)"

definition balance_field :: "pyval \<Rightarrow> decimal option" where
  "balance_field v = (case dec_parse (py_str v) of
      Some (Finite d) \<Rightarrow> if 0 \<le> dval d then Some d else None | _ \<Rightarrow> None)"

definition balance_usd :: "pydict \<Rightarrow> decimal option" where
  "balance_usd payload =
     (let data = dict_or (dget payload ''data'') payload;
          currency = upper (str_field (py_or (dget data ''currency'') (dget payload ''currency''))) in
      if currency \<noteq> ''USD'' then None
      else case List.find (\<lambda>b. b \<noteq> None)
          (map (\<lambda>k. balance_field (dget data k)) [''balance'', ''amount'', ''availableBalance'', ''available'']) of
        Some b \<Rightarrow> b | None \<Rightarrow> None)"

definition reconcile_delay_seconds :: "int \<Rightarrow> int" where
  "reconcile_delay_seconds attempts = min (60 * 2 ^ nat (min (max attempts 0) 10)) 3600"

definition replace_char :: "char \<Rightarrow> string \<Rightarrow> string \<Rightarrow> string" where
  "replace_char c t s = concat (map (\<lambda>x. if x = c then t else [x]) s)"

definition parse_timestamp :: "(string \<Rightarrow> int option) \<Rightarrow> pyval \<Rightarrow> int res" where
  "parse_timestamp iso_time v =
     (case v of
        PBool b \<Rightarrow> Inr (if b then 1 else 0)
      | PInt i \<Rightarrow> Inr (max i 0)
      | PFloat _ \<Rightarrow> bindr (py_int v) (\<lambda>i. Inr (max i 0))
      | PNan \<Rightarrow> py_int v
      | PInf _ \<Rightarrow> py_int v
      | _ \<Rightarrow>
        let clean = strip (str_field v) in
        if clean = [] then Inr 0
        else (case iso_time (replace_char (CHR ''Z'') ''+00:00'' clean) of Some t \<Rightarrow> Inr t | None \<Rightarrow> Inr 0))"

fun proxy_list :: "pyval \<Rightarrow> pydict list" where
  "proxy_list (PList xs) = dicts_of xs"
| "proxy_list (PDict d) =
     (let nested = (\<lambda>key. case map_of (map (\<lambda>kv. (fst kv, (is_list (snd kv) \<or> is_dict (snd kv), is_list (snd kv), proxy_list (snd kv)))) d) key of
            None \<Rightarrow> (False, [])
          | Some (container, stop, xs) \<Rightarrow> (container \<and> (stop \<or> xs \<noteq> []), xs)) in
      case List.find fst (map nested [''data'', ''proxies'', ''items'']) of
        Some r \<Rightarrow> snd r | None \<Rightarrow> [])"
| "proxy_list _ = []"

definition container_keys :: "string list" where
  "container_keys =
     [''connection'', ''credentials'', ''authentication'', ''location'', ''metadata'', ''proxy'', ''data'']"

definition proxy_field :: "pydict \<Rightarrow> string list \<Rightarrow> pyval" where
  "proxy_field proxy keys =
     (let containers = proxy # dicts_of (map (dget proxy) container_keys) in
      case List.find given (concat (map (\<lambda>c. map (dget c) keys) containers)) of
        Some v \<Rightarrow> v | None \<Rightarrow> PStr [])"

section \<open>Redaction of webhook payloads\<close>

definition is_alnum :: "char \<Rightarrow> bool" where
  "is_alnum c = (let n = (of_char c :: nat) in
     48 \<le> n \<and> n \<le> 57 \<or> 65 \<le> n \<and> n \<le> 90 \<or> 97 \<le> n \<and> n \<le> 122 \<or> 128 \<le> n)"

definition sensitive_markers :: "string list" where
  "sensitive_markers = [''password'', ''secret'', ''token'', ''apikey'', ''username'', ''credential'']"

definition sensitive_key :: "string \<Rightarrow> bool" where
  "sensitive_key key = (\<exists>m \<in> set sensitive_markers. contains (filter is_alnum (lower key)) m)"

fun redact :: "pyval \<Rightarrow> pyval" where
  "redact (PDict d) =
     PDict (map (\<lambda>kv. (fst kv, if sensitive_key (fst kv) then PStr ''[REDACTED]'' else redact (snd kv))) d)"
| "redact (PList xs) = PList (map redact xs)"
| "redact v = v"

end
