(* ===== verification/ProxySchema.thy ===== *)
theory ProxySchema
  imports BillingSettlement ProxyPayloads
begin

text \<open>
  The tables of the purchasing component (\<open>_ensure_proxy_purchase_schema\<close> in webapp/db.py),
  the supplier it talks to (webapp/proxy_providers/base.py) and the shape of a request
  handler.  A handler runs several transactions on one connection with calls to the supplier
  between them: a transaction that raises is rolled back (\<open>atomically\<close>), what was committed
  before stays.  The columns \<open>request_hash\<close> (a digest that is only copied), \<open>error_detail\<close>
  and \<open>last_error\<close> (human readable messages) are left out, as are columns that always hold
  the same constant; \<open>provider_key\<close> of quotes and orders is always \<open>proxycheap\<close>.
\<close>

section \<open>Rows\<close>

record config_version =
  pc_id :: string
  pc_version :: int
  pc_status :: catalog_status
  pc_config :: pydict
  pc_created_by :: int
  pc_created_at :: int
  pc_published_at :: int

record purchase_quote =
  pq_id :: string
  pq_user_id :: int
  pq_service_id :: string
  pq_request :: pydict
  pq_price_minor :: int
  pq_currency :: string
  pq_credit_units :: int
  pq_config_version_id :: string
  pq_status :: string
  pq_expires_at :: int
  pq_created_at :: int
  pq_updated_at :: int

record purchase =
  po_id :: string
  po_user_id :: int
  po_quote_id :: string
  po_reservation_id :: string
  po_provider_order_id :: string
  po_provider_proxy_id :: string
  po_request :: pydict
  po_cost_minor :: int
  po_credit_units :: int
  po_config_version_id :: string
  po_status :: string
  po_renewal_enabled :: bool
  po_idem :: string
  po_error_code :: string
  po_response :: pydict
  po_last_synced_at :: int
  po_completed_at :: int
  po_next_attempt_at :: int
  po_reconcile_attempts :: int
  po_client_reference :: string
  po_created_at :: int
  po_updated_at :: int

record purchase_event =
  ev_id :: string
  ev_event_id :: string
  ev_order_id :: string
  ev_proxy_id :: string
  ev_type :: string
  ev_payload :: pyval
  ev_processed_at :: int
  ev_status :: string
  ev_attempts :: int
  ev_next_attempt_at :: int
  ev_created_at :: int

record renewal =
  rn_id :: string
  rn_order_id :: string
  rn_user_id :: int
  rn_proxy_id :: string
  rn_enabled :: bool
  rn_status :: string
  rn_next_attempt_at :: int
  rn_expires_at :: int
  rn_idem :: string
  rn_reservation_id :: string
  rn_lease_token :: string
  rn_lease_expires_at :: int
  rn_provider_started_at :: int
  rn_baseline_expires_at :: int
  rn_created_at :: int
  rn_updated_at :: int

record market_item =
  mi_id :: string
  mi_sku :: string
  mi_provider_key :: string
  mi_type :: string
  mi_host :: string
  mi_port :: int
  mi_credential_owner :: int
  mi_username_cipher :: string
  mi_password_cipher :: string
  mi_country :: string
  mi_region :: string
  mi_city :: string
  mi_isp :: string
  mi_status :: string
  mi_expires_at :: int
  mi_ownership :: string
  mi_owner :: int
  mi_order_id :: string
  mi_proxy_id :: string
  mi_created_at :: int
  mi_updated_at :: int

record social_proxy =
  sp_id :: string
  sp_user_id :: int
  sp_type :: string
  sp_host :: string
  sp_port :: int
  sp_country :: string
  sp_region :: string
  sp_city :: string
  sp_isp :: string
  sp_source :: string
  sp_purchase_status :: string
  sp_expires_at :: int
  sp_status :: string
  sp_market_item_id :: string
  sp_created_at :: int
  sp_updated_at :: int

record pdb =
  bill :: bdb
  pd_configs :: "config_version list"
  pd_quotes :: "purchase_quote list"
  pd_orders :: "purchase list"
  pd_events :: "purchase_event list"
  pd_renewals :: "renewal list"
  pd_items :: "market_item list"
  pd_proxies :: "social_proxy list"

section \<open>Statements\<close>

interpretation configs_tbl: keyed_table pc_id "row_get pc_id" "row_modify pc_id"
  by (rule row_tables)

interpretation quotes_tbl: keyed_table pq_id "row_get pq_id" "row_modify pq_id"
  by (rule row_tables)

interpretation purchases_tbl: keyed_table po_id "row_get po_id" "row_modify po_id"
  by (rule row_tables)

interpretation events_tbl: keyed_table ev_id "row_get ev_id" "row_modify ev_id"
  by (rule row_tables)

interpretation renewals_tbl: keyed_table rn_id "row_get rn_id" "row_modify rn_id"
  by (rule row_tables)

definition get_quote :: "string \<Rightarrow> pdb \<Rightarrow> purchase_quote option" where
  "get_quote qid d = row_get pq_id qid (pd_quotes d)"

definition get_purchase :: "string \<Rightarrow> pdb \<Rightarrow> purchase option" where
  "get_purchase oid d = row_get po_id oid (pd_orders d)"

definition get_renewal :: "string \<Rightarrow> pdb \<Rightarrow> renewal option" where
  "get_renewal rid d = row_get rn_id rid (pd_renewals d)"

definition renewal_of_order :: "string \<Rightarrow> pdb \<Rightarrow> renewal option" where
  "renewal_of_order oid d = find_row (\<lambda>r. rn_order_id r = oid) (pd_renewals d)"

text \<open>The billing statements of a transaction act on the billing tables.\<close>

definition billing :: "(bdb \<Rightarrow> ('a \<times> bdb) res) \<Rightarrow> pdb \<Rightarrow> ('a \<times> pdb) res" where
  "billing f d = bindr (f (bill d)) (\<lambda>(x, b). Inr (x, d\<lparr>bill := b\<rparr>))"

definition fresh_id :: "string \<Rightarrow> pdb \<Rightarrow> string \<times> pdb" where
  "fresh_id prefix d = (let (i, b) = new_id prefix (bill d) in (i, d\<lparr>bill := b\<rparr>))"

definition user_exists :: "int \<Rightarrow> pdb \<Rightarrow> bool" where
  "user_exists uid d = (get_user uid (bill d) \<noteq> None)"

definition insert_config_version :: "config_version \<Rightarrow> pdb \<Rightarrow> pdb res" where
  "insert_config_version c d =
     (if (\<exists>x \<in> set (pd_configs d). pc_id x = pc_id c \<or> pc_version x = pc_version c
           \<or> (pc_status x = Active \<and> pc_status c = Active)) then Inl IntegrityError
      else Inr (d\<lparr>pd_configs := pd_configs d @ [c]\<rparr>))"

definition insert_quote :: "purchase_quote \<Rightarrow> pdb \<Rightarrow> pdb res" where
  "insert_quote q d =
     (if get_quote (pq_id q) d \<noteq> None \<or> pq_price_minor q < 0 \<or> pq_credit_units q < 0
         \<or> \<not> user_exists (pq_user_id q) d then Inl IntegrityError
      else Inr (d\<lparr>pd_quotes := pd_quotes d @ [q]\<rparr>))"

definition update_quote :: "string \<Rightarrow> (purchase_quote \<Rightarrow> purchase_quote) \<Rightarrow> pdb \<Rightarrow> pdb" where
  "update_quote qid f d = d\<lparr>pd_quotes := row_modify pq_id qid f (pd_quotes d)\<rparr>"

text \<open>The unique keys of an order: its id, the user's idempotency key, and the supplier's
  order and proxy, each where it is known.\<close>

definition purchase_clash :: "purchase \<Rightarrow> purchase \<Rightarrow> bool" where
  "purchase_clash p x = (po_id x = po_id p \<or> (po_user_id x = po_user_id p \<and> po_idem x = po_idem p)
     \<or> (po_provider_order_id p \<noteq> [] \<and> po_provider_order_id x = po_provider_order_id p)
     \<or> (po_provider_proxy_id p \<noteq> [] \<and> po_provider_proxy_id x = po_provider_proxy_id p))"

definition insert_purchase :: "purchase \<Rightarrow> pdb \<Rightarrow> pdb res" where
  "insert_purchase p d =
     (if (\<exists>x \<in> set (pd_orders d). purchase_clash p x) \<or> po_cost_minor p < 0 \<or> po_credit_units p < 0
         \<or> \<not> user_exists (po_user_id p) d \<or> get_quote (po_quote_id p) d = None then Inl IntegrityError
      else Inr (d\<lparr>pd_orders := pd_orders d @ [p]\<rparr>))"

definition update_purchase :: "string \<Rightarrow> (purchase \<Rightarrow> purchase) \<Rightarrow> pdb \<Rightarrow> pdb res" where
  "update_purchase oid f d =
     (case get_purchase oid d of
        None \<Rightarrow> Inr d
      | Some p \<Rightarrow>
        if \<exists>x \<in> set (pd_orders d). po_id x \<noteq> oid \<and> purchase_clash (f p) x then Inl IntegrityError
        else Inr (d\<lparr>pd_orders := row_modify po_id oid f (pd_orders d)\<rparr>))"

text \<open>\<open>INSERT OR IGNORE INTO proxy_purchase_events\<close>; the flag is \<open>rowcount = 1\<close>.\<close>

definition insert_event_or_ignore :: "purchase_event \<Rightarrow> pdb \<Rightarrow> bool \<times> pdb" where
  "insert_event_or_ignore e d =
     (if \<exists>x \<in> set (pd_events d). ev_id x = ev_id e \<or> ev_event_id x = ev_event_id e then (False, d)
      else (True, d\<lparr>pd_events := pd_events d @ [e]\<rparr>))"

definition update_event :: "string \<Rightarrow> (purchase_event \<Rightarrow> purchase_event) \<Rightarrow> pdb \<Rightarrow> pdb" where
  "update_event eid f d = d\<lparr>pd_events := row_modify ev_id eid f (pd_events d)\<rparr>"

text \<open>\<open>INSERT ... ON CONFLICT(order_id) DO UPDATE SET ...\<close>.\<close>

definition upsert_renewal :: "renewal \<Rightarrow> (renewal \<Rightarrow> renewal) \<Rightarrow> pdb \<Rightarrow> pdb res" where
  "upsert_renewal r f d =
     (if renewal_of_order (rn_order_id r) d \<noteq> None then
        Inr (d\<lparr>pd_renewals := update_where (\<lambda>x. rn_order_id x = rn_order_id r) f (pd_renewals d)\<rparr>)
      else if get_renewal (rn_id r) d \<noteq> None \<or> get_purchase (rn_order_id r) d = None
           \<or> \<not> user_exists (rn_user_id r) d then Inl IntegrityError
      else Inr (d\<lparr>pd_renewals := pd_renewals d @ [r]\<rparr>))"

definition update_renewal :: "string \<Rightarrow> (renewal \<Rightarrow> bool) \<Rightarrow> (renewal \<Rightarrow> renewal) \<Rightarrow> pdb \<Rightarrow> pdb" where
  "update_renewal rid P f d =
     d\<lparr>pd_renewals := row_modify rn_id rid (\<lambda>r. if P r then f r else r) (pd_renewals d)\<rparr>"

definition update_order_renewal :: "string \<Rightarrow> (renewal \<Rightarrow> renewal) \<Rightarrow> pdb \<Rightarrow> pdb" where
  "update_order_renewal oid f d =
     d\<lparr>pd_renewals := update_where (\<lambda>r. rn_order_id r = oid) f (pd_renewals d)\<rparr>"

definition insert_item :: "market_item \<Rightarrow> pdb \<Rightarrow> pdb res" where
  "insert_item i d =
     (if (\<exists>x \<in> set (pd_items d). mi_id x = mi_id i \<or> lower (mi_sku x) = lower (mi_sku i)
           \<or> (mi_proxy_id i \<noteq> [] \<and> mi_provider_key x = mi_provider_key i \<and> mi_proxy_id x = mi_proxy_id i))
      then Inl IntegrityError
      else Inr (d\<lparr>pd_items := pd_items d @ [i]\<rparr>))"

definition insert_social_proxy :: "social_proxy \<Rightarrow> pdb \<Rightarrow> pdb res" where
  "insert_social_proxy p d =
     (if (\<exists>x \<in> set (pd_proxies d). sp_id x = sp_id p
           \<or> (sp_market_item_id p \<noteq> [] \<and> sp_user_id x = sp_user_id p \<and> sp_market_item_id x = sp_market_item_id p))
         \<or> (sp_user_id p \<noteq> 0 \<and> \<not> user_exists (sp_user_id p) d)
      then Inl IntegrityError
      else Inr (d\<lparr>pd_proxies := pd_proxies d @ [p]\<rparr>))"

text \<open>
  \<open>UPDATE proxy_market_items SET ... WHERE provider_purchase_order_id = ?\<close> and the matching
  update of the users' copies, \<open>WHERE market_item_id IN (SELECT id ...)\<close>.
\<close>

definition update_order_items :: "string \<Rightarrow> (market_item \<Rightarrow> market_item) \<Rightarrow> pdb \<Rightarrow> pdb" where
  "update_order_items oid f d = d\<lparr>pd_items := update_where (\<lambda>i. mi_order_id i = oid) f (pd_items d)\<rparr>"

definition update_order_proxies :: "string \<Rightarrow> (social_proxy \<Rightarrow> social_proxy) \<Rightarrow> pdb \<Rightarrow> pdb" where
  "update_order_proxies oid f d =
     d\<lparr>pd_proxies := update_where
        (\<lambda>p. \<exists>i \<in> set (pd_items d). mi_order_id i = oid \<and> mi_id i = sp_market_item_id p) f (pd_proxies d)\<rparr>"

text \<open>\<open>SELECT ... ORDER BY k LIMIT n\<close>, ties in rowid order; \<open>clamp\<close> is
  \<open>min(max(int(limit), 1), m)\<close>.\<close>

definition select_ordered :: "('r \<Rightarrow> bool) \<Rightarrow> ('r \<Rightarrow> int) \<Rightarrow> nat \<Rightarrow> 'r list \<Rightarrow> 'r list" where
  "select_ordered P k n rows = take n (sort_key k (filter P rows))"

definition clamp :: "int \<Rightarrow> int \<Rightarrow> nat" where
  "clamp limit m = nat (min (max limit 1) m)"

section \<open>The supplier\<close>

text \<open>
  A supplier (\<open>ProxyProvider\<close>) and the other services a handler calls out to, as functions
  of the state \<open>'w\<close> of the outside world.  \<open>pv_safe\<close> is the attribute
  \<open>safe_reconciliation_enabled\<close>, \<open>pv_fx\<close> the reference rate, \<open>pv_iso\<close> the parser of ISO time
  stamps, \<open>pv_vault\<close> the encryption of webapp/password_vault.py, and \<open>pv_any\<close> the element
  \<open>next(iter(...))\<close> takes from a set.
\<close>

record provider_quote =
  quote_amount :: decimal
  quote_currency :: string

record 'w supplier =
  pv_safe :: "'w \<Rightarrow> bool"
  pv_list_services :: "'w \<Rightarrow> pydict res \<times> 'w"
  pv_get_setup :: "string \<Rightarrow> string \<Rightarrow> 'w \<Rightarrow> pydict res \<times> 'w"
  pv_quote :: "string \<Rightarrow> pydict \<Rightarrow> 'w \<Rightarrow> provider_quote res \<times> 'w"
  pv_execute :: "string \<Rightarrow> pydict \<Rightarrow> 'w \<Rightarrow> pydict res \<times> 'w"
  pv_get_order :: "string \<Rightarrow> 'w \<Rightarrow> pydict res \<times> 'w"
  pv_get_order_proxies :: "string \<Rightarrow> 'w \<Rightarrow> pydict res \<times> 'w"
  pv_get_proxy :: "string \<Rightarrow> 'w \<Rightarrow> pydict res \<times> 'w"
  pv_get_balance :: "'w \<Rightarrow> pydict res \<times> 'w"
  pv_extension_quote :: "string \<Rightarrow> int \<Rightarrow> 'w \<Rightarrow> provider_quote res \<times> 'w"
  pv_extend_period :: "string \<Rightarrow> int \<Rightarrow> 'w \<Rightarrow> pydict res \<times> 'w"
  pv_fx :: "'w \<Rightarrow> exchange_quote option \<times> 'w"
  pv_iso :: "string \<Rightarrow> int option"
  pv_vault :: "int \<Rightarrow> string \<Rightarrow> string \<Rightarrow> string res"
  pv_any :: "string list \<Rightarrow> string"

definition provider_code :: "provider_failure \<Rightarrow> string" where
  "provider_code f = (case f of
      ProviderUnspecified \<Rightarrow> ''PROVIDER_ERROR''
    | ProviderConfigurationError \<Rightarrow> ''PROVIDER_NOT_CONFIGURED''
    | ProviderAuthenticationError \<Rightarrow> ''PROVIDER_AUTHENTICATION_FAILED''
    | ProviderRejectedError \<Rightarrow> ''PROVIDER_REQUEST_REJECTED''
    | ProviderUnavailableError \<Rightarrow> ''PROVIDER_UNAVAILABLE''
    | ProviderOutcomeUnknown \<Rightarrow> ''PROVIDER_OUTCOME_UNKNOWN''
    | ProviderResponseError \<Rightarrow> ''PROVIDER_INVALID_RESPONSE'')"

definition definitive :: "provider_failure \<Rightarrow> bool" where
  "definitive f = (f \<notin> {ProviderUnavailableError, ProviderOutcomeUnknown, ProviderResponseError})"

section \<open>Handlers\<close>

text \<open>The database, the outside world, and the calls made so far that may spend money.\<close>

datatype supplier_call = Execute string pydict | ExtendPeriod string int

record 'w sys =
  sys_db :: pdb
  sys_world :: 'w
  sys_calls :: "supplier_call list"

type_synonym ('w, 'a) proc = "'w sys \<Rightarrow> 'a res \<times> 'w sys"

definition done_with :: "'a res \<Rightarrow> ('w, 'a) proc" where
  "done_with r s = (r, s)"

definition bindp :: "('w, 'a) proc \<Rightarrow> ('a \<Rightarrow> ('w, 'b) proc) \<Rightarrow> ('w, 'b) proc" where
  "bindp p k s = (case p s of (Inl e, s') \<Rightarrow> (Inl e, s') | (Inr x, s') \<Rightarrow> k x s')"

text \<open>\<open>try: p / except E: h\<close>.\<close>

definition catching :: "('w, 'a) proc \<Rightarrow> (pyexc \<Rightarrow> ('w, 'a) proc) \<Rightarrow> ('w, 'a) proc" where
  "catching p h s = (case p s of (Inl e, s') \<Rightarrow> h e s' | (Inr x, s') \<Rightarrow> (Inr x, s'))"

text \<open>A read outside a transaction, and a transaction that commits or rolls back.\<close>

definition reading :: "(pdb \<Rightarrow> 'a res) \<Rightarrow> ('w, 'a) proc" where
  "reading f s = (f (sys_db s), s)"

definition atomically :: "(pdb \<Rightarrow> ('a \<times> pdb) res) \<Rightarrow> ('w, 'a) proc" where
  "atomically f s = (case f (sys_db s) of Inl e \<Rightarrow> (Inl e, s) | Inr (x, d) \<Rightarrow> (Inr x, s\<lparr>sys_db := d\<rparr>))"

definition asking :: "('w \<Rightarrow> 'a res \<times> 'w) \<Rightarrow> ('w, 'a) proc" where
  "asking f s = (let (r, w) = f (sys_world s) in (r, s\<lparr>sys_world := w\<rparr>))"

definition spending :: "supplier_call \<Rightarrow> ('w \<Rightarrow> 'a res \<times> 'w) \<Rightarrow> ('w, 'a) proc" where
  "spending c f s =
     (let (r, w) = f (sys_world s) in (r, s\<lparr>sys_world := w, sys_calls := sys_calls s @ [c]\<rparr>))"

fun for_each :: "('a \<Rightarrow> ('w, 'b list) proc) \<Rightarrow> 'a list \<Rightarrow> ('w, 'b list) proc" where
  "for_each f [] = done_with (Inr [])"
| "for_each f (x # xs) = bindp (f x) (\<lambda>ys. bindp (for_each f xs) (\<lambda>zs. done_with (Inr (ys @ zs))))"

lemma bindp_cases:
  "bindp p k s = (r, s') \<longleftrightarrow>
     (\<exists>e. p s = (Inl e, s') \<and> r = Inl e) \<or> (\<exists>x s1. p s = (Inr x, s1) \<and> k x s1 = (r, s'))"
  by (auto simp: bindp_def split: prod.splits sum.splits)

lemma catching_cases:
  "catching p h s = (r, s') \<longleftrightarrow>
     (\<exists>e s1. p s = (Inl e, s1) \<and> h e s1 = (r, s')) \<or> (\<exists>x. p s = (Inr x, s') \<and> r = Inr x)"
  by (auto simp: catching_def split: prod.splits sum.splits)

end
