(* ===== verification/ProxyConfig.thy ===== *)
theory ProxyConfig
  imports ProxySchema
begin

text \<open>
  The versioned purchasing configuration (webapp/proxy_purchases.py): the version in force
  (\<open>get_config\<close>), drafts (\<open>save_config_draft\<close>) and publication (\<open>publish_config\<close>), which
  checks the draft against what the supplier offers and freezes the cheapest cash-backed
  point of the billing catalog into it.
\<close>

fun config_status :: "catalog_status \<Rightarrow> string" where
  "config_status Draft = ''draft''"
| "config_status Active = ''active''"
| "config_status Retired = ''retired''"

definition latest_config :: "config_version list \<Rightarrow> config_version option" where
  "latest_config cs = (case cs of [] \<Rightarrow> None
     | c # cs' \<Rightarrow> Some (foldl (\<lambda>best x. if pc_version best < pc_version x then x else best) c cs'))"

definition published_config_row :: "pdb \<Rightarrow> config_version option" where
  "published_config_row d = latest_config (filter (\<lambda>c. pc_status c = Active) (pd_configs d))"

text \<open>\<open>ORDER BY CASE status WHEN 'draft' THEN 0 ELSE 1 END, version_number DESC LIMIT 1\<close>.\<close>

definition config_row :: "bool \<Rightarrow> pdb \<Rightarrow> config_version option" where
  "config_row include_draft d =
     (case (if include_draft then latest_config (filter (\<lambda>c. pc_status c = Draft) (pd_configs d)) else None) of
        Some c \<Rightarrow> Some c | None \<Rightarrow> published_config_row d)"

definition get_purchase_config :: "bool \<Rightarrow> pdb \<Rightarrow> pydict res" where
  "get_purchase_config include_draft d =
     (let row = config_row include_draft d in
      bindr (validate_config (case row of Some c \<Rightarrow> pc_config c | None \<Rightarrow> DEFAULT_CONFIG)) (\<lambda>config.
      config_public (dupdate config
        [(''id'', PStr (case row of Some c \<Rightarrow> pc_id c | None \<Rightarrow> [])),
         (''version_number'', PInt (case row of Some c \<Rightarrow> pc_version c | None \<Rightarrow> 0)),
         (''status'', PStr (case row of Some c \<Rightarrow> config_status (pc_status c) | None \<Rightarrow> ''unconfigured''))])))"

definition exchange_rate_status :: "bool \<Rightarrow> exchange_quote option \<Rightarrow> int \<Rightarrow> pdb \<Rightarrow> pydict res" where
  "exchange_rate_status include_draft reference now d =
     bindr (get_purchase_config include_draft d) (\<lambda>config.
     bindr (effective_usd_twd_rate reference config now) (\<lambda>(rate, status).
     Inr (dupdate status
       [(''rate'', PStr (dec_str rate)),
        (''manual_rate'', PStr (str_field (dget config ''manual_usd_to_ntd_rate''))),
        (''mode'', PStr (str_field (py_or (dget config ''fx_rate_mode'') (PStr ''auto''))))])))"

definition next_config_version :: "pdb \<Rightarrow> int" where
  "next_config_version d = (case map pc_version (pd_configs d) of [] \<Rightarrow> 1 | v # vs \<Rightarrow> foldl max v vs + 1)"

definition save_config_draft :: "pydict \<Rightarrow> int \<Rightarrow> int \<Rightarrow> pdb \<Rightarrow> (pydict \<times> pdb) res" where
  "save_config_draft config actor current d =
     bindr (validate_config (drop_keys [''lowest_cash_per_point''] config)) (\<lambda>clean.
     let version = next_config_version d; (config_id, d1) = fresh_id ''proxy_cfg'' d in
     bindr (insert_config_version
       \<lparr>pc_id = config_id, pc_version = version, pc_status = Draft, pc_config = clean, pc_created_by = actor,
        pc_created_at = current, pc_published_at = 0\<rparr> d1) (\<lambda>d2.
     bindr (config_public (dupdate clean
       [(''id'', PStr config_id), (''version_number'', PInt version), (''status'', PStr ''draft'')])) (\<lambda>view.
     Inr (view, d2))))"

section \<open>Publication\<close>

text \<open>The service the configuration names, among those the supplier lists.\<close>

definition provider_service :: "pydict \<Rightarrow> pydict \<Rightarrow> unit res" where
  "provider_service services config =
     (let service_id = str_field (dget config ''service_id'') in
      case List.find (\<lambda>item. pick [''id'', ''serviceId''] item = service_id)
          (list_values (PDict services) [''services'', ''items'', ''data'']) of
        None \<Rightarrow> Inl (PurchaseError ''PROVIDER_SERVICE_UNAVAILABLE'' 409)
      | Some service \<Rightarrow>
        let plan_id = str_field (dget config ''plan_id'') in
        if plan_id \<noteq> [] \<and> \<not> (\<exists>item \<in> set (dicts_of (list_or_empty (dget service ''plans''))).
             pick [''id'', ''planId''] item = plan_id)
        then Inl (PurchaseError ''PROVIDER_PLAN_UNAVAILABLE'' 409) else Inr ())"

definition provider_isps :: "pydict \<Rightarrow> string \<Rightarrow> string list res" where
  "provider_isps setup country =
     (let raw_isps = dget (setup_data setup) ''isps'';
          country_isps = (case raw_isps of PDict m \<Rightarrow> dget_default m country (PList []) | _ \<Rightarrow> raw_isps) in
      bindr (py_iter (py_or country_isps (PList []))) (\<lambda>items.
      Inr (map (pick [''id'', ''value'', ''code'', ''name'']) (dicts_of items))))"

definition provider_offers :: "pydict \<Rightarrow> pydict \<Rightarrow> unit res" where
  "provider_offers setup config =
     (let defaults = dict_or (dget config ''default_parameters'') [];
          country = upper (str_field (dget defaults ''country'')) in
      if country \<noteq> [] \<and> country \<notin> fst ` set (region_items setup)
      then Inl (PurchaseError ''PROVIDER_COUNTRY_UNAVAILABLE'' 409)
      else
        bindr (supported_month_periods setup) (\<lambda>periods.
        bindr (int_or (dget config ''min_period_months'') 1) (\<lambda>min_months.
        bindr (int_or (dget config ''max_period_months'') 1) (\<lambda>max_months.
        if periods \<noteq> [] \<and> \<not> set [min_months..max_months] \<subseteq> set periods
        then Inl (PurchaseError ''PROVIDER_PERIOD_UNAVAILABLE'' 409)
        else
          let isp = pick [''isp'', ''ispId''] defaults in
          if isp = [] then Inr ()
          else bindr (provider_isps setup country) (\<lambda>isps.
            if isp \<notin> set isps then Inl (PurchaseError ''PROVIDER_ISP_UNAVAILABLE'' 409) else Inr ())))))"

definition validate_provider_config :: "'w supplier \<Rightarrow> pydict \<Rightarrow> ('w, unit) proc" where
  "validate_provider_config pv config =
     bindp (asking (pv_list_services pv)) (\<lambda>services.
     bindp (done_with (provider_service services config)) (\<lambda>_.
     bindp (asking (pv_get_setup pv (str_field (dget config ''service_id'')) (str_field (dget config ''plan_id''))))
       (\<lambda>setup.
     done_with (provider_offers setup config))))"

definition draft_config :: "string \<Rightarrow> pdb \<Rightarrow> config_version res" where
  "draft_config config_id d =
     (case find_row (\<lambda>c. pc_id c = config_id \<and> pc_status c = Draft) (pd_configs d) of
        None \<Rightarrow> Inl (PurchaseError ''CONFIG_NOT_FOUND'' 404) | Some c \<Rightarrow> Inr c)"

text \<open>Retire the active version, then activate this one with its derived price.\<close>

definition activate_config :: "string \<Rightarrow> pydict \<Rightarrow> int \<Rightarrow> pdb \<Rightarrow> pdb" where
  "activate_config config_id clean current d =
     d\<lparr>pd_configs := row_modify pc_id config_id
         (\<lambda>c. c\<lparr>pc_status := Active, pc_published_at := current, pc_config := clean\<rparr>)
         (update_where (\<lambda>c. pc_status c = Active) (\<lambda>c. c\<lparr>pc_status := Retired\<rparr>) (pd_configs d))\<rparr>"

definition publish_price :: "string \<Rightarrow> pydict \<Rightarrow> int \<Rightarrow> int \<Rightarrow> config_version \<Rightarrow> pdb \<Rightarrow> (pydict \<times> pdb) res" where
  "publish_price config_id clean actor current row d =
     bindr (lowest_cash_per_point (bill d)) (\<lambda>cash.
     bindr (validate_config (dset ''lowest_cash_per_point'' (PStr (dec_str cash)) clean)) (\<lambda>priced.
     bindr (config_public (dupdate priced
       [(''id'', PStr config_id), (''version_number'', PInt (pc_version row)), (''status'', PStr ''active''),
        (''published_at'', PInt current), (''published_by'', PInt actor)])) (\<lambda>view.
     Inr (view, activate_config config_id priced current d))))"

definition publish_config :: "'w supplier option \<Rightarrow> string \<Rightarrow> int \<Rightarrow> int \<Rightarrow> ('w, pydict) proc" where
  "publish_config provider config_id actor current =
     bindp (reading (draft_config config_id)) (\<lambda>row.
     bindp (done_with (validate_config (pc_config row))) (\<lambda>clean.
     bindp (case provider of Some pv \<Rightarrow> validate_provider_config pv clean | None \<Rightarrow> done_with (Inr ())) (\<lambda>_.
     atomically (publish_price config_id clean actor current row))))"

end
