(* ===== verification/ProxyQuotes.thy ===== *)
theory ProxyQuotes
  imports ProxyConfig
begin

text \<open>
  Quotes and views of orders (webapp/proxy_purchases.py): \<open>create_quote\<close> selects a location
  the supplier can serve, asks its price, converts it into points that cover the cost, and
  stores the request with the price frozen; \<open>_public_order\<close> shows an order with the asset it
  delivered.
\<close>

section \<open>Views\<close>

record purchase_view =
  vw_id :: string
  vw_status :: string
  vw_provider_order_id :: string
  vw_renewal :: bool
  vw_credit_units :: int
  vw_charge_points :: rat
  vw_error_code :: string
  vw_completed_at :: int
  vw_market_item_id :: string
  vw_social_proxy_id :: string

text \<open>The delivered asset of an order: its market item and the owner's proxy, the oldest first.\<close>

definition owned_asset :: "purchase \<Rightarrow> pdb \<Rightarrow> (market_item \<times> social_proxy) option" where
  "owned_asset p d =
     (let pairs = concat (map (\<lambda>i. map (\<lambda>s. (i, s))
            (filter (\<lambda>s. sp_market_item_id s = mi_id i \<and> sp_user_id s = po_user_id p) (pd_proxies d)))
          (filter (\<lambda>i. mi_order_id i = po_id p \<and> mi_ownership i = ''owned'' \<and> mi_owner i = po_user_id p)
            (pd_items d))) in
      case sort_key (\<lambda>(i, s). sp_created_at s) pairs of [] \<Rightarrow> None | x # _ \<Rightarrow> Some x)"

definition public_purchase :: "purchase \<Rightarrow> pdb \<Rightarrow> purchase_view" where
  "public_purchase p d =
     \<lparr>vw_id = po_id p, vw_status = po_status p, vw_provider_order_id = po_provider_order_id p,
      vw_renewal = po_renewal_enabled p, vw_credit_units = po_credit_units p,
      vw_charge_points = b64 (of_int (po_credit_units p) / 100), vw_error_code = po_error_code p,
      vw_completed_at = po_completed_at p,
      vw_market_item_id = (case owned_asset p d of Some (i, _) \<Rightarrow> mi_id i | None \<Rightarrow> []),
      vw_social_proxy_id = (case owned_asset p d of Some (_, s) \<Rightarrow> sp_id s | None \<Rightarrow> [])\<rparr>"

text \<open>The last statement of a handler: read the order back and show it.\<close>

definition show_purchase :: "string \<Rightarrow> pdb \<Rightarrow> purchase_view res" where
  "show_purchase oid d = (case get_purchase oid d of
      None \<Rightarrow> Inl TypeError | Some p \<Rightarrow> Inr (public_purchase p d))"

definition get_purchase_order :: "int \<Rightarrow> string \<Rightarrow> pdb \<Rightarrow> purchase_view res" where
  "get_purchase_order uid oid d =
     (case find_row (\<lambda>p. po_id p = oid \<and> po_user_id p = uid) (pd_orders d) of
        None \<Rightarrow> Inl (PurchaseError ''ORDER_NOT_FOUND'' 404)
      | Some p \<Rightarrow> Inr (public_purchase p d))"

section \<open>Quotes\<close>

record quote_request =
  qr_user_id :: int
  qr_country :: string
  qr_auto_renew :: bool
  qr_city :: string
  qr_period_months :: int

text \<open>The request a quote is for, or why the setup cannot serve it: (request, country name,
  city id, city name).\<close>

definition quote_selection ::
  "pydict \<Rightarrow> pydict \<Rightarrow> quote_request \<Rightarrow> (pydict \<times> string \<times> string \<times> string) res" where
  "quote_selection config setup q =
     (let country = country_key (qr_country q) in
      bindr (py_int (dget config ''default_period_months'')) (\<lambda>fixed_months.
      let months = (if qr_period_months q \<noteq> 0 then qr_period_months q else fixed_months) in
      case map_of (orderable_regions setup (str_field (dget config ''service_id''))) country of
        None \<Rightarrow> Inl (PurchaseError ''INVALID_COUNTRY'' 422)
      | Some country_name \<Rightarrow>
        bindr (supported_month_periods setup) (\<lambda>periods.
        if months \<noteq> fixed_months \<or> (periods \<noteq> [] \<and> fixed_months \<notin> set periods)
        then Inl (PurchaseError ''INVALID_PERIOD'' 422)
        else
          bindr (resolve_orderable_city_id setup country (qr_city q)) (\<lambda>city.
          let city_label = (case List.find (\<lambda>c. city_id c = city) (city_items setup country) of
                Some c \<Rightarrow> city_name c | None \<Rightarrow> city) in
          Inr (configuration config country months city (Some setup), country_name, city, city_label)))))"

text \<open>The price of a supplier quote: (points, revenue required, cash per point, rate).\<close>

definition quote_price ::
  "pydict \<Rightarrow> provider_quote \<Rightarrow> decimal \<Rightarrow> decimal option \<Rightarrow> (int \<times> decimal) res" where
  "quote_price config quoted cash fx_rate =
     bindr (points_units (quote_amount quoted) config (Some cash) fx_rate) (\<lambda>units.
     bindr (assert_profitable (quote_amount quoted) units config cash fx_rate) (\<lambda>_.
     bindr (required_revenue_ntd (quote_amount quoted) config fx_rate) (\<lambda>required.
     Inr (units, required))))"

text \<open>\<open>str(fx_rate or "")\<close>.\<close>

definition dec_or_blank :: "decimal option \<Rightarrow> string" where
  "dec_or_blank x = (case x of Some v \<Rightarrow> if dval v \<noteq> 0 then dec_str v else [] | None \<Rightarrow> [])"

definition pricing_record ::
  "pydict \<Rightarrow> provider_quote \<Rightarrow> decimal \<Rightarrow> decimal option \<Rightarrow> pydict \<Rightarrow> decimal \<Rightarrow> pydict" where
  "pricing_record config quoted cash fx_rate fx_public required =
     [(''mode'', PStr (str_field (py_or (dget config ''pricing_mode'') (PStr ''legacy_points_per_usd'')))),
      (''fxRate'', PStr (dec_or_blank fx_rate)),
      (''profitNtd'', PStr (py_str (py_or (dget config ''profit_ntd'') (PStr ''0'')))),
      (''supplierCostNtd'', PStr (case fx_rate of
          Some fx \<Rightarrow> if dval fx \<noteq> 0 then dec_str (dec_mul (quote_amount quoted) fx) else [] | None \<Rightarrow> [])),
      (''customerTotalNtd'', PStr (dec_str required)), (''cashPerPointNtd'', PStr (dec_str cash)),
      (''fxSource'', PStr (str_field (dget fx_public ''source''))),
      (''fxFetchedAt'', (case py_or (dget fx_public ''fetched_at'') (PInt 0) of PInt i \<Rightarrow> PInt i | _ \<Rightarrow> PInt 0))]"

definition store_quote :: "quote_request \<Rightarrow> pydict \<Rightarrow> pydict \<Rightarrow> provider_quote \<Rightarrow> int \<Rightarrow> int \<Rightarrow>
    pdb \<Rightarrow> (string \<times> pdb) res" where
  "store_quote q config request quoted units current d =
     bindr (minor_units (quote_amount quoted)) (\<lambda>minor.
     bindr (py_int (dget config ''quote_ttl_seconds'')) (\<lambda>ttl.
     let (qid, d1) = fresh_id ''proxy_quote'' d in
     bindr (insert_quote
       \<lparr>pq_id = qid, pq_user_id = qr_user_id q, pq_service_id = str_field (dget config ''service_id''),
        pq_request = request, pq_price_minor = minor, pq_currency = quote_currency quoted,
        pq_credit_units = units, pq_config_version_id = str_field (dget config ''id''), pq_status = ''open'',
        pq_expires_at = current + ttl, pq_created_at = current, pq_updated_at = current\<rparr> d1) (\<lambda>d2.
     Inr (qid, d2))))"

definition create_quote :: "'w supplier \<Rightarrow> quote_request \<Rightarrow> int \<Rightarrow> ('w, string \<times> int) proc" where
  "create_quote pv q current =
     bindp (reading (get_purchase_config False)) (\<lambda>config.
     if str_field (dget config ''status'') \<noteq> ''active'' \<or> \<not> truthy (dget config ''enabled'')
     then done_with (Inl (PurchaseError ''PURCHASES_DISABLED'' 503))
     else
       let service_id = str_field (dget config ''service_id'') in
       bindp (asking (pv_get_setup pv service_id (str_field (dget config ''plan_id'')))) (\<lambda>setup.
       bindp (done_with (quote_selection config setup q)) (\<lambda>(request, country_name, city, city_label).
       bindp (asking (pv_quote pv service_id request)) (\<lambda>quoted.
       if quote_currency quoted \<noteq> ''USD'' then done_with (Inl (PurchaseError ''UNSUPPORTED_CURRENCY'' 409))
       else
         bindp (done_with (decimal_of (dget config ''max_vendor_cost_usd'') zero)) (\<lambda>max_cost.
         if dval max_cost < dval (quote_amount quoted)
         then done_with (Inl (PurchaseError ''COST_LIMIT_EXCEEDED'' 409))
         else
           bindp (reading (\<lambda>d. lowest_cash_per_point (bill d))) (\<lambda>cash.
           bindp (if str_field (dget config ''pricing_mode'') = ''supplier_plus_profit_ntd'' then
               bindp (asking (\<lambda>w. let (r, w') = pv_fx pv w in (Inr r, w'))) (\<lambda>reference.
               bindp (done_with (effective_usd_twd_rate reference config current)) (\<lambda>(fx, public).
               done_with (Inr (Some fx, public))))
             else done_with (Inr (None, []))) (\<lambda>(fx_rate, fx_public).
           bindp (done_with (quote_price config quoted cash fx_rate)) (\<lambda>(units, required).
           let record0 = dupdate request
               [(''autoRenew'', PBool (qr_auto_renew q)), (''countryName'', PStr country_name),
                (''cityName'', PStr city_label),
                (''_pricing'', PDict (pricing_record config quoted cash fx_rate fx_public required))] in
           bindp (atomically (store_quote q config record0 quoted units current)) (\<lambda>qid.
           done_with (Inr (qid, units)))))))))))"

end
