(* ===== verification/ProxyDelivery.thy ===== *)
theory ProxyDelivery
  imports ProxyQuotes
begin

text \<open>
  Delivery (webapp/proxy_purchases.py): turning the supplier's proxy into an owned market item
  and the owner's proxy (\<open>_deliver_owned_proxy\<close>), and bringing an order in line with the
  supplier (\<open>reconcile_order\<close>): a terminal answer retires what was delivered or asks for a
  refund confirmation, an active proxy is delivered and paid for in one transaction, anything
  else is retried later.
\<close>

section \<open>The delivered proxy\<close>

definition TERMINAL_FAILURES :: "string list" where
  "TERMINAL_FAILURES = [''failed'', ''canceled'', ''cancelled'', ''expired'']"

definition ACTIVE_STATUSES :: "string list" where
  "ACTIVE_STATUSES = [''active'', ''completed'', ''ready'']"

definition proxy_protocol :: "pydict \<Rightarrow> string" where
  "proxy_protocol proxy =
     (let e = lower (str_field (proxy_field proxy [''protocol'', ''proxyType'', ''type'']));
          explicit = (if contains e ''socks'' then ''socks5'' else if contains e ''https'' then ''https''
                      else if contains e ''http'' then ''http'' else e);
          chosen = (if explicit \<noteq> [] then explicit
             else if truthy (proxy_field proxy [''httpPort'']) then ''http''
             else if truthy (proxy_field proxy [''httpsPort'']) then ''https'' else ''socks5'') in
      if chosen \<in> {''http'', ''https'', ''socks5''} then chosen else ''http'')"

definition port_keys :: "string \<Rightarrow> string list" where
  "port_keys protocol =
     (if protocol = ''http'' then [''httpPort'', ''port'', ''httpsPort'', ''socks5Port'']
      else if protocol = ''https'' then [''httpsPort'', ''port'', ''httpPort'', ''socks5Port'']
      else [''socks5Port'', ''port'', ''httpsPort'', ''httpPort''])"

text \<open>\<open>encrypt_market_credentials\<close> of webapp/proxy_market_credentials.py.\<close>

definition encrypt_market_credentials ::
  "(int \<Rightarrow> string \<Rightarrow> string \<Rightarrow> string res) \<Rightarrow> string \<Rightarrow> int \<Rightarrow> string \<Rightarrow> string \<Rightarrow> (string \<times> string) res" where
  "encrypt_market_credentials vault item actor username password =
     (let purpose = (\<lambda>field. ''proxy-market:'' @ item @ '':'' @ field) in
      bindr (if username = [] then Inr [] else vault actor (purpose ''username'') username) (\<lambda>u.
      bindr (if password = [] then Inr [] else vault actor (purpose ''password'') password) (\<lambda>p.
      Inr (u, p))))"

definition proxy_expiry :: "'w supplier \<Rightarrow> pydict \<Rightarrow> int res" where
  "proxy_expiry pv proxy =
     parse_timestamp (pv_iso pv) (proxy_field proxy [''expiresAt'', ''expires_at'', ''expirationDate''])"

definition new_item :: "purchase \<Rightarrow> string \<Rightarrow> string \<Rightarrow> string \<times> string \<Rightarrow> string \<Rightarrow> string \<Rightarrow> int \<Rightarrow>
    string \<times> string \<times> string \<times> string \<Rightarrow> int \<Rightarrow> int \<Rightarrow> market_item" where
  "new_item p item proxy_id ciphers protocol host port place expires now =
     (case place of (country, region, city, isp) \<Rightarrow>
      \<lparr>mi_id = item, mi_sku = ''proxycheap-'' @ proxy_id, mi_provider_key = ''proxycheap'', mi_type = protocol,
       mi_host = host, mi_port = port, mi_credential_owner = po_user_id p, mi_username_cipher = fst ciphers,
       mi_password_cipher = snd ciphers, mi_country = country, mi_region = region, mi_city = city,
       mi_isp = isp, mi_status = ''allocated'', mi_expires_at = expires, mi_ownership = ''owned'',
       mi_owner = po_user_id p, mi_order_id = po_id p, mi_proxy_id = proxy_id, mi_created_at = now,
       mi_updated_at = now\<rparr>)"

definition new_social_proxy :: "purchase \<Rightarrow> string \<Rightarrow> string \<Rightarrow> string \<Rightarrow> string \<Rightarrow> int \<Rightarrow>
    string \<times> string \<times> string \<times> string \<Rightarrow> int \<Rightarrow> int \<Rightarrow> social_proxy" where
  "new_social_proxy p social item protocol host port place expires now =
     (case place of (country, region, city, isp) \<Rightarrow>
      \<lparr>sp_id = social, sp_user_id = po_user_id p, sp_type = protocol, sp_host = host, sp_port = port,
       sp_country = country, sp_region = region, sp_city = city, sp_isp = isp,
       sp_source = ''provider_purchase'', sp_purchase_status = ''owned'', sp_expires_at = expires,
       sp_status = ''active'', sp_market_item_id = item, sp_created_at = now, sp_updated_at = now\<rparr>)"

text \<open>(country, region, city, isp): what the user selected wins over what the supplier says.\<close>

definition delivery_place :: "purchase \<Rightarrow> pydict \<Rightarrow> string \<times> string \<times> string \<times> string" where
  "delivery_place p proxy =
     (let country = upper (str_field (py_or (proxy_field proxy [''country'', ''countryCode''])
            (dget (po_request p) ''country'')));
          (selected_city, selected_region) = selected_purchase_location (po_request p) in
      (country,
       if selected_region \<noteq> [] then selected_region else str_field (proxy_field proxy [''region'', ''state'']),
       if selected_city \<noteq> [] then selected_city else str_field (proxy_field proxy [''city'']),
       py_str (proxy_field proxy [''isp'', ''ispName''])))"

definition invalid_proxy :: "'a res" where
  "invalid_proxy = Inl (PurchaseError ''INVALID_PROVIDER_PROXY'' 502)"

definition proxy_id_of :: "pydict \<Rightarrow> string" where
  "proxy_id_of proxy = strip (py_str (proxy_field proxy [''id'', ''proxyId'']))"

definition delivered_item :: "string \<Rightarrow> pdb \<Rightarrow> market_item option" where
  "delivered_item proxy_id d =
     find_row (\<lambda>i. mi_provider_key i = ''proxycheap'' \<and> mi_proxy_id i = proxy_id) (pd_items d)"

definition deliver_new_proxy :: "'w supplier \<Rightarrow> purchase \<Rightarrow> pydict \<Rightarrow> int \<Rightarrow> pdb \<Rightarrow> (string \<times> pdb) res" where
  "deliver_new_proxy pv p proxy now d =
     (let host = strip (py_str (proxy_field proxy [''host'', ''hostname'', ''connectIp'', ''ip'', ''address'']));
          (item, d1) = fresh_id ''owned_proxy_item'' d; (social, d2) = fresh_id ''social_proxy'' d1 in
      bindr (encrypt_market_credentials (pv_vault pv) item (po_user_id p)
          (py_str (proxy_field proxy [''username'', ''user'', ''login'']))
          (py_str (proxy_field proxy [''password'', ''pass'']))) (\<lambda>ciphers.
      bindr (proxy_expiry pv proxy) (\<lambda>expires.
      let place = delivery_place p proxy; protocol = proxy_protocol proxy in
      bindr (int_field (proxy_field proxy (port_keys protocol))) (\<lambda>port.
      if host = [] \<or> port < 1 \<or> 65535 < port then invalid_proxy
      else
        bindr (insert_item (new_item p item (proxy_id_of proxy) ciphers protocol host port place expires now) d2)
          (\<lambda>d3.
        bindr (insert_social_proxy (new_social_proxy p social item protocol host port place expires now) d3) (\<lambda>d4.
        Inr (item, d4)))))))"

definition deliver_owned_proxy :: "'w supplier \<Rightarrow> purchase \<Rightarrow> pydict \<Rightarrow> int \<Rightarrow> pdb \<Rightarrow> (string \<times> pdb) res" where
  "deliver_owned_proxy pv p proxy now d =
     (if proxy_id_of proxy = [] then invalid_proxy
      else case delivered_item (proxy_id_of proxy) d of
        Some existing \<Rightarrow>
          if mi_owner existing \<noteq> po_user_id p \<or> mi_order_id existing \<noteq> po_id p
          then Inl (PurchaseError ''PROVIDER_PROXY_OWNERSHIP_CONFLICT'' 409)
          else Inr (mi_id existing, d)
      | None \<Rightarrow> deliver_new_proxy pv p proxy now d)"

section \<open>Giving the points back\<close>

definition refund_or_release_failed_order :: "string \<Rightarrow> string \<Rightarrow> int \<Rightarrow> pdb \<Rightarrow> pdb res" where
  "refund_or_release_failed_order rid reason now d =
     (case get_reservation rid (bill d) of
        None \<Rightarrow> Inr d
      | Some r \<Rightarrow>
        if r_status r = Held then map_res snd (billing (release_reservation rid now) d)
        else if r_status r = Settled
        then map_res snd (billing (refund_settled_exact_cash_charge rid reason now) d)
        else Inr d)"

section \<open>Reconciling an order with the supplier\<close>

text \<open>What the supplier's answer means for an order.\<close>

datatype supplier_verdict = Terminal string | Deliverable pydict | Pending_order

definition supplier_verdict :: "(string list \<Rightarrow> string) \<Rightarrow> pydict \<Rightarrow> pydict list \<Rightarrow> supplier_verdict" where
  "supplier_verdict any_of details proxies =
     (let statuses = map status_of proxies; failed = filter (\<lambda>s. s \<in> set TERMINAL_FAILURES) statuses in
      if (proxies \<noteq> [] \<and> set statuses \<subseteq> set TERMINAL_FAILURES)
         \<or> (proxies = [] \<and> status_of details \<in> set TERMINAL_FAILURES)
      then Terminal (if failed = [] then ''expired'' else any_of failed)
      else case List.find (\<lambda>p. status_of p \<in> set ACTIVE_STATUSES) proxies of
        Some p \<Rightarrow> Deliverable p | None \<Rightarrow> Pending_order)"

definition stop_renewal :: "string \<Rightarrow> int \<Rightarrow> renewal \<Rightarrow> renewal" where
  "stop_renewal st now r =
     r\<lparr>rn_enabled := False, rn_status := st, rn_lease_token := [], rn_lease_expires_at := 0, rn_updated_at := now\<rparr>"

definition was_delivered :: "purchase \<Rightarrow> pdb \<Rightarrow> bool" where
  "was_delivered p d = (0 < po_completed_at p
     \<or> (\<exists>i \<in> set (pd_items d). mi_order_id i = po_id p \<and> mi_ownership i = ''owned'' \<and> mi_owner i = po_user_id p))"

text \<open>The transaction of a terminal answer: \<open>p\<close> is the order as it was read before.\<close>

definition reconcile_terminal :: "purchase \<Rightarrow> string \<Rightarrow> pydict \<Rightarrow> int \<Rightarrow> pdb \<Rightarrow> (unit \<times> pdb) res" where
  "reconcile_terminal p terminal_status details now d =
     (let oid = po_id p in
      if \<not> was_delivered p d then
        bindr (update_purchase oid (\<lambda>x. x\<lparr>po_status := ''provider_unknown'',
          po_error_code := ''PROVIDER_REFUND_UNCONFIRMED'', po_response := safe_provider_summary details,
          po_last_synced_at := now, po_next_attempt_at := now + 3600,
          po_reconcile_attempts := po_reconcile_attempts p + 1, po_updated_at := now\<rparr>) d) (\<lambda>d1. Inr ((), d1))
      else
        bindr (update_purchase oid (\<lambda>x. x\<lparr>po_status := terminal_status, po_error_code := [],
          po_response := safe_provider_summary details, po_last_synced_at := now, po_updated_at := now\<rparr>) d) (\<lambda>d1.
        let d2 = update_order_items oid (\<lambda>i. i\<lparr>mi_status := ''retired'', mi_updated_at := now\<rparr>) d1;
            d3 = update_order_proxies oid (\<lambda>s. s\<lparr>sp_status := ''inactive'', sp_updated_at := now\<rparr>) d2 in
        Inr ((), update_order_renewal oid (stop_renewal terminal_status now) d3)))"

definition renewal_key :: "string \<Rightarrow> int \<Rightarrow> string" where
  "renewal_key oid expires = ''renew:'' @ oid @ '':'' @ show_int expires"

definition renewal_lead :: int where "renewal_lead = 3 * 86400"

text \<open>The schedule a delivery opens, inserted or written over the order's existing one.\<close>

definition schedule_renewal :: "purchase \<Rightarrow> string \<Rightarrow> string \<Rightarrow> int \<Rightarrow> int \<Rightarrow> int \<Rightarrow> pdb \<Rightarrow> pdb res" where
  "schedule_renewal p proxy_id st next expires now d =
     (let (sid, d1) = fresh_id ''proxy_renew'' d in
      upsert_renewal
        \<lparr>rn_id = sid, rn_order_id = po_id p, rn_user_id = po_user_id p, rn_proxy_id = proxy_id, rn_enabled = True,
         rn_status = st, rn_next_attempt_at = next, rn_expires_at = expires,
         rn_idem = renewal_key (po_id p) expires, rn_reservation_id = [], rn_lease_token = [],
         rn_lease_expires_at = 0, rn_provider_started_at = 0, rn_baseline_expires_at = 0, rn_created_at = now,
         rn_updated_at = now\<rparr>
        (\<lambda>r. r\<lparr>rn_proxy_id := proxy_id, rn_enabled := True, rn_status := st, rn_next_attempt_at := next,
             rn_expires_at := expires, rn_updated_at := now\<rparr>) d1)"

definition schedule_delivered :: "'w supplier \<Rightarrow> purchase \<Rightarrow> pydict \<Rightarrow> int \<Rightarrow> pdb \<Rightarrow> pdb res" where
  "schedule_delivered pv p proxy now d =
     (if \<not> po_renewal_enabled p then Inr d
      else bindr (proxy_expiry pv proxy) (\<lambda>expires.
        let st = (if now + 300 < expires then ''scheduled'' else ''missing_expiry'') in
        schedule_renewal p (py_str (proxy_field proxy [''id'', ''proxyId''])) st
          (if st = ''scheduled'' then max (expires - renewal_lead) now else now + 300) expires now d))"

definition settle_delivered :: "string \<Rightarrow> reservation_row option \<Rightarrow> int \<Rightarrow> pdb \<Rightarrow> pdb res" where
  "settle_delivered rid reservation now d =
     (case reservation of
        Some r \<Rightarrow> if r_status r = Held then map_res snd (billing (settle_reservation rid None True now) d) else Inr d
      | None \<Rightarrow> Inr d)"

text \<open>The transaction of an active proxy: deliver, charge, mark active, schedule the renewal.\<close>

definition reconcile_active :: "'w supplier \<Rightarrow> string \<Rightarrow> pydict \<Rightarrow> pydict \<Rightarrow> int \<Rightarrow> pdb \<Rightarrow> (unit \<times> pdb) res" where
  "reconcile_active pv oid proxy details now d =
     (case get_purchase oid d of
        None \<Rightarrow> Inl TypeError
      | Some p \<Rightarrow>
        let reservation = get_reservation (po_reservation_id p) (bill d);
            proxy_id = py_str (proxy_field proxy [''id'', ''proxyId'']) in
        bindr (deliver_owned_proxy pv p proxy now d) (\<lambda>(item, d1).
        bindr (settle_delivered (po_reservation_id p) reservation now d1) (\<lambda>d2.
        bindr (update_purchase oid (\<lambda>x. x\<lparr>po_status := ''active'', po_provider_proxy_id := proxy_id,
          po_response := safe_provider_summary details, po_last_synced_at := now, po_completed_at := now,
          po_updated_at := now\<rparr>) d2) (\<lambda>d3.
        bindr (schedule_delivered pv p proxy now d3) (\<lambda>d4. Inr ((), d4))))))"

text \<open>The transaction of an answer that settles nothing yet.\<close>

definition reconcile_pending :: "purchase \<Rightarrow> pydict \<Rightarrow> int \<Rightarrow> pdb \<Rightarrow> (unit \<times> pdb) res" where
  "reconcile_pending p details now d =
     bindr (update_purchase (po_id p) (\<lambda>x. x\<lparr>po_status := ''provisioning'',
       po_response := safe_provider_summary details, po_last_synced_at := now,
       po_next_attempt_at := now + reconcile_delay_seconds (po_reconcile_attempts p),
       po_reconcile_attempts := po_reconcile_attempts p + 1, po_updated_at := now\<rparr>) d) (\<lambda>d1. Inr ((), d1))"

definition file_verdict :: "'w supplier \<Rightarrow> purchase \<Rightarrow> supplier_verdict \<Rightarrow> pydict \<Rightarrow> int \<Rightarrow> pdb \<Rightarrow> (unit \<times> pdb) res" where
  "file_verdict pv p verdict details now d =
     (case verdict of
        Terminal st \<Rightarrow> reconcile_terminal p st details now d
      | Deliverable proxy \<Rightarrow> reconcile_active pv (po_id p) proxy details now d
      | Pending_order \<Rightarrow> reconcile_pending p details now d)"

definition purchase_row :: "string \<Rightarrow> pdb \<Rightarrow> purchase res" where
  "purchase_row oid d = (case get_purchase oid d of
      None \<Rightarrow> Inl (PurchaseError ''ORDER_NOT_FOUND'' 404) | Some p \<Rightarrow> Inr p)"

definition reconcile_order :: "'w supplier \<Rightarrow> string \<Rightarrow> int \<Rightarrow> ('w, purchase_view) proc" where
  "reconcile_order pv oid current =
     bindp (reading (purchase_row oid)) (\<lambda>p.
     if po_provider_order_id p = [] then reading (\<lambda>d. Inr (public_purchase p d))
     else
       bindp (asking (pv_get_order pv (po_provider_order_id p))) (\<lambda>details.
       bindp (asking (pv_get_order_proxies pv (po_provider_order_id p))) (\<lambda>answer.
       let verdict = supplier_verdict (pv_any pv) details (proxy_list (PDict answer)) in
       bindp (atomically (file_verdict pv p verdict details current)) (\<lambda>_.
       reading (show_purchase oid)))))"

end
