(* ===== verification/ProxyOrders.thy ===== *)
theory ProxyOrders
  imports ProxyDelivery
begin

text \<open>
  Buying a proxy (webapp/proxy_purchases.py): \<open>create_order\<close> checks a quote against the
  supplier's current price and balance, holds the points in the transaction that records the
  order, sends the request to the supplier once, and files the answer.  An answer that never
  came is resolved by an administrator (\<open>resolve_unknown_order\<close>).  A handler is cut where the
  code commits: each transaction is a definition of its own on the database, so that
  \<open>ProxyMachine\<close> can interleave them with other requests.
\<close>

section \<open>Checks before the hold\<close>

record purchase_request =
  pr_user_id :: int
  pr_quote_id :: string
  pr_idem :: string
  pr_waived :: bool
  pr_reason :: string

definition request_key :: "purchase_request \<Rightarrow> string" where
  "request_key q = take 160 (strip (pr_idem q))"

definition existing_purchase :: "purchase_request \<Rightarrow> pdb \<Rightarrow> purchase option" where
  "existing_purchase q d = find_row (\<lambda>p. po_idem p = request_key q \<and> po_user_id p = pr_user_id q) (pd_orders d)"

definition quote_of_user :: "purchase_request \<Rightarrow> pdb \<Rightarrow> purchase_quote option" where
  "quote_of_user q d = find_row (\<lambda>x. pq_id x = pr_quote_id q \<and> pq_user_id x = pr_user_id q) (pd_quotes d)"

datatype order_check = Replay purchase | Proceed purchase_quote

definition check_replay :: "purchase_request \<Rightarrow> int \<Rightarrow> pdb \<Rightarrow> order_check res" where
  "check_replay q current d =
     (if request_key q = [] then Inl (PurchaseError ''IDEMPOTENCY_REQUIRED'' 400)
      else case existing_purchase q d of
        Some p \<Rightarrow>
          if po_quote_id p \<noteq> pr_quote_id q then Inl (PurchaseError ''IDEMPOTENCY_CONFLICT'' 409) else Inr (Replay p)
      | None \<Rightarrow>
        (case quote_of_user q d of
           None \<Rightarrow> Inl (PurchaseError ''QUOTE_NOT_FOUND'' 404)
         | Some x \<Rightarrow>
           if pq_status x \<noteq> ''open'' \<or> pq_expires_at x \<le> current
           then Inl (PurchaseError ''QUOTE_EXPIRED'' 409) else Inr (Proceed x)))"

definition quote_config :: "purchase_quote \<Rightarrow> pdb \<Rightarrow> pydict res" where
  "quote_config x d =
     (case find_row (\<lambda>c. pc_id c = pq_config_version_id x \<and> pc_status c = Active) (pd_configs d) of
        None \<Rightarrow> Inl (PurchaseError ''QUOTE_CONFIG_RETIRED'' 409)
      | Some c \<Rightarrow> validate_config (pc_config c))"

text \<open>The request as the supplier sees it, without the keys that are the platform's own.\<close>

definition supplier_request :: "pydict \<Rightarrow> pydict" where
  "supplier_request record = drop_keys [''autoRenew'', ''countryName'', ''cityName'', ''_pricing''] record"

text \<open>
  The supplier's current price against the frozen one.  The code marks a quote whose price
  rose as repriced, but in the transaction the exception rolls back, so nothing is written.
\<close>

definition check_fresh_price :: "purchase_quote \<Rightarrow> pydict \<Rightarrow> provider_quote \<Rightarrow> pdb \<Rightarrow> int res" where
  "check_fresh_price x config fresh d =
     bindr (minor_units (quote_amount fresh)) (\<lambda>fresh_minor.
     if quote_currency fresh \<noteq> ''USD'' \<or> pq_price_minor x < fresh_minor
     then Inl (PurchaseError ''PRICE_CHANGED'' 409)
     else
       bindr (decimal_of (dget config ''max_vendor_cost_usd'') zero) (\<lambda>max_cost.
       if dval max_cost < dval (quote_amount fresh) then Inl (PurchaseError ''COST_LIMIT_EXCEEDED'' 409)
       else
         let fx = dget (dict_or (dget (pq_request x) ''_pricing'') []) ''fxRate'' in
         bindr (if given fx then map_res Some (decimal_of fx millionth) else Inr None) (\<lambda>recorded_fx.
         bindr (lowest_cash_per_point (bill d)) (\<lambda>cash.
         bindr (assert_profitable (quote_amount fresh) (pq_credit_units x) config cash recorded_fx) (\<lambda>_.
         Inr fresh_minor)))))"

definition check_balance :: "provider_quote \<Rightarrow> pydict \<Rightarrow> unit res" where
  "check_balance fresh payload =
     (case balance_usd payload of
        None \<Rightarrow> Inl (PurchaseError ''PROVIDER_BALANCE_INSUFFICIENT'' 503)
      | Some b \<Rightarrow> if dval b < dval (quote_amount fresh)
          then Inl (PurchaseError ''PROVIDER_BALANCE_INSUFFICIENT'' 503) else Inr ())"

text \<open>Everything between the replay check and the hold; the result is the fresh price.\<close>

definition preflight :: "'w supplier \<Rightarrow> purchase_quote \<Rightarrow> ('w, int) proc" where
  "preflight pv x s =
     (if \<not> pv_safe pv (sys_world s) then (Inl (PurchaseError ''SAFE_RECONCILIATION_NOT_CONFIRMED'' 503), s)
      else
        bindp (reading (quote_config x)) (\<lambda>config.
        bindp (asking (pv_quote pv (pq_service_id x) (supplier_request (pq_request x)))) (\<lambda>fresh.
        bindp (reading (check_fresh_price x config fresh)) (\<lambda>fresh_minor.
        bindp (asking (pv_get_balance pv)) (\<lambda>payload.
        bindp (done_with (check_balance fresh payload)) (\<lambda>_.
        done_with (Inr fresh_minor)))))) s)"

section \<open>The hold\<close>

definition purchase_charge :: "purchase_request \<Rightarrow> purchase_quote \<Rightarrow> string \<Rightarrow> exact_request" where
  "purchase_charge q x oid =
     \<lparr>er_user_id = pr_user_id q, er_ref_type = ''proxy_purchase'', er_ref_id = oid,
      er_sku = ''proxycheap_owned_proxy'', er_credit_units = pq_credit_units x,
      er_idem = ''proxy-purchase:'' @ show_int (pr_user_id q) @ '':'' @ request_key q, er_waived = pr_waived q,
      er_meta = [(''quote_id'', PStr (pr_quote_id q)), (''provider'', PStr ''proxycheap''),
        (''waived_reason'', PStr (let r = strip (if pr_reason q = [] then ''admin'' else pr_reason q)
           in if r = [] then ''admin'' else r))]\<rparr>"

definition new_purchase ::
  "purchase_request \<Rightarrow> purchase_quote \<Rightarrow> string \<Rightarrow> string \<Rightarrow> int \<Rightarrow> int \<Rightarrow> purchase" where
  "new_purchase q x oid rid fresh_minor current =
     \<lparr>po_id = oid, po_user_id = pr_user_id q, po_quote_id = pr_quote_id q, po_reservation_id = rid,
      po_provider_order_id = [], po_provider_proxy_id = [], po_request = pq_request x,
      po_cost_minor = fresh_minor, po_credit_units = pq_credit_units x,
      po_config_version_id = pq_config_version_id x, po_status = ''reserved'',
      po_renewal_enabled = truthy (dget (pq_request x) ''autoRenew''), po_idem = request_key q,
      po_error_code = [], po_response = [], po_last_synced_at = 0, po_completed_at = 0,
      po_next_attempt_at = current + 60, po_reconcile_attempts = 0, po_client_reference = ''vecto-'' @ oid,
      po_created_at = current, po_updated_at = current\<rparr>"

text \<open>The order that already has the key, or the new order and its hold.\<close>

datatype hold_outcome = Replayed purchase | Placed string string

text \<open>
  The transaction that makes the purchase durable before the supplier hears of it.  The
  replay and the quote are checked again under the write lock.
\<close>

definition place_hold ::
  "purchase_request \<Rightarrow> purchase_quote \<Rightarrow> int \<Rightarrow> int \<Rightarrow> pdb \<Rightarrow> (hold_outcome \<times> pdb) res" where
  "place_hold q x fresh_minor current d =
     (case existing_purchase q d of
        Some p \<Rightarrow>
          if po_quote_id p \<noteq> pr_quote_id q then Inl (PurchaseError ''IDEMPOTENCY_CONFLICT'' 409)
          else Inr (Replayed p, d)
      | None \<Rightarrow>
        if (case quote_of_user q d of None \<Rightarrow> True
            | Some y \<Rightarrow> pq_status y \<noteq> ''open'' \<or> pq_expires_at y \<le> current)
        then Inl (PurchaseError ''QUOTE_ALREADY_USED'' 409)
        else
          let (oid, d1) = fresh_id ''proxy_order'' d in
          bindr (billing (reserve_exact_cash_charge (purchase_charge q x oid) current) d1) (\<lambda>(r, d2).
          bindr (insert_purchase (new_purchase q x oid (rv_id r) fresh_minor current) d2) (\<lambda>d3.
          Inr (Placed oid (rv_id r),
            update_quote (pr_quote_id q) (\<lambda>y. y\<lparr>pq_status := ''accepted'', pq_updated_at := current\<rparr>) d3))))"

section \<open>Filing the supplier's answer\<close>

definition order_unknown :: "string \<Rightarrow> string \<Rightarrow> int \<Rightarrow> pdb \<Rightarrow> (unit \<times> pdb) res" where
  "order_unknown oid code current d =
     bindr (update_purchase oid (\<lambda>p. p\<lparr>po_status := ''provider_unknown'', po_error_code := code,
       po_next_attempt_at := current + 300, po_reconcile_attempts := po_reconcile_attempts p + 1,
       po_updated_at := current\<rparr>) d) (\<lambda>d1. Inr ((), d1))"

definition order_failed :: "string \<Rightarrow> string \<Rightarrow> string \<Rightarrow> int \<Rightarrow> pdb \<Rightarrow> (unit \<times> pdb) res" where
  "order_failed oid rid code current d =
     bindr (billing (release_reservation rid current) d) (\<lambda>(_, d1).
     bindr (update_purchase oid (\<lambda>p. p\<lparr>po_status := ''failed'', po_error_code := code,
       po_updated_at := current\<rparr>) d1) (\<lambda>d2. Inr ((), d2)))"

definition order_accepted :: "string \<Rightarrow> string \<Rightarrow> pydict \<Rightarrow> int \<Rightarrow> pdb \<Rightarrow> (unit \<times> pdb) res" where
  "order_accepted oid provider_id result current d =
     bindr (update_purchase oid (\<lambda>p. p\<lparr>po_provider_order_id := provider_id, po_status := ''provisioning'',
       po_response := safe_provider_summary result, po_last_synced_at := current,
       po_updated_at := current\<rparr>) d) (\<lambda>d1. Inr ((), d1))"

definition delivery_pending :: "string \<Rightarrow> int \<Rightarrow> pdb \<Rightarrow> (unit \<times> pdb) res" where
  "delivery_pending oid current d =
     bindr (update_purchase oid (\<lambda>p. p\<lparr>po_error_code := ''DELIVERY_PENDING'', po_updated_at := current\<rparr>) d)
       (\<lambda>d1. Inr ((), d1))"

text \<open>The supplier accepted: record its order id, then try to deliver at once.\<close>

definition file_accepted :: "'w supplier \<Rightarrow> string \<Rightarrow> pydict \<Rightarrow> int \<Rightarrow> ('w, purchase_view) proc" where
  "file_accepted pv oid result current =
     (let provider_id = provider_order_id result in
      if provider_id = [] then
        bindp (atomically (order_unknown oid ''MISSING_PROVIDER_ORDER_ID'' current)) (\<lambda>_. reading (show_purchase oid))
      else
        bindp (atomically (order_accepted oid provider_id result current)) (\<lambda>_.
        bindp (catching (bindp (reconcile_order pv oid current) (\<lambda>_. done_with (Inr ())))
            (\<lambda>e. atomically (delivery_pending oid current))) (\<lambda>_.
        reading (show_purchase oid))))"

text \<open>\<open>except ProxyProviderOutcomeUnknown\<close> and \<open>except ProxyProviderError\<close>; anything else
  leaves the handler, and the order, as they are.\<close>

definition file_refusal :: "string \<Rightarrow> string \<Rightarrow> int \<Rightarrow> pyexc \<Rightarrow> ('w, purchase_view) proc" where
  "file_refusal oid rid current e =
     (case e of
        ProviderError f \<Rightarrow>
          if f = ProviderOutcomeUnknown then
            bindp (atomically (order_unknown oid (provider_code f) current)) (\<lambda>_. reading (show_purchase oid))
          else
            bindp (atomically (order_failed oid rid (provider_code f) current)) (\<lambda>_.
            if f = ProviderConfigurationError then done_with (Inl e) else reading (show_purchase oid))
      | _ \<Rightarrow> done_with (Inl e))"

definition send_order :: "'w supplier \<Rightarrow> purchase_quote \<Rightarrow> string \<Rightarrow> string \<Rightarrow> int \<Rightarrow> ('w, purchase_view) proc" where
  "send_order pv x oid rid current s =
     (let request = supplier_request (pq_request x) in
      case spending (Execute (pq_service_id x) request) (pv_execute pv (pq_service_id x) request) s of
        (Inl e, s1) \<Rightarrow> file_refusal oid rid current e s1
      | (Inr result, s1) \<Rightarrow> file_accepted pv oid result current s1)"

definition purchase_order :: "'w supplier \<Rightarrow> purchase_request \<Rightarrow> int \<Rightarrow> ('w, purchase_view) proc" where
  "purchase_order pv q current =
     bindp (reading (check_replay q current)) (\<lambda>c.
     case c of
       Replay p \<Rightarrow> reading (\<lambda>d. Inr (public_purchase p d))
     | Proceed x \<Rightarrow>
       bindp (preflight pv x) (\<lambda>fresh_minor.
       bindp (atomically (place_hold q x fresh_minor current)) (\<lambda>h.
       case h of
         Replayed p \<Rightarrow> reading (\<lambda>d. Inr (public_purchase p d))
       | Placed oid rid \<Rightarrow> send_order pv x oid rid current)))"

section \<open>Resolving an unknown outcome\<close>

definition resolvable :: "purchase \<Rightarrow> bool" where
  "resolvable p = (po_status p \<in> {''provider_unknown'', ''provisioning'', ''failed'', ''active''})"

definition resolvable_row :: "string \<Rightarrow> pdb \<Rightarrow> purchase res" where
  "resolvable_row oid d =
     bindr (purchase_row oid d) (\<lambda>p.
     if resolvable p then Inr p else Inl (PurchaseError ''ORDER_NOT_RESOLVABLE'' 409))"

definition bind_provider_order :: "string \<Rightarrow> string \<Rightarrow> int \<Rightarrow> pdb \<Rightarrow> (unit \<times> pdb) res" where
  "bind_provider_order oid provider_id current d =
     bindr (resolvable_row oid d) (\<lambda>p.
     let clean = strip provider_id in
     if clean = [] then Inl (PurchaseError ''PROVIDER_ORDER_REQUIRED'' 400)
     else if po_provider_order_id p \<noteq> [] \<and> po_provider_order_id p \<noteq> clean
     then Inl (PurchaseError ''PROVIDER_ORDER_CONFLICT'' 409)
     else if \<exists>x \<in> set (pd_orders d). po_provider_order_id x = clean \<and> po_id x \<noteq> oid
     then Inl (PurchaseError ''PROVIDER_ORDER_IN_USE'' 409)
     else bindr (update_purchase oid (\<lambda>p. p\<lparr>po_provider_order_id := clean, po_status := ''provisioning'',
            po_error_code := [], po_next_attempt_at := current, po_updated_at := current\<rparr>) d)
          (\<lambda>d1. Inr ((), d1)))"

definition confirm_not_ordered :: "string \<Rightarrow> int \<Rightarrow> int \<Rightarrow> pdb \<Rightarrow> (unit \<times> pdb) res" where
  "confirm_not_ordered oid actor current d =
     bindr (resolvable_row oid d) (\<lambda>p.
     if po_status p = ''failed'' \<and> po_error_code p = ''MANUAL_CONFIRMED_NOT_ORDERED'' then Inr ((), d)
     else if po_provider_order_id p \<noteq> [] then Inl (PurchaseError ''PROVIDER_ORDER_ALREADY_BOUND'' 409)
     else
       bindr (refund_or_release_failed_order (po_reservation_id p)
           (''manual_not_ordered:'' @ show_int actor) current d) (\<lambda>d1.
       bindr (update_purchase oid (\<lambda>p. p\<lparr>po_status := ''failed'',
           po_error_code := ''MANUAL_CONFIRMED_NOT_ORDERED'', po_updated_at := current\<rparr>) d1) (\<lambda>d2.
       Inr ((), d2))))"

definition confirm_provider_refunded :: "string \<Rightarrow> int \<Rightarrow> int \<Rightarrow> pdb \<Rightarrow> (unit \<times> pdb) res" where
  "confirm_provider_refunded oid actor current d =
     bindr (resolvable_row oid d) (\<lambda>p.
     if po_status p = ''failed'' \<and> po_error_code p = ''MANUAL_CONFIRMED_PROVIDER_REFUNDED'' then Inr ((), d)
     else if po_error_code p \<noteq> ''PROVIDER_REFUND_UNCONFIRMED'' \<or> strip (po_provider_order_id p) = []
     then Inl (PurchaseError ''PROVIDER_REFUND_CONFIRMATION_NOT_ALLOWED'' 409)
     else
       bindr (refund_or_release_failed_order (po_reservation_id p)
           (''manual_provider_refund_confirmed:'' @ show_int actor) current d) (\<lambda>d1.
       bindr (update_purchase oid (\<lambda>p. p\<lparr>po_status := ''failed'',
           po_error_code := ''MANUAL_CONFIRMED_PROVIDER_REFUNDED'', po_next_attempt_at := 0,
           po_updated_at := current\<rparr>) d1) (\<lambda>d2.
       Inr ((), d2))))"

definition resolve_unknown_order ::
  "'w supplier \<Rightarrow> string \<Rightarrow> string \<Rightarrow> string \<Rightarrow> int \<Rightarrow> int \<Rightarrow> ('w, purchase_view) proc" where
  "resolve_unknown_order pv oid resolution provider_id actor current =
     (let clean = lower (strip resolution) in
      if clean = ''bind_provider_order'' then
        bindp (atomically (bind_provider_order oid provider_id current)) (\<lambda>_. reconcile_order pv oid current)
      else if clean = ''confirm_not_ordered'' then
        bindp (atomically (confirm_not_ordered oid actor current)) (\<lambda>_. reading (show_purchase oid))
      else if clean = ''confirm_provider_refunded'' then
        bindp (atomically (confirm_provider_refunded oid actor current)) (\<lambda>_. reading (show_purchase oid))
      else
        bindp (reading (resolvable_row oid)) (\<lambda>_. done_with (Inl (PurchaseError ''INVALID_RESOLUTION'' 400))))"

definition action_aliases :: "(string \<times> string) list" where
  "action_aliases =
     [(''bind'', ''bind_provider_order''), (''bind_provider_order'', ''bind_provider_order''),
      (''confirm_not_created'', ''confirm_not_ordered''), (''confirm_not_ordered'', ''confirm_not_ordered''),
      (''confirm_provider_refunded'', ''confirm_provider_refunded'')]"

definition admin_resolve_order ::
  "'w supplier \<Rightarrow> string \<Rightarrow> string \<Rightarrow> string \<Rightarrow> int \<Rightarrow> int \<Rightarrow> ('w, purchase_view) proc" where
  "admin_resolve_order pv oid action provider_id actor current =
     resolve_unknown_order pv oid
       (case map_of action_aliases (lower (strip action)) of Some a \<Rightarrow> a | None \<Rightarrow> action)
       provider_id actor current"

end
