(* ===== verification/ProxyRenewals.thy ===== *)
theory ProxyRenewals
  imports ProxyOrders
begin

text \<open>
  Automatic renewal (webapp/proxy_purchases.py): one schedule per order.  The worker
  (\<open>process_due_renewals\<close>) runs three loops: schedules without an expiry ask the supplier for
  it, schedules whose extension was never confirmed compare the supplier's expiry with the
  one recorded before the call, and schedules that are due are leased, priced, held, extended
  and settled.  An administrator resolves what stays unconfirmed (\<open>admin_resolve_renewal\<close>).
  The owner switches a schedule on and off (\<open>set_order_renewal\<close>).
\<close>

section \<open>The owner's switch\<close>

definition asset_expiry :: "purchase \<Rightarrow> int \<Rightarrow> pdb \<Rightarrow> int" where
  "asset_expiry p uid d =
     (case find_row (\<lambda>i. mi_order_id i = po_id p \<and> mi_proxy_id i = po_provider_proxy_id p
         \<and> mi_ownership i = ''owned'' \<and> mi_owner i = uid) (pd_items d) of
        Some i \<Rightarrow> mi_expires_at i | None \<Rightarrow> 0)"

definition reopen_renewal :: "purchase \<Rightarrow> int \<Rightarrow> int \<Rightarrow> pdb \<Rightarrow> pdb res" where
  "reopen_renewal p uid current d =
     (let expires = asset_expiry p uid d; (sid, d1) = fresh_id ''proxy_renew'' d;
          st = (if current < expires then ''scheduled'' else ''missing_expiry'');
          next = (if expires \<noteq> 0 then max (expires - renewal_lead) current else 0) in
      upsert_renewal
        \<lparr>rn_id = sid, rn_order_id = po_id p, rn_user_id = uid, rn_proxy_id = po_provider_proxy_id p,
         rn_enabled = True, rn_status = st, rn_next_attempt_at = next, rn_expires_at = expires,
         rn_idem = renewal_key (po_id p) expires, rn_reservation_id = [], rn_lease_token = [],
         rn_lease_expires_at = 0, rn_provider_started_at = 0, rn_baseline_expires_at = 0,
         rn_created_at = current, rn_updated_at = current\<rparr>
        (\<lambda>r. r\<lparr>rn_enabled := True, rn_status := st, rn_next_attempt_at := next, rn_expires_at := expires,
             rn_updated_at := current\<rparr>) d1)"

definition switch_renewal :: "int \<Rightarrow> string \<Rightarrow> bool \<Rightarrow> int \<Rightarrow> pdb \<Rightarrow> (purchase_view \<times> pdb) res" where
  "switch_renewal uid oid enabled current d =
     (case find_row (\<lambda>p. po_id p = oid \<and> po_user_id p = uid) (pd_orders d) of
        None \<Rightarrow> Inl (PurchaseError ''ORDER_NOT_FOUND'' 404)
      | Some p \<Rightarrow>
        bindr (update_purchase oid (\<lambda>x. x\<lparr>po_renewal_enabled := enabled, po_updated_at := current\<rparr>) d) (\<lambda>d1.
        let d2 = update_order_renewal oid (\<lambda>r. r\<lparr>rn_enabled := enabled,
              rn_status := (if enabled then ''scheduled'' else ''disabled''), rn_updated_at := current\<rparr>) d1 in
        bindr (if enabled \<and> po_status p = ''active'' then reopen_renewal p uid current d2 else Inr d2) (\<lambda>d3.
        bindr (show_purchase oid d3) (\<lambda>v. Inr (v, d3)))))"

definition set_order_renewal :: "int \<Rightarrow> string \<Rightarrow> bool \<Rightarrow> int \<Rightarrow> ('w, purchase_view) proc" where
  "set_order_renewal uid oid enabled current = atomically (switch_renewal uid oid enabled current)"

section \<open>Schedules without an expiry\<close>

definition always :: "renewal \<Rightarrow> bool" where "always _ = True"

definition write_renewal :: "string \<Rightarrow> (renewal \<Rightarrow> bool) \<Rightarrow> (renewal \<Rightarrow> renewal) \<Rightarrow> pdb \<Rightarrow> (unit \<times> pdb) res" where
  "write_renewal rid P f d = Inr ((), update_renewal rid P f d)"

definition expiry_found :: "renewal \<Rightarrow> int \<Rightarrow> int \<Rightarrow> pdb \<Rightarrow> (unit \<times> pdb) res" where
  "expiry_found r expires current =
     (if expires \<le> current + 300
      then write_renewal (rn_id r) always (\<lambda>x. x\<lparr>rn_next_attempt_at := current + 300, rn_updated_at := current\<rparr>)
      else write_renewal (rn_id r) always (\<lambda>x. x\<lparr>rn_status := ''scheduled'',
        rn_next_attempt_at := max (expires - renewal_lead) current, rn_expires_at := expires,
        rn_updated_at := current\<rparr>))"

definition sync_missing_expiry :: "'w supplier \<Rightarrow> int \<Rightarrow> renewal \<Rightarrow> ('w, string list) proc" where
  "sync_missing_expiry pv current r =
     catching
       (bindp (asking (pv_get_proxy pv (rn_proxy_id r))) (\<lambda>proxy.
        bindp (done_with (proxy_expiry pv proxy)) (\<lambda>expires.
        bindp (atomically (expiry_found r expires current)) (\<lambda>_. done_with (Inr [])))))
       (\<lambda>e. bindp (atomically (write_renewal (rn_id r) always
          (\<lambda>x. x\<lparr>rn_next_attempt_at := current + 300, rn_updated_at := current\<rparr>))) (\<lambda>_. done_with (Inr [])))"

section \<open>Unconfirmed extensions\<close>

definition complete_renewal :: "renewal \<Rightarrow> int \<Rightarrow> int \<Rightarrow> pdb \<Rightarrow> pdb" where
  "complete_renewal r expires now d =
     (let d1 = update_renewal (rn_id r) always (\<lambda>x. x\<lparr>rn_status := ''scheduled'',
            rn_next_attempt_at := max (expires - renewal_lead) now, rn_expires_at := expires,
            rn_idem := renewal_key (rn_order_id r) expires, rn_reservation_id := [], rn_lease_token := [],
            rn_lease_expires_at := 0, rn_provider_started_at := 0, rn_baseline_expires_at := 0,
            rn_updated_at := now\<rparr>) d;
          d2 = update_order_items (rn_order_id r) (\<lambda>i. i\<lparr>mi_expires_at := expires, mi_updated_at := now\<rparr>) d1 in
      update_order_proxies (rn_order_id r) (\<lambda>s. s\<lparr>sp_expires_at := expires, sp_updated_at := now\<rparr>) d2)"

text \<open>Charge the hold and move the schedule on, in one transaction.\<close>

definition settle_renewal :: "string \<Rightarrow> renewal \<Rightarrow> int \<Rightarrow> int \<Rightarrow> pdb \<Rightarrow> (unit \<times> pdb) res" where
  "settle_renewal rid r expires current d =
     bindr (billing (settle_reservation rid None True current) d) (\<lambda>(_, d1).
     Inr ((), complete_renewal r expires current d1))"

definition or_zero :: "int \<Rightarrow> int \<Rightarrow> int" where
  "or_zero a b = (if a \<noteq> 0 then a else b)"

definition mark_unconfirmed :: "string \<Rightarrow> int \<Rightarrow> pdb \<Rightarrow> (unit \<times> pdb) res" where
  "mark_unconfirmed rid current =
     write_renewal rid always (\<lambda>x. x\<lparr>rn_status := ''provider_unknown'', rn_lease_token := [],
       rn_lease_expires_at := 0, rn_updated_at := current\<rparr>)"

definition confirm_extension :: "'w supplier \<Rightarrow> int \<Rightarrow> renewal \<Rightarrow> ('w, string list) proc" where
  "confirm_extension pv current r =
     catching
       (bindp (asking (pv_get_proxy pv (rn_proxy_id r))) (\<lambda>proxy.
        bindp (done_with (proxy_expiry pv proxy)) (\<lambda>actual.
        if actual \<le> or_zero (rn_baseline_expires_at r) (rn_expires_at r) then
          bindp (atomically (mark_unconfirmed (rn_id r) current)) (\<lambda>_. done_with (Inr []))
        else
          bindp (atomically (settle_renewal (rn_reservation_id r) r actual current)) (\<lambda>_.
          done_with (Inr [rn_order_id r])))))
       (\<lambda>e. case e of ProviderError _ \<Rightarrow> done_with (Inr []) | _ \<Rightarrow> done_with (Inl e))"

section \<open>Due schedules\<close>

definition claimable :: "int \<Rightarrow> renewal \<Rightarrow> bool" where
  "claimable current r = (rn_enabled r \<and> rn_status r \<in> {''scheduled'', ''provider_balance_low''}
     \<and> rn_next_attempt_at r \<le> current \<and> rn_lease_expires_at r \<le> current)"

text \<open>The compare-and-set that takes the lease; the result is whether a row was written.\<close>

definition claim_renewal :: "string \<Rightarrow> int \<Rightarrow> pdb \<Rightarrow> ((bool \<times> string) \<times> pdb) res" where
  "claim_renewal rid current d =
     (let lease = uuids (bill d) (draws (bill d)); d1 = d\<lparr>bill := (bill d)\<lparr>draws := Suc (draws (bill d))\<rparr>\<rparr>;
          hit = (case get_renewal rid d1 of Some r \<Rightarrow> claimable current r | None \<Rightarrow> False) in
      Inr ((hit, lease), update_renewal rid (claimable current)
        (\<lambda>x. x\<lparr>rn_status := ''quoting'', rn_lease_token := lease, rn_lease_expires_at := current + 300,
             rn_updated_at := current\<rparr>) d1))"

definition leased_renewal :: "string \<Rightarrow> string \<Rightarrow> pdb \<Rightarrow> (renewal \<times> purchase) option res" where
  "leased_renewal rid lease d =
     Inr (case get_renewal rid d of
        None \<Rightarrow> None
      | Some r \<Rightarrow> if rn_lease_token r \<noteq> lease then None
          else map_option (\<lambda>p. (r, p)) (get_purchase (rn_order_id r) d))"

definition renewal_months :: "purchase \<Rightarrow> int res" where
  "renewal_months p =
     bindr (int_or (dget (dict_or (dget (po_request p) ''period'') []) ''value'') 1) (\<lambda>n. Inr (max 1 (min n 36)))"

definition renewal_config :: "provider_quote \<Rightarrow> purchase \<Rightarrow> pdb \<Rightarrow> pydict res" where
  "renewal_config quoted p d =
     (case row_get pc_id (po_config_version_id p) (pd_configs d) of
        None \<Rightarrow> Inl (PurchaseError ''RENEWAL_CONFIG_INVALID'' 409)
      | Some c \<Rightarrow>
        if quote_currency quoted \<noteq> ''USD'' then Inl (PurchaseError ''RENEWAL_CONFIG_INVALID'' 409)
        else validate_config (pc_config c))"

definition holds_lease :: "string \<Rightarrow> renewal \<Rightarrow> bool" where
  "holds_lease lease r = (rn_lease_token r = lease)"

definition park_renewal :: "string \<Rightarrow> string \<Rightarrow> (renewal \<Rightarrow> bool) \<Rightarrow> (renewal \<Rightarrow> renewal) \<Rightarrow> int \<Rightarrow> pdb \<Rightarrow> (unit \<times> pdb) res" where
  "park_renewal rid st P f current =
     write_renewal rid P (\<lambda>x. (f x)\<lparr>rn_status := st, rn_lease_token := [], rn_lease_expires_at := 0,
       rn_updated_at := current\<rparr>)"

definition renewal_charge :: "renewal \<Rightarrow> int \<Rightarrow> exact_request" where
  "renewal_charge r units =
     \<lparr>er_user_id = rn_user_id r, er_ref_type = ''proxy_renewal'', er_ref_id = rn_id r,
      er_sku = ''proxycheap_owned_proxy_renewal'', er_credit_units = units, er_idem = rn_idem r,
      er_waived = False,
      er_meta = [(''order_id'', PStr (rn_order_id r)), (''provider_proxy_id'', PStr (rn_proxy_id r))]\<rparr>"

text \<open>Hold the points and record, in the same transaction, that the extension is about to be asked for.\<close>

definition hold_renewal :: "renewal \<Rightarrow> string \<Rightarrow> int \<Rightarrow> int \<Rightarrow> pdb \<Rightarrow> (string \<times> pdb) res" where
  "hold_renewal r lease units current d =
     bindr (billing (reserve_exact_cash_charge (renewal_charge r units) current) d) (\<lambda>(v, d1).
     Inr (rv_id v, update_renewal (rn_id r) (holds_lease lease)
       (\<lambda>x. x\<lparr>rn_status := ''extending'', rn_reservation_id := rv_id v, rn_provider_started_at := current,
            rn_baseline_expires_at := rn_expires_at x, rn_updated_at := current\<rparr>) d1))"

definition renewal_price :: "'w supplier \<Rightarrow> provider_quote \<Rightarrow> pydict \<Rightarrow> int \<Rightarrow> ('w, int) proc" where
  "renewal_price pv quoted config current =
     bindp (reading (\<lambda>d. lowest_cash_per_point (bill d))) (\<lambda>cash.
     bindp (if str_field (dget config ''pricing_mode'') = ''supplier_plus_profit_ntd'' then
         bindp (asking (\<lambda>w. let (r, w') = pv_fx pv w in (Inr r, w'))) (\<lambda>reference.
         bindp (done_with (effective_usd_twd_rate reference config current)) (\<lambda>(fx, _). done_with (Inr (Some fx))))
       else done_with (Inr None)) (\<lambda>fx_rate.
     bindp (done_with (points_units (quote_amount quoted) config (Some cash) fx_rate)) (\<lambda>units.
     bindp (done_with (assert_profitable (quote_amount quoted) units config cash fx_rate)) (\<lambda>_.
     done_with (Inr units)))))"

text \<open>After the hold: ask for the extension, and accept only an expiry later than the one on record.\<close>

definition extend_renewal :: "'w supplier \<Rightarrow> renewal \<Rightarrow> string \<Rightarrow> int \<Rightarrow> int \<Rightarrow> ('w, string list) proc" where
  "extend_renewal pv r rid months current =
     bindp (spending (ExtendPeriod (rn_proxy_id r) months) (pv_extend_period pv (rn_proxy_id r) months)) (\<lambda>response.
     bindp (done_with (proxy_expiry pv response)) (\<lambda>told.
     bindp (if told \<le> rn_expires_at r then
         bindp (asking (pv_get_proxy pv (rn_proxy_id r))) (\<lambda>actual. done_with (proxy_expiry pv actual))
       else done_with (Inr told)) (\<lambda>actual.
     if actual \<le> rn_expires_at r then done_with (Inl (ProviderError ProviderOutcomeUnknown))
     else bindp (atomically (settle_renewal rid r actual current)) (\<lambda>_. done_with (Inr [rn_order_id r])))))"

definition renew_leased :: "'w supplier \<Rightarrow> renewal \<Rightarrow> purchase \<Rightarrow> string \<Rightarrow> int \<Rightarrow> ('w, string list) proc" where
  "renew_leased pv r p lease current =
     bindp (done_with (renewal_months p)) (\<lambda>months.
     (\<lambda>s. (if \<not> pv_safe pv (sys_world s) then
         bindp (atomically (park_renewal (rn_id r) ''config_blocked'' (holds_lease lease) (\<lambda>x. x) current))
           (\<lambda>_. done_with (Inr []))
       else
         bindp (asking (pv_extension_quote pv (rn_proxy_id r) months)) (\<lambda>quoted.
         bindp (reading (renewal_config quoted p)) (\<lambda>config.
         bindp (renewal_price pv quoted config current) (\<lambda>units.
         bindp (done_with (decimal_of (dget config ''max_vendor_cost_usd'') zero)) (\<lambda>max_cost.
         if dval max_cost < dval (quote_amount quoted) then
           bindp (atomically (park_renewal (rn_id r) ''cost_limit'' always (\<lambda>x. x\<lparr>rn_enabled := False\<rparr>) current))
             (\<lambda>_. done_with (Inr []))
         else
           bindp (asking (pv_get_balance pv)) (\<lambda>payload.
           if (case balance_usd payload of None \<Rightarrow> True | Some b \<Rightarrow> dval b < dval (quote_amount quoted)) then
             bindp (atomically (park_renewal (rn_id r) ''provider_balance_low'' (holds_lease lease)
               (\<lambda>x. x\<lparr>rn_next_attempt_at := current + 3600\<rparr>) current)) (\<lambda>_. done_with (Inr []))
           else
             bindp (atomically (hold_renewal r lease units current)) (\<lambda>rid.
             extend_renewal pv r rid months current))))))) s))"

text \<open>The exception handlers of the loop body, in the order of the code.\<close>

definition refuse_renewal :: "string \<Rightarrow> string \<Rightarrow> int \<Rightarrow> pdb \<Rightarrow> (unit \<times> pdb) res" where
  "refuse_renewal rid reservation current d =
     bindr (billing (release_reservation reservation current) d) (\<lambda>(_, d1).
     park_renewal rid ''failed'' always (\<lambda>x. x\<lparr>rn_enabled := False\<rparr>) current d1)"

definition renewal_error :: "string \<Rightarrow> int \<Rightarrow> pyexc \<Rightarrow> pdb \<Rightarrow> (unit \<times> pdb) res" where
  "renewal_error rid current e d =
     (case e of
        ProviderError f \<Rightarrow>
          (case get_renewal rid d of
             Some r \<Rightarrow>
               if f \<noteq> ProviderOutcomeUnknown \<and> definitive f \<and> rn_reservation_id r \<noteq> []
               then refuse_renewal rid (rn_reservation_id r) current d
               else mark_unconfirmed rid current d
           | None \<Rightarrow> mark_unconfirmed rid current d)
      | BillingError _ _ \<Rightarrow>
          park_renewal rid ''insufficient_points'' always (\<lambda>x. x\<lparr>rn_enabled := False\<rparr>) current d
      | _ \<Rightarrow>
          (case get_renewal rid d of
             Some r \<Rightarrow>
               if rn_status r = ''extending'' then mark_unconfirmed rid current d
               else park_renewal rid ''scheduled'' always (\<lambda>x. x\<lparr>rn_next_attempt_at := current + 300\<rparr>) current d
           | None \<Rightarrow>
               park_renewal rid ''scheduled'' always (\<lambda>x. x\<lparr>rn_next_attempt_at := current + 300\<rparr>) current d))"

definition renew_due :: "'w supplier \<Rightarrow> int \<Rightarrow> string \<Rightarrow> ('w, string list) proc" where
  "renew_due pv current rid =
     catching
       (bindp (atomically (claim_renewal rid current)) (\<lambda>(claimed, lease).
        if \<not> claimed then done_with (Inr [])
        else
          bindp (reading (leased_renewal rid lease)) (\<lambda>row.
          case row of
            None \<Rightarrow> done_with (Inr [])
          | Some (r, p) \<Rightarrow> renew_leased pv r p lease current)))
       (\<lambda>e. bindp (atomically (renewal_error rid current e)) (\<lambda>_. done_with (Inr [])))"

text \<open>The result is the list of the orders that were renewed.\<close>

definition process_due_renewals :: "'w supplier \<Rightarrow> int \<Rightarrow> int \<Rightarrow> ('w, string list) proc" where
  "process_due_renewals pv limit current =
     (let n = clamp limit 100 in
      bindp (reading (\<lambda>d. Inr (select_ordered (\<lambda>r. rn_enabled r \<and> rn_status r = ''missing_expiry''
        \<and> rn_next_attempt_at r \<le> current) rn_next_attempt_at n (pd_renewals d)))) (\<lambda>missing.
      bindp (for_each (sync_missing_expiry pv current) missing) (\<lambda>_.
      bindp (reading (\<lambda>d. Inr (select_ordered (\<lambda>r. rn_enabled r \<and> rn_status r \<in> {''extending'', ''provider_unknown''})
        rn_updated_at n (pd_renewals d)))) (\<lambda>uncertain.
      bindp (for_each (confirm_extension pv current) uncertain) (\<lambda>confirmed.
      bindp (reading (\<lambda>d. Inr (map rn_id (select_ordered (claimable current) rn_next_attempt_at n (pd_renewals d))))) (\<lambda>due.
      bindp (for_each (renew_due pv current) due) (\<lambda>renewed.
      done_with (Inr (confirmed @ renewed)))))))))"

section \<open>The administrator\<close>

definition schedule_of_order :: "string \<Rightarrow> pdb \<Rightarrow> renewal res" where
  "schedule_of_order oid d = (case renewal_of_order oid d of
      None \<Rightarrow> Inl (PurchaseError ''RENEWAL_NOT_FOUND'' 404) | Some r \<Rightarrow> Inr r)"

definition confirm_extended :: "renewal \<Rightarrow> int \<Rightarrow> int \<Rightarrow> pdb \<Rightarrow> (unit \<times> pdb) res" where
  "confirm_extended r expires current d =
     (if rn_reservation_id r \<noteq> [] then settle_renewal (rn_reservation_id r) r expires current d
      else Inr ((), complete_renewal r expires current d))"

definition confirm_not_extended :: "renewal \<Rightarrow> int \<Rightarrow> pdb \<Rightarrow> (unit \<times> pdb) res" where
  "confirm_not_extended r current d =
     bindr (if rn_reservation_id r \<noteq> [] then map_res snd (billing (release_reservation (rn_reservation_id r) current) d)
            else Inr d) (\<lambda>d1.
     park_renewal (rn_id r) ''not_extended'' always
       (\<lambda>x. x\<lparr>rn_enabled := False, rn_reservation_id := []\<rparr>) current d1)"

text \<open>The result is the new status and expiry.\<close>

definition admin_resolve_renewal :: "'w supplier \<Rightarrow> string \<Rightarrow> string \<Rightarrow> int \<Rightarrow> ('w, string \<times> int) proc" where
  "admin_resolve_renewal pv oid action current =
     bindp (reading (schedule_of_order oid)) (\<lambda>r.
     let clean = lower (strip action) in
     if clean \<notin> {''reconcile'', ''confirm_extended'', ''confirm_not_extended''}
     then done_with (Inl (PurchaseError ''INVALID_RENEWAL_RESOLUTION'' 400))
     else if clean \<noteq> ''confirm_not_extended'' then
       bindp (asking (pv_get_proxy pv (rn_proxy_id r))) (\<lambda>proxy.
       bindp (done_with (proxy_expiry pv proxy)) (\<lambda>actual.
       if actual \<le> or_zero (rn_baseline_expires_at r) (rn_expires_at r) then
         (if clean = ''confirm_extended'' then done_with (Inl (PurchaseError ''RENEWAL_NOT_PROVEN'' 409))
          else done_with (Inr (rn_status r, rn_expires_at r)))
       else bindp (atomically (confirm_extended r actual current)) (\<lambda>_. done_with (Inr (''renewed'', actual)))))
     else if rn_status r \<in> {''failed'', ''not_extended''} then done_with (Inr (rn_status r, rn_expires_at r))
     else if rn_status r \<notin> {''provider_unknown'', ''extending''}
     then done_with (Inl (PurchaseError ''RENEWAL_NOT_RESOLVABLE'' 409))
     else bindp (atomically (confirm_not_extended r current)) (\<lambda>_. done_with (Inr (''not_extended'', rn_expires_at r))))"

end
