(* ===== verification/ProxyEvents.thy ===== *)
theory ProxyEvents
  imports ProxyRenewals
begin

text \<open>
  The asynchronous side of webapp/proxy_purchases.py: webhooks are authenticated, redacted
  and stored once (\<open>record_webhook\<close>), then consumed (\<open>process_webhook_events\<close>); the worker
  reconciles the orders that are due (\<open>reconcile_due_orders\<close>) and refreshes the delivered
  proxies (\<open>sync_active_assets\<close>).  The keyed digest (\<open>hmac\<close>, hex SHA-256 of the standard
  library) and the JSON decoder are parameters.
\<close>

section \<open>Webhooks\<close>

record webhook =
  wh_body :: string
  wh_event_name :: string
  wh_event_id :: string
  wh_signature :: string

definition verify_webhook_signature :: "(string \<Rightarrow> string \<Rightarrow> string) \<Rightarrow> webhook \<Rightarrow> string \<Rightarrow> bool" where
  "verify_webhook_signature hmac h secret =
     (let key = strip secret in
      if key = [] \<or> wh_event_name h = [] \<or> wh_event_id h = [] \<or> wh_signature h = [] then False
      else
        let expected = hmac key (wh_event_name h @ wh_event_id h @ wh_body h);
            received0 = strip (wh_signature h);
            received = (if starts_with ''sha256='' (lower received0) then drop 7 received0 else received0) in
        lower expected = lower received)"

text \<open>\<open>(payload.get(k) or (payload.get("data") or {}).get(k) or "")\<close>.\<close>

definition webhook_ref :: "pydict \<Rightarrow> string \<Rightarrow> string res" where
  "webhook_ref payload k =
     (if truthy (dget payload k) then Inr (py_str (dget payload k))
      else bindr (py_get (py_or (dget payload ''data'') (PDict [])) k) (\<lambda>v. Inr (str_field v)))"

definition candidate_secrets :: "string option \<Rightarrow> string list \<Rightarrow> bdb \<Rightarrow> string list" where
  "candidate_secrets secret stored b =
     (case secret of
        Some s \<Rightarrow> [s]
      | None \<Rightarrow> if stored \<noteq> [] then stored
          else [case environ b ''PROXYCHEAP_WEBHOOK_SECRET'' of Some s \<Rightarrow> s | None \<Rightarrow> []])"

definition new_event :: "string \<Rightarrow> webhook \<Rightarrow> string \<Rightarrow> string \<Rightarrow> pydict \<Rightarrow> int \<Rightarrow> purchase_event" where
  "new_event eid h order_id proxy_id payload current =
     \<lparr>ev_id = eid, ev_event_id = wh_event_id h, ev_order_id = order_id, ev_proxy_id = proxy_id,
      ev_type = wh_event_name h, ev_payload = redact (PDict payload), ev_processed_at = 0,
      ev_status = ''pending'', ev_attempts = 0, ev_next_attempt_at = current, ev_created_at = current\<rparr>"

text \<open>The result is whether the event was already known.\<close>

definition record_webhook :: "(string \<Rightarrow> string \<Rightarrow> string) \<Rightarrow> (string \<Rightarrow> pyval option) \<Rightarrow> webhook \<Rightarrow>
    string option \<Rightarrow> string list \<Rightarrow> int \<Rightarrow> pdb \<Rightarrow> (bool \<times> pdb) res" where
  "record_webhook hmac decode h secret stored current d =
     (if strip (wh_event_name h) = [] \<or> 128 < length (wh_event_name h) \<or> strip (wh_event_id h) = []
         \<or> 200 < length (wh_event_id h) \<or> 256 < length (wh_signature h)
      then Inl (PurchaseError ''INVALID_WEBHOOK_HEADERS'' 400)
      else if \<not> (\<exists>s \<in> set (candidate_secrets secret stored (bill d)). verify_webhook_signature hmac h s)
      then Inl (PurchaseError ''INVALID_WEBHOOK_SIGNATURE'' 401)
      else case decode (wh_body h) of
        Some (PDict payload) \<Rightarrow>
          bindr (webhook_ref payload ''proxyId'') (\<lambda>proxy_id.
          bindr (webhook_ref payload ''orderId'') (\<lambda>order_id.
          let (eid, d1) = fresh_id ''proxy_event'' d;
              (inserted, d2) = insert_event_or_ignore (new_event eid h order_id proxy_id payload current) d1 in
          Inr (\<not> inserted, d2)))
      | _ \<Rightarrow> Inl (PurchaseError ''INVALID_WEBHOOK_BODY'' 400))"

section \<open>Consuming events\<close>

definition event_ready :: "int \<Rightarrow> purchase_event \<Rightarrow> bool" where
  "event_ready current e = (ev_status e \<in> {''pending'', ''retry''} \<and> ev_next_attempt_at e \<le> current)"

definition claim_event :: "string \<Rightarrow> int \<Rightarrow> pdb \<Rightarrow> (bool \<times> pdb) res" where
  "claim_event eid current d =
     Inr (case row_get ev_id eid (pd_events d) of Some e \<Rightarrow> event_ready current e | None \<Rightarrow> False,
       update_event eid (\<lambda>e. if event_ready current e
         then e\<lparr>ev_status := ''processing'', ev_attempts := ev_attempts e + 1\<rparr> else e) d)"

text \<open>The local order an event is about: by our id, else by the supplier's order, else by the proxy.\<close>

definition order_by_reference :: "string \<Rightarrow> pdb \<Rightarrow> string" where
  "order_by_reference ref d =
     (if ref = [] then []
      else case get_purchase ref d of
        Some p \<Rightarrow> po_id p
      | None \<Rightarrow> (case find_row (\<lambda>p. po_provider_order_id p = ref) (pd_orders d) of
          Some p \<Rightarrow> po_id p | None \<Rightarrow> []))"

definition event_order :: "string \<Rightarrow> pdb \<Rightarrow> string" where
  "event_order eid d =
     (case row_get ev_id eid (pd_events d) of
        None \<Rightarrow> []
      | Some e \<Rightarrow>
        let oid = order_by_reference (ev_order_id e) d in
        if oid \<noteq> [] \<or> ev_proxy_id e = [] then oid
        else (case find_row (\<lambda>p. po_provider_proxy_id p = ev_proxy_id e) (pd_orders d) of
            Some p \<Rightarrow> po_id p | None \<Rightarrow> []))"

definition mark_event :: "string \<Rightarrow> (purchase_event \<Rightarrow> purchase_event) \<Rightarrow> pdb \<Rightarrow> (unit \<times> pdb) res" where
  "mark_event eid f d = Inr ((), update_event eid f d)"

definition consume_event :: "'w supplier \<Rightarrow> int \<Rightarrow> string \<Rightarrow> ('w, string list) proc" where
  "consume_event pv current eid =
     catching
       (bindp (atomically (claim_event eid current)) (\<lambda>claimed.
        if \<not> claimed then done_with (Inr [])
        else
          bindp (reading (\<lambda>d. Inr (event_order eid d))) (\<lambda>oid.
          bindp (if oid \<noteq> [] then
              bindp (reconcile_order pv oid current) (\<lambda>_.
              atomically (mark_event eid (\<lambda>e. e\<lparr>ev_status := ''processed'', ev_processed_at := current\<rparr>)))
            else atomically (mark_event eid (\<lambda>e. e\<lparr>ev_status := ''unmatched'', ev_processed_at := current\<rparr>))) (\<lambda>_.
          done_with (Inr [eid])))))
       (\<lambda>e. bindp (atomically (mark_event eid (\<lambda>x. x\<lparr>ev_status := ''retry'', ev_next_attempt_at := current + 300\<rparr>)))
          (\<lambda>_. done_with (Inr [])))"

definition process_webhook_events :: "'w supplier \<Rightarrow> int \<Rightarrow> int \<Rightarrow> ('w, string list) proc" where
  "process_webhook_events pv limit current =
     bindp (reading (\<lambda>d. Inr (map ev_id (select_ordered (event_ready current) ev_created_at (clamp limit 200)
       (pd_events d))))) (for_each (consume_event pv current))"

section \<open>The worker's sweeps\<close>

definition sync_asset :: "purchase \<Rightarrow> string \<Rightarrow> int \<Rightarrow> int \<Rightarrow> pdb \<Rightarrow> (unit \<times> pdb) res" where
  "sync_asset p st expires current d =
     (let oid = po_id p in
      if st \<in> set TERMINAL_FAILURES then
        bindr (update_purchase oid (\<lambda>x. x\<lparr>po_status := st, po_last_synced_at := current,
          po_updated_at := current\<rparr>) d) (\<lambda>d1.
        let d2 = update_order_items oid (\<lambda>i. i\<lparr>mi_status := ''retired'', mi_expires_at := expires,
              mi_updated_at := current\<rparr>) d1;
            d3 = update_order_proxies oid (\<lambda>s. s\<lparr>sp_status := ''inactive'', sp_expires_at := expires,
              sp_updated_at := current\<rparr>) d2 in
        Inr ((), update_order_renewal oid (stop_renewal st current) d3))
      else
        bindr (update_purchase oid (\<lambda>x. x\<lparr>po_last_synced_at := current, po_updated_at := current\<rparr>) d) (\<lambda>d1.
        Inr ((), if expires = 0 then d1
          else update_order_proxies oid (\<lambda>s. s\<lparr>sp_expires_at := expires, sp_updated_at := current\<rparr>)
            (update_order_items oid (\<lambda>i. i\<lparr>mi_expires_at := expires, mi_updated_at := current\<rparr>) d1))))"

definition sync_order :: "'w supplier \<Rightarrow> int \<Rightarrow> purchase \<Rightarrow> ('w, string list) proc" where
  "sync_order pv current p =
     catching
       (bindp (asking (pv_get_proxy pv (po_provider_proxy_id p))) (\<lambda>proxy.
        bindp (done_with (proxy_expiry pv proxy)) (\<lambda>expires.
        bindp (atomically (sync_asset p (status_of proxy) expires current)) (\<lambda>_. done_with (Inr [po_id p])))))
       (\<lambda>e. done_with (Inr []))"

definition sync_active_assets :: "'w supplier \<Rightarrow> int \<Rightarrow> int \<Rightarrow> ('w, string list) proc" where
  "sync_active_assets pv limit current =
     bindp (reading (\<lambda>d. Inr (select_ordered (\<lambda>p. po_status p = ''active'' \<and> po_provider_proxy_id p \<noteq> []
       \<and> po_last_synced_at p \<le> current - 3600) po_last_synced_at (clamp limit 100) (pd_orders d))))
       (for_each (sync_order pv current))"

definition postpone_order :: "string \<Rightarrow> int \<Rightarrow> pdb \<Rightarrow> (unit \<times> pdb) res" where
  "postpone_order oid current d =
     bindr (update_purchase oid (\<lambda>p. p\<lparr>po_next_attempt_at := current + 300,
       po_reconcile_attempts := po_reconcile_attempts p + 1, po_updated_at := current\<rparr>) d) (\<lambda>d1. Inr ((), d1))"

definition reconcile_due :: "'w supplier \<Rightarrow> int \<Rightarrow> string \<Rightarrow> ('w, purchase_view list) proc" where
  "reconcile_due pv current oid =
     catching (bindp (reconcile_order pv oid current) (\<lambda>v. done_with (Inr [v])))
       (\<lambda>e. bindp (atomically (postpone_order oid current)) (\<lambda>_. done_with (Inr [])))"

definition reconcile_due_orders :: "'w supplier \<Rightarrow> int \<Rightarrow> int \<Rightarrow> ('w, purchase_view list) proc" where
  "reconcile_due_orders pv limit current =
     bindp (reading (\<lambda>d. Inr (map po_id (select_ordered (\<lambda>p. po_provider_order_id p \<noteq> []
       \<and> po_status p \<in> {''provisioning'', ''provider_unknown''} \<and> po_next_attempt_at p \<le> current)
       po_last_synced_at (clamp limit 100) (pd_orders d))))) (for_each (reconcile_due pv current))"

end
