(* ===== verification/ProxyMachine.thy ===== *)
theory ProxyMachine
  imports ProxyEvents BillingInvariants BillingReplay
begin

text \<open>
  The purchasing component as a state machine.  Handlers run concurrently and interleave
  between their transactions, so a step is one transaction, with arguments that may stem from
  an earlier state: \<open>pm_reads\<close> holds the order rows that some handler has read and may still
  use, \<open>pm_flight\<close> the orders (with their holds) whose request is on its way to the supplier,
  \<open>pm_sent\<close> the orders whose request was sent, in order.  A process may die while a request
  is in flight (\<open>crash\<close>).
\<close>

record machine =
  pm_db :: pdb
  pm_reads :: "purchase set"
  pm_flight :: "(string \<times> string) set"
  pm_sent :: "string list"

definition owned_items :: "pdb \<Rightarrow> string set" where
  "owned_items d = mi_order_id ` {i \<in> set (pd_items d). mi_ownership i = ''owned''}"

text \<open>The status a terminal verdict carries is one of the terminal ones.\<close>

definition verdict_ok :: "supplier_verdict \<Rightarrow> bool" where
  "verdict_ok v = (\<forall>s. v = Terminal s \<longrightarrow> s \<in> set TERMINAL_FAILURES)"

text \<open>
  \<open>tables\<close> stands for the transactions that only write configurations, events or schedules,
  \<open>market\<close> for what the rest of the application does to market items and proxies (it makes no
  item an owned one of a purchase), \<open>billing\<close> for any operation of the billing component.
\<close>

inductive purchase_step :: "'w supplier \<Rightarrow> machine \<Rightarrow> machine \<Rightarrow> bool" for pv where
  read: "p \<in> set (pd_orders (pm_db m)) \<Longrightarrow> purchase_step pv m (m\<lparr>pm_reads := insert p (pm_reads m)\<rparr>)"
| place: "place_hold q x minor t (pm_db m) = Inr (Placed oid rid, d) \<Longrightarrow>
    purchase_step pv m (m\<lparr>pm_db := d, pm_flight := insert (oid, rid) (pm_flight m), pm_sent := pm_sent m @ [oid]\<rparr>)"
| unknown: "f \<in> pm_flight m \<Longrightarrow> order_unknown (fst f) code t (pm_db m) = Inr (u, d) \<Longrightarrow>
    purchase_step pv m (m\<lparr>pm_db := d, pm_flight := pm_flight m - {f}\<rparr>)"
| failed: "f \<in> pm_flight m \<Longrightarrow> order_failed (fst f) (snd f) code t (pm_db m) = Inr (u, d) \<Longrightarrow>
    purchase_step pv m (m\<lparr>pm_db := d, pm_flight := pm_flight m - {f}\<rparr>)"
| accepted: "f \<in> pm_flight m \<Longrightarrow> pid \<noteq> [] \<Longrightarrow> order_accepted (fst f) pid result t (pm_db m) = Inr (u, d) \<Longrightarrow>
    purchase_step pv m (m\<lparr>pm_db := d, pm_flight := pm_flight m - {f}\<rparr>)"
| crash: "purchase_step pv m (m\<lparr>pm_flight := pm_flight m - {f}\<rparr>)"
| pending: "delivery_pending oid t (pm_db m) = Inr (u, d) \<Longrightarrow> purchase_step pv m (m\<lparr>pm_db := d\<rparr>)"
| verdict: "p \<in> pm_reads m \<Longrightarrow> po_provider_order_id p \<noteq> [] \<Longrightarrow> verdict_ok v \<Longrightarrow> file_verdict pv p v details t (pm_db m) = Inr (u, d) \<Longrightarrow>
    purchase_step pv m (m\<lparr>pm_db := d\<rparr>)"
| bind: "bind_provider_order oid pid t (pm_db m) = Inr (u, d) \<Longrightarrow> purchase_step pv m (m\<lparr>pm_db := d\<rparr>)"
| not_ordered: "confirm_not_ordered oid actor t (pm_db m) = Inr (u, d) \<Longrightarrow> purchase_step pv m (m\<lparr>pm_db := d\<rparr>)"
| refunded: "confirm_provider_refunded oid actor t (pm_db m) = Inr (u, d) \<Longrightarrow> purchase_step pv m (m\<lparr>pm_db := d\<rparr>)"
| sync: "p \<in> pm_reads m \<Longrightarrow> po_status p = ''active'' \<Longrightarrow> sync_asset p st expires t (pm_db m) = Inr (u, d) \<Longrightarrow>
    purchase_step pv m (m\<lparr>pm_db := d\<rparr>)"
| postpone: "postpone_order oid t (pm_db m) = Inr (u, d) \<Longrightarrow> purchase_step pv m (m\<lparr>pm_db := d\<rparr>)"
| switch: "switch_renewal uid oid b t (pm_db m) = Inr (vw, d) \<Longrightarrow> purchase_step pv m (m\<lparr>pm_db := d\<rparr>)"
| settle: "settle_renewal rid r expires t (pm_db m) = Inr (u, d) \<Longrightarrow> purchase_step pv m (m\<lparr>pm_db := d\<rparr>)"
| confirm: "confirm_extended r expires t (pm_db m) = Inr (u, d) \<Longrightarrow> purchase_step pv m (m\<lparr>pm_db := d\<rparr>)"
| not_extended: "confirm_not_extended r t (pm_db m) = Inr (u, d) \<Longrightarrow> purchase_step pv m (m\<lparr>pm_db := d\<rparr>)"
| hold: "hold_renewal r lease units t (pm_db m) = Inr (rid, d) \<Longrightarrow> purchase_step pv m (m\<lparr>pm_db := d\<rparr>)"
| refuse: "refuse_renewal rid hold t (pm_db m) = Inr (u, d) \<Longrightarrow> purchase_step pv m (m\<lparr>pm_db := d\<rparr>)"
| quoted: "store_quote qr config request quoted units t (pm_db m) = Inr (qid, d) \<Longrightarrow> purchase_step pv m (m\<lparr>pm_db := d\<rparr>)"
| tables: "draws (bill (pm_db m)) \<le> n \<Longrightarrow>
    d = (pm_db m)\<lparr>bill := (bill (pm_db m))\<lparr>draws := n\<rparr>, pd_configs := cs, pd_events := es, pd_renewals := rs\<rparr> \<Longrightarrow>
    purchase_step pv m (m\<lparr>pm_db := d\<rparr>)"
| market: "d = (pm_db m)\<lparr>pd_items := items, pd_proxies := ps\<rparr> \<Longrightarrow> owned_items d \<subseteq> owned_items (pm_db m) \<Longrightarrow>
    purchase_step pv m (m\<lparr>pm_db := d\<rparr>)"
| billing: "bill_step (bill (pm_db m)) b \<Longrightarrow> purchase_step pv m (m\<lparr>pm_db := (pm_db m)\<lparr>bill := b\<rparr>\<rparr>)"

text \<open>The start: no purchases yet, on a billing database in a reachable state.\<close>

definition purchase_start :: "machine \<Rightarrow> bool" where
  "purchase_start m = (bill_reachable (bill (pm_db m)) \<and> pd_orders (pm_db m) = [] \<and> pd_renewals (pm_db m) = []
     \<and> distinct (map pq_id (pd_quotes (pm_db m))) \<and> owned_items (pm_db m) = {} \<and> pm_reads m = {} \<and> pm_flight m = {} \<and> pm_sent m = [])"

abbreviation purchase_steps :: "'w supplier \<Rightarrow> machine \<Rightarrow> machine \<Rightarrow> bool" where
  "purchase_steps pv \<equiv> (purchase_step pv)\<^sup>*\<^sup>*"

inductive purchase_reachable :: "'w supplier \<Rightarrow> machine \<Rightarrow> bool" for pv where
  init: "purchase_start m \<Longrightarrow> purchase_reachable pv m"
| step: "purchase_reachable pv m \<Longrightarrow> purchase_step pv m m' \<Longrightarrow> purchase_reachable pv m'"

section \<open>The billing side of a transaction\<close>

text \<open>\<open>bills d d'\<close>: whatever the transaction did to the billing tables, billing operations did.\<close>

definition bills :: "pdb \<Rightarrow> pdb \<Rightarrow> bool" where
  "bills d d' = bill_step\<^sup>*\<^sup>* (bill d) (bill d')"

named_theorems bills \<open>how a statement acts on the billing tables\<close>

lemma bills_refl [simp]: "bills d d"
  by (simp add: bills_def)

lemma bills_trans: "bills d d' \<Longrightarrow> bills d' d'' \<Longrightarrow> bills d d''"
  unfolding bills_def by (rule rtranclp_trans)

lemma bills_step: "bill_step (bill d) (bill d') \<Longrightarrow> bills d d'"
  unfolding bills_def by blast

lemma bills_same: "bill d' = bill d \<Longrightarrow> bills d d'"
  by (simp add: bills_def)

lemma bill_draw: "draws b \<le> n \<Longrightarrow> bill_step b (b\<lparr>draws := n\<rparr>)"
proof -
  assume "draws b \<le> n"
  then have "bill_step b (b\<lparr>db_users := db_users b, environ := environ b, draws := n\<rparr>)" by (rule bill_step.others)
  then show ?thesis by simp
qed

lemma bills_fresh: "fresh_id p d = (i, d') \<Longrightarrow> bills d d'"
proof -
  assume "fresh_id p d = (i, d')"
  then have "bill d' = (bill d)\<lparr>draws := Suc (draws (bill d))\<rparr>" by (auto simp: fresh_id_def new_id_def)
  then show ?thesis using bill_draw [of "bill d" "Suc (draws (bill d))"] by (intro bills_step) simp
qed

lemma fresh_id_fields: "fresh_id p d = (i, d') \<Longrightarrow> d' = d\<lparr>bill := (bill d)\<lparr>draws := Suc (draws (bill d))\<rparr>\<rparr>
    \<and> i = p @ ''_'' @ uuids (bill d) (draws (bill d))"
  by (auto simp: fresh_id_def new_id_def)

lemma billing_Inr: "billing f d = Inr (x, d') \<longleftrightarrow> (\<exists>b. f (bill d) = Inr (x, b) \<and> d' = d\<lparr>bill := b\<rparr>)"
  by (auto simp: billing_def bindr_eq_Inr)

lemma map_res_Inr: "map_res f r = Inr y \<longleftrightarrow> (\<exists>x. r = Inr x \<and> y = f x)"
  by (cases r) auto

lemma bills_billing: "billing f d = Inr (v, d') \<Longrightarrow> (\<And>b. f (bill d) = Inr (v, b) \<Longrightarrow> bill_step (bill d) b) \<Longrightarrow> bills d d'"
  by (auto simp: billing_Inr intro: bills_step)

lemma bills_release: "billing (release_reservation rid t) d = Inr (v, d') \<Longrightarrow> bills d d'"
  by (erule bills_billing) (rule bill_step.release)

lemma bills_settle: "billing (settle_reservation rid a s t) d = Inr (v, d') \<Longrightarrow> bills d d'"
  by (erule bills_billing) (rule bill_step.settle)

lemma bills_refund: "billing (refund_settled_exact_cash_charge rid reason t) d = Inr (v, d') \<Longrightarrow> bills d d'"
  by (erule bills_billing) (rule bill_step.refund_exact)

lemma bills_reserve: "plain_meta x \<Longrightarrow> billing (reserve_exact_cash_charge x t) d = Inr (v, d') \<Longrightarrow> bills d d'"
  by (erule bills_billing) (rule bill_step.reserve_exact)

lemma purchase_charge_plain: "plain_meta (purchase_charge q x oid)"
  by (simp add: plain_meta_def purchase_charge_def)

lemma renewal_charge_plain: "plain_meta (renewal_charge r units)"
  by (simp add: plain_meta_def renewal_charge_def)

text \<open>Statements on the purchasing tables leave the billing tables alone.\<close>

lemma update_purchase_Inr: "update_purchase oid f d = Inr d' \<Longrightarrow>
    d' = d \<or> d' = d\<lparr>pd_orders := row_modify po_id oid f (pd_orders d)\<rparr>"
  by (auto simp: update_purchase_def split: option.splits if_splits)

lemma update_purchase_tables:
  assumes "update_purchase oid f d = Inr d'"
  shows "bill d' = bill d" "pd_items d' = pd_items d" "pd_quotes d' = pd_quotes d" "pd_renewals d' = pd_renewals d"
    "pd_proxies d' = pd_proxies d"
  using update_purchase_Inr [OF assms] by auto

lemma written_tables [simp]:
  "bill (update_renewal rid P f d) = bill d" "pd_orders (update_renewal rid P f d) = pd_orders d"
  "pd_items (update_renewal rid P f d) = pd_items d" "pd_quotes (update_renewal rid P f d) = pd_quotes d"
  "bill (update_order_renewal oid f d) = bill d" "pd_orders (update_order_renewal oid f d) = pd_orders d"
  "pd_items (update_order_renewal oid f d) = pd_items d" "pd_quotes (update_order_renewal oid f d) = pd_quotes d"
  "bill (update_order_items oid g d) = bill d" "pd_orders (update_order_items oid g d) = pd_orders d"
  "pd_quotes (update_order_items oid g d) = pd_quotes d"
  "bill (update_order_proxies oid h d) = bill d" "pd_orders (update_order_proxies oid h d) = pd_orders d"
  "pd_items (update_order_proxies oid h d) = pd_items d" "pd_quotes (update_order_proxies oid h d) = pd_quotes d"
  "bill (update_quote qid k d) = bill d" "pd_orders (update_quote qid k d) = pd_orders d"
  "pd_items (update_quote qid k d) = pd_items d"
  by (simp_all add: update_renewal_def update_order_renewal_def update_order_items_def update_order_proxies_def update_quote_def)

lemma upsert_renewal_tables:
  assumes "upsert_renewal r f d = Inr d'"
  shows "bill d' = bill d" "pd_orders d' = pd_orders d" "pd_items d' = pd_items d" "pd_quotes d' = pd_quotes d"
  using assms by (auto simp: upsert_renewal_def split: if_splits)

lemma insert_item_Inr: "insert_item i d = Inr d' \<Longrightarrow> d' = d\<lparr>pd_items := pd_items d @ [i]\<rparr>"
  by (auto simp: insert_item_def split: if_splits)

lemma insert_social_proxy_Inr: "insert_social_proxy p d = Inr d' \<Longrightarrow> d' = d\<lparr>pd_proxies := pd_proxies d @ [p]\<rparr>"
  by (auto simp: insert_social_proxy_def split: if_splits)

lemma insert_purchase_Inr: "insert_purchase p d = Inr d' \<Longrightarrow>
    d' = d\<lparr>pd_orders := pd_orders d @ [p]\<rparr> \<and> (\<forall>x \<in> set (pd_orders d). \<not> purchase_clash p x) \<and> get_quote (po_quote_id p) d \<noteq> None"
  by (auto simp: insert_purchase_def split: if_splits)

end
