(* ===== verification/ProxyMoney.thy ===== *)
theory ProxyMoney
  imports ProxyMachine
begin

text \<open>
  Purchases move money only through the billing component: every transaction of the machine
  acts on the billing tables as a sequence of billing operations (\<open>step_bills\<close>).  What holds
  of every reachable billing database, and what billing operations keep, therefore holds in
  every reachable state of the purchasing component.
\<close>

section \<open>Transactions\<close>

named_theorems tx_bills \<open>a transaction acts on the billing tables by billing operations\<close>

lemma bills_update: "bills d d1 \<Longrightarrow> update_purchase oid f d1 = Inr d2 \<Longrightarrow> bills d d2"
  by (drule update_purchase_tables(1)) (simp add: bills_def)

lemma bills_chain: "bills d d1 \<Longrightarrow> bill d2 = bill d1 \<Longrightarrow> bills d d2"
  by (simp add: bills_def)

lemma bills_written [simp]:
  "bills d (update_renewal rid P f d1) = bills d d1" "bills d (update_order_renewal oid f d1) = bills d d1"
  "bills d (update_order_items oid g d1) = bills d d1" "bills d (update_order_proxies oid h d1) = bills d d1"
  "bills d (update_quote qid k d1) = bills d d1"
  by (simp_all add: bills_def)

lemmas bills_updated = bills_update [OF bills_refl]

lemma deliver_bills [tx_bills]:
  assumes "deliver_owned_proxy pv p proxy t d = Inr (item, d')"
  shows "bills d d'"
proof (cases "delivered_item (proxy_id_of proxy) d")
  case (Some i)
  with assms show ?thesis by (auto simp: deliver_owned_proxy_def invalid_proxy_def split: if_splits)
next
  case None
  with assms have n: "deliver_new_proxy pv p proxy t d = Inr (item, d')"
    by (auto simp: deliver_owned_proxy_def invalid_proxy_def split: if_splits)
  obtain it d1 where 1: "fresh_id ''owned_proxy_item'' d = (it, d1)" by (cases "fresh_id ''owned_proxy_item'' d")
  obtain so d2 where 2: "fresh_id ''social_proxy'' d1 = (so, d2)" by (cases "fresh_id ''social_proxy'' d1")
  from n 1 2 obtain i d3 s where "insert_item i d2 = Inr d3" "insert_social_proxy s d3 = Inr d'"
    by (auto simp: deliver_new_proxy_def Let_def bindr_eq_Inr invalid_proxy_def split: if_splits)
  then have "bill d' = bill d2" by (auto dest!: insert_item_Inr insert_social_proxy_Inr)
  with bills_trans [OF bills_fresh [OF 1] bills_fresh [OF 2]] show ?thesis by (rule bills_chain)
qed

lemma settle_delivered_bills [tx_bills]: "settle_delivered rid r t d = Inr d' \<Longrightarrow> bills d d'"
  by (auto simp: settle_delivered_def map_res_Inr intro: bills_settle split: option.splits if_splits)

lemma schedule_renewal_bills: "schedule_renewal p pid st next e t d = Inr d' \<Longrightarrow> bills d d'"
proof -
  assume s: "schedule_renewal p pid st next e t d = Inr d'"
  obtain i d1 where f: "fresh_id ''proxy_renew'' d = (i, d1)" by (cases "fresh_id ''proxy_renew'' d")
  with s have "bill d' = bill d1" by (auto simp: schedule_renewal_def dest: upsert_renewal_tables(1))
  with bills_fresh [OF f] show ?thesis by (rule bills_chain)
qed

lemma schedule_delivered_bills [tx_bills]: "schedule_delivered pv p proxy t d = Inr d' \<Longrightarrow> bills d d'"
  by (auto simp: schedule_delivered_def bindr_eq_Inr Let_def intro: schedule_renewal_bills split: if_splits)

lemma reopen_bills [tx_bills]: "reopen_renewal p uid t d = Inr d' \<Longrightarrow> bills d d'"
proof -
  assume s: "reopen_renewal p uid t d = Inr d'"
  obtain i d1 where f: "fresh_id ''proxy_renew'' d = (i, d1)" by (cases "fresh_id ''proxy_renew'' d")
  with s have "bill d' = bill d1" by (auto simp: reopen_renewal_def Let_def dest: upsert_renewal_tables(1))
  with bills_fresh [OF f] show ?thesis by (rule bills_chain)
qed

lemma give_back_bills [tx_bills]: "refund_or_release_failed_order rid reason t d = Inr d' \<Longrightarrow> bills d d'"
  by (auto simp: refund_or_release_failed_order_def map_res_Inr intro: bills_release bills_refund
      split: option.splits if_splits)

lemma place_hold_bills [tx_bills]:
  assumes "place_hold q x minor t d = Inr (Placed oid rid, d')"
  shows "bills d d'"
proof -
  obtain i d1 where f: "fresh_id ''proxy_order'' d = (i, d1)" by (cases "fresh_id ''proxy_order'' d")
  with assms obtain v d2 d3 where r: "billing (reserve_exact_cash_charge (purchase_charge q x i) t) d1 = Inr (v, d2)"
    and i: "insert_purchase (new_purchase q x i (rv_id v) minor t) d2 = Inr d3" and u: "bill d' = bill d3"
    by (auto simp: place_hold_def Let_def bindr_eq_Inr split: option.splits if_splits)
  have "bills d d2" using bills_fresh [OF f] bills_reserve [OF purchase_charge_plain r] by (rule bills_trans)
  then show ?thesis by (rule bills_chain) (use insert_purchase_Inr [OF i] u in simp)
qed

lemma reconcile_active_parts:
  assumes "reconcile_active pv oid proxy details t d = Inr (u, d')"
  obtains p item d1 d2 d3 where "get_purchase oid d = Some p" "deliver_owned_proxy pv p proxy t d = Inr (item, d1)"
    "settle_delivered (po_reservation_id p) (get_reservation (po_reservation_id p) (bill d)) t d1 = Inr d2"
    "update_purchase oid (\<lambda>x. x\<lparr>po_status := ''active'', po_provider_proxy_id := py_str (proxy_field proxy [''id'', ''proxyId'']),
          po_response := safe_provider_summary details, po_last_synced_at := t, po_completed_at := t,
          po_updated_at := t\<rparr>) d2 = Inr d3"
    "schedule_delivered pv p proxy t d3 = Inr d'"
proof (cases "get_purchase oid d")
  case None
  with assms show ?thesis by (simp add: reconcile_active_def)
next
  case (Some p)
  from assms obtain item d1 d2 d3 where "deliver_owned_proxy pv p proxy t d = Inr (item, d1)"
    "settle_delivered (po_reservation_id p) (get_reservation (po_reservation_id p) (bill d)) t d1 = Inr d2"
    "update_purchase oid (\<lambda>x. x\<lparr>po_status := ''active'', po_provider_proxy_id := py_str (proxy_field proxy [''id'', ''proxyId'']),
          po_response := safe_provider_summary details, po_last_synced_at := t, po_completed_at := t,
          po_updated_at := t\<rparr>) d2 = Inr d3"
    "schedule_delivered pv p proxy t d3 = Inr d'"
    unfolding reconcile_active_def Some option.case Let_def bindr_eq_Inr split_paired_Ex prod.case by blast
  with Some show ?thesis by (rule that)
qed

lemma reconcile_active_bills [tx_bills]:
  assumes "reconcile_active pv oid proxy details t d = Inr (u, d')"
  shows "bills d d'"
proof -
  from assms obtain p item d1 d2 d3 f where 1: "deliver_owned_proxy pv p proxy t d = Inr (item, d1)"
    and 2: "settle_delivered (po_reservation_id p) (get_reservation (po_reservation_id p) (bill d)) t d1 = Inr d2"
    and 3: "update_purchase oid f d2 = Inr d3" and 4: "schedule_delivered pv p proxy t d3 = Inr d'"
    by (rule reconcile_active_parts)
  have "bills d d2" using deliver_bills [OF 1] settle_delivered_bills [OF 2] by (rule bills_trans)
  then have "bills d d3" using 3 by (rule bills_update)
  then show ?thesis using schedule_delivered_bills [OF 4] by (rule bills_trans)
qed

lemma terminal_bills: "reconcile_terminal p st details t d = Inr (u, d') \<Longrightarrow> bills d d'"
  by (cases "was_delivered p d") (auto simp: reconcile_terminal_def Let_def bindr_eq_Inr dest: bills_updated)

lemma pending_bills: "reconcile_pending p details t d = Inr (u, d') \<Longrightarrow> bills d d'"
  by (auto simp: reconcile_pending_def bindr_eq_Inr intro: bills_updated)

lemma verdict_bills [tx_bills]: "file_verdict pv p v details t d = Inr (u, d') \<Longrightarrow> bills d d'"
  by (cases v) (simp_all add: file_verdict_def terminal_bills pending_bills reconcile_active_bills)

lemma order_writes_bills [tx_bills]:
  "order_unknown oid code t d = Inr (u, d') \<Longrightarrow> bills d d'"
  "order_accepted oid pid result t d = Inr (u, d') \<Longrightarrow> bills d d'"
  "delivery_pending oid t d = Inr (u, d') \<Longrightarrow> bills d d'"
  "postpone_order oid t d = Inr (u, d') \<Longrightarrow> bills d d'"
  "bind_provider_order oid pid t d = Inr (u, d') \<Longrightarrow> bills d d'"
  "sync_asset p st e t d = Inr (u, d') \<Longrightarrow> bills d d'"
  by (auto simp: order_unknown_def order_accepted_def delivery_pending_def postpone_order_def bind_provider_order_def
      sync_asset_def Let_def bindr_eq_Inr intro: bills_updated split: if_splits)

lemma order_failed_bills [tx_bills]: "order_failed oid rid code t d = Inr (u, d') \<Longrightarrow> bills d d'"
  by (auto simp: order_failed_def bindr_eq_Inr intro: bills_update bills_release)

lemma confirm_bills [tx_bills]:
  "confirm_not_ordered oid actor t d = Inr (u, d') \<Longrightarrow> bills d d'"
  "confirm_provider_refunded oid actor t d = Inr (u, d') \<Longrightarrow> bills d d'"
  by (auto simp: confirm_not_ordered_def confirm_provider_refunded_def bindr_eq_Inr intro: bills_update tx_bills
      split: if_splits)

lemma switch_bills [tx_bills]:
  assumes "switch_renewal uid oid b t d = Inr (v, d')"
  shows "bills d d'"
proof -
  from assms obtain p d1 g where 1: "update_purchase oid (\<lambda>x. x\<lparr>po_renewal_enabled := b, po_updated_at := t\<rparr>) d = Inr d1"
    and 2: "(if b \<and> po_status p = ''active'' then reopen_renewal p uid t (update_order_renewal oid g d1)
        else Inr (update_order_renewal oid g d1)) = Inr d'"
    by (auto simp: switch_renewal_def Let_def bindr_eq_Inr split: option.splits)
  have "bills d (update_order_renewal oid g d1)" using bills_update [OF bills_refl 1] by (rule bills_chain) simp
  then show ?thesis using 2 by (auto simp del: bills_written intro: bills_trans reopen_bills split: if_splits)
qed

lemma owned_update_items:
  assumes "\<And>i. mi_order_id (f i) = mi_order_id i" "\<And>i. mi_ownership (f i) = mi_ownership i"
  shows "owned_items (update_order_items oid f d) = owned_items d"
proof -
  let ?g = "\<lambda>i. if mi_order_id i = oid then f i else i"
  have "{i \<in> ?g ` set (pd_items d). mi_ownership i = ''owned''} = ?g ` {i \<in> set (pd_items d). mi_ownership i = ''owned''}"
    using assms(2) by auto
  then have "owned_items (update_order_items oid f d) = mi_order_id ` ?g ` {i \<in> set (pd_items d). mi_ownership i = ''owned''}"
    by (simp add: owned_items_def update_order_items_def set_update_where)
  also have "\<dots> = owned_items d" unfolding image_image owned_items_def using assms(1) by (intro image_cong) auto
  finally show ?thesis .
qed

lemma owned_written [simp]:
  "owned_items (update_renewal rid P f d) = owned_items d" "owned_items (update_order_renewal oid f d) = owned_items d"
  "owned_items (update_order_proxies oid h d) = owned_items d" "owned_items (update_quote qid k d) = owned_items d"
  by (simp_all add: owned_items_def)

lemma complete_bill [simp]: "bill (complete_renewal r e t d) = bill d" "pd_orders (complete_renewal r e t d) = pd_orders d"
  "pd_quotes (complete_renewal r e t d) = pd_quotes d" "owned_items (complete_renewal r e t d) = owned_items d"
  by (simp_all add: complete_renewal_def Let_def owned_update_items)

lemma renewal_bills [tx_bills]:
  "settle_renewal rid r e t d = Inr (u, d') \<Longrightarrow> bills d d'"
  "confirm_extended r e t d = Inr (u, d') \<Longrightarrow> bills d d'"
  "confirm_not_extended r t d = Inr (u, d') \<Longrightarrow> bills d d'"
  "refuse_renewal rid h t d = Inr (u, d') \<Longrightarrow> bills d d'"
  "hold_renewal r lease units t d = Inr (rid, d') \<Longrightarrow> bills d d'"
  by (auto simp: settle_renewal_def confirm_extended_def confirm_not_extended_def refuse_renewal_def hold_renewal_def
      park_renewal_def write_renewal_def bindr_eq_Inr map_res_Inr split: if_splits
      intro: bills_chain [OF bills_settle] bills_chain [OF bills_release] bills_chain [OF bills_refl]
        bills_chain [OF bills_reserve [OF renewal_charge_plain]])

lemma quote_bills [tx_bills]: "store_quote q config request quoted units t d = Inr (qid, d') \<Longrightarrow> bills d d'"
proof -
  assume s: "store_quote q config request quoted units t d = Inr (qid, d')"
  obtain i d1 where f: "fresh_id ''proxy_quote'' d = (i, d1)" by (cases "fresh_id ''proxy_quote'' d")
  with s have "bill d' = bill d1" by (auto simp: store_quote_def insert_quote_def bindr_eq_Inr split: if_splits)
  with bills_fresh [OF f] show ?thesis by (rule bills_chain)
qed

section \<open>Steps\<close>

lemma step_bills: "purchase_step pv m m' \<Longrightarrow> bills (pm_db m) (pm_db m')"
proof (induction rule: purchase_step.induct)
  case (tables m n d cs es rs)
  have "bill_step (bill (pm_db m)) (bill d)" using bill_draw [OF tables(1)] by (simp add: tables(2))
  then show ?case by (simp add: bills_step)
next
  case (billing m b)
  then show ?case by (intro bills_step) simp
qed (simp_all add: bills_same tx_bills)

lemma steps_bills: "purchase_steps pv m m' \<Longrightarrow> bills (pm_db m) (pm_db m')"
  by (induction rule: rtranclp_induct) (auto intro: bills_trans step_bills)

lemma bills_reachable: "bills d d' \<Longrightarrow> bill_reachable (bill d) \<Longrightarrow> bill_reachable (bill d')"
proof -
  have "bill_step\<^sup>*\<^sup>* b b' \<Longrightarrow> bill_reachable b \<Longrightarrow> bill_reachable b'" for b b'
    by (induction rule: rtranclp_induct) (auto intro: bill_reachable.step)
  then show "bills d d' \<Longrightarrow> bill_reachable (bill d) \<Longrightarrow> bill_reachable (bill d')" by (simp add: bills_def)
qed

lemma purchases_bill_reachable: "purchase_reachable pv m \<Longrightarrow> bill_reachable (bill (pm_db m))"
proof (induction rule: purchase_reachable.induct)
  case (step m m')
  then show ?case using bills_reachable [OF step_bills] by blast
qed (simp add: purchase_start_def)

end
