(* ===== verification/ProxySafety.thy ===== *)
theory ProxySafety
  imports ProxyMoney
begin

text \<open>
  The safety of the purchasing machine.  The invariant \<open>purchases_ok\<close> says: an order has a
  reservation, and it is no longer held once the order is closed or its proxy delivered
  (\<open>paid\<close>); an order that is in flight is exactly as it was placed; each quote serves one order;
  a row that some handler has read is an earlier version of the order in the table.  Every
  step keeps it (\<open>purchases_kept\<close>).
\<close>

section \<open>The invariant\<close>

definition unheld :: "string \<Rightarrow> bdb \<Rightarrow> bool" where
  "unheld rid b = (\<exists>h. get_reservation rid b = Some h \<and> r_status h \<noteq> Held)"

definition closed :: "purchase \<Rightarrow> bool" where
  "closed p = (0 < po_completed_at p \<or> po_status p = ''active'' \<or> po_status p \<in> set TERMINAL_FAILURES)"

definition paid :: "pdb \<Rightarrow> purchase \<Rightarrow> bool" where
  "paid d p = (get_reservation (po_reservation_id p) (bill d) \<noteq> None
     \<and> (closed p \<or> po_id p \<in> owned_items d \<longrightarrow> unheld (po_reservation_id p) (bill d)))"

definition row_key :: "purchase \<Rightarrow> string \<times> int \<times> string \<times> string \<times> string" where
  "row_key p = (po_id p, po_user_id p, po_quote_id p, po_reservation_id p, po_idem p)"

definition idem_key :: "purchase \<Rightarrow> int \<times> string" where
  "idem_key p = (po_user_id p, po_idem p)"

text \<open>\<open>p'\<close> may be a later version of \<open>p\<close>.\<close>

definition later :: "purchase \<Rightarrow> purchase \<Rightarrow> bool" where
  "later p p' = (row_key p' = row_key p \<and> (po_status p \<noteq> ''reserved'' \<longrightarrow> po_status p' \<noteq> ''reserved'')
     \<and> (po_provider_order_id p \<noteq> [] \<longrightarrow> po_provider_order_id p' \<noteq> []))"

definition quote_used :: "string \<Rightarrow> pdb \<Rightarrow> bool" where
  "quote_used qid d = (\<exists>x. get_quote qid d = Some x \<and> pq_status x \<noteq> ''open'')"

definition unsent :: "purchase \<Rightarrow> bool" where
  "unsent p = (po_status p = ''reserved'' \<and> po_provider_order_id p = [])"

definition orders_ok :: "pdb \<Rightarrow> bool" where
  "orders_ok d = (distinct (map po_id (pd_orders d)) \<and> distinct (map po_quote_id (pd_orders d))
     \<and> distinct (map idem_key (pd_orders d)) \<and> distinct (map pq_id (pd_quotes d))
     \<and> (\<forall>p \<in> set (pd_orders d). paid d p \<and> quote_used (po_quote_id p) d)
     \<and> owned_items d \<subseteq> po_id ` set (pd_orders d))"

definition reads_ok :: "purchase set \<Rightarrow> pdb \<Rightarrow> bool" where
  "reads_ok R d = (\<forall>p \<in> R. paid d p \<and> (\<exists>p' \<in> set (pd_orders d). later p p'))"

definition flight_ok :: "(string \<times> string) set \<Rightarrow> pdb \<Rightarrow> bool" where
  "flight_ok F d = (\<forall>f \<in> F. \<exists>p \<in> set (pd_orders d). po_id p = fst f \<and> po_reservation_id p = snd f \<and> unsent p)"

definition purchases_ok :: "machine \<Rightarrow> bool" where
  "purchases_ok m = (orders_ok (pm_db m) \<and> reads_ok (pm_reads m) (pm_db m) \<and> flight_ok (pm_flight m) (pm_db m)
     \<and> pm_sent m = map po_id (pd_orders (pm_db m)))"

lemma later_refl [simp]: "later p p"
  by (simp add: later_def)

lemma later_trans: "later p p' \<Longrightarrow> later p' p'' \<Longrightarrow> later p p''"
  by (simp add: later_def)

section \<open>Reservations only move on\<close>

lemma bills_history: "bills d d' \<Longrightarrow> hold_history (bill d) (bill d')"
proof -
  have "hold_history (bill d) (bill d)" by (auto simp: hold_history_def)
  then show "bills d d' \<Longrightarrow> hold_history (bill d) (bill d')"
    unfolding bills_def using hold_life.kept_by_steps by blast
qed

lemma known_mono: "bills d d' \<Longrightarrow> get_reservation rid (bill d) \<noteq> None \<Longrightarrow> get_reservation rid (bill d') \<noteq> None"
  using bills_history [of d d'] unfolding hold_history_def by blast

lemma unheld_mono:
  assumes "bills d d'" "unheld rid (bill d)"
  shows "unheld rid (bill d')"
proof -
  from assms(2) obtain x where x: "get_reservation rid (bill d) = Some x" "r_status x \<noteq> Held" by (auto simp: unheld_def)
  then obtain y where y: "get_reservation rid (bill d') = Some y" "hold_edge\<^sup>*\<^sup>* x y"
    using bills_history [OF assms(1)] unfolding hold_history_def by blast
  have "r_status y \<noteq> Held" using hold_edges_path [OF y(2)] x(2) by (cases "r_status x") auto
  with y(1) show ?thesis by (auto simp: unheld_def)
qed

lemma ended_unheld: "ended rid v b \<Longrightarrow> unheld rid b"
  by (auto simp: ended_def unheld_def)

lemma release_unheld: "billing (release_reservation rid t) d = Inr (v, d') \<Longrightarrow> unheld rid (bill d')"
  unfolding billing_Inr using ended_unheld [OF release_ended] by fastforce

lemma settle_unheld: "billing (settle_reservation rid a s t) d = Inr (v, d') \<Longrightarrow> unheld rid (bill d')"
  unfolding billing_Inr using ended_unheld [OF settle_ended] by fastforce

lemma settle_delivered_unheld:
  assumes "settle_delivered rid (get_reservation rid (bill d)) t d1 = Inr d2"
    and "get_reservation rid (bill d) \<noteq> None" and "bills d d1"
  shows "unheld rid (bill d2)"
proof -
  from assms(2) obtain h where h: "get_reservation rid (bill d) = Some h" by blast
  show ?thesis
  proof (cases "r_status h = Held")
    case True
    with assms(1) h show ?thesis by (auto simp: settle_delivered_def map_res_Inr intro: settle_unheld)
  next
    case False
    then have "unheld rid (bill d)" using h by (auto simp: unheld_def)
    with assms(1,3) h False show ?thesis by (auto simp: settle_delivered_def intro: unheld_mono)
  qed
qed

lemma give_back_unheld:
  assumes "refund_or_release_failed_order rid reason t d = Inr d'" and "get_reservation rid (bill d) \<noteq> None"
  shows "unheld rid (bill d')"
proof -
  from assms(2) obtain h where h: "get_reservation rid (bill d) = Some h" by blast
  show ?thesis
  proof (cases "r_status h = Held")
    case True
    with assms(1) h show ?thesis
      by (auto simp: refund_or_release_failed_order_def map_res_Inr intro: release_unheld)
  next
    case False
    then have "unheld rid (bill d)" using h by (auto simp: unheld_def)
    with give_back_bills [OF assms(1)] show ?thesis by (rule unheld_mono)
  qed
qed

lemma reserve_known:
  assumes "reserve_exact_cash_charge x t b = Inr (v, b')"
  shows "get_reservation (rv_id v) b' \<noteq> None"
proof -
  have shown: "show_reservation rid b1 = Inr (v, b') \<Longrightarrow> get_reservation (rv_id v) b' \<noteq> None" for rid b1
    using in_table by (fastforce simp: show_reservation_Inr reservation_public_def)
  show ?thesis
  proof (cases "exact_existing x b")
    case (Some r)
    with assms have v: "v = reservation_public r" "b' = b"
      by (auto simp: reserve_exact_cash_charge_def replay_exact_def bindr_eq_Inr Let_def split: if_splits)
    from Some have "r \<in> set (db_reservations b)"
      by (auto simp: exact_existing_def reservation_by_idem_def dest: find_row_SomeD split: option.splits)
    then show ?thesis by (auto simp: v reservation_public_def get_reservation_def reservations_tbl.get_None)
  next
    case None
    with assms obtain w b1 where "reserve_exact_waived x w t b1 = Inr (v, b') \<or> reserve_exact_held x w t b1 = Inr (v, b')"
      by (auto simp: reserve_exact_cash_charge_def insufficient_cash_def bindr_eq_Inr split: if_splits)
    then have "\<exists>rid b1. show_reservation rid b1 = Inr (v, b')"
      by (auto simp: reserve_exact_waived_def reserve_exact_held_def insufficient_cash_def Let_def split_def bindr_eq_Inr
          split: if_splits)
    then show ?thesis using shown by blast
  qed
qed

section \<open>A transaction that writes one order\<close>

definition one_order :: "string \<Rightarrow> (purchase \<Rightarrow> purchase) \<Rightarrow> pdb \<Rightarrow> pdb \<Rightarrow> bool" where
  "one_order oid f d d' = (bills d d' \<and> pd_quotes d' = pd_quotes d
     \<and> pd_orders d' = row_modify po_id oid f (pd_orders d)
     \<and> owned_items d' \<subseteq> owned_items d \<union> ({oid} \<inter> po_id ` set (pd_orders d)))"

text \<open>What \<open>f\<close> may do to the order \<open>oid\<close>.\<close>

definition moves_on :: "string \<Rightarrow> (purchase \<Rightarrow> purchase) \<Rightarrow> pdb \<Rightarrow> pdb \<Rightarrow> bool" where
  "moves_on oid f d d' = (\<forall>p \<in> set (pd_orders d). po_id p = oid \<longrightarrow> later p (f p)
     \<and> (closed (f p) \<or> oid \<in> owned_items d' \<longrightarrow> closed p \<or> oid \<in> owned_items d \<or> unheld (po_reservation_id p) (bill d')))"

lemma modified_row:
  assumes "pd_orders d' = row_modify po_id oid f (pd_orders d)" "p \<in> set (pd_orders d)"
  shows "(if po_id p = oid then f p else p) \<in> set (pd_orders d')"
  using assms by (auto simp: row_modify_def set_update_where)

lemma modified_from:
  assumes "pd_orders d' = row_modify po_id oid f (pd_orders d)" "p' \<in> set (pd_orders d')"
  obtains p where "p \<in> set (pd_orders d)" "p' = (if po_id p = oid then f p else p)"
  using assms by (auto simp: row_modify_def set_update_where)

lemma row_modify_key:
  assumes "\<And>p. p \<in> set t \<Longrightarrow> po_id p = oid \<Longrightarrow> g (f p) = g p"
  shows "map g (row_modify po_id oid f t) = map g t"
  using assms by (induction t) auto

lemma one_order_keeps:
  assumes ok: "orders_ok d" and reads: "reads_ok R d" and w: "one_order oid f d d'" and m: "moves_on oid f d d'"
  shows "orders_ok d'" and "reads_ok R d'" and "map po_id (pd_orders d') = map po_id (pd_orders d)"
proof -
  from w have b: "bills d d'" and q: "pd_quotes d' = pd_quotes d"
    and o: "pd_orders d' = row_modify po_id oid f (pd_orders d)"
    and own: "owned_items d' \<subseteq> owned_items d \<union> ({oid} \<inter> po_id ` set (pd_orders d))" by (auto simp: one_order_def)
  have lat: "later p (f p)" if "p \<in> set (pd_orders d)" "po_id p = oid" for p
    using m that by (auto simp: moves_on_def)
  then have keys: "map po_id (pd_orders d') = map po_id (pd_orders d)"
    "map po_quote_id (pd_orders d') = map po_quote_id (pd_orders d)" "map idem_key (pd_orders d') = map idem_key (pd_orders d)"
    unfolding o by (auto intro!: row_modify_key simp: later_def row_key_def idem_key_def)
  then show "map po_id (pd_orders d') = map po_id (pd_orders d)" by simp
  have old: "paid d' p" if pp: "p \<in> set (pd_orders d)" for p
  proof -
    have p: "paid d p" using ok pp by (simp add: orders_ok_def)
    have "unheld (po_reservation_id p) (bill d')" if "closed p \<or> po_id p \<in> owned_items d'"
    proof (cases "closed p \<or> po_id p \<in> owned_items d")
      case True
      with p have "unheld (po_reservation_id p) (bill d)" by (simp add: paid_def)
      with b show ?thesis by (rule unheld_mono)
    next
      case False
      with that own have "po_id p = oid" "oid \<in> owned_items d'" by auto
      then show ?thesis using m pp False by (auto simp: moves_on_def)
    qed
    moreover have "get_reservation (po_reservation_id p) (bill d') \<noteq> None" using p known_mono [OF b] by (simp add: paid_def)
    ultimately show ?thesis by (simp add: paid_def)
  qed
  have "paid d' p' \<and> quote_used (po_quote_id p') d'" if p': "p' \<in> set (pd_orders d')" for p'
  proof -
    from o p' obtain p where p: "p \<in> set (pd_orders d)" "p' = (if po_id p = oid then f p else p)" by (rule modified_from)
    then have l: "later p p'" using lat by auto
    have "paid d p" "quote_used (po_quote_id p) d" using ok p(1) by (auto simp: orders_ok_def)
    moreover have "paid d' p" using p(1) by (rule old)
    moreover have "closed p' \<longrightarrow> unheld (po_reservation_id p) (bill d')"
    proof
      assume c: "closed p'"
      show "unheld (po_reservation_id p) (bill d')"
      proof (cases "closed p \<or> po_id p \<in> owned_items d'")
        case True
        then show ?thesis using \<open>paid d' p\<close> by (auto simp: paid_def)
      next
        case False
        then have "po_id p = oid" "closed (f p)" using c p(2) by (auto split: if_splits)
        then have "oid \<in> owned_items d \<or> unheld (po_reservation_id p) (bill d')" using m p(1) False by (auto simp: moves_on_def)
        then show ?thesis
          using unheld_mono [OF b] \<open>paid d p\<close> \<open>po_id p = oid\<close> by (auto simp: paid_def)
      qed
    qed
    ultimately show ?thesis using l q by (auto simp: paid_def later_def row_key_def quote_used_def get_quote_def)
  qed
  moreover have "owned_items d' \<subseteq> po_id ` set (pd_orders d')"
    using own ok keys(1) by (metis Int_lower2 le_sup_iff list.set_map orders_ok_def order_trans)
  ultimately show "orders_ok d'" using ok keys q by (simp add: orders_ok_def)
  show "reads_ok R d'"
    unfolding reads_ok_def
  proof
    fix p assume p: "p \<in> R"
    with reads obtain p1 where p1: "p1 \<in> set (pd_orders d)" "later p p1" and "paid d p" by (auto simp: reads_ok_def)
    from p1(2) have k: "po_id p1 = po_id p" "po_reservation_id p1 = po_reservation_id p" by (auto simp: later_def row_key_def)
    have "closed p \<longrightarrow> unheld (po_reservation_id p) (bill d')" using \<open>paid d p\<close> unheld_mono [OF b] by (simp add: paid_def)
    moreover have "paid d' p1" using p1(1) by (rule old)
    ultimately have "paid d' p" by (auto simp: paid_def k)
    moreover have "\<exists>p' \<in> set (pd_orders d'). later p p'"
    proof (rule bexI)
      show "(if po_id p1 = oid then f p1 else p1) \<in> set (pd_orders d')" using o p1(1) by (rule modified_row)
      show "later p (if po_id p1 = oid then f p1 else p1)" using lat [OF p1(1)] later_trans [OF p1(2)] p1(2) by simp
    qed
    ultimately show "paid d' p \<and> (\<exists>p' \<in> set (pd_orders d'). later p p')" ..
  qed
qed

lemma flight_keeps:
  assumes "flight_ok F d" and w: "one_order oid f d d'" and "F' \<subseteq> F"
    and u: "\<And>p g. p \<in> set (pd_orders d) \<Longrightarrow> po_id p = oid \<Longrightarrow> unsent p \<Longrightarrow> g \<in> F' \<Longrightarrow> fst g = oid \<Longrightarrow> snd g = po_reservation_id p \<Longrightarrow>
      unsent (f p) \<and> row_key (f p) = row_key p"
  shows "flight_ok F' d'"
  unfolding flight_ok_def
proof
  fix g assume g: "g \<in> F'"
  with assms(1,3) obtain p where p: "p \<in> set (pd_orders d)" "po_id p = fst g" "po_reservation_id p = snd g" "unsent p"
    by (auto simp: flight_ok_def)
  from w have o: "pd_orders d' = row_modify po_id oid f (pd_orders d)" by (simp add: one_order_def)
  show "\<exists>p \<in> set (pd_orders d'). po_id p = fst g \<and> po_reservation_id p = snd g \<and> unsent p"
  proof (rule bexI)
    show "(if po_id p = oid then f p else p) \<in> set (pd_orders d')" using o p(1) by (rule modified_row)
    show "po_id (if po_id p = oid then f p else p) = fst g \<and> po_reservation_id (if po_id p = oid then f p else p) = snd g
        \<and> unsent (if po_id p = oid then f p else p)"
      using u [OF p(1) _ p(4) g] p by (auto simp: row_key_def)
  qed
qed

lemma write_keeps:
  assumes "purchases_ok m" and w: "one_order oid f (pm_db m) d'" and "moves_on oid f (pm_db m) d'" and "F' \<subseteq> pm_flight m"
    and "\<And>p g. p \<in> set (pd_orders (pm_db m)) \<Longrightarrow> po_id p = oid \<Longrightarrow> unsent p \<Longrightarrow> g \<in> F' \<Longrightarrow> fst g = oid \<Longrightarrow>
      snd g = po_reservation_id p \<Longrightarrow> unsent (f p) \<and> row_key (f p) = row_key p"
  shows "purchases_ok (m\<lparr>pm_db := d', pm_flight := F'\<rparr>)"
proof -
  have ok: "orders_ok (pm_db m)" "reads_ok (pm_reads m) (pm_db m)" and fl: "flight_ok (pm_flight m) (pm_db m)"
    and sent: "pm_sent m = map po_id (pd_orders (pm_db m))" using assms(1) by (simp_all add: purchases_ok_def)
  have "flight_ok F' d'" using fl w assms(4,5) by (rule flight_keeps)
  with one_order_keeps [OF ok w assms(3)] sent show ?thesis by (simp add: purchases_ok_def)
qed

lemma calm_keeps:
  assumes "purchases_ok m" and "bills (pm_db m) d'" and "pd_orders d' = pd_orders (pm_db m)"
    and "pd_quotes d' = pd_quotes (pm_db m)" and "owned_items d' \<subseteq> owned_items (pm_db m)" and "F' \<subseteq> pm_flight m"
  shows "purchases_ok (m\<lparr>pm_db := d', pm_flight := F'\<rparr>)"
proof (rule write_keeps [OF assms(1) _ _ assms(6)])
  have "row_modify po_id [] (\<lambda>p. p) ps = ps" for ps :: "purchase list" by (induction ps) auto
  then show "one_order [] (\<lambda>p. p) (pm_db m) d'" using assms by (auto simp: one_order_def)
  show "moves_on [] (\<lambda>p. p) (pm_db m) d'" using assms(5) by (auto simp: moves_on_def)
qed auto

section \<open>Transactions that leave the orders alone\<close>

definition calm :: "pdb \<Rightarrow> pdb \<Rightarrow> bool" where
  "calm d d' = (pd_orders d' = pd_orders d \<and> pd_quotes d' = pd_quotes d \<and> owned_items d' = owned_items d)"

lemma calm_refl [simp]: "calm d d"
  by (simp add: calm_def)

lemma calm_trans: "calm d d' \<Longrightarrow> calm d' d'' \<Longrightarrow> calm d d''"
  by (simp add: calm_def)

lemma calm_billing: "billing f d = Inr (v, d') \<Longrightarrow> calm d d'"
  by (auto simp: billing_Inr calm_def owned_items_def)

lemma calm_fresh: "fresh_id s d = (i, d') \<Longrightarrow> calm d d'"
  by (drule fresh_id_fields) (simp add: calm_def owned_items_def)

lemma calm_upsert: "upsert_renewal r f d = Inr d' \<Longrightarrow> calm d d'"
  by (auto simp: upsert_renewal_def calm_def owned_items_def split: if_splits)

lemma calm_written [simp]:
  "calm d (update_renewal rid P f d1) = calm d d1" "calm d (update_order_renewal oid f d1) = calm d d1"
  "calm d (update_order_proxies oid h d1) = calm d d1" "calm d (complete_renewal r e t d1) = calm d d1"
  by (simp_all add: calm_def)

lemma calm_items: "(\<And>i. mi_order_id (f i) = mi_order_id i) \<Longrightarrow> (\<And>i. mi_ownership (f i) = mi_ownership i) \<Longrightarrow>
    calm d (update_order_items oid f d1) = calm d d1"
  by (simp add: calm_def owned_update_items)

lemma calm_settle: "settle_delivered rid r t d = Inr d' \<Longrightarrow> calm d d'"
  by (auto simp: settle_delivered_def map_res_Inr intro: calm_billing split: option.splits if_splits)

lemma calm_give_back: "refund_or_release_failed_order rid reason t d = Inr d' \<Longrightarrow> calm d d'"
  by (auto simp: refund_or_release_failed_order_def map_res_Inr intro: calm_billing split: option.splits if_splits)

lemma calm_schedule: "schedule_delivered pv p proxy t d = Inr d' \<Longrightarrow> calm d d'"
proof (cases "fresh_id ''proxy_renew'' d")
  case (Pair i d1)
  assume "schedule_delivered pv p proxy t d = Inr d'"
  with Pair have "calm d1 d' \<or> d' = d"
    by (auto simp: schedule_delivered_def schedule_renewal_def bindr_eq_Inr Let_def intro: calm_upsert split: if_splits)
  with calm_fresh [OF Pair] show ?thesis by (auto intro: calm_trans)
qed

lemma calm_reopen: "reopen_renewal p uid t d = Inr d' \<Longrightarrow> calm d d'"
proof (cases "fresh_id ''proxy_renew'' d")
  case (Pair i d1)
  assume "reopen_renewal p uid t d = Inr d'"
  with Pair have "calm d1 d'" by (auto simp: reopen_renewal_def Let_def intro: calm_upsert)
  with calm_fresh [OF Pair] show ?thesis by (rule calm_trans)
qed

lemma calm_renewal:
  "settle_renewal rid r e t d = Inr (u, d') \<Longrightarrow> calm d d'"
  "confirm_extended r e t d = Inr (u, d') \<Longrightarrow> calm d d'"
  "confirm_not_extended r t d = Inr (u, d') \<Longrightarrow> calm d d'"
  "refuse_renewal rid h t d = Inr (u, d') \<Longrightarrow> calm d d'"
  "hold_renewal r lease units t d = Inr (rid, d') \<Longrightarrow> calm d d'"
  by (auto simp: settle_renewal_def confirm_extended_def confirm_not_extended_def refuse_renewal_def hold_renewal_def
      park_renewal_def write_renewal_def bindr_eq_Inr map_res_Inr intro: calm_billing split: if_splits)

lemma calm_steps:
  assumes "purchases_ok m" and "bills (pm_db m) d'" and "calm (pm_db m) d'"
  shows "purchases_ok (m\<lparr>pm_db := d'\<rparr>)"
  using calm_keeps [OF assms(1,2), of "pm_flight m"] assms(3) by (simp add: calm_def)

section \<open>Transactions that write an order\<close>

lemma update_modifies: "update_purchase oid f d = Inr d' \<Longrightarrow> d' = d\<lparr>pd_orders := row_modify po_id oid f (pd_orders d)\<rparr>"
proof -
  have "row_modify po_id oid f ps = ps" if "row_get po_id oid ps = None" for ps
    using that by (induction ps) (auto split: if_splits)
  then show "update_purchase oid f d = Inr d' \<Longrightarrow> d' = d\<lparr>pd_orders := row_modify po_id oid f (pd_orders d)\<rparr>"
    by (auto simp: update_purchase_def get_purchase_def split: option.splits if_splits)
qed

lemma one_order_update:
  assumes "bills d d1" "calm d d1" "update_purchase oid f d1 = Inr d2" "bills d2 d'" "calm d2 d'"
  shows "one_order oid f d d'"
proof -
  have u: "d2 = d1\<lparr>pd_orders := row_modify po_id oid f (pd_orders d1)\<rparr>" by (rule update_modifies [OF assms(3)])
  then have "bills d1 d2" by (intro bills_same) simp
  with assms(1,4) have "bills d d'" by (blast intro: bills_trans)
  with assms(2,5) u show ?thesis by (auto simp: one_order_def calm_def owned_items_def)
qed

lemmas one_order_only = one_order_update [OF bills_refl calm_refl _ bills_refl calm_refl]

lemma landed:
  assumes "purchases_ok m" "f \<in> pm_flight m" "p \<in> set (pd_orders (pm_db m))" "po_id p = fst f"
  shows "po_reservation_id p = snd f" and "unsent p"
proof -
  from assms(1,2) obtain q where q: "q \<in> set (pd_orders (pm_db m))" "po_id q = fst f" "po_reservation_id q = snd f" "unsent q"
    by (auto simp: purchases_ok_def flight_ok_def)
  have "distinct (map po_id (pd_orders (pm_db m)))" using assms(1) by (simp add: purchases_ok_def orders_ok_def)
  then have "q = p" using q(1,2) assms(3,4) by (intro purchases_tbl.get_unique) simp_all
  with q show "po_reservation_id p = snd f" "unsent p" by simp_all
qed

lemma answered_keeps:
  assumes ok: "purchases_ok m" and f: "f \<in> pm_flight m"
    and w: "one_order (fst f) g (pm_db m) d'" and mv: "moves_on (fst f) g (pm_db m) d'"
  shows "purchases_ok (m\<lparr>pm_db := d', pm_flight := pm_flight m - {f}\<rparr>)"
proof (rule write_keeps [OF ok w mv])
  fix p h assume "p \<in> set (pd_orders (pm_db m))" "po_id p = fst f" "h \<in> pm_flight m - {f}" "fst h = fst f"
    "snd h = po_reservation_id p"
  then show "unsent (g p) \<and> row_key (g p) = row_key p" using landed(1) [OF ok f] by (cases h; cases f) auto
qed auto

text \<open>The state of an order that nothing may be in flight for.\<close>

lemma settled_keeps:
  assumes ok: "purchases_ok m" and w: "one_order oid g (pm_db m) d'" and mv: "moves_on oid g (pm_db m) d'"
    and "\<And>p. p \<in> set (pd_orders (pm_db m)) \<Longrightarrow> po_id p = oid \<Longrightarrow> unsent p \<Longrightarrow> unsent (g p) \<and> row_key (g p) = row_key p"
  shows "purchases_ok (m\<lparr>pm_db := d'\<rparr>)"
  using write_keeps [OF ok w mv, of "pm_flight m"] assms(4) by simp

lemma row_of_read:
  assumes "purchases_ok m" "p \<in> pm_reads m" "x \<in> set (pd_orders (pm_db m))" "po_id x = po_id p"
  shows "later p x" and "paid (pm_db m) p"
proof -
  from assms(1,2) obtain y where y: "y \<in> set (pd_orders (pm_db m))" "later p y" and "paid (pm_db m) p"
    by (auto simp: purchases_ok_def reads_ok_def)
  then show "paid (pm_db m) p" by simp
  have "distinct (map po_id (pd_orders (pm_db m)))" using assms(1) by (simp add: purchases_ok_def orders_ok_def)
  moreover have "po_id y = po_id x" using y(2) assms(4) by (simp add: later_def row_key_def)
  ultimately have "y = x" using y(1) assms(3) purchases_tbl.get_unique by blast
  with y show "later p x" by simp
qed

lemma row_of_get:
  assumes "purchases_ok m" "get_purchase oid (pm_db m) = Some p" "x \<in> set (pd_orders (pm_db m))" "po_id x = oid"
  shows "x = p" and "paid (pm_db m) p"
proof -
  have d: "distinct (map po_id (pd_orders (pm_db m)))" using assms(1) by (simp add: purchases_ok_def orders_ok_def)
  show "x = p" using purchases_tbl.get_in [OF d assms(3)] assms(2,4) by (simp add: get_purchase_def)
  with assms(1,3) show "paid (pm_db m) p" by (simp add: purchases_ok_def orders_ok_def)
qed

lemmas life_defs = moves_on_def later_def row_key_def closed_def TERMINAL_FAILURES_def

lemma unknown_keeps:
  assumes "purchases_ok m" "f \<in> pm_flight m" "order_unknown (fst f) code t (pm_db m) = Inr (u, d)"
  shows "purchases_ok (m\<lparr>pm_db := d, pm_flight := pm_flight m - {f}\<rparr>)"
proof -
  from assms(3) obtain g where g: "update_purchase (fst f) g (pm_db m) = Inr d"
    and "g = (\<lambda>p. p\<lparr>po_status := ''provider_unknown'', po_error_code := code,
       po_next_attempt_at := t + 300, po_reconcile_attempts := po_reconcile_attempts p + 1, po_updated_at := t\<rparr>)"
    by (auto simp: order_unknown_def bindr_eq_Inr)
  then have "moves_on (fst f) g (pm_db m) d" using one_order_only [OF g] update_modifies [OF g]
    by (auto simp: life_defs owned_items_def)
  with assms(1,2) one_order_only [OF g] show ?thesis by (rule answered_keeps)
qed

lemma accepted_keeps:
  assumes "purchases_ok m" "f \<in> pm_flight m" "pid \<noteq> []" "order_accepted (fst f) pid result t (pm_db m) = Inr (u, d)"
  shows "purchases_ok (m\<lparr>pm_db := d, pm_flight := pm_flight m - {f}\<rparr>)"
proof -
  from assms(4) obtain g where g: "update_purchase (fst f) g (pm_db m) = Inr d"
    and "g = (\<lambda>p. p\<lparr>po_provider_order_id := pid, po_status := ''provisioning'',
       po_response := safe_provider_summary result, po_last_synced_at := t, po_updated_at := t\<rparr>)"
    by (auto simp: order_accepted_def bindr_eq_Inr)
  then have "moves_on (fst f) g (pm_db m) d" using assms(3) update_modifies [OF g]
    by (auto simp: life_defs owned_items_def)
  with assms(1,2) one_order_only [OF g] show ?thesis by (rule answered_keeps)
qed

lemma failed_keeps:
  assumes ok: "purchases_ok m" and f: "f \<in> pm_flight m" and r: "order_failed (fst f) (snd f) code t (pm_db m) = Inr (u, d)"
  shows "purchases_ok (m\<lparr>pm_db := d, pm_flight := pm_flight m - {f}\<rparr>)"
proof -
  from r obtain v d1 g where b: "billing (release_reservation (snd f) t) (pm_db m) = Inr (v, d1)"
    and g: "update_purchase (fst f) g d1 = Inr d"
    and gd: "g = (\<lambda>p. p\<lparr>po_status := ''failed'', po_error_code := code, po_updated_at := t\<rparr>)"
    by (auto simp: order_failed_def bindr_eq_Inr)
  have w: "one_order (fst f) g (pm_db m) d"
    using bills_release [OF b] calm_billing [OF b] g bills_refl calm_refl by (rule one_order_update)
  have "unheld (snd f) (bill d)" using release_unheld [OF b] update_purchase_tables(1) [OF g] by simp
  then have "moves_on (fst f) g (pm_db m) d" using landed [OF ok f] gd by (auto simp: life_defs unsent_def)
  with ok f w show ?thesis by (rule answered_keeps)
qed

text \<open>A write that leaves the life of an order as it is.\<close>

lemma minor_keeps:
  assumes "purchases_ok m" and w: "one_order oid g (pm_db m) d" and own: "owned_items d = owned_items (pm_db m)"
    and "\<And>p. row_key (g p) = row_key p \<and> po_status (g p) = po_status p
      \<and> po_provider_order_id (g p) = po_provider_order_id p \<and> po_completed_at (g p) = po_completed_at p"
  shows "purchases_ok (m\<lparr>pm_db := d\<rparr>)"
proof (rule settled_keeps [OF assms(1) w])
  show "moves_on oid g (pm_db m) d" using assms(4) own by (auto simp: moves_on_def later_def closed_def)
qed (use assms(4) in \<open>auto simp: unsent_def\<close>)

lemma owned_of_update: "update_purchase oid g d = Inr d' \<Longrightarrow> owned_items d' = owned_items d"
  by (drule update_modifies) (simp add: owned_items_def)

lemma pending_keeps:
  assumes "purchases_ok m" "delivery_pending oid t (pm_db m) = Inr (u, d)"
  shows "purchases_ok (m\<lparr>pm_db := d\<rparr>)"
proof -
  from assms(2) have g: "update_purchase oid (\<lambda>p. p\<lparr>po_error_code := ''DELIVERY_PENDING'', po_updated_at := t\<rparr>) (pm_db m) = Inr d"
    by (auto simp: delivery_pending_def bindr_eq_Inr)
  show ?thesis using minor_keeps [OF assms(1) one_order_only [OF g] owned_of_update [OF g]] by (simp add: row_key_def)
qed

lemma postpone_keeps:
  assumes "purchases_ok m" "postpone_order oid t (pm_db m) = Inr (u, d)"
  shows "purchases_ok (m\<lparr>pm_db := d\<rparr>)"
proof -
  from assms(2) have g: "update_purchase oid (\<lambda>p. p\<lparr>po_next_attempt_at := t + 300,
      po_reconcile_attempts := po_reconcile_attempts p + 1, po_updated_at := t\<rparr>) (pm_db m) = Inr d"
    by (auto simp: postpone_order_def bindr_eq_Inr)
  show ?thesis using minor_keeps [OF assms(1) one_order_only [OF g] owned_of_update [OF g]] by (simp add: row_key_def)
qed

lemma switch_keeps:
  assumes "purchases_ok m" "switch_renewal uid oid b t (pm_db m) = Inr (v, d)"
  shows "purchases_ok (m\<lparr>pm_db := d\<rparr>)"
proof -
  from assms(2) obtain p d1 k where g: "update_purchase oid (\<lambda>x. x\<lparr>po_renewal_enabled := b, po_updated_at := t\<rparr>) (pm_db m) = Inr d1"
    and 2: "(if b \<and> po_status p = ''active'' then reopen_renewal p uid t (update_order_renewal oid k d1)
        else Inr (update_order_renewal oid k d1)) = Inr d"
    by (auto simp: switch_renewal_def Let_def bindr_eq_Inr split: option.splits)
  let ?d2 = "update_order_renewal oid k d1"
  have "bills ?d2 d" "calm ?d2 d" using 2 reopen_bills [of p uid t ?d2 d] calm_reopen [of p uid t ?d2 d] by (auto split: if_splits)
  moreover have "bills d1 ?d2" by (rule bills_same) simp
  ultimately have "bills d1 d" "calm d1 d" by (auto simp del: bills_written calm_written intro: bills_trans) (simp add: calm_def)
  note w = one_order_update [OF bills_refl calm_refl g this]
  have "owned_items d = owned_items (pm_db m)" using owned_of_update [OF g] \<open>calm d1 d\<close> by (simp add: calm_def)
  then show ?thesis using minor_keeps [OF assms(1) w] by (simp add: row_key_def)
qed

lemma resolvable_sent: "resolvable_row oid d = Inr p \<Longrightarrow> get_purchase oid d = Some p \<and> \<not> unsent p"
  by (auto simp: resolvable_row_def purchase_row_def resolvable_def unsent_def bindr_eq_Inr split: option.splits if_splits)

lemma bind_keeps:
  assumes ok: "purchases_ok m" and b: "bind_provider_order oid pid t (pm_db m) = Inr (u, d)"
  shows "purchases_ok (m\<lparr>pm_db := d\<rparr>)"
proof -
  from b obtain p g where r: "resolvable_row oid (pm_db m) = Inr p" and pid: "strip pid \<noteq> []"
    and g: "update_purchase oid g (pm_db m) = Inr d"
    and gd: "g = (\<lambda>p. p\<lparr>po_provider_order_id := strip pid, po_status := ''provisioning'',
            po_error_code := [], po_next_attempt_at := t, po_updated_at := t\<rparr>)"
    by (auto simp: bind_provider_order_def Let_def bindr_eq_Inr split: if_splits)
  note p = resolvable_sent [OF r]
  show ?thesis
  proof (rule settled_keeps [OF ok one_order_only [OF g]])
    show "moves_on oid g (pm_db m) d" using pid gd owned_of_update [OF g] by (auto simp: life_defs)
  qed (use row_of_get(1) [OF ok] p in blast)
qed

text \<open>The two ways an administrator closes an order as failed.\<close>

lemma confirm_keeps:
  assumes ok: "purchases_ok m" and r: "resolvable_row oid (pm_db m) = Inr p"
    and b: "refund_or_release_failed_order (po_reservation_id p) reason t (pm_db m) = Inr d1"
    and g: "update_purchase oid g d1 = Inr d"
    and gd: "\<And>p. row_key (g p) = row_key p \<and> po_status (g p) = ''failed'' \<and> po_provider_order_id (g p) = po_provider_order_id p"
  shows "purchases_ok (m\<lparr>pm_db := d\<rparr>)"
proof -
  note p = resolvable_sent [OF r]
  note same = row_of_get(1) [OF ok conjunct1 [OF p]]
  have w: "one_order oid g (pm_db m) d"
    using give_back_bills [OF b] calm_give_back [OF b] g bills_refl calm_refl by (rule one_order_update)
  show ?thesis
  proof (rule settled_keeps [OF ok w])
    have "unheld (po_reservation_id p) (bill d)" if "x \<in> set (pd_orders (pm_db m))" "po_id x = oid" for x
    proof -
      have "get_reservation (po_reservation_id p) (bill (pm_db m)) \<noteq> None"
        using row_of_get(2) [OF ok conjunct1 [OF p] that] by (simp add: paid_def)
      then have "unheld (po_reservation_id p) (bill d1)" by (rule give_back_unheld [OF b])
      then show ?thesis using update_purchase_tables(1) [OF g] by simp
    qed
    then show "moves_on oid g (pm_db m) d" using gd same by (fastforce simp: moves_on_def later_def)
  qed (use same p in blast)
qed

lemma not_ordered_keeps:
  assumes ok: "purchases_ok m" and r: "confirm_not_ordered oid actor t (pm_db m) = Inr (u, d)"
  shows "purchases_ok (m\<lparr>pm_db := d\<rparr>)"
proof (cases "d = pm_db m")
  case False
  from r False obtain p d1 where "resolvable_row oid (pm_db m) = Inr p"
    "refund_or_release_failed_order (po_reservation_id p) (''manual_not_ordered:'' @ show_int actor) t (pm_db m) = Inr d1"
    "update_purchase oid (\<lambda>p. p\<lparr>po_status := ''failed'', po_error_code := ''MANUAL_CONFIRMED_NOT_ORDERED'',
       po_updated_at := t\<rparr>) d1 = Inr d"
    by (auto simp: confirm_not_ordered_def bindr_eq_Inr split: if_splits)
  then show ?thesis using confirm_keeps [OF ok] by (simp add: row_key_def)
qed (use ok in simp)

lemma refunded_keeps:
  assumes ok: "purchases_ok m" and r: "confirm_provider_refunded oid actor t (pm_db m) = Inr (u, d)"
  shows "purchases_ok (m\<lparr>pm_db := d\<rparr>)"
proof (cases "d = pm_db m")
  case False
  from r False obtain p d1 where "resolvable_row oid (pm_db m) = Inr p"
    "refund_or_release_failed_order (po_reservation_id p) (''manual_provider_refund_confirmed:'' @ show_int actor) t (pm_db m) = Inr d1"
    "update_purchase oid (\<lambda>p. p\<lparr>po_status := ''failed'', po_error_code := ''MANUAL_CONFIRMED_PROVIDER_REFUNDED'',
       po_next_attempt_at := 0, po_updated_at := t\<rparr>) d1 = Inr d"
    by (auto simp: confirm_provider_refunded_def bindr_eq_Inr split: if_splits)
  then show ?thesis using confirm_keeps [OF ok] by (simp add: row_key_def)
qed (use ok in simp)

section \<open>The supplier's answers\<close>

text \<open>The closing of an order that some handler has read.\<close>

lemma read_keeps:
  assumes ok: "purchases_ok m" and p: "p \<in> pm_reads m" and w: "one_order (po_id p) g (pm_db m) d"
    and own: "owned_items d = owned_items (pm_db m)" and s: "\<not> unsent p" "po_provider_order_id p = [] \<longrightarrow> po_status p \<noteq> ''reserved''"
    and g: "\<And>x. row_key (g x) = row_key x \<and> po_status (g x) \<noteq> ''reserved'' \<and> po_provider_order_id (g x) = po_provider_order_id x"
    and c: "\<And>x. closed (g x) \<Longrightarrow> closed x \<or> closed p \<or> po_id p \<in> owned_items (pm_db m)"
  shows "purchases_ok (m\<lparr>pm_db := d\<rparr>)"
proof (rule settled_keeps [OF ok w])
  show "moves_on (po_id p) g (pm_db m) d"
    unfolding moves_on_def
  proof (intro ballI impI conjI)
    fix x assume x: "x \<in> set (pd_orders (pm_db m))" "po_id x = po_id p"
    note l = row_of_read [OF ok p x]
    show "later x (g x)" using g by (simp add: later_def)
    assume "closed (g x) \<or> po_id p \<in> owned_items d"
    then have "closed x \<or> closed p \<or> po_id p \<in> owned_items (pm_db m)" using c own by blast
    moreover have "bills (pm_db m) d" using w by (simp add: one_order_def)
    moreover have "po_reservation_id x = po_reservation_id p" using l(1) by (simp add: later_def row_key_def)
    ultimately show "closed x \<or> po_id p \<in> owned_items (pm_db m) \<or> unheld (po_reservation_id x) (bill d)"
      using l(2) unheld_mono by (auto simp: paid_def)
  qed
  fix x assume x: "x \<in> set (pd_orders (pm_db m))" "po_id x = po_id p" and u: "unsent x"
  from row_of_read(1) [OF ok p x] u s show "unsent (g x) \<and> row_key (g x) = row_key x" by (auto simp: later_def unsent_def)
qed

lemma sync_keeps:
  assumes ok: "purchases_ok m" and p: "p \<in> pm_reads m" "po_status p = ''active''"
    and r: "sync_asset p st e t (pm_db m) = Inr (u, d)"
  shows "purchases_ok (m\<lparr>pm_db := d\<rparr>)"
proof (cases "st \<in> set TERMINAL_FAILURES")
  case True
  then have st: "st \<noteq> ''reserved''" by (auto simp: TERMINAL_FAILURES_def)
  from r True obtain d1 where g: "update_purchase (po_id p) (\<lambda>x. x\<lparr>po_status := st, po_last_synced_at := t, po_updated_at := t\<rparr>) (pm_db m) = Inr d1"
    and d: "calm d1 d" "bill d = bill d1"
    by (auto simp: sync_asset_def Let_def bindr_eq_Inr calm_items)
  note w = one_order_update [OF bills_refl calm_refl g bills_same [OF d(2)] d(1)]
  have own: "owned_items d = owned_items (pm_db m)" using owned_of_update [OF g] d(1) by (simp add: calm_def)
  show ?thesis by (rule read_keeps [OF ok p(1) w own]) (use p(2) st in \<open>auto simp: unsent_def row_key_def closed_def\<close>)
next
  case False
  with r obtain d1 where g: "update_purchase (po_id p) (\<lambda>x. x\<lparr>po_last_synced_at := t, po_updated_at := t\<rparr>) (pm_db m) = Inr d1"
    and d: "calm d1 d" "bill d = bill d1"
    by (auto simp: sync_asset_def Let_def bindr_eq_Inr calm_items split: if_splits)
  note w = one_order_update [OF bills_refl calm_refl g bills_same [OF d(2)] d(1)]
  have own: "owned_items d = owned_items (pm_db m)" using owned_of_update [OF g] d(1) by (simp add: calm_def)
  show ?thesis using minor_keeps [OF ok w own] by (simp add: row_key_def)
qed

lemma terminal_keeps:
  assumes ok: "purchases_ok m" and p: "p \<in> pm_reads m" "po_provider_order_id p \<noteq> []" and st: "st \<in> set TERMINAL_FAILURES"
    and r: "reconcile_terminal p st details t (pm_db m) = Inr (u, d)"
  shows "purchases_ok (m\<lparr>pm_db := d\<rparr>)"
proof (cases "was_delivered p (pm_db m)")
  case True
  then have c: "closed p \<or> po_id p \<in> owned_items (pm_db m)" by (force simp: was_delivered_def closed_def owned_items_def)
  from r True obtain d1 where g: "update_purchase (po_id p) (\<lambda>x. x\<lparr>po_status := st, po_error_code := [],
          po_response := safe_provider_summary details, po_last_synced_at := t, po_updated_at := t\<rparr>) (pm_db m) = Inr d1"
    and d: "calm d1 d" "bill d = bill d1"
    by (auto simp: reconcile_terminal_def Let_def bindr_eq_Inr calm_items)
  note w = one_order_update [OF bills_refl calm_refl g bills_same [OF d(2)] d(1)]
  have own: "owned_items d = owned_items (pm_db m)" using owned_of_update [OF g] d(1) by (simp add: calm_def)
  show ?thesis
    by (rule read_keeps [OF ok p(1) w own]) (use p(2) st c in \<open>auto simp: unsent_def row_key_def TERMINAL_FAILURES_def\<close>)
next
  case False
  with r obtain g where g: "update_purchase (po_id p) g (pm_db m) = Inr d"
    and gd: "g = (\<lambda>x. x\<lparr>po_status := ''provider_unknown'', po_error_code := ''PROVIDER_REFUND_UNCONFIRMED'',
        po_response := safe_provider_summary details, po_last_synced_at := t, po_next_attempt_at := t + 3600,
        po_reconcile_attempts := po_reconcile_attempts p + 1, po_updated_at := t\<rparr>)"
    by (auto simp: reconcile_terminal_def Let_def bindr_eq_Inr)
  show ?thesis
    by (rule read_keeps [OF ok p(1) one_order_only [OF g] owned_of_update [OF g]])
      (use p(2) gd in \<open>auto simp: unsent_def row_key_def closed_def TERMINAL_FAILURES_def\<close>)
qed

lemma pending_verdict_keeps:
  assumes ok: "purchases_ok m" and p: "p \<in> pm_reads m" "po_provider_order_id p \<noteq> []"
    and r: "reconcile_pending p details t (pm_db m) = Inr (u, d)"
  shows "purchases_ok (m\<lparr>pm_db := d\<rparr>)"
proof -
  from r obtain g where g: "update_purchase (po_id p) g (pm_db m) = Inr d"
    and gd: "g = (\<lambda>x. x\<lparr>po_status := ''provisioning'',
       po_response := safe_provider_summary details, po_last_synced_at := t,
       po_next_attempt_at := t + reconcile_delay_seconds (po_reconcile_attempts p),
       po_reconcile_attempts := po_reconcile_attempts p + 1, po_updated_at := t\<rparr>)"
    by (auto simp: reconcile_pending_def bindr_eq_Inr)
  show ?thesis
    by (rule read_keeps [OF ok p(1) one_order_only [OF g] owned_of_update [OF g]])
      (use p(2) gd in \<open>auto simp: unsent_def row_key_def closed_def TERMINAL_FAILURES_def\<close>)
qed

lemma deliver_tables:
  assumes "deliver_owned_proxy pv p proxy t d = Inr (item, d')"
  shows "pd_orders d' = pd_orders d" "pd_quotes d' = pd_quotes d" "owned_items d' \<subseteq> insert (po_id p) (owned_items d)"
proof -
  have "pd_orders d' = pd_orders d \<and> pd_quotes d' = pd_quotes d \<and> owned_items d' \<subseteq> insert (po_id p) (owned_items d)"
  proof (cases "delivered_item (proxy_id_of proxy) d")
    case (Some i)
    with assms show ?thesis by (auto simp: deliver_owned_proxy_def invalid_proxy_def split: if_splits)
  next
    case None
    with assms have n: "deliver_new_proxy pv p proxy t d = Inr (item, d')"
      by (auto simp: deliver_owned_proxy_def invalid_proxy_def split: if_splits)
    obtain it d1 where 1: "fresh_id ''owned_proxy_item'' d = (it, d1)" by (cases "fresh_id ''owned_proxy_item'' d")
    obtain so d2 where 2: "fresh_id ''social_proxy'' d1 = (so, d2)" by (cases "fresh_id ''social_proxy'' d1")
    from n 1 2 obtain i d3 s where i: "insert_item i d2 = Inr d3" "mi_order_id i = po_id p" and s: "insert_social_proxy s d3 = Inr d'"
      by (auto simp: deliver_new_proxy_def new_item_def Let_def bindr_eq_Inr invalid_proxy_def split: if_splits prod.splits)
    have "calm d d2" using calm_fresh [OF 1] calm_fresh [OF 2] by (rule calm_trans)
    with insert_item_Inr [OF i(1)] insert_social_proxy_Inr [OF s] i(2) show ?thesis
      by (auto simp: calm_def owned_items_def)
  qed
  then show "pd_orders d' = pd_orders d" "pd_quotes d' = pd_quotes d" "owned_items d' \<subseteq> insert (po_id p) (owned_items d)" by auto
qed

lemma active_keeps:
  assumes ok: "purchases_ok m" and p: "p \<in> pm_reads m" "po_provider_order_id p \<noteq> []"
    and r: "reconcile_active pv (po_id p) proxy details t (pm_db m) = Inr (u, d)"
  shows "purchases_ok (m\<lparr>pm_db := d\<rparr>)"
proof -
  let ?d0 = "pm_db m"
  define f :: "purchase \<Rightarrow> purchase" where "f = (\<lambda>x. x\<lparr>po_status := ''active'', po_provider_proxy_id := py_str (proxy_field proxy [''id'', ''proxyId'']),
          po_response := safe_provider_summary details, po_last_synced_at := t, po_completed_at := t, po_updated_at := t\<rparr>)"
  from r obtain q item d1 d2 d3 where q: "get_purchase (po_id p) ?d0 = Some q"
    and 1: "deliver_owned_proxy pv q proxy t ?d0 = Inr (item, d1)"
    and 2: "settle_delivered (po_reservation_id q) (get_reservation (po_reservation_id q) (bill ?d0)) t d1 = Inr d2"
    and 3: "update_purchase (po_id p) f d2 = Inr d3" and 4: "schedule_delivered pv q proxy t d3 = Inr d"
    unfolding f_def by (rule reconcile_active_parts)
  have qid: "po_id q = po_id p" "q \<in> set (pd_orders ?d0)" using purchases_tbl.get_key q by (auto simp: get_purchase_def)
  have b: "bills ?d0 d1" "bills d1 d2" "bills d3 d"
    using deliver_bills [OF 1] settle_delivered_bills [OF 2] schedule_delivered_bills [OF 4] by auto
  note m3 = update_modifies [OF 3]
  have same: "calm d1 d2" "calm d3 d" using calm_settle [OF 2] calm_schedule [OF 4] by auto
  have "bills d2 d3" by (rule bills_same) (simp add: m3)
  with b have "bills ?d0 d" by (blast intro: bills_trans)
  moreover have "owned_items d \<subseteq> insert (po_id p) (owned_items ?d0)" "pd_orders d = row_modify po_id (po_id p) f (pd_orders ?d0)"
    "pd_quotes d = pd_quotes ?d0"
    using deliver_tables [OF 1] same m3 qid(1) by (auto simp: calm_def owned_items_def)
  moreover have "po_id p \<in> po_id ` set (pd_orders ?d0)" using qid by (metis image_eqI)
  ultimately have w: "one_order (po_id p) f ?d0 d" by (auto simp: one_order_def)
  note same_row = row_of_get [OF ok q]
  have "unheld (po_reservation_id q) (bill d2)"
    using same_row(2) [OF qid(2) qid(1)] by (intro settle_delivered_unheld [OF 2 _ b(1)]) (simp add: paid_def)
  then have u: "unheld (po_reservation_id q) (bill d)" using unheld_mono [OF b(3)] m3 by simp
  show ?thesis
  proof (rule settled_keeps [OF ok w])
    show "moves_on (po_id p) f ?d0 d"
      unfolding moves_on_def using same_row(1) u by (auto simp: later_def row_key_def f_def)
    fix x assume "x \<in> set (pd_orders ?d0)" "po_id x = po_id p" "unsent x"
    then show "unsent (f x) \<and> row_key (f x) = row_key x"
      using row_of_read(1) [OF ok p(1)] p(2) by (force simp: later_def unsent_def)
  qed
qed

lemma verdict_keeps:
  assumes ok: "purchases_ok m" and p: "p \<in> pm_reads m" "po_provider_order_id p \<noteq> []" and v: "verdict_ok v"
    and r: "file_verdict pv p v details t (pm_db m) = Inr (u, d)"
  shows "purchases_ok (m\<lparr>pm_db := d\<rparr>)"
proof (cases v)
  case (Terminal st)
  with v r show ?thesis using terminal_keeps [OF ok p] by (simp add: file_verdict_def verdict_ok_def)
next
  case (Deliverable proxy)
  with r show ?thesis using active_keeps [OF ok p] by (simp add: file_verdict_def)
next
  case Pending_order
  with r show ?thesis using pending_verdict_keeps [OF ok p] by (simp add: file_verdict_def)
qed

section \<open>New quotes and orders\<close>

lemma quoted_keeps:
  assumes ok: "purchases_ok m" and r: "store_quote q config request quoted units t (pm_db m) = Inr (qid, d)"
  shows "purchases_ok (m\<lparr>pm_db := d\<rparr>)"
proof -
  let ?d0 = "pm_db m"
  obtain i d1 where f: "fresh_id ''proxy_quote'' ?d0 = (i, d1)" by (cases "fresh_id ''proxy_quote'' ?d0")
  with r obtain x where i: "insert_quote x d1 = Inr d"
    by (auto simp: store_quote_def bindr_eq_Inr)
  then have d: "d = d1\<lparr>pd_quotes := pd_quotes d1 @ [x]\<rparr>" "get_quote (pq_id x) d1 = None"
    by (auto simp: insert_quote_def split: if_splits)
  have b: "bills ?d0 d" using quote_bills [OF r] .
  note d1 = fresh_id_fields [OF f]
  have used: "quote_used k ?d0 \<Longrightarrow> quote_used k d" for k
    using d d1 by (auto simp: quote_used_def get_quote_def quotes_tbl.get_append_old)
  have keep: "paid ?d0 p \<Longrightarrow> paid d p" for p
    using known_mono [OF b] unheld_mono [OF b] d(1) d1 by (auto simp: paid_def owned_items_def)
  have "distinct (map pq_id (pd_quotes d))"
    using ok d d1 quotes_tbl.distinct_append [of "pd_quotes ?d0" x] by (simp add: purchases_ok_def orders_ok_def get_quote_def)
  then show ?thesis using ok d(1) d1 used keep
    by (simp add: purchases_ok_def orders_ok_def reads_ok_def flight_ok_def owned_items_def)
qed

lemma place_keeps:
  assumes ok: "purchases_ok m" and r: "place_hold q x minor t (pm_db m) = Inr (Placed oid rid, d)"
  shows "purchases_ok (m\<lparr>pm_db := d, pm_flight := insert (oid, rid) (pm_flight m), pm_sent := pm_sent m @ [oid]\<rparr>)"
proof -
  let ?d0 = "pm_db m"
  obtain i d1 where f: "fresh_id ''proxy_order'' ?d0 = (i, d1)" by (cases "fresh_id ''proxy_order'' ?d0")
  from r obtain y where y: "quote_of_user q ?d0 = Some y" "pq_status y = ''open''"
    by (auto simp: place_hold_def split: option.splits if_splits)
  from r f obtain v d2 d3 where h: "billing (reserve_exact_cash_charge (purchase_charge q x i) t) d1 = Inr (v, d2)"
    and ins: "insert_purchase (new_purchase q x i (rv_id v) minor t) d2 = Inr d3"
    and d: "d = update_quote (pr_quote_id q) (\<lambda>y. y\<lparr>pq_status := ''accepted'', pq_updated_at := t\<rparr>) d3"
    and i: "i = oid" "rv_id v = rid"
    by (auto simp: place_hold_def Let_def bindr_eq_Inr split: option.splits if_splits)
  let ?p = "new_purchase q x oid rid minor t"
  note ins = insert_purchase_Inr [OF ins [unfolded i]]
  have q2: "calm ?d0 d2" using calm_fresh [OF f] calm_billing [OF h] by (rule calm_trans)
  have b: "bills ?d0 d" by (rule place_hold_bills [OF r])
  have o: "pd_orders d = pd_orders ?d0 @ [?p]" "owned_items d = owned_items ?d0"
    using d ins q2 by (auto simp: calm_def owned_items_def)
  have qs: "pd_quotes d = row_modify pq_id (pr_quote_id q) (\<lambda>y. y\<lparr>pq_status := ''accepted'', pq_updated_at := t\<rparr>) (pd_quotes ?d0)"
    using d ins q2 by (simp add: calm_def update_quote_def)
  then have keys: "map pq_id (pd_quotes d) = map pq_id (pd_quotes ?d0)" by (simp add: quotes_tbl.keys_modify)
  have gq: "get_quote k d = (if k = pr_quote_id q then map_option (\<lambda>y. y\<lparr>pq_status := ''accepted'', pq_updated_at := t\<rparr>) (get_quote k ?d0)
      else get_quote k ?d0)" for k
    unfolding get_quote_def qs by (rule quotes_tbl.get_modify) simp
  have used: "quote_used k d" if "quote_used k ?d0" for k using that by (auto simp: quote_used_def gq)
  have y': "get_quote (pr_quote_id q) ?d0 = Some y"
    using ok y(1) quotes_tbl.get_in [of "pd_quotes ?d0" y] unfolding quote_of_user_def get_quote_def
    by (auto dest!: find_row_SomeD simp: purchases_ok_def orders_ok_def)
  have keep: "paid d p" if "paid ?d0 p" for p
    using that known_mono [OF b] unheld_mono [OF b] o(2) by (auto simp: paid_def)
  have fresh: "oid \<notin> po_id ` set (pd_orders ?d0)" using ins q2 by (auto simp: calm_def purchase_clash_def new_purchase_def)
  moreover have "idem_key ?p \<notin> idem_key ` set (pd_orders ?d0)"
  proof
    assume "idem_key ?p \<in> idem_key ` set (pd_orders ?d0)"
    then obtain z where z: "z \<in> set (pd_orders d2)" "idem_key z = idem_key ?p" using q2 by (auto simp: calm_def)
    then have "purchase_clash ?p z" by (simp add: purchase_clash_def idem_key_def)
    with ins z(1) i show False by blast
  qed
  moreover have "pr_quote_id q \<notin> po_quote_id ` set (pd_orders ?d0)"
    using ok y' y(2) by (auto simp: purchases_ok_def orders_ok_def quote_used_def)
  moreover have "get_reservation rid (bill d) \<noteq> None"
    using h reserve_known [of "purchase_charge q x i" t "bill d1" v] ins d i by (auto simp: billing_Inr)
  then have "paid d ?p"
    using fresh ok o(2) by (auto simp: paid_def closed_def new_purchase_def TERMINAL_FAILURES_def purchases_ok_def orders_ok_def)
  moreover have "quote_used (pr_quote_id q) d" using y' by (simp add: quote_used_def gq)
  moreover have "po_id ?p = oid" "po_quote_id ?p = pr_quote_id q" by (simp_all add: new_purchase_def)
  ultimately have "orders_ok d" using ok o keys used keep by (auto simp: purchases_ok_def orders_ok_def)
  moreover have "reads_ok (pm_reads m) d" using ok o keep by (auto simp: purchases_ok_def reads_ok_def)
  moreover have "flight_ok (insert (oid, rid) (pm_flight m)) d"
    using ok o by (auto simp: purchases_ok_def flight_ok_def new_purchase_def unsent_def)
  moreover have "pm_sent m @ [oid] = map po_id (pd_orders d)" using ok o by (simp add: purchases_ok_def new_purchase_def)
  ultimately show ?thesis by (simp add: purchases_ok_def)
qed

section \<open>The invariant holds\<close>

text \<open>What every step keeps and every start has holds in every reachable state.\<close>

locale machine_invariant =
  fixes holds_in :: "machine \<Rightarrow> bool"
    and supplier :: "'w supplier"
  assumes at_start: "purchase_start m \<Longrightarrow> holds_in m"
    and at_step: "holds_in m \<Longrightarrow> purchase_step supplier m m' \<Longrightarrow> holds_in m'"
begin

lemma along: "purchase_steps supplier m m' \<Longrightarrow> holds_in m \<Longrightarrow> holds_in m'"
  by (induction rule: rtranclp_induct) (auto intro: at_step)

lemma always: "purchase_reachable supplier m \<Longrightarrow> holds_in m"
  by (induction rule: purchase_reachable.induct) (auto intro: at_start at_step)

end

interpretation billing_side: machine_invariant "\<lambda>m. bill_reachable (bill (pm_db m))" pv for pv
proof
  show "purchase_start m \<Longrightarrow> bill_reachable (bill (pm_db m))" for m by (simp add: purchase_start_def)
  show "bill_reachable (bill (pm_db m)) \<Longrightarrow> purchase_step pv m m' \<Longrightarrow> bill_reachable (bill (pm_db m'))" for m m'
    by (blast intro: bills_reachable step_bills)
qed

lemma purchases_kept: "purchase_step pv m m' \<Longrightarrow> purchases_ok m \<Longrightarrow> purchases_ok m'"
proof (induction rule: purchase_step.induct)
  case (read p m)
  then have "paid (pm_db m) p \<and> (\<exists>p' \<in> set (pd_orders (pm_db m)). later p p')"
    using later_refl by (auto simp only: purchases_ok_def orders_ok_def)
  with read show ?case by (simp add: purchases_ok_def reads_ok_def)
next
  case (crash m f)
  then show ?case by (auto simp: purchases_ok_def flight_ok_def)
next
  case (tables m n d cs es rs)
  then show ?case
    using step_bills [OF purchase_step.tables [OF tables(1,2)]]
    by (intro calm_steps) (simp_all add: calm_def owned_items_def)
next
  case (market d ps items m)
  then show ?case using calm_keeps [of m d "pm_flight m"] by (simp add: bills_same)
next
  case (billing m b)
  then show ?case by (intro calm_steps) (auto simp: calm_def owned_items_def intro: bills_step)
qed (simp_all add: place_keeps unknown_keeps failed_keeps accepted_keeps pending_keeps verdict_keeps bind_keeps
  not_ordered_keeps refunded_keeps sync_keeps postpone_keeps switch_keeps quoted_keeps
  calm_steps [OF _ renewal_bills(1) calm_renewal(1)] calm_steps [OF _ renewal_bills(2) calm_renewal(2)]
  calm_steps [OF _ renewal_bills(3) calm_renewal(3)] calm_steps [OF _ renewal_bills(4) calm_renewal(4)]
  calm_steps [OF _ renewal_bills(5) calm_renewal(5)])

interpretation purchases: machine_invariant purchases_ok pv for pv
proof
  show "purchase_start m \<Longrightarrow> purchases_ok m" for m
    by (simp add: purchase_start_def purchases_ok_def orders_ok_def reads_ok_def flight_ok_def)
qed (rule purchases_kept)

end
