(* ===== verification/ProxyRuns.thy ===== *)
theory ProxyRuns
  imports ProxySafety
begin

text \<open>
  The handlers are runs of the machine: whatever a handler does, uninterrupted, the machine
  can do in steps (\<open>purchase_order_runs\<close>, \<open>reconcile_order_runs\<close>, ...), and it sends one
  request per order placed.  The rules follow the shape of a handler, in the way of a Hoare
  logic: \<open>plays pv P p Q\<close> reads \<open>from a machine state with P, the handler p is a sequence of
  steps, and a result x leaves a state with Q x\<close>.
\<close>

definition is_execute :: "supplier_call \<Rightarrow> bool" where
  "is_execute c = (case c of Execute _ _ \<Rightarrow> True | ExtendPeriod _ _ \<Rightarrow> False)"

definition tracks :: "machine \<Rightarrow> 'w sys \<Rightarrow> bool" where
  "tracks m s = (pm_db m = sys_db s \<and> length (filter is_execute (sys_calls s)) = length (pm_sent m))"

definition plays :: "'w supplier \<Rightarrow> (machine \<Rightarrow> bool) \<Rightarrow> ('w, 'a) proc \<Rightarrow> ('a \<Rightarrow> machine \<Rightarrow> bool) \<Rightarrow> bool" where
  "plays pv P p Q = (\<forall>m s r s'. tracks m s \<longrightarrow> P m \<longrightarrow> p s = (r, s') \<longrightarrow>
     (\<exists>m'. purchase_steps pv m m' \<and> tracks m' s' \<and> (\<forall>x. r = Inr x \<longrightarrow> Q x m')))"

abbreviation anyone :: "machine \<Rightarrow> bool" where
  "anyone m \<equiv> True"

abbreviation anything :: "'a \<Rightarrow> machine \<Rightarrow> bool" where
  "anything x m \<equiv> True"

text \<open>\<open>element of\<close> from a set: what \<open>next(iter(s))\<close> promises.\<close>

definition picks :: "'w supplier \<Rightarrow> bool" where
  "picks pv = (\<forall>xs. xs \<noteq> [] \<longrightarrow> pv_any pv xs \<in> set xs)"

section \<open>Rules\<close>

named_theorems plays_intros \<open>rules for the runs of handlers\<close>

lemma playsI:
  assumes "\<And>m s r s'. tracks m s \<Longrightarrow> P m \<Longrightarrow> p s = (r, s') \<Longrightarrow>
    \<exists>m'. purchase_steps pv m m' \<and> tracks m' s' \<and> (\<forall>x. r = Inr x \<longrightarrow> Q x m')"
  shows "plays pv P p Q"
  using assms by (auto simp: plays_def)

lemma playsE:
  assumes "plays pv P p Q" "tracks m s" "P m" "p s = (r, s')"
  obtains m' where "purchase_steps pv m m'" "tracks m' s'" "\<forall>x. r = Inr x \<longrightarrow> Q x m'"
proof -
  from assms have "\<exists>m'. purchase_steps pv m m' \<and> tracks m' s' \<and> (\<forall>x. r = Inr x \<longrightarrow> Q x m')" by (simp add: plays_def)
  then show ?thesis using that by blast
qed

lemma plays_weaken:
  assumes p: "plays pv P p Q" and P: "\<And>m. P' m \<Longrightarrow> P m" and Q: "\<And>x m. Q x m \<Longrightarrow> Q' x m"
  shows "plays pv P' p Q'"
proof (rule playsI)
  fix m s r s' assume m: "tracks m s" "P' m" "p s = (r, s')"
  from p m(1) P [OF m(2)] m(3) obtain m' where "purchase_steps pv m m'" "tracks m' s'" "\<forall>x. r = Inr x \<longrightarrow> Q x m'" by (rule playsE)
  with Q show "\<exists>m'. purchase_steps pv m m' \<and> tracks m' s' \<and> (\<forall>x. r = Inr x \<longrightarrow> Q' x m')" by auto
qed

lemma plays_any: "plays pv P p Q \<Longrightarrow> plays pv P p anything"
  by (erule plays_weaken) simp_all

lemma plays_pre: "plays pv anyone p Q \<Longrightarrow> plays pv P p Q"
  by (erule plays_weaken) simp_all

lemma plays_done: "(\<And>x m. r = Inr x \<Longrightarrow> P m \<Longrightarrow> Q x m) \<Longrightarrow> plays pv P (done_with r) Q"
  by (auto simp: plays_def done_with_def)

lemma plays_bind:
  assumes p: "plays pv P p R" and k: "\<And>x. plays pv (R x) (k x) Q"
  shows "plays pv P (bindp p k) Q"
proof (rule playsI)
  fix m s r s' assume m: "tracks m s" "P m" and "bindp p k s = (r, s')"
  then consider e where "p s = (Inl e, s')" "r = Inl e" | x s1 where "p s = (Inr x, s1)" "k x s1 = (r, s')"
    by (auto simp: bindp_cases)
  then show "\<exists>m'. purchase_steps pv m m' \<and> tracks m' s' \<and> (\<forall>x. r = Inr x \<longrightarrow> Q x m')"
  proof cases
    case 1
    from p m 1(1) obtain m' where "purchase_steps pv m m'" "tracks m' s'" by (rule playsE)
    with 1 show ?thesis by auto
  next
    case 2
    from p m 2(1) obtain m1 where m1: "purchase_steps pv m m1" "tracks m1 s1" "R x m1" by (rule playsE) simp
    from k m1(2,3) 2(2) obtain m' where "purchase_steps pv m1 m'" "tracks m' s'" "\<forall>x. r = Inr x \<longrightarrow> Q x m'" by (rule playsE) simp
    with m1(1) show ?thesis by (meson rtranclp_trans)
  qed
qed

lemma plays_catch:
  assumes p: "plays pv P p Q" and h: "\<And>e. plays pv anyone (h e) Q"
  shows "plays pv P (catching p h) Q"
proof (rule playsI)
  fix m s r s' assume m: "tracks m s" "P m" and "catching p h s = (r, s')"
  then consider e s1 where "p s = (Inl e, s1)" "h e s1 = (r, s')" | x where "p s = (Inr x, s')" "r = Inr x"
    by (auto simp: catching_cases)
  then show "\<exists>m'. purchase_steps pv m m' \<and> tracks m' s' \<and> (\<forall>x. r = Inr x \<longrightarrow> Q x m')"
  proof cases
    case 1
    from p m 1(1) obtain m1 where m1: "purchase_steps pv m m1" "tracks m1 s1" by (rule playsE)
    from h m1(2) _ 1(2) obtain m' where "purchase_steps pv m1 m'" "tracks m' s'" "\<forall>x. r = Inr x \<longrightarrow> Q x m'" by (rule playsE) simp_all
    with m1(1) show ?thesis by (meson rtranclp_trans)
  next
    case 2
    from p m 2(1) obtain m' where "purchase_steps pv m m'" "tracks m' s'" "Q x m'" by (rule playsE) simp
    with 2 show ?thesis by auto
  qed
qed

lemma plays_reading: "(\<And>m x. P m \<Longrightarrow> f (pm_db m) = Inr x \<Longrightarrow> Q x m) \<Longrightarrow> plays pv P (reading f) Q"
  by (auto simp: plays_def reading_def tracks_def)

lemma plays_asking: "plays pv P (asking f) (\<lambda>_. P)"
  by (auto simp: plays_def asking_def tracks_def split: prod.splits)

lemma plays_extend: "plays pv P (spending (ExtendPeriod i n) f) (\<lambda>_. P)"
  by (auto simp: plays_def spending_def tracks_def is_execute_def split: prod.splits)

lemma plays_atomically:
  assumes "\<And>m x d. P m \<Longrightarrow> f (pm_db m) = Inr (x, d) \<Longrightarrow>
    \<exists>m'. purchase_steps pv m m' \<and> pm_db m' = d \<and> pm_sent m' = pm_sent m \<and> Q x m'"
  shows "plays pv P (atomically f) Q"
proof (rule playsI)
  fix m s r s' assume m: "tracks m s" "P m" and r: "atomically f s = (r, s')"
  show "\<exists>m'. purchase_steps pv m m' \<and> tracks m' s' \<and> (\<forall>x. r = Inr x \<longrightarrow> Q x m')"
  proof (cases "f (sys_db s)")
    case (Inl e)
    with r m show ?thesis by (auto simp: atomically_def)
  next
    case (Inr y)
    then obtain x d where y: "f (sys_db s) = Inr (x, d)" by (cases y) auto
    with assms [OF m(2)] m(1) obtain m' where "purchase_steps pv m m'" "pm_db m' = d" "pm_sent m' = pm_sent m" "Q x m'"
      by (auto simp: tracks_def)
    with r y m(1) show ?thesis by (auto simp: atomically_def tracks_def)
  qed
qed

text \<open>A transaction that is one step.\<close>

lemma plays_step:
  assumes "\<And>(m :: machine) x d. P m \<Longrightarrow> f (pm_db m) = Inr (x, d) \<Longrightarrow> purchase_step pv m (m\<lparr>pm_db := d\<rparr>)"
  shows "plays pv P (atomically f) anything"
proof (rule plays_atomically)
  fix m :: machine and x d assume "P m" "f (pm_db m) = Inr (x, d)"
  with assms show "\<exists>m'. purchase_steps pv m m' \<and> pm_db m' = d \<and> pm_sent m' = pm_sent m \<and> True"
    by (intro exI [of _ "m\<lparr>pm_db := d\<rparr>"]) auto
qed

text \<open>A transaction that only writes configurations, events or schedules.\<close>

definition writes_tables :: "pdb \<Rightarrow> pdb \<Rightarrow> bool" where
  "writes_tables d d' = (\<exists>n cs es rs. draws (bill d) \<le> n
     \<and> d' = d\<lparr>bill := (bill d)\<lparr>draws := n\<rparr>, pd_configs := cs, pd_events := es, pd_renewals := rs\<rparr>)"

lemma plays_tables:
  assumes "\<And>d x d'. f d = Inr (x, d') \<Longrightarrow> writes_tables d d'"
  shows "plays pv P (atomically f) anything"
proof (rule plays_step)
  fix m :: machine and x d assume "f (pm_db m) = Inr (x, d)"
  then show "purchase_step pv m (m\<lparr>pm_db := d\<rparr>)"
    using assms [of "pm_db m" x d] purchase_step.tables unfolding writes_tables_def by blast
qed

lemma steps_reads: "purchase_steps pv m m' \<Longrightarrow> pm_reads m \<subseteq> pm_reads m'"
proof (induction rule: rtranclp_induct)
  case (step y z)
  from step(2) have "pm_reads y \<subseteq> pm_reads z" by (cases rule: purchase_step.cases) auto
  with step(3) show ?case by blast
qed simp

lemma plays_stable:
  assumes p: "plays pv P p Q" and stable: "\<And>m m'. S m \<Longrightarrow> purchase_steps pv m m' \<Longrightarrow> S m'"
  shows "plays pv (\<lambda>m. P m \<and> S m) p (\<lambda>x m. Q x m \<and> S m)"
proof (rule playsI)
  fix m s r s' assume m: "tracks m s" "P m \<and> S m" "p s = (r, s')"
  from p m(1) conjunct1 [OF m(2)] m(3) obtain m' where m': "purchase_steps pv m m'" "tracks m' s'" "\<forall>x. r = Inr x \<longrightarrow> Q x m'"
    by (rule playsE)
  moreover have "S m'" using stable [OF conjunct2 [OF m(2)] m'(1)] .
  ultimately show "\<exists>m'. purchase_steps pv m m' \<and> tracks m' s' \<and> (\<forall>x. r = Inr x \<longrightarrow> Q x m' \<and> S m')" by auto
qed

lemma plays_frame:
  "plays pv P p Q \<Longrightarrow> plays pv (\<lambda>m. P m \<and> R \<subseteq> pm_reads m) p (\<lambda>x m. Q x m \<and> R \<subseteq> pm_reads m)"
  by (erule plays_stable) (use steps_reads in blast)

lemma plays_each:
  assumes "\<And>x. x \<in> set xs \<Longrightarrow> plays pv P (f x) anything" and stable: "\<And>m m'. P m \<Longrightarrow> purchase_steps pv m m' \<Longrightarrow> P m'"
  shows "plays pv P (for_each f xs) anything"
  using assms(1)
proof (induction xs)
  case Nil
  then show ?case by (simp add: plays_done)
next
  case (Cons x xs)
  have "plays pv (\<lambda>m. P m \<and> P m) (f x) (\<lambda>y m. True \<and> P m)" by (rule plays_stable [OF Cons.prems stable]) simp
  then have "plays pv P (f x) (\<lambda>_. P)" by simp
  moreover have "plays pv P (for_each f xs) anything" using Cons by simp
  ultimately show ?case by (auto intro!: plays_bind plays_done)
qed

lemma plays_each_any: "(\<And>x. plays pv anyone (f x) anything) \<Longrightarrow> plays pv anyone (for_each f xs) anything"
  by (rule plays_each)

lemma read_all:
  assumes "set ps \<subseteq> set (pd_orders (pm_db m))"
  shows "purchase_steps pv m (m\<lparr>pm_reads := set ps \<union> pm_reads m\<rparr>)"
  using assms
proof (induction ps)
  case (Cons p ps)
  let ?m = "m\<lparr>pm_reads := set ps \<union> pm_reads m\<rparr>"
  have "purchase_step pv ?m (?m\<lparr>pm_reads := insert p (pm_reads ?m)\<rparr>)" using Cons.prems by (intro purchase_step.read) simp
  with Cons show ?case by (simp add: rtranclp.rtrancl_into_rtrancl)
qed simp

lemma plays_reading_rows:
  assumes "\<And>d x. f d = Inr x \<Longrightarrow> set (rows x) \<subseteq> set (pd_orders d)"
  shows "plays pv P (reading f) (\<lambda>x m. set (rows x) \<subseteq> pm_reads m)"
proof (rule playsI)
  fix m s r s' assume m: "tracks m s" "P m" and r: "reading f s = (r, s')"
  show "\<exists>m'. purchase_steps pv m m' \<and> tracks m' s' \<and>
      (\<forall>x. r = Inr x \<longrightarrow> set (rows x) \<subseteq> pm_reads m')"
  proof (cases r)
    case (Inl e)
    with r m show ?thesis by (auto simp: reading_def)
  next
    case (Inr x)
    with r have f: "f (sys_db s) = Inr x" by (auto simp: reading_def)
    have "set (rows x) \<subseteq> set (pd_orders (pm_db m))" using assms [OF f] m(1) by (simp add: tracks_def)
    note read = read_all [OF this]
    have "tracks (m\<lparr>pm_reads := set (rows x) \<union> pm_reads m\<rparr>) s'" using m(1) r by (simp add: tracks_def reading_def)
    with read f Inr show ?thesis
      by (intro exI [of _ "m\<lparr>pm_reads := set (rows x) \<union> pm_reads m\<rparr>"]) auto
  qed
qed

section \<open>The handlers\<close>

lemma playing_step:
  "purchase_step pv m m' \<Longrightarrow> pm_sent m' = pm_sent m \<Longrightarrow>
    \<exists>m''. purchase_steps pv m m'' \<and> pm_db m'' = pm_db m' \<and> pm_sent m'' = pm_sent m"
  by (intro exI [of _ m']) auto

lemma verdicts_ok: "picks pv \<Longrightarrow> verdict_ok (supplier_verdict (pv_any pv) details proxies)"
proof -
  assume "picks pv"
  then have "pv_any pv xs \<in> set xs" if "xs \<noteq> []" for xs using that by (simp add: picks_def)
  from this [of "filter (\<lambda>s. s \<in> set TERMINAL_FAILURES) (map status_of proxies)"] show ?thesis
    by (auto simp: verdict_ok_def supplier_verdict_def Let_def TERMINAL_FAILURES_def split: if_splits option.splits)
qed

lemma filed_plays:
  assumes "picks pv" "po_provider_order_id p \<noteq> []"
  shows "plays pv (\<lambda>m. set [p] \<subseteq> pm_reads m)
      (atomically (file_verdict pv p (supplier_verdict (pv_any pv) details proxies) details t)) anything"
  by (rule plays_step) (use assms(2) verdicts_ok [OF assms(1)] in \<open>auto intro: purchase_step.verdict\<close>)

lemma purchase_row_plays: "plays pv P (reading (purchase_row oid)) (\<lambda>p m. set [p] \<subseteq> pm_reads m)"
  using purchases_tbl.get_key
  by (intro plays_reading_rows) (auto simp: purchase_row_def get_purchase_def split: option.splits)

lemma reconcile_order_plays:
  assumes "picks pv"
  shows "plays pv anyone (reconcile_order pv oid t) anything"
  unfolding reconcile_order_def Let_def
proof (rule plays_bind [OF purchase_row_plays], goal_cases)
  case (1 p)
  show ?case
  proof (cases "po_provider_order_id p = []")
    case False
    then show ?thesis
      by (simp only: if_False) (intro plays_bind [OF plays_asking] plays_bind [OF filed_plays [OF assms False]] plays_reading TrueI)
  qed (simp add: plays_reading)
qed

abbreviation in_flight :: "string \<Rightarrow> string \<Rightarrow> machine \<Rightarrow> bool" where
  "in_flight oid rid m \<equiv> (oid, rid) \<in> pm_flight m"

lemma answer_plays:
  assumes "\<And>(m :: machine) x d. in_flight oid rid m \<Longrightarrow> f (pm_db m) = Inr (x, d) \<Longrightarrow>
    purchase_step pv m (m\<lparr>pm_db := d, pm_flight := pm_flight m - {(oid, rid)}\<rparr>)"
  shows "plays pv (in_flight oid rid) (atomically f) anything"
proof (rule plays_atomically)
  fix m :: machine and x d assume "in_flight oid rid m" "f (pm_db m) = Inr (x, d)"
  with assms show "\<exists>m'. purchase_steps pv m m' \<and> pm_db m' = d \<and> pm_sent m' = pm_sent m \<and> True"
    by (intro exI [of _ "m\<lparr>pm_db := d, pm_flight := pm_flight m - {(oid, rid)}\<rparr>"]) auto
qed

lemma unknown_plays: "plays pv (in_flight oid rid) (atomically (order_unknown oid code t)) anything"
  by (rule answer_plays) (use purchase_step.unknown [of "(oid, rid)"] in auto)

lemma failed_plays: "plays pv (in_flight oid rid) (atomically (order_failed oid rid code t)) anything"
  by (rule answer_plays) (use purchase_step.failed [of "(oid, rid)"] in auto)

lemma accepted_plays: "pid \<noteq> [] \<Longrightarrow> plays pv (in_flight oid rid) (atomically (order_accepted oid pid result t)) anything"
  by (rule answer_plays) (use purchase_step.accepted [of "(oid, rid)"] in auto)

lemma shown_plays: "plays pv P (reading f) anything"
  by (rule plays_reading) simp

lemma file_refusal_plays: "plays pv (in_flight oid rid) (file_refusal oid rid t e) anything"
  by (cases e) (auto simp: file_refusal_def intro!: plays_done shown_plays plays_bind [OF unknown_plays] plays_bind [OF failed_plays])

lemma file_accepted_plays:
  assumes "picks pv"
  shows "plays pv (in_flight oid rid) (file_accepted pv oid result t) anything"
proof (cases "provider_order_id result = []")
  case True
  then show ?thesis by (auto simp: file_accepted_def intro!: shown_plays plays_bind [OF unknown_plays])
next
  case False
  have "plays pv anyone (bindp (reconcile_order pv oid t) (\<lambda>_. done_with (Inr ()))) anything"
    by (rule plays_bind [OF reconcile_order_plays [OF assms]]) (simp add: plays_done)
  moreover have "plays pv anyone (atomically (delivery_pending oid t)) anything"
    by (rule plays_step) (rule purchase_step.pending)
  ultimately have "plays pv anyone (catching (bindp (reconcile_order pv oid t) (\<lambda>_. done_with (Inr ())))
      (\<lambda>e. atomically (delivery_pending oid t))) anything" by (rule plays_catch)
  then have "plays pv anyone (bindp (catching (bindp (reconcile_order pv oid t) (\<lambda>_. done_with (Inr ())))
      (\<lambda>e. atomically (delivery_pending oid t))) (\<lambda>_. reading (show_purchase oid))) anything"
    by (rule plays_bind) (rule shown_plays)
  with False show ?thesis by (auto simp: file_accepted_def intro: plays_bind [OF accepted_plays])
qed

text \<open>The hold and the request that follows it.\<close>

lemma place_and_send_plays:
  assumes "picks pv"
  shows "plays pv anyone (bindp (atomically (place_hold q x minor t)) (\<lambda>h. case h of
      Replayed p \<Rightarrow> reading (\<lambda>d. Inr (public_purchase p d)) | Placed oid rid \<Rightarrow> send_order pv x oid rid t)) anything"
proof (rule playsI)
  fix m s r s' assume tr: "tracks m s" and b: "bindp (atomically (place_hold q x minor t)) (\<lambda>h. case h of
      Replayed p \<Rightarrow> reading (\<lambda>d. Inr (public_purchase p d)) | Placed oid rid \<Rightarrow> send_order pv x oid rid t) s = (r, s')"
  from tr have db: "sys_db s = pm_db m" by (simp add: tracks_def)
  have "\<exists>m'. purchase_steps pv m m' \<and> tracks m' s'"
  proof (cases "place_hold q x minor t (pm_db m)")
    case (Inl e)
    with b tr db show ?thesis by (auto simp: bindp_def atomically_def)
  next
    case (Inr y)
    then obtain h d where h: "place_hold q x minor t (pm_db m) = Inr (h, d)" by (cases y) auto
    show ?thesis
    proof (cases h)
      case (Replayed p)
      with h have "d = pm_db m" by (auto simp: place_hold_def Let_def split_def bindr_eq_Inr split: option.splits if_splits)
      with b tr db h Replayed show ?thesis by (auto simp: bindp_def atomically_def reading_def tracks_def)
    next
      case (Placed oid rid)
      let ?m = "m\<lparr>pm_db := d, pm_flight := insert (oid, rid) (pm_flight m), pm_sent := pm_sent m @ [oid]\<rparr>"
      have st: "purchase_steps pv m ?m" using purchase_step.place [of q x minor t m oid rid d pv] h Placed by auto
      let ?req = "supplier_request (pq_request x)"
      let ?s = "s\<lparr>sys_db := d\<rparr>"
      obtain r1 s1 where sp: "spending (Execute (pq_service_id x) ?req) (pv_execute pv (pq_service_id x) ?req) ?s = (r1, s1)"
        by (cases "spending (Execute (pq_service_id x) ?req) (pv_execute pv (pq_service_id x) ?req) ?s")
      then have t1: "tracks ?m s1" using tr by (auto simp: tracks_def spending_def is_execute_def Let_def split: prod.splits)
      have fl: "in_flight oid rid ?m" by simp
      from b h Placed db sp have "(case r1 of Inl e \<Rightarrow> file_refusal oid rid t e s1 | Inr res \<Rightarrow> file_accepted pv oid res t s1) = (r, s')"
        by (auto simp: bindp_def atomically_def send_order_def Let_def split: sum.splits)
      then obtain m' where "purchase_steps pv ?m m'" "tracks m' s'"
        using playsE [OF file_refusal_plays t1 fl] playsE [OF file_accepted_plays [OF assms] t1 fl]
        by (cases r1) (auto, blast+)
      with st show ?thesis by (meson rtranclp_trans)
    qed
  qed
  then show "\<exists>m'. purchase_steps pv m m' \<and> tracks m' s' \<and> (\<forall>xa. r = Inr xa \<longrightarrow> True)" by simp
qed

lemma preflight_plays: "plays pv P (preflight pv x) (\<lambda>_. P)"
proof -
  have "plays pv P (bindp (reading (quote_config x)) (\<lambda>config.
        bindp (asking (pv_quote pv (pq_service_id x) (supplier_request (pq_request x)))) (\<lambda>fresh.
        bindp (reading (check_fresh_price x config fresh)) (\<lambda>fresh_minor.
        bindp (asking (pv_get_balance pv)) (\<lambda>payload.
        bindp (done_with (check_balance fresh payload)) (\<lambda>_.
        done_with (Inr fresh_minor))))))) (\<lambda>_. P)"
    by (rule plays_bind [where R = "\<lambda>_. P"] plays_asking plays_reading plays_done, assumption?)+
  then show ?thesis
    by (auto simp: plays_def preflight_def split: if_splits)
qed

lemma purchase_order_plays:
  assumes "picks pv"
  shows "plays pv anyone (purchase_order pv q t) anything"
  unfolding purchase_order_def
proof (rule plays_bind [OF shown_plays])
  fix c
  have "plays pv anyone (bindp (preflight pv x) (\<lambda>fresh_minor. bindp (atomically (place_hold q x fresh_minor t)) (\<lambda>h. case h of
       Replayed p \<Rightarrow> reading (\<lambda>d. Inr (public_purchase p d)) | Placed oid rid \<Rightarrow> send_order pv x oid rid t))) anything" for x
    by (rule plays_bind [OF preflight_plays place_and_send_plays [OF assms]])
  then show "plays pv anyone (case c of Replay p \<Rightarrow> reading (\<lambda>d. Inr (public_purchase p d))
     | Proceed x \<Rightarrow> bindp (preflight pv x) (\<lambda>fresh_minor. bindp (atomically (place_hold q x fresh_minor t)) (\<lambda>h. case h of
       Replayed p \<Rightarrow> reading (\<lambda>d. Inr (public_purchase p d)) | Placed oid rid \<Rightarrow> send_order pv x oid rid t))) anything"
    by (cases c) (simp_all add: shown_plays)
qed

lemma resolve_plays:
  assumes "picks pv"
  shows "plays pv anyone (resolve_unknown_order pv oid resolution pid actor t) anything"
proof -
  have "plays pv anyone (atomically (bind_provider_order oid pid t)) anything"
    "plays pv anyone (atomically (confirm_not_ordered oid actor t)) anything"
    "plays pv anyone (atomically (confirm_provider_refunded oid actor t)) anything"
    by (rule plays_step, erule purchase_step.bind, rule plays_step, erule purchase_step.not_ordered,
        rule plays_step, erule purchase_step.refunded)
  then show ?thesis
    unfolding resolve_unknown_order_def Let_def
    by (auto intro: plays_bind shown_plays plays_done reconcile_order_plays [OF assms])
qed

lemma set_order_renewal_plays: "plays pv anyone (set_order_renewal uid oid b t) anything"
  unfolding set_order_renewal_def by (intro plays_step purchase_step.switch)

section \<open>The worker\<close>

lemma writes_renewals: "draws (bill d) \<le> n \<Longrightarrow> writes_tables d (d\<lparr>bill := (bill d)\<lparr>draws := n\<rparr>, pd_renewals := rs\<rparr>)"
  unfolding writes_tables_def by (intro exI [of _ n] exI [of _ "pd_configs d"] exI [of _ "pd_events d"] exI [of _ rs]) simp

lemma renewal_written: "writes_tables d (update_renewal rid P f d)"
  using writes_renewals [of d "draws (bill d)"] by (simp add: update_renewal_def)

lemma event_written: "writes_tables d (update_event eid f d)"
  unfolding writes_tables_def update_event_def
  by (intro exI [of _ "draws (bill d)"] exI [of _ "pd_configs d"] exI [of _ "row_modify ev_id eid f (pd_events d)"]
      exI [of _ "pd_renewals d"]) simp

lemma renewal_tx_plays:
  "plays pv P (atomically (write_renewal rid R f)) anything"
  "plays pv P (atomically (park_renewal rid st R f t)) anything"
  "plays pv P (atomically (mark_unconfirmed rid t)) anything"
  "plays pv P (atomically (expiry_found r e t)) anything"
  "plays pv P (atomically (mark_event eid g)) anything"
  by (auto intro!: plays_tables
      simp: write_renewal_def park_renewal_def mark_unconfirmed_def expiry_found_def mark_event_def renewal_written event_written
      split: if_splits)

lemma claim_plays: "plays pv P (atomically (claim_renewal rid t)) anything" "plays pv P (atomically (claim_event eid t)) anything"
proof -
  have "writes_tables d d'" if "claim_renewal rid t d = Inr (x, d')" for d x d'
    using that writes_renewals [of d "Suc (draws (bill d))"]
    by (auto simp: claim_renewal_def Let_def update_renewal_def)
  then show "plays pv P (atomically (claim_renewal rid t)) anything" by (rule plays_tables)
  show "plays pv P (atomically (claim_event eid t)) anything"
    by (rule plays_tables) (auto simp: claim_event_def event_written)
qed

lemma settle_plays: "plays pv P (atomically (settle_renewal rid r e t)) anything"
  by (intro plays_step purchase_step.settle)

lemma sync_missing_plays: "plays pv anyone (sync_missing_expiry pv t r) anything"
  unfolding sync_missing_expiry_def
  by (intro plays_catch plays_bind [OF plays_asking] plays_bind [OF plays_done] plays_bind [OF renewal_tx_plays(1)]
      plays_bind [OF renewal_tx_plays(4)] plays_done TrueI)

lemma confirm_extension_plays: "plays pv anyone (confirm_extension pv t r) anything"
  unfolding confirm_extension_def
  by (intro plays_catch plays_bind [OF plays_asking] plays_bind [OF plays_done] TrueI)
    (auto intro!: plays_bind [OF renewal_tx_plays(3)] plays_bind [OF settle_plays] plays_done split: pyexc.splits)

lemma extend_plays: "plays pv anyone (extend_renewal pv r rid months t) anything"
proof -
  have "plays pv anyone (if told \<le> rn_expires_at r
      then bindp (asking (pv_get_proxy pv (rn_proxy_id r))) (\<lambda>actual. done_with (proxy_expiry pv actual))
      else done_with (Inr told)) anything" for told
    by (auto intro!: plays_bind [OF plays_asking] plays_done)
  then have "plays pv anyone (bindp (if told \<le> rn_expires_at r
      then bindp (asking (pv_get_proxy pv (rn_proxy_id r))) (\<lambda>actual. done_with (proxy_expiry pv actual))
      else done_with (Inr told)) (\<lambda>actual.
     if actual \<le> rn_expires_at r then done_with (Inl (ProviderError ProviderOutcomeUnknown))
     else bindp (atomically (settle_renewal rid r actual t)) (\<lambda>_. done_with (Inr [rn_order_id r])))) anything" for told
    by (rule plays_bind) (auto intro!: plays_bind [OF settle_plays] plays_done)
  note tail = this
  show ?thesis
    unfolding extend_renewal_def
    by (rule plays_bind [OF plays_extend], rule plays_bind [where R = anything, OF plays_done], rule TrueI, rule tail)
qed

lemma hold_plays: "plays pv P (atomically (hold_renewal r lease units t)) anything"
  by (intro plays_step purchase_step.hold)

lemma price_plays: "plays pv anyone (renewal_price pv quoted config t) anything"
proof -
  have mode: "plays pv anyone (if b then bindp (asking g) (\<lambda>reference.
       bindp (done_with (effective_usd_twd_rate reference config t)) (\<lambda>(fx, _). done_with (Inr (Some fx))))
     else done_with (Inr None)) anything" for b g
    by (auto intro!: plays_bind [OF plays_asking] plays_bind [where R = anything, OF plays_done] plays_done)
  show ?thesis
    unfolding renewal_price_def
    by (rule plays_bind [OF shown_plays], rule plays_bind [OF mode])
      (auto intro!: plays_bind [where R = anything, OF plays_done] plays_done)
qed

lemma renew_leased_plays: "plays pv anyone (renew_leased pv r p lease t) anything"
proof -
  let ?rest = "\<lambda>months. bindp (asking (pv_extension_quote pv (rn_proxy_id r) months)) (\<lambda>quoted.
         bindp (reading (renewal_config quoted p)) (\<lambda>config.
         bindp (renewal_price pv quoted config t) (\<lambda>units.
         bindp (done_with (decimal_of (dget config ''max_vendor_cost_usd'') zero)) (\<lambda>max_cost.
         if dval max_cost < dval (quote_amount quoted) then
           bindp (atomically (park_renewal (rn_id r) ''cost_limit'' always (\<lambda>x. x\<lparr>rn_enabled := False\<rparr>) t))
             (\<lambda>_. done_with (Inr []))
         else
           bindp (asking (pv_get_balance pv)) (\<lambda>payload.
           if (case balance_usd payload of None \<Rightarrow> True | Some b \<Rightarrow> dval b < dval (quote_amount quoted)) then
             bindp (atomically (park_renewal (rn_id r) ''provider_balance_low'' (holds_lease lease)
               (\<lambda>x. x\<lparr>rn_next_attempt_at := t + 3600\<rparr>) t)) (\<lambda>_. done_with (Inr []))
           else
             bindp (atomically (hold_renewal r lease units t)) (\<lambda>rid.
             extend_renewal pv r rid months t))))))"
  have rest: "plays pv anyone (?rest months) anything" for months
    by (intro plays_bind [OF plays_asking] plays_bind [OF shown_plays] plays_bind [OF price_plays]
        plays_bind [where R = anything, OF plays_done])
      (auto intro!: plays_bind [OF renewal_tx_plays(2)] plays_bind [OF plays_asking] plays_bind [OF hold_plays] plays_done extend_plays)
  have park: "plays pv anyone (bindp (atomically (park_renewal (rn_id r) ''config_blocked'' (holds_lease lease) (\<lambda>x. x) t))
      (\<lambda>_. done_with (Inr []))) anything"
    by (intro plays_bind [OF renewal_tx_plays(2)] plays_done TrueI)
  have "plays pv anyone (\<lambda>s. (if \<not> pv_safe pv (sys_world s) then
         bindp (atomically (park_renewal (rn_id r) ''config_blocked'' (holds_lease lease) (\<lambda>x. x) t)) (\<lambda>_. done_with (Inr []))
       else ?rest months) s) anything" for months
  proof (rule playsI)
    fix m s rr s' assume m: "tracks m s" and run: "(if \<not> pv_safe pv (sys_world s) then
         bindp (atomically (park_renewal (rn_id r) ''config_blocked'' (holds_lease lease) (\<lambda>x. x) t)) (\<lambda>_. done_with (Inr []))
       else ?rest months) s = (rr, s')"
    show "\<exists>m'. purchase_steps pv m m' \<and> tracks m' s' \<and> (\<forall>x. rr = Inr x \<longrightarrow> True)"
    proof (cases "pv_safe pv (sys_world s)")
      case True
      with run have "?rest months s = (rr, s')" by (simp only: not_True_eq_False if_False)
      with playsE [OF rest m TrueI] show ?thesis by blast
    next
      case False
      with run have "bindp (atomically (park_renewal (rn_id r) ''config_blocked'' (holds_lease lease) (\<lambda>x. x) t))
          (\<lambda>_. done_with (Inr [])) s = (rr, s')" by (simp only: not_False_eq_True if_True)
      with playsE [OF park m TrueI] show ?thesis by blast
    qed
  qed
  then show ?thesis
    unfolding renew_leased_def by (intro plays_bind [where R = anything, OF plays_done]) simp_all
qed

lemma renewal_error_plays: "plays pv anyone (atomically (renewal_error rid t e)) anything"
proof (rule plays_step)
  fix m :: machine and x d assume e: "renewal_error rid t e (pm_db m) = Inr (x, d)"
  have w: "purchase_step pv m (m\<lparr>pm_db := d'\<rparr>)" if "writes_tables (pm_db m) d'" for d'
    using that purchase_step.tables unfolding writes_tables_def by blast
  have written: "writes_tables (pm_db m) d" if "mark_unconfirmed rid t (pm_db m) = Inr (x, d)
      \<or> (\<exists>st P f. park_renewal rid st P f t (pm_db m) = Inr (x, d))"
    using that by (auto simp: mark_unconfirmed_def park_renewal_def write_renewal_def renewal_written)
  from e have "(\<exists>h. refuse_renewal rid h t (pm_db m) = Inr (x, d)) \<or> writes_tables (pm_db m) d"
    by (intro disj_imp [THEN iffD2] impI written)
      (auto simp: renewal_error_def split: pyexc.splits option.splits if_splits)
  then show "purchase_step pv m (m\<lparr>pm_db := d\<rparr>)" using w purchase_step.refuse by blast
qed

lemma renew_due_plays: "plays pv anyone (renew_due pv t rid) anything"
  unfolding renew_due_def
proof (intro plays_catch plays_bind [OF claim_plays(1)] plays_bind [OF renewal_error_plays] plays_done TrueI)
  fix c :: "bool \<times> string"
  obtain claimed lease where c: "c = (claimed, lease)" by (cases c)
  have "plays pv anyone (case row of None \<Rightarrow> done_with (Inr []) | Some (r, p) \<Rightarrow> renew_leased pv r p lease t) anything" for row
    by (auto intro: plays_done renew_leased_plays split: option.splits)
  then have "plays pv anyone (bindp (reading (leased_renewal rid lease)) (\<lambda>row.
          case row of None \<Rightarrow> done_with (Inr []) | Some (r, p) \<Rightarrow> renew_leased pv r p lease t)) anything"
    by (rule plays_bind [OF shown_plays])
  then show "plays pv anyone (case c of (claimed, lease) \<Rightarrow> if \<not> claimed then done_with (Inr [])
        else bindp (reading (leased_renewal rid lease)) (\<lambda>row.
          case row of None \<Rightarrow> done_with (Inr []) | Some (r, p) \<Rightarrow> renew_leased pv r p lease t)) anything"
    by (simp add: c plays_done)
qed

lemma process_due_renewals_plays: "plays pv anyone (process_due_renewals pv limit t) anything"
  unfolding process_due_renewals_def Let_def
  by (intro plays_bind [OF shown_plays] plays_bind [OF plays_each_any] sync_missing_plays confirm_extension_plays
      renew_due_plays plays_done TrueI)

lemma admin_resolve_renewal_plays: "plays pv anyone (admin_resolve_renewal pv oid action t) anything"
  unfolding admin_resolve_renewal_def Let_def
proof (rule plays_bind [OF shown_plays])
  fix r
  have done1: "plays pv anyone (atomically (confirm_extended r actual t)) anything" for actual
    by (intro plays_step purchase_step.confirm)
  have done2: "plays pv anyone (atomically (confirm_not_extended r t)) anything"
    by (intro plays_step purchase_step.not_extended)
  show "plays pv anyone (if lower (strip action) \<notin> {''reconcile'', ''confirm_extended'', ''confirm_not_extended''}
     then done_with (Inl (PurchaseError ''INVALID_RENEWAL_RESOLUTION'' 400))
     else if lower (strip action) \<noteq> ''confirm_not_extended'' then
       bindp (asking (pv_get_proxy pv (rn_proxy_id r))) (\<lambda>proxy.
       bindp (done_with (proxy_expiry pv proxy)) (\<lambda>actual.
       if actual \<le> or_zero (rn_baseline_expires_at r) (rn_expires_at r) then
         (if lower (strip action) = ''confirm_extended'' then done_with (Inl (PurchaseError ''RENEWAL_NOT_PROVEN'' 409))
          else done_with (Inr (rn_status r, rn_expires_at r)))
       else bindp (atomically (confirm_extended r actual t)) (\<lambda>_. done_with (Inr (''renewed'', actual)))))
     else if rn_status r \<in> {''failed'', ''not_extended''} then done_with (Inr (rn_status r, rn_expires_at r))
     else if rn_status r \<notin> {''provider_unknown'', ''extending''}
     then done_with (Inl (PurchaseError ''RENEWAL_NOT_RESOLVABLE'' 409))
     else bindp (atomically (confirm_not_extended r t)) (\<lambda>_. done_with (Inr (''not_extended'', rn_expires_at r)))) anything"
    by (auto intro!: plays_done plays_bind [OF plays_asking] plays_bind [where R = anything, OF plays_done]
        plays_bind [OF done1] plays_bind [OF done2])
qed

section \<open>Events, sweeps, quotes and configurations\<close>

lemma consume_event_plays:
  assumes "picks pv"
  shows "plays pv anyone (consume_event pv t eid) anything"
proof -
  have mark: "plays pv anyone (atomically (mark_event eid f)) anything" for f by (rule renewal_tx_plays(5))
  have "plays pv anyone (if oid \<noteq> [] then bindp (reconcile_order pv oid t) (\<lambda>_. atomically (mark_event eid f))
      else atomically (mark_event eid g)) anything" for oid f g
    using plays_bind [OF reconcile_order_plays [OF assms] mark] mark by auto
  then have "plays pv anyone (bindp (if oid \<noteq> [] then bindp (reconcile_order pv oid t) (\<lambda>_. atomically (mark_event eid f))
      else atomically (mark_event eid g)) (\<lambda>_. done_with (Inr [eid]))) anything" for oid f g
    by (rule plays_bind) (simp add: plays_done)
  then have "plays pv anyone (bindp (reading (\<lambda>d. Inr (event_order eid d))) (\<lambda>oid.
      bindp (if oid \<noteq> [] then bindp (reconcile_order pv oid t) (\<lambda>_. atomically (mark_event eid f))
      else atomically (mark_event eid g)) (\<lambda>_. done_with (Inr [eid])))) anything" for f g
    by (rule plays_bind [OF shown_plays])
  then have "plays pv anyone (if \<not> claimed then done_with (Inr []) else bindp (reading (\<lambda>d. Inr (event_order eid d))) (\<lambda>oid.
      bindp (if oid \<noteq> [] then bindp (reconcile_order pv oid t) (\<lambda>_. atomically (mark_event eid f))
      else atomically (mark_event eid g)) (\<lambda>_. done_with (Inr [eid])))) anything" for claimed f g
    by (cases claimed) (simp_all only: not_True_eq_False not_False_eq_True if_True if_False plays_done)
  then show ?thesis
    unfolding consume_event_def
    by (rule plays_catch [OF plays_bind [OF claim_plays(2)]]) (intro plays_bind [OF mark] plays_done TrueI)
qed

lemma process_webhook_events_plays:
  "picks pv \<Longrightarrow> plays pv anyone (process_webhook_events pv limit t) anything"
  unfolding process_webhook_events_def
  by (intro plays_bind [OF shown_plays] plays_each_any consume_event_plays)

lemma reconcile_due_orders_plays:
  assumes "picks pv"
  shows "plays pv anyone (reconcile_due_orders pv limit t) anything"
proof -
  have "plays pv anyone (atomically (postpone_order oid t)) anything" for oid by (intro plays_step purchase_step.postpone)
  then have "plays pv anyone (reconcile_due pv t oid) anything" for oid
    unfolding reconcile_due_def
    by (intro plays_catch plays_bind [OF reconcile_order_plays [OF assms]] plays_done TrueI) (auto intro: plays_bind plays_done)
  then show ?thesis
    unfolding reconcile_due_orders_def by (intro plays_bind [OF shown_plays] plays_each_any)
qed

lemma set_select: "set (select_ordered P k n rows) \<subseteq> {r \<in> set rows. P r}"
  unfolding select_ordered_def using set_take_subset [of n "sort_key k (filter P rows)"] by auto

lemma sync_order_plays:
  assumes "po_status p = ''active''"
  shows "plays pv (\<lambda>m. p \<in> pm_reads m) (sync_order pv t p) anything"
proof -
  have "plays pv (\<lambda>m. p \<in> pm_reads m) (atomically (sync_asset p st e t)) anything" for st e
    by (rule plays_step) (rule purchase_step.sync [OF _ assms])
  then have "plays pv (\<lambda>m. p \<in> pm_reads m) (bindp (atomically (sync_asset p st e t)) (\<lambda>_. done_with (Inr [po_id p]))) anything" for st e
    by (rule plays_bind) (simp add: plays_done)
  then show ?thesis
    unfolding sync_order_def
    by (intro plays_catch plays_bind [OF plays_asking] plays_bind [where R = "\<lambda>_ m. p \<in> pm_reads m", OF plays_done] plays_done TrueI)
qed

lemma sync_active_assets_plays: "plays pv anyone (sync_active_assets pv limit t) anything"
proof -
  let ?f = "\<lambda>d. Inr (select_ordered (\<lambda>p. po_status p = ''active'' \<and> po_provider_proxy_id p \<noteq> []
       \<and> po_last_synced_at p \<le> t - 3600) po_last_synced_at (clamp limit 100) (pd_orders d))"
  let ?due = "\<lambda>ps. \<forall>p \<in> set ps. po_status p = ''active''"
  have read: "plays pv anyone (reading ?f) (\<lambda>ps m. set (filter (\<lambda>p. po_status p = ''active'') ps) \<subseteq> pm_reads m)"
    using set_select by (intro plays_reading_rows) fastforce
  have each: "plays pv (\<lambda>m. set ps \<subseteq> pm_reads m) (for_each (sync_order pv t) ps) anything" if "?due ps" for ps
  proof (rule plays_each)
    fix p assume p: "p \<in> set ps"
    with that have "plays pv (\<lambda>m. p \<in> pm_reads m) (sync_order pv t p) anything" by (intro sync_order_plays) simp
    then show "plays pv (\<lambda>m. set ps \<subseteq> pm_reads m) (sync_order pv t p) anything" by (rule plays_weaken) (use p in auto)
  qed (use steps_reads in blast)
  show ?thesis
    unfolding sync_active_assets_def
  proof (rule playsI)
    fix m s r s' assume m: "tracks m s" and b: "bindp (reading ?f) (for_each (sync_order pv t)) s = (r, s')"
    then obtain ps where ps: "?f (sys_db s) = Inr ps" and run: "for_each (sync_order pv t) ps s = (r, s')"
      by (auto simp: bindp_cases reading_def)
    have due: "?due ps" using ps set_select by fastforce
    obtain m1 where m1: "purchase_steps pv m m1" "tracks m1 s" and reads: "set (filter (\<lambda>p. po_status p = ''active'') ps) \<subseteq> pm_reads m1"
      using playsE [OF read m TrueI, of "Inr ps" s] ps by (auto simp: reading_def)
    have "set ps \<subseteq> pm_reads m1" using reads due by auto
    then obtain m' where "purchase_steps pv m1 m'" "tracks m' s'" using playsE [OF each [OF due] m1(2) _ run] by blast
    with m1(1) show "\<exists>m'. purchase_steps pv m m' \<and> tracks m' s' \<and> (\<forall>x. r = Inr x \<longrightarrow> True)" by (meson rtranclp_trans)
  qed
qed

end
