(* ===== verification/ProxyService.thy ===== *)
theory ProxyService
  imports ProxyRuns
begin

text \<open>
  The purchasing service as a whole: requests of customers and administrators, runs of the
  worker, webhooks, and anything else the billing component does, in any order
  (\<open>served\<close>).  Every such history is a run of the machine (\<open>service_runs\<close>), so the
  machine's invariant holds of it.
\<close>

lemma selected_plays:
  "plays pv anyone (bindp (asking g) (\<lambda>reference. bindp (done_with (h reference)) (\<lambda>(fx, public).
      done_with (Inr (Some fx, public))))) anything"
  by (auto intro!: plays_bind [OF plays_asking] plays_bind [where R = anything, OF plays_done] plays_done)

lemma store_quote_plays: "plays pv P (atomically (store_quote q config request quoted units t)) anything"
  by (intro plays_step purchase_step.quoted)

lemma create_quote_plays: "plays pv anyone (create_quote pv q t) anything"
  unfolding create_quote_def Let_def
  by (auto intro!: plays_bind [OF shown_plays] plays_done plays_bind [OF plays_asking]
      plays_bind [OF selected_plays] plays_bind [OF store_quote_plays]
      plays_bind [where R = anything, OF plays_done])

lemma publish_config_plays: "plays pv anyone (publish_config (Some pv) config_id actor t) anything"
proof -
  have "plays pv anyone (validate_provider_config pv config) anything" for config
    unfolding validate_provider_config_def
    by (intro plays_bind [OF plays_asking] plays_bind [where R = anything, OF plays_done] plays_done TrueI)
  moreover have "plays pv anyone (atomically (publish_price config_id clean actor t row)) anything" for clean row
  proof (rule plays_tables)
    fix d x d' assume "publish_price config_id clean actor t row d = Inr (x, d')"
    then obtain priced where "d' = activate_config config_id priced t d" by (auto simp: publish_price_def bindr_eq_Inr)
    then show "writes_tables d d'"
      unfolding writes_tables_def activate_config_def
      by (intro exI [of _ "draws (bill d)"] exI [of _ "pd_configs d'"] exI [of _ "pd_events d"] exI [of _ "pd_renewals d"]) simp
  qed
  ultimately show ?thesis
    unfolding publish_config_def
    by (auto intro!: plays_bind [OF shown_plays] plays_bind [where R = anything, OF plays_done] intro: plays_bind)
qed

section \<open>Histories of the service\<close>

text \<open>
  One request or one run of the worker after another, by any supplier answers; between them
  the world and the rest of the application move on: \<open>others\<close> is any billing operation,
  \<open>market\<close> the administration of market items, which creates no purchased ones.
\<close>

inductive served :: "'w supplier \<Rightarrow> 'w sys \<Rightarrow> 'w sys \<Rightarrow> bool" for pv where
  draft: "atomically (save_config_draft config actor t) s = (r, s') \<Longrightarrow> served pv s s'"
| publish: "publish_config (Some pv) config_id actor t s = (r, s') \<Longrightarrow> served pv s s'"
| quote: "create_quote pv qr t s = (r, s') \<Longrightarrow> served pv s s'"
| buy: "purchase_order pv q t s = (r, s') \<Longrightarrow> served pv s s'"
| reconcile: "reconcile_order pv oid t s = (r, s') \<Longrightarrow> served pv s s'"
| resolve: "resolve_unknown_order pv oid resolution pid actor t s = (r, s') \<Longrightarrow> served pv s s'"
| renewal: "set_order_renewal uid oid b t s = (r, s') \<Longrightarrow> served pv s s'"
| renew: "process_due_renewals pv limit t s = (r, s') \<Longrightarrow> served pv s s'"
| resolve_renewal: "admin_resolve_renewal pv oid action t s = (r, s') \<Longrightarrow> served pv s s'"
| webhook: "atomically (record_webhook hmac decode h secret stored t) s = (r, s') \<Longrightarrow> served pv s s'"
| events: "process_webhook_events pv limit t s = (r, s') \<Longrightarrow> served pv s s'"
| sync: "sync_active_assets pv limit t s = (r, s') \<Longrightarrow> served pv s s'"
| sweep: "reconcile_due_orders pv limit t s = (r, s') \<Longrightarrow> served pv s s'"
| others: "bill_step (bill (sys_db s)) b \<Longrightarrow> served pv s (s\<lparr>sys_db := (sys_db s)\<lparr>bill := b\<rparr>, sys_world := w\<rparr>)"
| market: "d = (sys_db s)\<lparr>pd_items := items, pd_proxies := ps\<rparr> \<Longrightarrow> owned_items d \<subseteq> owned_items (sys_db s) \<Longrightarrow>
    served pv s (s\<lparr>sys_db := d\<rparr>)"

text \<open>The start of the service: no purchases, a reachable billing database, no request sent.\<close>

definition service_start :: "'w sys \<Rightarrow> bool" where
  "service_start s = (bill_reachable (bill (sys_db s)) \<and> pd_orders (sys_db s) = [] \<and> pd_renewals (sys_db s) = []
     \<and> distinct (map pq_id (pd_quotes (sys_db s))) \<and> owned_items (sys_db s) = {} \<and> sys_calls s = [])"

lemma writes_draws: "writes_tables d (d\<lparr>bill := (bill d)\<lparr>draws := Suc (draws (bill d))\<rparr>, pd_configs := cs, pd_events := es\<rparr>)"
  unfolding writes_tables_def
  by (intro exI [of _ "Suc (draws (bill d))"] exI [of _ cs] exI [of _ es] exI [of _ "pd_renewals d"]) simp

lemma draft_plays: "plays pv P (atomically (save_config_draft config actor t)) anything"
proof (rule plays_tables)
  fix d x d' assume s: "save_config_draft config actor t d = Inr (x, d')"
  obtain i d1 where f: "fresh_id ''proxy_cfg'' d = (i, d1)" by (cases "fresh_id ''proxy_cfg'' d")
  from s f obtain c where "d' = d1\<lparr>pd_configs := pd_configs d1 @ [c]\<rparr>"
    by (auto simp: save_config_draft_def Let_def insert_config_version_def bindr_eq_Inr split: if_splits)
  then show "writes_tables d d'"
    using writes_draws [where d = d and cs = "pd_configs d @ [c]" and es = "pd_events d"] fresh_id_fields [OF f] by simp
qed

lemma webhook_plays: "plays pv P (atomically (record_webhook hmac decode h secret stored t)) anything"
proof (rule plays_tables)
  fix d x d' assume s: "record_webhook hmac decode h secret stored t d = Inr (x, d')"
  obtain i d1 where f: "fresh_id ''proxy_event'' d = (i, d1)" by (cases "fresh_id ''proxy_event'' d")
  from s f have "d' = d1\<lparr>pd_events := pd_events d'\<rparr>"
    by (auto simp: record_webhook_def Let_def insert_event_or_ignore_def bindr_eq_Inr
        split: if_splits option.splits pyval.splits prod.splits)
  then show "writes_tables d d'"
    using writes_draws [where d = d and cs = "pd_configs d" and es = "pd_events d'"] fresh_id_fields [OF f] by simp
qed

lemma play_run:
  assumes "plays pv anyone p anything" "p s = (r, s')" "tracks m s"
  shows "\<exists>m'. purchase_steps pv m m' \<and> tracks m' s'"
  using playsE [OF assms(1,3) TrueI assms(2)] by blast

lemma served_plays:
  assumes "served pv s s'" "picks pv" "tracks m s"
  shows "\<exists>m'. purchase_steps pv m m' \<and> tracks m' s'"
  using assms
proof (induction rule: served.induct)
  case (others s b w)
  then have "purchase_step pv m (m\<lparr>pm_db := (pm_db m)\<lparr>bill := b\<rparr>\<rparr>)" by (intro purchase_step.billing) (simp add: tracks_def)
  then show ?case using others by (intro exI [of _ "m\<lparr>pm_db := (pm_db m)\<lparr>bill := b\<rparr>\<rparr>"]) (auto simp: tracks_def)
next
  case (market d ps items s)
  then have "purchase_step pv m (m\<lparr>pm_db := d\<rparr>)"
    by (intro purchase_step.market [of d ps items m]) (simp_all add: tracks_def)
  then show ?case using market by (intro exI [of _ "m\<lparr>pm_db := d\<rparr>"]) (auto simp: tracks_def)
qed (rule play_run, rule draft_plays publish_config_plays create_quote_plays
  purchase_order_plays reconcile_order_plays resolve_plays set_order_renewal_plays process_due_renewals_plays
  admin_resolve_renewal_plays webhook_plays process_webhook_events_plays sync_active_assets_plays
  reconcile_due_orders_plays, assumption+)+

lemma service_runs:
  assumes "service_start s" "(served pv)\<^sup>*\<^sup>* s s'" "picks pv"
  shows "\<exists>m. purchase_reachable pv m \<and> tracks m s'"
  using assms(2)
proof (induction rule: rtranclp_induct)
  case base
  let ?m = "\<lparr>pm_db = sys_db s, pm_reads = {}, pm_flight = {}, pm_sent = []\<rparr>"
  have "purchase_start ?m" "tracks ?m s" using assms(1) by (simp_all add: service_start_def purchase_start_def tracks_def)
  then show ?case by (blast intro: purchase_reachable.init)
next
  case (step y z)
  then obtain m where m: "purchase_reachable pv m" "tracks m y" by blast
  from served_plays [OF step(2) assms(3) m(2)] obtain m' where m': "purchase_steps pv m m'" "tracks m' z" by blast
  have "purchase_reachable pv m'" using m'(1) m(1) by (induction rule: rtranclp_induct) (auto intro: purchase_reachable.step)
  with m'(2) show ?case by blast
qed

end
