(* ===== verification/ProxyMock.thy ===== *)
theory ProxyMock
  imports ProxySchema
begin

text \<open>
  The in-memory supplier of webapp/proxy_providers/mock.py, used by development set-ups and
  the integration tests: every order is delivered at once.  As a concrete \<open>supplier\<close> it is
  what the properties of the purchasing service are evaluated on.
\<close>

record mock_provider =
  mk_price :: decimal
  mk_orders :: "(string \<times> pydict) list"
  mk_executes :: int
  mk_extends :: int
  mk_quote_periods :: "int list"
  mk_extend_periods :: "int list"

definition mock_provider_init :: "decimal \<Rightarrow> mock_provider" where
  "mock_provider_init price =
     \<lparr>mk_price = price, mk_orders = [], mk_executes = 0, mk_extends = 0, mk_quote_periods = [], mk_extend_periods = []\<rparr>"

definition mock_services :: pydict where
  "mock_services = [(''data'', PList [PDict
     [(''id'', PStr ''static-residential-ipv4''), (''name'', PStr ''Static Residential IPv4''),
      (''plans'', PList [PDict [(''id'', PStr ''standard''), (''name'', PStr ''Standard'')]])]])]"

definition mock_rejected :: "'a res" where
  "mock_rejected = Inl (ProviderError ProviderRejectedError)"

definition mock_setup :: "string \<Rightarrow> string \<Rightarrow> pydict res" where
  "mock_setup service plan =
     (if service \<noteq> ''static-residential-ipv4'' then mock_rejected
      else Inr
        [(''countries'', PList
           [PDict [(''code'', PStr ''US''), (''name'', PStr ''United States'')],
            PDict [(''code'', PStr ''GB''), (''name'', PStr ''United Kingdom'')]]),
         (''cities'', PDict
           [(''US'', PList [PDict [(''id'', PStr ''New York''), (''label'', PStr ''New York''),
               (''region'', PStr ''New York''), (''isps'', PList [PStr ''mock-us-isp''])]]),
            (''GB'', PList [PDict [(''id'', PStr ''London''), (''label'', PStr ''London''),
               (''isps'', PList [PStr ''mock-gb-isp''])]])]),
         (''isps'', PDict
           [(''US'', PList [PDict [(''id'', PStr ''mock-us-isp''), (''name'', PStr ''Mock US ISP'')]]),
            (''GB'', PList [PDict [(''id'', PStr ''mock-gb-isp''), (''name'', PStr ''Mock GB ISP'')]])]),
         (''periods'', PDict [(''months'', PList (map PInt [1..12]))]),
         (''planId'', PStr plan)])"

definition mock_quote :: "string \<Rightarrow> pydict \<Rightarrow> mock_provider \<Rightarrow> provider_quote res \<times> mock_provider" where
  "mock_quote service settings w =
     (if service \<noteq> ''static-residential-ipv4'' then mock_rejected
      else bindr (py_get (py_or (dget settings ''period'') (PDict [])) ''value'') (\<lambda>v.
        bindr (int_or v 1) (\<lambda>months.
        Inr \<lparr>quote_amount = dec_mul (mk_price w) (dint months), quote_currency = ''USD''\<rparr>)), w)"

definition mock_execute :: "string \<Rightarrow> pydict \<Rightarrow> mock_provider \<Rightarrow> pydict res \<times> mock_provider" where
  "mock_execute service settings w =
     (let n = mk_executes w + 1; oid = ''mock-order-'' @ show_int n;
          order = [(''id'', PStr oid), (''status'', PStr ''ACTIVE''), (''serviceId'', PStr service),
            (''configuration'', PDict settings)] in
      (Inr order, w\<lparr>mk_executes := n, mk_orders := AList.update oid order (mk_orders w)\<rparr>))"

definition mock_get_order :: "string \<Rightarrow> mock_provider \<Rightarrow> pydict res" where
  "mock_get_order oid w = (case map_of (mk_orders w) oid of None \<Rightarrow> mock_rejected | Some order \<Rightarrow> Inr order)"

definition mock_proxy :: "string \<Rightarrow> pydict" where
  "mock_proxy oid =
     [(''id'', PStr (''proxy-'' @ oid)), (''status'', PStr ''ACTIVE''),
      (''connection'', PDict
        [(''connectIp'', PStr ''192.0.2.10''), (''publicIp'', PStr ''198.51.100.10''), (''httpPort'', PInt 8000),
         (''httpsPort'', PInt 8443), (''socks5Port'', PInt 1080)]),
      (''authentication'', PDict [(''username'', PStr ''mock-user''), (''password'', PStr ''mock-password'')]),
      (''proxyType'', PStr ''RESIDENTIAL_STATIC''), (''countryCode'', PStr ''US''),
      (''expiresAt'', PStr ''2099-01-01T00:00:00Z'')]"

definition mock_get_order_proxies :: "string \<Rightarrow> mock_provider \<Rightarrow> pydict res" where
  "mock_get_order_proxies oid w =
     bindr (mock_get_order oid w) (\<lambda>_. Inr [(''data'', PList [PDict (mock_proxy oid)])])"

definition mock_get_proxy :: "string \<Rightarrow> mock_provider \<Rightarrow> pydict res" where
  "mock_get_proxy pid w =
     (case List.find (\<lambda>oid. pid = ''proxy-'' @ oid) (map fst (mk_orders w)) of
        None \<Rightarrow> mock_rejected | Some oid \<Rightarrow> Inr (mock_proxy oid))"

definition mock_extension_quote :: "string \<Rightarrow> int \<Rightarrow> mock_provider \<Rightarrow> provider_quote res \<times> mock_provider" where
  "mock_extension_quote pid months w =
     (Inr \<lparr>quote_amount = dec_mul (mk_price w) (dint months), quote_currency = ''USD''\<rparr>,
      w\<lparr>mk_quote_periods := mk_quote_periods w @ [months]\<rparr>)"

definition mock_extend_period :: "string \<Rightarrow> int \<Rightarrow> mock_provider \<Rightarrow> pydict res \<times> mock_provider" where
  "mock_extend_period pid months w =
     (Inr [(''id'', PStr pid), (''status'', PStr ''ACTIVE''), (''periodInMonths'', PInt months)],
      w\<lparr>mk_extends := mk_extends w + 1, mk_extend_periods := mk_extend_periods w @ [months]\<rparr>)"

text \<open>The rate service, the ISO parser, the vault and the choice from a set are not the supplier's.\<close>

definition mock_supplier :: "(mock_provider \<Rightarrow> exchange_quote option \<times> mock_provider) \<Rightarrow> (string \<Rightarrow> int option) \<Rightarrow>
    (int \<Rightarrow> string \<Rightarrow> string \<Rightarrow> string res) \<Rightarrow> (string list \<Rightarrow> string) \<Rightarrow> mock_provider supplier" where
  "mock_supplier fx iso_parser vault any_of =
     \<lparr>pv_safe = (\<lambda>_. True),
      pv_list_services = (\<lambda>w. (Inr mock_services, w)),
      pv_get_setup = (\<lambda>service plan w. (mock_setup service plan, w)),
      pv_quote = mock_quote,
      pv_execute = mock_execute,
      pv_get_order = (\<lambda>oid w. (mock_get_order oid w, w)),
      pv_get_order_proxies = (\<lambda>oid w. (mock_get_order_proxies oid w, w)),
      pv_get_proxy = (\<lambda>pid w. (mock_get_proxy pid w, w)),
      pv_get_balance = (\<lambda>w. (Inr [(''balance'', PStr ''1000.00''), (''currency'', PStr ''USD'')], w)),
      pv_extension_quote = mock_extension_quote,
      pv_extend_period = mock_extend_period,
      pv_fx = fx, pv_iso = iso_parser, pv_vault = vault, pv_any = any_of\<rparr>"

end
