(* ===== verification/ProxyCheap.thy ===== *)
theory ProxyCheap
  imports ProxySchema
begin

text \<open>
  The adapter of the real supplier (webapp/proxy_providers/proxycheap.py).  The HTTP session is
  a parameter that answers a request (method, path, body) with \<open>http_answer\<close>; the JSON decoder
  and the environment are parameters as well.  What matters to the callers is the class of the
  exception: a call that may spend money (\<open>mutation\<close>) fails definitively or with
  \<open>ProviderOutcomeUnknown\<close>, never in between.
\<close>

section \<open>Requests\<close>

text \<open>The body comes in chunks, and the connection may break after some of them.\<close>

datatype http_answer =
    No_answer
  | Answer (answer_status: int) (answer_length: string) (answer_chunks: "string list") (answer_broken: bool)

datatype read_outcome = Read string | Broken_off | Too_large

fun read_chunks :: "int \<Rightarrow> bool \<Rightarrow> string list \<Rightarrow> string \<Rightarrow> read_outcome" where
  "read_chunks limit broken [] acc = (if broken then Broken_off else Read acc)"
| "read_chunks limit broken (c # cs) acc =
     (if limit < int (length (acc @ c)) then Too_large else read_chunks limit broken cs (acc @ c))"

definition read_body :: "int \<Rightarrow> http_answer \<Rightarrow> read_outcome" where
  "read_body limit a =
     (if (case parse_int (answer_length a) of Some n \<Rightarrow> limit < n | None \<Rightarrow> False) then Too_large
      else read_chunks limit (answer_broken a) (answer_chunks a) [])"

text \<open>The decoded payload, or the failure that reading it ends in.\<close>

definition read_payload :: "(string \<Rightarrow> pyval option) \<Rightarrow> int \<Rightarrow> http_answer \<Rightarrow> provider_failure + pydict" where
  "read_payload decode limit a =
     (case read_body limit a of
        Broken_off \<Rightarrow> Inl ProviderUnavailableError
      | Too_large \<Rightarrow> Inl ProviderResponseError
      | Read raw \<Rightarrow>
          if raw = [] then Inr []
          else (case decode raw of
              None \<Rightarrow> Inl ProviderResponseError
            | Some (PDict d) \<Rightarrow> Inr d
            | Some v \<Rightarrow> Inr [(''data'', v)]))"

definition failing :: "bool \<Rightarrow> provider_failure \<Rightarrow> 'a res" where
  "failing mutation f = Inl (ProviderError (if mutation then ProviderOutcomeUnknown else f))"

definition path_ok :: "string \<Rightarrow> bool" where
  "path_ok path = (starts_with ''/'' path \<and> \<not> starts_with ''//'' path \<and> \<not> contains path ''..'' \<and> \<not> contains path ''://'')"

definition judge_answer :: "(string \<Rightarrow> pyval option) \<Rightarrow> int \<Rightarrow> bool \<Rightarrow> http_answer \<Rightarrow> pydict res" where
  "judge_answer decode limit mutation a =
     (case a of
        No_answer \<Rightarrow> failing mutation ProviderUnavailableError
      | Answer st _ _ _ \<Rightarrow>
          if st = 401 \<or> st = 403 then Inl (ProviderError ProviderAuthenticationError)
          else if 300 \<le> st \<and> st < 400 then failing mutation ProviderResponseError
          else case read_payload decode limit a of
            Inl f \<Rightarrow> failing mutation f
          | Inr payload \<Rightarrow>
              if 400 \<le> st then
                (if 500 \<le> st \<or> st = 408 \<or> st = 429 then failing mutation ProviderUnavailableError
                 else Inl (ProviderError ProviderRejectedError))
              else Inr payload)"

record cheap_provider =
  ch_api_key :: string
  ch_api_secret :: string
  ch_currency :: string
  ch_purchases :: bool
  ch_max_bytes :: int

type_synonym 'w http = "string \<Rightarrow> string \<Rightarrow> pydict option \<Rightarrow> 'w \<Rightarrow> http_answer \<times> 'w"

definition cheap_request :: "cheap_provider \<Rightarrow> 'w http \<Rightarrow> (string \<Rightarrow> pyval option) \<Rightarrow> bool \<Rightarrow> string \<Rightarrow> string \<Rightarrow>
    pydict option \<Rightarrow> 'w \<Rightarrow> pydict res \<times> 'w" where
  "cheap_request c http decode mutation verb path body w =
     (if \<not> path_ok path then (Inl ValueError, w)
      else if ch_api_key c = [] \<or> ch_api_secret c = [] then (Inl (ProviderError ProviderConfigurationError), w)
      else let (a, w1) = http verb path body w in (judge_answer decode (ch_max_bytes c) mutation a, w1))"

section \<open>Payloads\<close>

definition id_char :: "char \<Rightarrow> bool" where
  "id_char c = (is_alnum c \<and> (of_char c :: nat) < 128 \<or> c \<in> {CHR ''_'', CHR ''.'', CHR '':'', CHR ''-''})"

text \<open>The identifiers of \<open>_SAFE_ID\<close>; of their characters only the colon is percent-encoded.\<close>

definition safe_identifier :: "string \<Rightarrow> string res" where
  "safe_identifier value =
     (let clean = strip value in
      if clean = [] \<or> 160 < length clean \<or> \<not> list_all id_char clean
      then Inl (ProviderError ProviderRejectedError)
      else Inr (concat (map (\<lambda>c. if c = CHR '':'' then ''%3A'' else [c]) clean)))"

definition cheap_decimal :: "pyval \<Rightarrow> decimal option" where
  "cheap_decimal v =
     (case v of
        PBool _ \<Rightarrow> None | PNone \<Rightarrow> None
      | _ \<Rightarrow> (case dec_parse (py_str v) of
          Some (Finite d) \<Rightarrow> if 0 \<le> dval d then Some d else None | _ \<Rightarrow> None))"

definition price_keys :: "string list" where
  "price_keys = [''finalPriceInCurrency'', ''finalPrice'', ''total'', ''totalPrice'', ''price'', ''amount'']"

fun first_price :: "pyval list \<Rightarrow> string \<Rightarrow> provider_quote res" where
  "first_price [] currency = Inl (ProviderError ProviderResponseError)"
| "first_price (v # vs) currency =
     (let (currency', v') = (case v of
          PDict m \<Rightarrow> (upper (py_str (py_or (dget m ''currency'') (PStr currency))),
            if has_key ''amount'' m then dget m ''amount'' else dget m ''value'')
        | _ \<Rightarrow> (currency, v)) in
      case cheap_decimal v' of
        Some a \<Rightarrow> if currency' = [] then Inl (ProviderError ProviderResponseError)
          else Inr \<lparr>quote_amount = a, quote_currency = currency'\<rparr>
      | None \<Rightarrow> first_price vs currency')"

definition currency_of :: "pydict \<Rightarrow> string \<Rightarrow> string" where
  "currency_of d otherwise = upper (case List.find truthy (map (dget d) [''currency'', ''currencyCode'']) of
     Some v \<Rightarrow> py_str v | None \<Rightarrow> otherwise)"

definition find_price :: "pydict \<Rightarrow> string \<Rightarrow> provider_quote res" where
  "find_price payload trusted =
     (let currency = currency_of payload trusted; outer = map (dget payload) price_keys in
      case dget payload ''data'' of
        PDict data \<Rightarrow> first_price (outer @ map (dget data) price_keys) (currency_of data currency)
      | _ \<Rightarrow> first_price outer currency)"

definition order_keys :: "string list" where
  "order_keys = [''planId'', ''country'', ''region'', ''city'', ''ispId'', ''package'', ''protocol'', ''proxyProtocol'',
     ''authenticationType'', ''traffic'', ''couponCode'', ''period'']"

definition order_period :: "pyval \<Rightarrow> pyval res" where
  "order_period period =
     (case period of
        PDict m \<Rightarrow>
          bindr (int_or (dget m ''value'') 1) (\<lambda>months.
          if str_field (py_or (dget m ''unit'') (PStr ''months'')) \<noteq> ''months'' \<or> months < 1 \<or> 36 < months
          then Inl (ProviderError ProviderRejectedError)
          else Inr (PDict [(''unit'', PStr ''months''), (''value'', PInt months)]))
      | _ \<Rightarrow> Inr (PDict [(''unit'', PStr ''months''), (''value'', PInt 1)]))"

definition order_body :: "pydict \<Rightarrow> bool \<Rightarrow> pydict res" where
  "order_body settings execute =
     (let body = filter (\<lambda>(k, v). k \<in> set order_keys \<and> given v) settings;
          body1 = dset ''quantity'' (PInt 1) (dset ''planId'' (PStr (str_field (dget settings ''planId''))) body) in
      bindr (order_period (dget body1 ''period'')) (\<lambda>period.
      let body2 = dset ''period'' period body1 in
      Inr (if execute then dset ''autoExtend'' (PDict [(''isEnabled'', PBool False)]) body2 else body2)))"

section \<open>The supplier's operations\<close>

definition fallible :: "'a res \<Rightarrow> ('a \<Rightarrow> 'w \<Rightarrow> 'b res \<times> 'w) \<Rightarrow> 'w \<Rightarrow> 'b res \<times> 'w" where
  "fallible r k w = (case r of Inl e \<Rightarrow> (Inl e, w) | Inr x \<Rightarrow> k x w)"

definition and_then :: "('w \<Rightarrow> 'a res \<times> 'w) \<Rightarrow> ('a \<Rightarrow> 'b res) \<Rightarrow> 'w \<Rightarrow> 'b res \<times> 'w" where
  "and_then f k w = (let (r, w1) = f w in (bindr r k, w1))"

definition env_flag :: "string option \<Rightarrow> bool" where
  "env_flag v = (lower (strip (case v of Some s \<Rightarrow> s | None \<Rightarrow> [])) \<in> {''1'', ''true'', ''yes'', ''on''})"

definition account_currency :: "cheap_provider \<Rightarrow> string option \<Rightarrow> string res" where
  "account_currency c env =
     (let currency = (if ch_currency c \<noteq> [] then ch_currency c else upper (strip (case env of Some s \<Rightarrow> s | None \<Rightarrow> []))) in
      if currency \<noteq> ''USD'' then Inl (ProviderError ProviderConfigurationError) else Inr currency)"

definition spending_allowed :: "cheap_provider \<Rightarrow> bool \<Rightarrow> unit res" where
  "spending_allowed c safe = (if \<not> ch_purchases c \<or> \<not> safe then Inl (ProviderError ProviderConfigurationError) else Inr ())"

definition extension_months :: "int \<Rightarrow> int res" where
  "extension_months months = (if months < 1 \<or> 36 < months then Inl (ProviderError ProviderRejectedError) else Inr months)"

definition cheap_quote where
  "cheap_quote c http decode service settings =
     fallible (safe_identifier service) (\<lambda>s. fallible (order_body settings False) (\<lambda>body.
     and_then (cheap_request c http decode False ''POST'' (''/v2/order/'' @ s @ ''/price'') (Some body)) (\<lambda>raw. find_price raw [])))"

definition cheap_execute where
  "cheap_execute c http decode safe service settings =
     fallible (spending_allowed c safe) (\<lambda>_. fallible (safe_identifier service) (\<lambda>s.
     fallible (order_body settings True) (\<lambda>body.
     cheap_request c http decode True ''POST'' (''/v2/order/'' @ s @ ''/execute'') (Some body))))"

definition cheap_get where
  "cheap_get c http decode before ident after =
     fallible (safe_identifier ident) (\<lambda>i. cheap_request c http decode False ''GET'' (before @ i @ after) None)"

definition cheap_extension_quote where
  "cheap_extension_quote c http decode env pid months =
     fallible (extension_months months) (\<lambda>n. fallible (safe_identifier pid) (\<lambda>i.
     and_then (cheap_request c http decode False ''POST'' (''/proxies/'' @ i @ ''/period-extension-price'')
         (Some [(''periodInMonths'', PInt n)])) (\<lambda>raw.
       bindr (account_currency c env) (\<lambda>currency. find_price raw currency))))"

definition cheap_extend_period where
  "cheap_extend_period c http decode safe pid months =
     fallible (spending_allowed c safe) (\<lambda>_. fallible (extension_months months) (\<lambda>n.
     fallible (safe_identifier pid) (\<lambda>i.
     cheap_request c http decode True ''POST'' (''/proxies/'' @ i @ ''/extend-period'')
       (Some [(''periodInMonths'', PInt n), (''couponCode'', PStr [])]))))"

text \<open>\<open>env w\<close> is the environment of the process, \<open>fx\<close> the rate service.\<close>

definition cheap_supplier where
  "cheap_supplier c http decode env fx iso_parser vault any_of =
     \<lparr>pv_safe = (\<lambda>w. env_flag (env w ''PROXYCHEAP_EXECUTE_SAFE_RECONCILIATION'')),
      pv_list_services = cheap_request c http decode False ''GET'' ''/v2/order'' None,
      pv_get_setup = (\<lambda>service plan. fallible (safe_identifier service) (\<lambda>s.
        cheap_request c http decode False ''POST'' (''/v2/order/'' @ s) (Some [(''planId'', PStr plan)]))),
      pv_quote = cheap_quote c http decode,
      pv_execute = (\<lambda>service settings w.
        cheap_execute c http decode (env_flag (env w ''PROXYCHEAP_EXECUTE_SAFE_RECONCILIATION'')) service settings w),
      pv_get_order = (\<lambda>oid. cheap_get c http decode ''/orders/'' oid []),
      pv_get_order_proxies = (\<lambda>oid. cheap_get c http decode ''/orders/'' oid ''/proxies''),
      pv_get_proxy = (\<lambda>pid. cheap_get c http decode ''/proxies/'' pid []),
      pv_get_balance = (\<lambda>w. and_then (cheap_request c http decode False ''GET'' ''/account/balance'' None) (\<lambda>payload.
        bindr (account_currency c (env w ''PROXYCHEAP_ACCOUNT_CURRENCY'')) (\<lambda>currency.
        Inr (if has_key ''currency'' payload then payload else dset ''currency'' (PStr currency) payload))) w),
      pv_extension_quote = (\<lambda>pid months w.
        cheap_extension_quote c http decode (env w ''PROXYCHEAP_ACCOUNT_CURRENCY'') pid months w),
      pv_extend_period = (\<lambda>pid months w.
        cheap_extend_period c http decode (env_flag (env w ''PROXYCHEAP_EXECUTE_SAFE_RECONCILIATION'')) pid months w),
      pv_fx = fx, pv_iso = iso_parser, pv_vault = vault, pv_any = any_of\<rparr>"

section \<open>The class of a failed spending call\<close>

lemma judged_mutation:
  "judge_answer decode limit True a = Inl e \<Longrightarrow>
    \<exists>f. e = ProviderError f \<and> (definitive f \<or> f = ProviderOutcomeUnknown)"
  by (auto simp: judge_answer_def failing_def definitive_def split: http_answer.splits sum.splits if_splits)

end
