(* ===== verification/ProxyOutcomes.thy ===== *)
theory ProxyOutcomes
  imports ProxyService ProxyMock ProxyCheap BillingReservationProps
begin

text \<open>
  What single purchases and renewals come to: the effect of the exact hold and of its release,
  the refusal of an order, the answer to a repeated request, the conditions under which a
  renewal is charged.
\<close>

section \<open>The exact hold\<close>

text \<open>A hold of \<open>a\<close> cash-backed points of the user, or the free one of an administrator.\<close>

definition exactly_held :: "exact_request \<Rightarrow> reservation_row \<Rightarrow> bdb \<Rightarrow> bdb \<Rightarrow> bool" where
  "exactly_held x r st st' = (r_user_id r = er_user_id x
     \<and> (if er_waived x then r_status r = Waived \<and> credited (er_user_id x) 0 0 st st'
        else r_status r = Held \<and> r_reserved_credit r = er_credit_units x \<and> r_reserved_cash r = er_credit_units x
          \<and> credited (er_user_id x) (- er_credit_units x) (- er_credit_units x) st st'))"

lemma new_id_fields: "db_wallets (snd (new_id p st)) = db_wallets st" "db_reservations (snd (new_id p st)) = db_reservations st"
  unfolding new_id_def by simp_all

lemma shown_insert:
  assumes i: "insert_reservation r st = Inr st1" and e: "db_reservations st2 = db_reservations st1"
    and s: "show_reservation (r_id r) st2 = Inr (v, st')"
  shows "st' = st2" "v = reservation_public r" "get_reservation (r_id r) st' = Some r"
proof -
  have st': "st' = st2" "v = reservation_public r" using inserted_row [OF i s e] by auto
  have n: "r_id r \<notin> r_id ` set (db_reservations st)" using insert_reservation_Inr(2) [OF i] by blast
  have "db_reservations st2 = db_reservations st @ [r]" using e insert_reservation_Inr(1) [OF i] by simp
  then show "st' = st2" "v = reservation_public r" "get_reservation (r_id r) st' = Some r"
    using st' reservations_tbl.get_fresh [OF n refl] by (simp_all add: get_reservation_def)
qed

lemma exact_waived_effect:
  assumes "reserve_exact_waived x w t st = Inr (v, st')" and "er_waived x"
  shows "\<exists>r. get_reservation (rv_id v) st' = Some r \<and> rv_id v = r_id r \<and> exactly_held x r st st'"
proof -
  let ?st1 = "snd (new_id ''bill_hold'' st)"
  from assms(1) obtain r st2 st3 where i: "insert_reservation r ?st1 = Inr st2" and s: "show_reservation (r_id r) st3 = Inr (v, st')"
    and e: "db_reservations st3 = db_reservations st2" "db_wallets st3 = db_wallets st2"
    and r: "r_user_id r = er_user_id x" "r_status r = Waived"
    by (auto simp: reserve_exact_waived_def Let_def split_def bindr_eq_Inr blank_reservation_def)
  note sh = shown_insert [OF i e(1) s]
  have "db_wallets st' = db_wallets st" using sh(1) e(2) insert_reservation_Inr(1) [OF i] by (simp add: new_id_fields)
  then show ?thesis
    using sh r assms(2) by (intro exI [of _ r]) (simp add: exactly_held_def credited_same reservation_public_def)
qed

lemma exact_held_steps:
  assumes h: "reserve_exact_held x w t st = Inr (v, st')"
    and w: "get_wallet (er_user_id x) (snd (new_id ''bill_hold'' st)) = Some w"
  shows "\<exists>st2 r st3 st4.
    debit_wallet (er_user_id x) (er_credit_units x) (er_credit_units x) t (snd (new_id ''bill_hold'' st)) = Inr st2
    \<and> er_credit_units x \<le> w_credit w \<and> er_credit_units x \<le> w_cash w
    \<and> insert_reservation r st2 = Inr st3 \<and> show_reservation (r_id r) st4 = Inr (v, st')
    \<and> db_reservations st4 = db_reservations st3 \<and> db_wallets st4 = db_wallets st3
    \<and> r_user_id r = er_user_id x \<and> r_status r = Held \<and> r_reserved_credit r = er_credit_units x
    \<and> r_reserved_cash r = er_credit_units x \<and> subject_of r = (er_ref_type x, er_ref_id x, er_sku x)"
proof -
  let ?a = "er_credit_units x"
  have fits: "?a \<le> w_credit w \<and> ?a \<le> w_cash w"
    using h w by (auto simp: reserve_exact_held_def insufficient_cash_def Let_def split_def bindr_eq_Inr split: if_splits)
  have row: "r_id (r\<lparr>r_reserved_credit := c, r_reserved_cash := k\<rparr>) = r_id r"
    "r_user_id (r\<lparr>r_reserved_credit := c, r_reserved_cash := k\<rparr>) = r_user_id r"
    "r_status (r\<lparr>r_reserved_credit := c, r_reserved_cash := k\<rparr>) = r_status r"
    "r_reserved_credit (r\<lparr>r_reserved_credit := c, r_reserved_cash := k\<rparr>) = c"
    "r_reserved_cash (r\<lparr>r_reserved_credit := c, r_reserved_cash := k\<rparr>) = k"
    "subject_of (r\<lparr>r_reserved_credit := c, r_reserved_cash := k\<rparr>) = subject_of r" for r c k by (simp_all add: subject_of_def)
  have blank: "r_id (blank_reservation i u rt ri sk stt c m k t0) = i" "r_user_id (blank_reservation i u rt ri sk stt c m k t0) = u"
    "r_status (blank_reservation i u rt ri sk stt c m k t0) = stt"
    "subject_of (blank_reservation i u rt ri sk stt c m k t0) = (rt, ri, sk)" for i u rt ri sk stt c m k t0
    by (simp_all add: blank_reservation_def subject_of_def)
  have "\<exists>st2 r st3 st4. debit_wallet (er_user_id x) ?a ?a t (snd (new_id ''bill_hold'' st)) = Inr st2
    \<and> insert_reservation r st2 = Inr st3 \<and> show_reservation (r_id r) st4 = Inr (v, st')
    \<and> db_reservations st4 = db_reservations st3 \<and> db_wallets st4 = db_wallets st3
    \<and> r_user_id r = er_user_id x \<and> r_status r = Held \<and> r_reserved_credit r = ?a \<and> r_reserved_cash r = ?a
    \<and> subject_of r = (er_ref_type x, er_ref_id x, er_sku x)"
  proof -
    have "\<exists>st2. debit_wallet (er_user_id x) ?a ?a t (snd (new_id ''bill_hold'' st)) = Inr st2
      \<and> (\<exists>meta st3. insert_reservation (blank_reservation (fst (new_id ''bill_hold'' st)) (er_user_id x) (er_ref_type x)
        (er_ref_id x) (er_sku x) Held [] meta (exact_idem x) t\<lparr>r_reserved_credit := ?a, r_reserved_cash := ?a\<rparr>) st2 = Inr st3
      \<and> (\<exists>ev amt bal key opts. show_reservation (fst (new_id ''bill_hold'' st))
        (insert_ledger (er_user_id x) Credit ev amt bal key opts t st3) = Inr (v, st')))"
      using h w fits unfolding reserve_exact_held_def Let_def split_def by (simp add: bindr_eq_Inr) blast
    then obtain meta st2 st3 ev amt bal key opts where
      debit: "debit_wallet (er_user_id x) ?a ?a t (snd (new_id ''bill_hold'' st)) = Inr st2"
      and hold: "insert_reservation (blank_reservation (fst (new_id ''bill_hold'' st)) (er_user_id x) (er_ref_type x)
        (er_ref_id x) (er_sku x) Held [] meta (exact_idem x) t\<lparr>r_reserved_credit := ?a, r_reserved_cash := ?a\<rparr>) st2 = Inr st3"
      and shown: "show_reservation (fst (new_id ''bill_hold'' st))
        (insert_ledger (er_user_id x) Credit ev amt bal key opts t st3) = Inr (v, st')" by (elim exE conjE)
    show ?thesis
      by (intro exI conjI, rule debit, rule hold, simp only: row blank, rule shown) (simp_all only: row blank insert_ledger_tables)
  qed
  with fits show ?thesis by blast
qed

text \<open>A new hold takes its subject, which no reservation may have had.\<close>

lemma held_subject:
  assumes "reserve_exact_cash_charge x t b = Inr (v, b')" "exact_existing x b = None" "\<not> er_waived x"
  shows "(er_ref_type x, er_ref_id x, er_sku x) \<notin> subject_of ` set (db_reservations b)
    \<and> (er_ref_type x, er_ref_id x, er_sku x) \<in> subject_of ` set (db_reservations b')"
proof -
  from assms obtain w b1 where e: "ensure_wallet (er_user_id x) t b = Inr (w, b1)" and h: "reserve_exact_held x w t b1 = Inr (v, b')"
    by (auto simp: reserve_exact_cash_charge_def bindr_eq_Inr insufficient_cash_def split: if_splits)
  have w: "get_wallet (er_user_id x) b1 = Some w" using e by (auto simp: ensure_wallet_def bindr_eq_Inr split: option.splits)
  then have "get_wallet (er_user_id x) (snd (new_id ''bill_hold'' b1)) = Some w" by (simp add: get_wallet_def new_id_fields)
  from exact_held_steps [OF h this] obtain st2 r st3 st4 where
    d: "debit_wallet (er_user_id x) (er_credit_units x) (er_credit_units x) t (snd (new_id ''bill_hold'' b1)) = Inr st2"
    and i: "insert_reservation r st2 = Inr st3" and s: "show_reservation (r_id r) st4 = Inr (v, b')"
    and st4: "db_reservations st4 = db_reservations st3" and r: "subject_of r = (er_ref_type x, er_ref_id x, er_sku x)" by blast
  have "db_reservations st2 = db_reservations b"
    using d ensure_wallet_reservations [OF e]
    by (auto simp: debit_wallet_def update_wallet_def new_id_fields split: option.splits if_splits)
  moreover have "b' = st4" using s by (simp add: show_reservation_Inr)
  ultimately show ?thesis using insert_reservation_Inr [OF i] st4 r by auto
qed

lemma exact_held_effect:
  assumes b: "bill_reachable st" and w: "get_wallet (er_user_id x) st = Some w"
    and h: "reserve_exact_held x w t st = Inr (v, st')" and n: "\<not> er_waived x" "0 < er_credit_units x"
  shows "\<exists>r. get_reservation (rv_id v) st' = Some r \<and> rv_id v = r_id r \<and> exactly_held x r st st'"
proof -
  let ?st1 = "snd (new_id ''bill_hold'' st)" and ?a = "er_credit_units x" and ?u = "er_user_id x"
  have w1: "get_wallet ?u ?st1 = Some w" using w by (simp add: get_wallet_def new_id_fields)
  from exact_held_steps [OF h w1] obtain st2 r st3 st4 where d: "debit_wallet ?u ?a ?a t ?st1 = Inr st2"
    and a: "?a \<le> w_credit w" "?a \<le> w_cash w"
    and i: "insert_reservation r st2 = Inr st3" and s: "show_reservation (r_id r) st4 = Inr (v, st')"
    and e: "db_reservations st4 = db_reservations st3" "db_wallets st4 = db_wallets st3"
    and r: "r_user_id r = ?u" "r_status r = Held" "r_reserved_credit r = ?a" "r_reserved_cash r = ?a" by blast
  have "0 \<le> w_cash w" "w_cash w \<le> w_credit w" using books_wallet_bounds [OF reachable_books [OF b] w] by auto
  then obtain ws where "st2 = ?st1\<lparr>db_wallets := ws\<rparr>" and c: "credited ?u (- ?a) (- ?a) ?st1 (?st1\<lparr>db_wallets := ws\<rparr>)"
    using debit_wallet_total [OF w1 a, of t] d a by auto
  note sh = shown_insert [OF i e(1) s]
  have "db_wallets st' = db_wallets st2" using sh(1) e(2) insert_reservation_Inr(1) [OF i] by simp
  with c \<open>st2 = _\<close> have "credited ?u (- ?a) (- ?a) st st'"
    by (simp add: credited_def credit_of_def cash_of_def get_wallet_def new_id_fields)
  then show ?thesis using sh r n by (intro exI [of _ r]) (simp add: exactly_held_def reservation_public_def)
qed

lemma exact_effect:
  assumes b: "bill_reachable st" and w: "get_wallet (er_user_id x) st = Some w" and e: "exact_existing x st = None"
    and h: "reserve_exact_cash_charge x t st = Inr (v, st')"
  shows "\<exists>r. get_reservation (rv_id v) st' = Some r \<and> rv_id v = r_id r \<and> exactly_held x r st st'"
proof -
  have "w_cash w \<le> w_credit w" using books_wallet_bounds [OF reachable_books [OF b] w] by auto
  then have "ensure_wallet (er_user_id x) t st = Inr (w, st)" using w by (simp add: ensure_wallet_def update_wallet_def)
  with h e have "if er_waived x then reserve_exact_waived x w t st = Inr (v, st')
      else reserve_exact_held x w t st = Inr (v, st') \<and> 0 < er_credit_units x"
    by (auto simp: reserve_exact_cash_charge_def insufficient_cash_def split: if_splits)
  then show ?thesis using exact_waived_effect exact_held_effect [OF b w] by (cases "er_waived x") auto
qed

text \<open>Releasing an exact hold gives back what it took.\<close>

lemma exact_released:
  assumes b: "bill_reachable st'" and r: "get_reservation rid st' = Some r" and h: "exactly_held x r st st'"
  shows "\<exists>v st''. release_reservation rid t st' = Inr (v, st'') \<and> credited (er_user_id x) 0 0 st st''"
proof (cases "er_waived x")
  case True
  with h r have "release_reservation rid t st' = Inr (reservation_public r, st')" "credited (er_user_id x) 0 0 st st'"
    by (simp_all add: release_reservation_def exactly_held_def)
  then show ?thesis by blast
next
  case False
  with h have c: "credited (er_user_id x) (- er_credit_units x) (- er_credit_units x) st st'" "r_status r = Held"
    and f: "r_user_id r = er_user_id x" "r_reserved_credit r = er_credit_units x" "r_reserved_cash r = er_credit_units x"
    by (simp_all add: exactly_held_def)
  from release_effect [OF reachable_facts [OF b] r c(2), of t] obtain v st'' where
    "release_reservation rid t st' = Inr (v, st'')" "credited (er_user_id x) (er_credit_units x) (er_credit_units x) st' st''"
    unfolding f by blast
  with credited_trans [OF c(1)] show ?thesis by fastforce
qed

section \<open>A refused purchase\<close>

lemma placed_parts:
  assumes "place_hold q x minor t d = Inr (Placed oid rid, d')"
  obtains d1 v d2 d3 where "fresh_id ''proxy_order'' d = (oid, d1)"
    "billing (reserve_exact_cash_charge (purchase_charge q x oid) t) d1 = Inr (v, d2)" "rid = rv_id v"
    "insert_purchase (new_purchase q x oid rid minor t) d2 = Inr d3"
    "d' = update_quote (pr_quote_id q) (\<lambda>y. y\<lparr>pq_status := ''accepted'', pq_updated_at := t\<rparr>) d3"
proof -
  obtain i d1 where f: "fresh_id ''proxy_order'' d = (i, d1)" by (cases "fresh_id ''proxy_order'' d")
  from assms f show ?thesis
    by (auto simp: place_hold_def Let_def bindr_eq_Inr intro: that split: option.splits if_splits)
qed

lemma placed_row:
  assumes "place_hold q x minor t d = Inr (Placed oid rid, d')"
  shows "get_purchase oid d' = Some (new_purchase q x oid rid minor t)"
    and "\<forall>y \<in> set (pd_orders d'). po_id y \<noteq> oid \<longrightarrow> \<not> purchase_clash (new_purchase q x oid rid minor t) y"
proof -
  let ?p = "new_purchase q x oid rid minor t"
  from assms obtain d1 v d2 d3 where "insert_purchase ?p d2 = Inr d3"
    and d': "d' = update_quote (pr_quote_id q) (\<lambda>y. y\<lparr>pq_status := ''accepted'', pq_updated_at := t\<rparr>) d3"
    by (rule placed_parts)
  note i = insert_purchase_Inr [OF this(1)]
  have o: "pd_orders d' = pd_orders d2 @ [?p]" using i d' by simp
  have id: "po_id ?p = oid" by (simp add: new_purchase_def)
  have "oid \<notin> po_id ` set (pd_orders d2)" using i id by (auto simp: purchase_clash_def)
  then show "get_purchase oid d' = Some ?p" unfolding get_purchase_def o using id by (rule purchases_tbl.get_fresh)
  show "\<forall>y \<in> set (pd_orders d'). po_id y \<noteq> oid \<longrightarrow> \<not> purchase_clash ?p y" using i o id by auto
qed

lemma exact_existing_cong: "db_reservations b = db_reservations b' \<Longrightarrow> exact_existing x b = exact_existing x b'"
  by (simp only: exact_existing_def reservation_by_idem_def)

lemma refusal_filed:
  assumes p: "place_hold q x minor t d = Inr (Placed oid rid, d')" and b: "bill_reachable (bill d)"
    and w: "get_wallet (pr_user_id q) (bill d) = Some w" and e: "exact_existing (purchase_charge q x oid) (bill d) = None"
  shows "\<exists>d''. order_failed oid rid code t d' = Inr ((), d'') \<and> credited (pr_user_id q) 0 0 (bill d) (bill d'')
    \<and> get_purchase oid d'' = Some ((new_purchase q x oid rid minor t)\<lparr>po_status := ''failed'', po_error_code := code, po_updated_at := t\<rparr>)"
proof -
  let ?x = "purchase_charge q x oid" and ?p = "new_purchase q x oid rid minor t"
  from p obtain d1 v d2 d3 where f: "fresh_id ''proxy_order'' d = (oid, d1)"
    and h: "billing (reserve_exact_cash_charge ?x t) d1 = Inr (v, d2)" and rid: "rid = rv_id v"
    and i: "insert_purchase ?p d2 = Inr d3"
    and d': "d' = update_quote (pr_quote_id q) (\<lambda>y. y\<lparr>pq_status := ''accepted'', pq_updated_at := t\<rparr>) d3"
    by (rule placed_parts)
  note d1 = fresh_id_fields [OF f]
  have u: "er_user_id ?x = pr_user_id q" by (simp add: purchase_charge_def)
  have b1: "bill_reachable (bill d1)" using bills_reachable [OF bills_fresh [OF f] b] .
  have w1: "get_wallet (er_user_id ?x) (bill d1) = Some w" using w d1 u by (simp add: get_wallet_def)
  have e1: "exact_existing ?x (bill d1) = None" using e d1 exact_existing_cong [of "bill d1" "bill d"] by simp
  from h have h': "reserve_exact_cash_charge ?x t (bill d1) = Inr (v, bill d2)" by (auto simp: billing_Inr)
  have bd: "bill d' = bill d2" using d' insert_purchase_Inr [OF i] by simp
  from exact_effect [OF b1 w1 e1 h'] obtain r where r: "get_reservation rid (bill d') = Some r"
    and ex: "exactly_held ?x r (bill d1) (bill d')" using rid bd by auto
  have same: "credited (er_user_id ?x) 0 0 (bill d) (bill d1)" using d1 by (intro credited_same) simp
  have b': "bill_reachable (bill d')" using bills_reachable [OF place_hold_bills [OF p] b] .
  from exact_released [OF b' r ex, of t] obtain v2 b2 where rel: "release_reservation rid t (bill d') = Inr (v2, b2)"
    and c: "credited (er_user_id ?x) 0 0 (bill d1) b2" by blast
  let ?d2 = "d'\<lparr>bill := b2\<rparr>" and ?g = "\<lambda>p. p\<lparr>po_status := ''failed'', po_error_code := code, po_updated_at := t\<rparr>"
  have bill: "billing (release_reservation rid t) d' = Inr (v2, ?d2)" using rel by (simp add: billing_def)
  have g: "get_purchase oid ?d2 = Some ?p" using placed_row(1) [OF p] by (simp add: get_purchase_def)
  have cl: "purchase_clash (?g y) z = purchase_clash y z" for y z by (simp add: purchase_clash_def)
  have up: "update_purchase oid ?g ?d2 = Inr (?d2\<lparr>pd_orders := row_modify po_id oid ?g (pd_orders ?d2)\<rparr>)"
    using placed_row(2) [OF p] g by (auto simp: update_purchase_def cl)
  have "get_purchase oid (?d2\<lparr>pd_orders := row_modify po_id oid ?g (pd_orders ?d2)\<rparr>) = Some (?g ?p)"
    using purchases_tbl.get_modify_same [of ?g oid "pd_orders ?d2" ?p] g by (simp add: get_purchase_def)
  moreover have "credited (er_user_id ?x) 0 0 (bill d) b2" using credited_trans [OF same c] by simp
  ultimately show ?thesis using bill up u by (simp add: order_failed_def)
qed

end
