(* ===== verification/ProxyBuying.thy ===== *)
theory ProxyBuying
  imports ProxyOutcomes
begin

text \<open>
  An order over time: it stays in the table in later versions of its row, whatever
  interleaves (\<open>later_version\<close>), and a purchase leaves the order that answers a repeated
  request (\<open>bought\<close>, \<open>buy_again\<close>).
\<close>

section \<open>Later versions of an order\<close>

text \<open>A step does not depend on which further rows were read.\<close>

lemma more_reads_step:
  assumes "purchase_step pv m m'"
  shows "purchase_step pv (m\<lparr>pm_reads := R \<union> pm_reads m\<rparr>) (m'\<lparr>pm_reads := R \<union> pm_reads m'\<rparr>)"
  using assms
proof (cases rule: purchase_step.cases)
  case (read p)
  then show ?thesis using purchase_step.read [of p "m\<lparr>pm_reads := R \<union> pm_reads m\<rparr>" pv] by simp
next
  case (place q x minor t oid rid d)
  then show ?thesis
    using purchase_step.place [of q x minor t "m\<lparr>pm_reads := R \<union> pm_reads m\<rparr>" oid rid d pv] by (cases m) simp
next
  case (crash f)
  then show ?thesis using purchase_step.crash [of pv "m\<lparr>pm_reads := R \<union> pm_reads m\<rparr>" f] by (cases m) simp
next
  case (unknown f code t u d)
  then show ?thesis using purchase_step.unknown [of f "m\<lparr>pm_reads := R \<union> pm_reads m\<rparr>" code t u d pv] by (cases m) simp
next
  case (failed f code t u d)
  then show ?thesis using purchase_step.failed [of f "m\<lparr>pm_reads := R \<union> pm_reads m\<rparr>" code t u d pv] by (cases m) simp
next
  case (accepted f pid result t u d)
  then show ?thesis using purchase_step.accepted [of f "m\<lparr>pm_reads := R \<union> pm_reads m\<rparr>" pid result t u d pv] by (cases m) simp
next
  case (verdict p v details t u d)
  then show ?thesis
    using purchase_step.verdict [of p "m\<lparr>pm_reads := R \<union> pm_reads m\<rparr>" v pv details t u d] by (cases m) simp
next
  case (sync p st expires t u d)
  then show ?thesis
    using purchase_step.sync [of p "m\<lparr>pm_reads := R \<union> pm_reads m\<rparr>" st expires t u d pv] by (cases m) simp
next
  case (tables n d cs es rs)
  then show ?thesis
    using purchase_step.tables [of "m\<lparr>pm_reads := R \<union> pm_reads m\<rparr>" n d cs es rs pv] by (cases m) simp
next
  case (market d ps items)
  then show ?thesis
    using purchase_step.market [of d ps items "m\<lparr>pm_reads := R \<union> pm_reads m\<rparr>" pv] by (cases m) simp
next
  case (billing b)
  then show ?thesis
    using purchase_step.billing [of "m\<lparr>pm_reads := R \<union> pm_reads m\<rparr>" b pv] by (cases m) simp
qed (cases m; use purchase_step.intros(7,9-20) [where m = "m\<lparr>pm_reads := R \<union> pm_reads m\<rparr>" and pv = pv] in \<open>simp; fail\<close>)+

lemma more_reads:
  "purchase_steps pv m m' \<Longrightarrow> purchase_steps pv (m\<lparr>pm_reads := R \<union> pm_reads m\<rparr>) (m'\<lparr>pm_reads := R \<union> pm_reads m'\<rparr>)"
  by (induction rule: rtranclp_induct) (auto intro: rtranclp.rtrancl_into_rtrancl more_reads_step)

text \<open>Whatever happens, an order of a reachable state stays in the table in a later version.\<close>

lemma later_version:
  assumes r: "purchase_reachable pv m" and s: "purchase_steps pv m m'" and p: "p \<in> set (pd_orders (pm_db m))"
  shows "\<exists>p' \<in> set (pd_orders (pm_db m')). later p p'"
proof -
  let ?m = "m\<lparr>pm_reads := {p} \<union> pm_reads m\<rparr>" and ?m' = "m'\<lparr>pm_reads := {p} \<union> pm_reads m'\<rparr>"
  have "purchase_step pv m ?m" using purchase_step.read [OF p] by simp
  then have "purchases_ok ?m" using purchases.always [OF r] by (rule purchases_kept)
  then have "purchases_ok ?m'" using purchases.along [OF more_reads [OF s]] by blast
  then show ?thesis by (simp add: purchases_ok_def reads_ok_def)
qed

section \<open>Buying again\<close>

lemma shown_last: "reading (show_purchase oid) s = (Inr v, s') \<Longrightarrow>
    s' = s \<and> (\<exists>p. get_purchase oid (sys_db s) = Some p \<and> v = public_purchase p (sys_db s))"
  by (auto simp: reading_def show_purchase_def split: option.splits)

lemma send_order_shows:
  assumes "send_order pv x oid rid t s = (Inr v, s')"
  shows "\<exists>p. get_purchase oid (sys_db s') = Some p \<and> v = public_purchase p (sys_db s')"
proof -
  obtain r s1 where sp: "spending (Execute (pq_service_id x) (supplier_request (pq_request x)))
      (pv_execute pv (pq_service_id x) (supplier_request (pq_request x))) s = (r, s1)" by (metis prod.exhaust)
  have "\<exists>s2. reading (show_purchase oid) s2 = (Inr v, s')"
  proof (cases r)
    case (Inl e)
    with assms sp have "file_refusal oid rid t e s1 = (Inr v, s')" by (simp add: send_order_def Let_def)
    then show ?thesis
      by (auto simp: file_refusal_def bindp_cases done_with_def split: pyexc.splits if_splits)
  next
    case (Inr result)
    with assms sp have "file_accepted pv oid result t s1 = (Inr v, s')" by (simp add: send_order_def Let_def)
    then show ?thesis by (auto simp: file_accepted_def Let_def bindp_cases split: if_splits)
  qed
  then show ?thesis using shown_last by blast
qed

lemma order_id_of_row: "get_purchase oid d = Some p \<Longrightarrow> po_id p = oid \<and> p \<in> set (pd_orders d)"
  using purchases_tbl.get_key by (auto simp: get_purchase_def)

lemma placed_and_sent:
  assumes picks: "picks pv" and m: "purchase_reachable pv m" "tracks m s"
    and pl: "place_hold q x minor t (sys_db s) = Inr (Placed oid rid, d)"
    and snd: "send_order pv x oid rid t (s\<lparr>sys_db := d\<rparr>) = (r, s')"
  shows "\<exists>m'. purchase_reachable pv m' \<and> tracks m' s'
    \<and> (\<exists>p \<in> set (pd_orders (sys_db s')). later (new_purchase q x oid rid minor t) p)"
proof -
  let ?m = "m\<lparr>pm_db := d, pm_flight := insert (oid, rid) (pm_flight m), pm_sent := pm_sent m @ [oid]\<rparr>"
  let ?req = "supplier_request (pq_request x)" and ?s = "s\<lparr>sys_db := d\<rparr>"
  have "purchase_step pv m ?m" using purchase_step.place [of q x minor t m oid rid d pv] pl m(2) by (simp add: tracks_def)
  then have r1: "purchase_reachable pv ?m" using m(1) by (rule purchase_reachable.step [rotated])
  obtain a s1 where sp: "spending (Execute (pq_service_id x) ?req) (pv_execute pv (pq_service_id x) ?req) ?s = (a, s1)"
    by (metis prod.exhaust)
  then have t1: "tracks ?m s1" using m(2) by (auto simp: tracks_def spending_def is_execute_def Let_def split: prod.splits)
  have fl: "in_flight oid rid ?m" by simp
  have "(case a of Inl e \<Rightarrow> file_refusal oid rid t e s1 | Inr res \<Rightarrow> file_accepted pv oid res t s1) = (r, s')"
    using snd sp by (auto simp: send_order_def Let_def split: sum.splits)
  then obtain m' where s': "purchase_steps pv ?m m'" "tracks m' s'"
    using playsE [OF file_refusal_plays t1 fl] playsE [OF file_accepted_plays [OF picks] t1 fl]
    by (cases a) (auto, blast+)
  have "get_purchase oid d = Some (new_purchase q x oid rid minor t)" using placed_row(1) [OF pl] .
  then have "new_purchase q x oid rid minor t \<in> set (pd_orders (pm_db ?m))" using order_id_of_row by auto
  from later_version [OF r1 s'(1) this] obtain p where "p \<in> set (pd_orders (pm_db m'))" "later (new_purchase q x oid rid minor t) p" by blast
  moreover have "purchase_reachable pv m'"
    using s'(1) r1 by (induction rule: rtranclp_induct) (auto intro: purchase_reachable.step)
  ultimately show ?thesis using s'(2) by (auto simp: tracks_def)
qed
lemma replayed_row:
  assumes "check_replay q t d = Inr (Replay p)"
  shows "existing_purchase q d = Some p \<and> po_quote_id p = pr_quote_id q \<and> request_key q \<noteq> []"
  using assms by (auto simp: check_replay_def split: if_splits option.splits)

lemma existing_row:
  assumes "existing_purchase q d = Some p"
  shows "p \<in> set (pd_orders d) \<and> po_idem p = request_key q \<and> po_user_id p = pr_user_id q"
  using find_row_SomeD [OF assms [unfolded existing_purchase_def]] by auto

lemma existing_unique:
  assumes "orders_ok d" "p \<in> set (pd_orders d)" "po_idem p = request_key q" "po_user_id p = pr_user_id q"
  shows "existing_purchase q d = Some p"
proof -
  obtain p' where p': "existing_purchase q d = Some p'"
    using assms(2-4) by (cases "existing_purchase q d") (auto simp: existing_purchase_def find_row_None)
  note row = existing_row [OF p']
  have "inj_on idem_key (set (pd_orders d))" using assms(1) by (simp add: orders_ok_def distinct_map)
  moreover have "idem_key p' = idem_key p" using row assms by (simp add: idem_key_def)
  ultimately have "p' = p" using row assms(2) by (auto dest: inj_onD)
  with p' show ?thesis by simp
qed

text \<open>After a purchase returned, its order is in the table, under the key and the quote of the request.\<close>

lemma bought:
  assumes picks: "picks pv" and m: "purchase_reachable pv m" "tracks m s"
    and b: "purchase_order pv q t s = (Inr v, s')"
  shows "request_key q \<noteq> [] \<and> (\<exists>p. existing_purchase q (sys_db s') = Some p \<and> po_quote_id p = pr_quote_id q \<and> po_id p = vw_id v)"
proof -
  from b obtain c where c: "check_replay q t (sys_db s) = Inr c" and rest: "(case c of
       Replay p \<Rightarrow> reading (\<lambda>d. Inr (public_purchase p d))
     | Proceed x \<Rightarrow> bindp (preflight pv x) (\<lambda>minor. bindp (atomically (place_hold q x minor t)) (\<lambda>h. case h of
         Replayed p \<Rightarrow> reading (\<lambda>d. Inr (public_purchase p d)) | Placed oid rid \<Rightarrow> send_order pv x oid rid t))) s = (Inr v, s')"
    by (auto simp: purchase_order_def bindp_cases reading_def)
  have key: "request_key q \<noteq> []" using c by (auto simp: check_replay_def split: if_splits)
  have "\<exists>p. existing_purchase q (sys_db s') = Some p \<and> po_quote_id p = pr_quote_id q \<and> po_id p = vw_id v"
  proof (cases c)
    case (Replay p)
    with rest replayed_row c show ?thesis by (auto simp: reading_def public_purchase_def)
  next
    case (Proceed x)
    with rest obtain minor s1 where pre: "preflight pv x s = (Inr minor, s1)"
      and rest1: "bindp (atomically (place_hold q x minor t)) (\<lambda>h. case h of
         Replayed p \<Rightarrow> reading (\<lambda>d. Inr (public_purchase p d)) | Placed oid rid \<Rightarrow> send_order pv x oid rid t) s1 = (Inr v, s')"
      by (auto simp: bindp_cases)
    have t1: "tracks m s1" using playsE [OF preflight_plays [where P = "\<lambda>m'. m' = m"] m(2) refl pre] by auto
    from rest1 obtain h d where h: "place_hold q x minor t (sys_db s1) = Inr (h, d)" and rest2: "(case h of
         Replayed p \<Rightarrow> reading (\<lambda>d. Inr (public_purchase p d)) | Placed oid rid \<Rightarrow> send_order pv x oid rid t) (s1\<lparr>sys_db := d\<rparr>) = (Inr v, s')"
      by (auto simp: bindp_cases atomically_def split: sum.splits prod.splits)
    show ?thesis
    proof (cases h)
      case (Replayed p)
      with h have "existing_purchase q (sys_db s1) = Some p" "po_quote_id p = pr_quote_id q" "d = sys_db s1"
        by (auto simp: place_hold_def Let_def split_def bindr_eq_Inr split: option.splits if_splits)
      with rest2 Replayed show ?thesis by (auto simp: reading_def public_purchase_def)
    next
      case (Placed oid rid)
      with rest2 have sent: "send_order pv x oid rid t (s1\<lparr>sys_db := d\<rparr>) = (Inr v, s')" by simp
      from placed_and_sent [OF picks m(1) t1 h [unfolded Placed] sent] obtain m' p where
        m': "purchase_reachable pv m'" "tracks m' s'" and p: "p \<in> set (pd_orders (sys_db s'))" "later (new_purchase q x oid rid minor t) p"
        by blast
      have row: "po_id p = oid" "po_idem p = request_key q" "po_user_id p = pr_user_id q" "po_quote_id p = pr_quote_id q"
        using p(2) by (auto simp: later_def row_key_def new_purchase_def)
      have "orders_ok (sys_db s')" using purchases.always [OF m'(1)] m'(2) by (simp add: purchases_ok_def tracks_def)
      from existing_unique [OF this p(1) row(2,3)] have "existing_purchase q (sys_db s') = Some p" .
      moreover have "vw_id v = oid" using send_order_shows [OF sent] order_id_of_row by (auto simp: public_purchase_def)
      ultimately show ?thesis using row by blast
    qed
  qed
  with key show ?thesis by blast
qed

lemma buy_again:
  assumes "request_key q \<noteq> []" "existing_purchase q (sys_db s) = Some p" "po_quote_id p = pr_quote_id q"
  shows "purchase_order pv q t s = (Inr (public_purchase p (sys_db s)), s)"
  using assms by (simp add: purchase_order_def check_replay_def bindp_def reading_def)

end
