(* ===== verification/ProxyDemo.thy ===== *)
theory ProxyDemo
  imports ProxyService ProxyMock BillingOrderProps
begin

text \<open>
  A small shop on which the witnesses of the purchasing properties run: the billing demo
  after user 7 has bought twelve points (\<open>demo_paid\<close>, written out), one published purchasing configuration, one open
  quote, and the in-memory supplier.  Buying on that quote holds 250 units, sends one request,
  delivers the proxy and charges the hold.
\<close>

definition demo_paid :: bdb where
  "demo_paid = demo0\<lparr>
     db_wallets := [\<lparr>w_user_id = 7, w_credit = 2000, w_cash = 1200, w_mode = Legacy, w_unlimited = False,
       w_migrated = 3, w_created_at = 1000, w_updated_at = 1200\<rparr>],
     db_orders := [\<lparr>o_id = ''bill_order_aaa'', o_user_id = 7, o_kind = CreditPack, o_sku = ''pack'', o_quantity = 1,
       o_renewals = [], o_amount_cents = 10000, o_catalog_version_id = ''catalog_x'',
       o_snapshot = PDict [(''kind'', PStr ''credit_pack''),
         (''item'', PDict [(''sku'', PStr ''pack''), (''price_ntd'', PInt 100), (''total_points'', PInt 12),
           (''bonus_images'', PInt 0)]),
         (''catalog_version'', PInt 1), (''catalog_id'', PStr ''catalog_x'')],
       o_payer_name = ''ann'', o_payment_reference = ''r1'', o_paid_at = 900, o_note = [], o_proof_path = [],
       o_status = Approved, o_idem = ''k1'', o_reviewed_by = 1, o_reviewed_at = 1200, o_review_note = [],
       o_refunded_by = 0, o_refunded_at = 0, o_refund_note = [], o_created_at = 1100, o_updated_at = 1200\<rparr>],
     db_ledger :=
      [\<lparr>l_id = ''bill_entry_'', l_user_id = 7, l_asset = Credit, l_event = ''opening_balance'', l_amount = 300,
        l_balance_after = 300, l_cash_amount = 0, l_cash_after = 0, l_ref_type = ''migration'', l_ref_id = ''lazy_v1'',
        l_order_id = [], l_reservation_id = [], l_meta = PDict [(''legacy_balance'', PInt 3)],
        l_idem = ''migration:lazy_v1:7'', l_created_at = 1000\<rparr>,
       \<lparr>l_id = ''bill_entry_aa'', l_user_id = 7, l_asset = Credit, l_event = ''admin_adjustment'', l_amount = 500,
        l_balance_after = 800, l_cash_amount = 0, l_cash_after = 0, l_ref_type = ''admin_adjustment'',
        l_ref_id = ''adjustment_a'', l_order_id = [], l_reservation_id = [],
        l_meta = PDict [(''reason'', PStr ''gift''), (''actor_user_id'', PInt 1)],
        l_idem = ''adjustment:adjustment_a'', l_created_at = 1000\<rparr>,
       \<lparr>l_id = ''bill_entry_aaaa'', l_user_id = 7, l_asset = Credit, l_event = ''credit_pack_approved'', l_amount = 1200,
        l_balance_after = 2000, l_cash_amount = 1200, l_cash_after = 1200, l_ref_type = ''order'',
        l_ref_id = ''bill_order_aaa'', l_order_id = ''bill_order_aaa'', l_reservation_id = [],
        l_meta = PDict [(''sku'', PStr ''pack''), (''quantity'', PInt 1)],
        l_idem = ''order:bill_order_aaa:credit'', l_created_at = 1200\<rparr>],
     draws := 5\<rparr>"
text \<open>Evaluation under an arbitrary predicate: the equality of databases, which hold functions, is not
  one the evaluator decides.\<close>

lemma demo4_eval: "Q demo4 \<longleftrightarrow> Q demo_paid"
  by code_simp
lemma demo4_paid: "demo4 = demo_paid"
  using demo4_eval [of "\<lambda>st. st = demo_paid"] by (simp only: refl eq_True)
definition demo_config :: pydict where
  "demo_config = dset ''enabled'' (PBool True) DEFAULT_CONFIG"

definition demo_selection :: pydict where
  "demo_selection =
     [(''country'', PStr ''US''), (''period'', PDict [(''unit'', PStr ''months''), (''value'', PInt 1)]),
      (''autoRenew'', PBool True)]"

definition demo_open_quote :: purchase_quote where
  "demo_open_quote = \<lparr>pq_id = ''q1'', pq_user_id = 7, pq_service_id = ''static-residential-ipv4'',
     pq_request = demo_selection, pq_price_minor = 10, pq_currency = ''USD'', pq_credit_units = 250,
     pq_config_version_id = ''cfg'', pq_status = ''open'', pq_expires_at = 2000, pq_created_at = 1700,
     pq_updated_at = 1700\<rparr>"

definition demo_shop :: pdb where
  "demo_shop = \<lparr>bill = demo_paid,
     pd_configs = [\<lparr>pc_id = ''cfg'', pc_version = 1, pc_status = Active, pc_config = demo_config, pc_created_by = 1,
       pc_created_at = 0, pc_published_at = 0\<rparr>],
     pd_quotes = [demo_open_quote], pd_orders = [], pd_events = [], pd_renewals = [], pd_items = [], pd_proxies = []\<rparr>"

text \<open>Ten cents a month; the parser knows one date, the vault stores what it is given.\<close>

definition demo_supplier :: "mock_provider supplier" where
  "demo_supplier = mock_supplier (\<lambda>w. (None, w)) (\<lambda>_. Some 4070908800) (\<lambda>_ _ secret. Inr secret) hd"

definition shop0 :: "mock_provider sys" where
  "shop0 = \<lparr>sys_db = demo_shop, sys_world = mock_provider_init (Dec False 10 (- 2)), sys_calls = []\<rparr>"

definition demo_purchase :: purchase_request where
  "demo_purchase = \<lparr>pr_user_id = 7, pr_quote_id = ''q1'', pr_idem = ''buy-1'', pr_waived = False, pr_reason = []\<rparr>"

definition place_op :: "(hold_outcome \<times> pdb) res" where
  "place_op = place_hold demo_purchase demo_open_quote 10 1800 demo_shop"

definition shop1 :: "mock_provider sys" where
  "shop1 = shop0\<lparr>sys_db := (case place_op of Inr (_, d) \<Rightarrow> d | Inl _ \<Rightarrow> demo_shop)\<rparr>"

definition send_op :: "purchase_view res \<times> mock_provider sys" where
  "send_op = send_order demo_supplier demo_open_quote ''proxy_order_aaaaa'' ''bill_hold_aaaaaa'' 1800 shop1"

definition shop2 :: "mock_provider sys" where
  "shop2 = snd send_op"

lemma demo_supplier_picks: "picks demo_supplier"
  by (simp add: picks_def demo_supplier_def mock_supplier_def)

lemma shop0_start: "service_start shop0"
  using demo4_reachable by (simp add: demo4_paid service_start_def shop0_def demo_shop_def owned_items_def)

lemma place_run: "case place_op of Inr (Placed oid rid, d) \<Rightarrow> oid = ''proxy_order_aaaaa'' \<and> rid = ''bill_hold_aaaaaa''
    \<and> credit_of 7 (bill d) = 1750 | _ \<Rightarrow> False"
  by code_simp

lemma placed_result:
  "(case r of Inr (Placed oid rid, d) \<Rightarrow> oid = a \<and> rid = b \<and> P d | _ \<Rightarrow> False) \<Longrightarrow>
    r = Inr (Placed a b, (case r of Inr (_, d) \<Rightarrow> d | Inl _ \<Rightarrow> d0))"
  by (auto split: sum.splits prod.splits hold_outcome.splits)

lemma place_op_Inr: "place_op = Inr (Placed ''proxy_order_aaaaa'' ''bill_hold_aaaaaa'', sys_db shop1)"
proof -
  have "sys_db shop1 = (case place_op of Inr (_, d) \<Rightarrow> d | Inl _ \<Rightarrow> demo_shop)" by (simp add: shop1_def)
  then show ?thesis using placed_result [OF place_run, of demo_shop] by (simp only:)
qed

section \<open>The checks before the hold\<close>

lemma demo_rates: "map_all package_rate [demo_pack] = Inr [Some (Dec False 8333333333333333333333333333 (- 27))]"
  by code_simp

lemma demo_cash: "lowest_cash_per_point demo_paid = Inr (Dec False 8333333333333333333333333333 (- 27))"
proof -
  have "case active_row demo_paid of None \<Rightarrow> False | Some row \<Rightarrow> c_catalog row = PDict demo_catalog \<and> c_id row = ''catalog_x''"
    by code_simp
  then obtain row where row: "active_row demo_paid = Some row" "c_catalog row = PDict demo_catalog" by (auto split: option.splits)
  have "distinct (map fst demo_catalog)" "has_key ''packages'' demo_catalog" by (simp_all add: demo_catalog_def has_key_def)
  then obtain c where "get_active_catalog demo_paid = Inr c" "dget c ''packages'' = PList [demo_pack]"
    using active_catalog_lookup [OF row, of "''packages''"] by (auto simp: demo_catalog_def demo_pack_def)
  then show ?thesis
    using demo_rates by (simp add: lowest_cash_per_point_def py_or_def del: map_all.simps)
qed

text \<open>The configuration as validated.\<close>

definition demo_clean :: pydict where
  "demo_clean =
     [(''enabled'', PBool True), (''provider'', PStr ''proxycheap''),
      (''service_id'', PStr ''static-residential-ipv4''), (''plan_id'', PStr []),
      (''default_period_months'', PInt 1), (''min_period_months'', PInt 1), (''max_period_months'', PInt 1),
      (''pricing_mode'', PStr ''legacy_points_per_usd''), (''fx_rate_mode'', PStr ''auto''),
      (''manual_usd_to_ntd_rate'', PStr ''35.00''), (''profit_ntd'', PStr ''0.00''),
      (''points_per_usd'', PStr ''25.00''), (''fixed_fee_points'', PStr ''0.00''),
      (''max_vendor_cost_usd'', PStr ''100.00''), (''safety_buffer_usd'', PStr ''0.00''),
      (''minimum_profit_usd'', PStr ''0.00''), (''usd_to_ntd_rate'', PStr ''35.00''),
      (''payment_fee_rate'', PStr ''0.05''), (''quote_ttl_seconds'', PInt 180),
      (''default_parameters'', PDict [])]"

lemma demo_validated: "validate_config demo_config = Inr demo_clean"
  by code_simp

lemma demo_check: "check_replay demo_purchase 1800 demo_shop = Inr (Proceed demo_open_quote)"
  by code_simp

definition demo_fresh :: provider_quote where
  "demo_fresh = \<lparr>quote_amount = Dec False 10 (- 2), quote_currency = ''USD''\<rparr>"

lemma demo_quote_config: "quote_config demo_open_quote demo_shop = Inr demo_clean"
  by (simp add: quote_config_def demo_shop_def demo_open_quote_def demo_validated)

lemma demo_fresh_quote: "mock_quote ''static-residential-ipv4'' (supplier_request demo_selection) (mock_provider_init (Dec False 10 (- 2)))
    = (Inr demo_fresh, mock_provider_init (Dec False 10 (- 2)))"
  by code_simp

lemma demo_required: "required_revenue_ntd (Dec False 10 (- 2)) demo_clean None = Inr (Dec False 3675000 (- 6))"
proof -
  have "(str_field (dget demo_clean ''pricing_mode'') = ''supplier_plus_profit_ntd'') = False" by code_simp
  moreover have "decimal_of (dget demo_clean ''usd_to_ntd_rate'') millionth = Inr (Dec False 3500 (- 2))"
    "decimal_of (dget_default demo_clean ''payment_fee_rate'' (PInt 0)) zero = Inr (Dec False 5 (- 2))"
    "decimal_of (dget_default demo_clean ''safety_buffer_usd'' (PInt 0)) zero = Inr (Dec False 0 (- 2))"
    "decimal_of (dget_default demo_clean ''minimum_profit_usd'' (PInt 0)) zero = Inr (Dec False 0 (- 2))" by code_simp+
  moreover have "(1 < dval (Dec False 5 (- 2))) = False" by code_simp
  moreover have "dec_add (Dec False 10 (- 2)) (Dec False 0 (- 2)) = Dec False 10 (- 2)"
    "dec_mul (dec_mul (Dec False 10 (- 2)) (Dec False 3500 (- 2))) (dec_add one (Dec False 5 (- 2))) = Dec False 3675000 (- 6)"
    "dec_add (Dec False 3675000 (- 6)) (dec_mul (Dec False 0 (- 2)) (Dec False 3500 (- 2))) = Dec False 3675000 (- 6)" by code_simp+
  ultimately show ?thesis by (simp only: required_revenue_ntd_def if_False bindr_Inr)
qed

lemma demo_profitable:
  "assert_profitable (Dec False 10 (- 2)) 250 demo_clean (Dec False 8333333333333333333333333333 (- 27)) None = Inr ()"
proof -
  have "revenue_ntd 250 (Dec False 8333333333333333333333333333 (- 27)) = Dec False 2083333333333333333333333333 (- 26)"
    by code_simp
  moreover have "(dval (Dec False 2083333333333333333333333333 (- 26)) < dval (Dec False 3675000 (- 6))) = False"
    by (simp add: dval_def power_int_def power_divide)
  ultimately show ?thesis by (simp only: assert_profitable_def demo_required bindr_Inr if_False)
qed

lemma demo_fresh_price: "check_fresh_price demo_open_quote demo_clean demo_fresh demo_shop = Inr 10"
proof -
  have "minor_units (quote_amount demo_fresh) = Inr 10" "quote_currency demo_fresh = ''USD''" "pq_price_minor demo_open_quote = 10"
    by code_simp+
  moreover have "decimal_of (dget demo_clean ''max_vendor_cost_usd'') zero = Inr (Dec False 10000 (- 2))"
    "dval (Dec False 10000 (- 2)) < dval (quote_amount demo_fresh) = False" by code_simp+
  moreover have "given (dget (dict_or (dget (pq_request demo_open_quote) ''_pricing'') []) ''fxRate'') = False" by code_simp
  moreover have "assert_profitable (quote_amount demo_fresh) (pq_credit_units demo_open_quote) demo_clean
      (Dec False 8333333333333333333333333333 (- 27)) None = Inr ()"
    using demo_profitable by (simp only: demo_fresh_def demo_open_quote_def provider_quote.simps purchase_quote.simps)
  moreover have "lowest_cash_per_point (bill demo_shop) = Inr (Dec False 8333333333333333333333333333 (- 27))"
    using demo_cash by (simp add: demo_shop_def)
  ultimately show ?thesis by (simp only: check_fresh_price_def Let_def bindr_Inr if_False simp_thms less_irrefl)
qed

lemma demo_balance: "check_balance demo_fresh [(''balance'', PStr ''1000.00''), (''currency'', PStr ''USD'')] = Inr ()"
  by code_simp

lemma demo_preflight: "preflight demo_supplier demo_open_quote shop0 = (Inr 10, shop0)"
proof -
  have q: "pq_service_id demo_open_quote = ''static-residential-ipv4''" "pq_request demo_open_quote = demo_selection"
    by (simp_all add: demo_open_quote_def)
  show ?thesis
    by (simp add: preflight_def bindp_def reading_def asking_def done_with_def shop0_def demo_supplier_def mock_supplier_def
        demo_quote_config demo_fresh_quote demo_fresh_price demo_balance q)
qed

lemma shop2_bought: "purchase_order demo_supplier demo_purchase 1800 shop0 = send_op"
proof -
  have c: "reading (check_replay demo_purchase 1800) shop0 = (Inr (Proceed demo_open_quote), shop0)"
    by (simp add: reading_def shop0_def demo_check)
  have p: "atomically (place_hold demo_purchase demo_open_quote 10 1800) shop0
      = (Inr (Placed ''proxy_order_aaaaa'' ''bill_hold_aaaaaa''), shop1)"
    using place_op_Inr unfolding place_op_def by (simp add: atomically_def shop0_def shop1_def)
  show ?thesis
    unfolding purchase_order_def send_op_def by (simp add: bindp_def c demo_preflight p)
qed

text \<open>After the purchase: one delivered order, its hold settled, one request sent, a renewal scheduled.\<close>

lemma send_run: "case send_op of (Inr v, s) \<Rightarrow>
    vw_status v = ''active'' \<and> vw_id v = ''proxy_order_aaaaa'' \<and> length (sys_calls s) = 1
    \<and> map (\<lambda>p. (po_id p, po_status p, po_provider_order_id p, po_reservation_id p)) (pd_orders (sys_db s))
        = [(''proxy_order_aaaaa'', ''active'', ''mock-order-1'', ''bill_hold_aaaaaa'')]
    \<and> map (\<lambda>i. (mi_order_id i, mi_ownership i)) (pd_items (sys_db s)) = [(''proxy_order_aaaaa'', ''owned'')]
    \<and> map (\<lambda>r. (r_id r, r_status r, r_settled_credit r)) (db_reservations (bill (sys_db s))) = [(''bill_hold_aaaaaa'', Settled, 250)]
    \<and> map (\<lambda>r. (rn_order_id r, rn_status r, rn_expires_at r)) (pd_renewals (sys_db s)) = [(''proxy_order_aaaaa'', ''scheduled'', 4070908800)]
    \<and> credit_of 7 (bill (sys_db s)) = 1750 \<and> cash_of 7 (bill (sys_db s)) = 950
  | _ \<Rightarrow> False"
  by code_simp

lemma result_facts: "(case r of (Inr v, s) \<Rightarrow> P v s | _ \<Rightarrow> False) \<Longrightarrow> \<exists>v. fst r = Inr v \<and> P v (snd r)"
  by (auto split: prod.splits sum.splits)

lemma shop2_facts:
  "\<exists>v. fst send_op = Inr v \<and> vw_id v = ''proxy_order_aaaaa'' \<and> vw_status v = ''active''"
  "length (sys_calls shop2) = 1"
  "map (\<lambda>p. (po_id p, po_status p, po_provider_order_id p, po_reservation_id p)) (pd_orders (sys_db shop2))
    = [(''proxy_order_aaaaa'', ''active'', ''mock-order-1'', ''bill_hold_aaaaaa'')]"
  "map (\<lambda>i. (mi_order_id i, mi_ownership i)) (pd_items (sys_db shop2)) = [(''proxy_order_aaaaa'', ''owned'')]"
  "map (\<lambda>r. (r_id r, r_status r, r_settled_credit r)) (db_reservations (bill (sys_db shop2))) = [(''bill_hold_aaaaaa'', Settled, 250)]"
  "map (\<lambda>r. (rn_order_id r, rn_status r, rn_expires_at r)) (pd_renewals (sys_db shop2)) = [(''proxy_order_aaaaa'', ''scheduled'', 4070908800)]"
  "credit_of 7 (bill (sys_db shop2)) = 1750" "cash_of 7 (bill (sys_db shop2)) = 950"
  using result_facts [OF send_run] unfolding shop2_def by blast+

lemma served_shop2: "(served demo_supplier)\<^sup>*\<^sup>* shop0 shop2"
  using served.buy [of demo_supplier demo_purchase 1800 shop0 "fst send_op" shop2] shop2_bought
  by (simp add: shop2_def)

end
