(* ===== verification/ProxyPurchaseProps.thy ===== *)
theory ProxyPurchaseProps
  imports ProxyBuying ProxyDemo
begin

text \<open>
  The properties of purchasing.  They rest on the machine's invariant (\<open>purchases.always\<close>), on
  the handlers being runs of the machine (\<open>service_runs\<close>), and on the outcomes of single
  purchases (\<open>ProxyOutcomes\<close>, \<open>ProxyBuying\<close>).  The witnesses run on the shop of \<open>ProxyDemo\<close>.
\<close>

section \<open>Histories of the service\<close>

lemma service_state:
  assumes "service_start s0" "(served pv)\<^sup>*\<^sup>* s0 s" "picks pv"
  obtains m where "purchase_reachable pv m" "tracks m s" "purchases_ok m" "bill_reachable (bill (sys_db s))"
proof -
  from service_runs [OF assms] obtain m where m: "purchase_reachable pv m" "tracks m s" by blast
  have "bill_reachable (bill (sys_db s))" using billing_side.always [OF m(1)] m(2) by (simp add: tracks_def)
  then show ?thesis using that m purchases.always [OF m(1)] by blast
qed





text \<open>C29: In every interleaving of transactions, with processes dying while a request is on its way: an order that is
  active, failed for good or completed, or whose proxy was delivered, has a reservation that is
  no longer held, so its points were charged or given back.\<close>

theorem finished_order_is_settled:
  assumes "purchase_reachable pv m" and "p \<in> set (pd_orders (pm_db m))"
    and "po_status p = ''active'' \<or> po_status p \<in> set TERMINAL_FAILURES \<or> 0 < po_completed_at p
      \<or> (\<exists>i \<in> set (pd_items (pm_db m)). mi_order_id i = po_id p \<and> mi_ownership i = ''owned'')"
  shows "\<exists>h. get_reservation (po_reservation_id p) (bill (pm_db m)) = Some h \<and> r_status h \<noteq> Held"
proof -
  have "paid (pm_db m) p" using purchases.always [OF assms(1)] assms(2) by (simp add: purchases_ok_def orders_ok_def)
  moreover have "closed p \<or> po_id p \<in> owned_items (pm_db m)"
  proof (rule disjCI)
    assume "po_id p \<notin> owned_items (pm_db m)"
    then have "mi_order_id i \<noteq> po_id p" if "i \<in> set (pd_items (pm_db m))" "mi_ownership i = ''owned''" for i
      using that by (force simp: owned_items_def)
    with assms(3) show "closed p" by (auto simp: closed_def)
  qed
  ultimately show ?thesis by (simp add: paid_def unheld_def)
qed

lemma demo_machine: "\<exists>m. purchase_reachable demo_supplier m \<and> pm_db m = sys_db shop2"
  using service_runs [OF shop0_start served_shop2 demo_supplier_picks] by (auto simp: tracks_def)

lemma demo_order: "\<exists>p. pd_orders (sys_db shop2) = [p] \<and> po_id p = ''proxy_order_aaaaa'' \<and> po_status p = ''active''
    \<and> po_provider_order_id p = ''mock-order-1'' \<and> po_reservation_id p = ''bill_hold_aaaaaa''"
  using shop2_facts(3) by (auto simp: map_eq_Cons_conv)

theorem finished_order_is_settled_witness:
  "\<exists>h. get_reservation ''bill_hold_aaaaaa'' (bill (sys_db shop2)) = Some h \<and> r_status h \<noteq> Held"
proof -
  obtain m p where m: "purchase_reachable demo_supplier m" "pm_db m = sys_db shop2"
    and p: "p \<in> set (pd_orders (pm_db m))" "po_status p = ''active''" "po_reservation_id p = ''bill_hold_aaaaaa''"
    using demo_machine demo_order by force
  from finished_order_is_settled [OF m(1) p(1)] p m(2) show ?thesis by simp
qed

text \<open>C30: In every interleaving an order on record stays on record with its user, quote, hold and idempotency key;
  it never becomes reserved again, and once it has a supplier's order id it keeps having one.\<close>

theorem order_keeps_terms:
  assumes "purchase_reachable pv m" and "(purchase_step pv)\<^sup>*\<^sup>* m m'" and "p \<in> set (pd_orders (pm_db m))"
  shows "\<exists>p' \<in> set (pd_orders (pm_db m')). po_id p' = po_id p \<and> po_user_id p' = po_user_id p
    \<and> po_quote_id p' = po_quote_id p \<and> po_reservation_id p' = po_reservation_id p \<and> po_idem p' = po_idem p
    \<and> (po_status p \<noteq> ''reserved'' \<longrightarrow> po_status p' \<noteq> ''reserved'')
    \<and> (po_provider_order_id p \<noteq> [] \<longrightarrow> po_provider_order_id p' \<noteq> [])"
  using later_version [OF assms] by (fastforce simp: later_def row_key_def)

theorem order_keeps_terms_witness:
  "\<exists>m m'. purchase_reachable demo_supplier m \<and> purchase_step demo_supplier m m' \<and> pm_db m = sys_db shop2
    \<and> (\<exists>p' \<in> set (pd_orders (pm_db m')). po_id p' = ''proxy_order_aaaaa'' \<and> po_provider_order_id p' \<noteq> []
      \<and> po_next_attempt_at p' = 2300)"
proof -
  obtain m p where m: "purchase_reachable demo_supplier m" "pm_db m = sys_db shop2"
    and p: "pd_orders (pm_db m) = [p]" "po_id p = ''proxy_order_aaaaa''" "po_provider_order_id p = ''mock-order-1''"
    using demo_machine demo_order by metis
  obtain d where d: "postpone_order ''proxy_order_aaaaa'' 2000 (pm_db m) = Inr ((), d)"
    "pd_orders d = [p\<lparr>po_next_attempt_at := 2300, po_reconcile_attempts := po_reconcile_attempts p + 1, po_updated_at := 2000\<rparr>]"
    using p by (simp add: postpone_order_def update_purchase_def get_purchase_def row_get_def row_modify_def purchase_clash_def)
  let ?m = "m\<lparr>pm_db := d\<rparr>"
  have step: "purchase_step demo_supplier m ?m" using purchase_step.postpone [OF d(1)] .
  have "p \<in> set (pd_orders (pm_db m))" using p by simp
  from order_keeps_terms [OF m(1) _ this, of ?m] step obtain p' where
    "p' \<in> set (pd_orders (pm_db ?m))" "po_id p' = po_id p" "po_provider_order_id p' \<noteq> []" using p(3) by auto
  with d(2) p(2) have "po_id p' = ''proxy_order_aaaaa'' \<and> po_provider_order_id p' \<noteq> [] \<and> po_next_attempt_at p' = 2300"
    by simp
  with \<open>p' \<in> _\<close> step m show ?thesis by (intro exI conjI) (rule m(1), rule step, rule m(2), blast)
qed

section \<open>Single purchases\<close>

text \<open>C31: Buying again with the same key: when a purchase has returned, the same request at any later time is
  answered with the same order and changes nothing; no second hold is placed and no second
  request is sent.\<close>

theorem purchase_again:
  assumes "service_start s0" and "(served pv)\<^sup>*\<^sup>* s0 s" and "picks pv" and "purchase_order pv q t s = (Inr v, s')"
  shows "\<exists>v'. purchase_order pv q t' s' = (Inr v', s') \<and> vw_id v' = vw_id v"
proof -
  from service_state [OF assms(1-3)] obtain m where "purchase_reachable pv m" "tracks m s" .
  from bought [OF assms(3) this assms(4)] obtain p where
    "request_key q \<noteq> []" "existing_purchase q (sys_db s') = Some p" "po_quote_id p = pr_quote_id q" "po_id p = vw_id v" by blast
  with buy_again [of q s' p pv t'] show ?thesis by (auto simp: public_purchase_def)
qed

theorem purchase_again_witness:
  "\<exists>v. purchase_order demo_supplier demo_purchase 9000 shop2 = (Inr v, shop2) \<and> vw_id v = ''proxy_order_aaaaa''"
proof -
  obtain v where "purchase_order demo_supplier demo_purchase 1800 shop0 = (Inr v, shop2)" "vw_id v = ''proxy_order_aaaaa''"
    using shop2_facts(1) shop2_bought by (auto simp: shop2_def prod_eq_iff)
  with purchase_again [OF shop0_start rtranclp.rtrancl_refl demo_supplier_picks this(1), of 9000] show ?thesis by auto
qed

text \<open>C32: A refused purchase costs nothing.  When the supplier refuses for good, the order is recorded as failed
  with the reason, and after the hold and its release every user's credit and cash-backed
  credit is what it was.\<close>

theorem refused_purchase_costs_nothing:
  assumes "bill_reachable (bill d)" and "get_wallet (pr_user_id q) (bill d) \<noteq> None"
    and "exact_existing (purchase_charge q x oid) (bill d) = None"
    and "place_hold q x minor t d = Inr (Placed oid rid, d')"
    and "sys_db s = d'"
    and "pv_execute pv (pq_service_id x) (supplier_request (pq_request x)) (sys_world s) = (Inl (ProviderError f), w)"
    and "f \<noteq> ProviderOutcomeUnknown"
  shows "\<exists>r s' p. send_order pv x oid rid t s = (r, s') \<and> credited (pr_user_id q) 0 0 (bill d) (bill (sys_db s'))
    \<and> get_purchase oid (sys_db s') = Some p \<and> po_status p = ''failed'' \<and> po_error_code p = provider_code f"
proof -
  let ?p = "(new_purchase q x oid rid minor t)\<lparr>po_status := ''failed'', po_error_code := provider_code f, po_updated_at := t\<rparr>"
  from assms(2) obtain wl where "get_wallet (pr_user_id q) (bill d) = Some wl" by blast
  from refusal_filed [OF assms(4,1) this assms(3)] obtain d'' where
    filed: "order_failed oid rid (provider_code f) t d' = Inr ((), d'')" "credited (pr_user_id q) 0 0 (bill d) (bill d'')"
    "get_purchase oid d'' = Some ?p" by blast
  let ?s' = "s\<lparr>sys_world := w, sys_calls := sys_calls s @ [Execute (pq_service_id x) (supplier_request (pq_request x))],
    sys_db := d''\<rparr>"
  have "\<exists>r. send_order pv x oid rid t s = (r, ?s')"
    using assms(5-7) filed(1,3)
    by (cases "f = ProviderConfigurationError")
      (simp_all add: send_order_def spending_def file_refusal_def bindp_def atomically_def done_with_def reading_def show_purchase_def)
  then obtain r where "send_order pv x oid rid t s = (r, ?s')" by blast
  with filed show ?thesis by (intro exI [of _ r] exI [of _ ?s'] exI [of _ ?p]) simp
qed

definition refusing :: "mock_provider supplier" where
  "refusing = demo_supplier\<lparr>pv_execute := (\<lambda>_ _ w. (mock_rejected, w))\<rparr>"

theorem refused_purchase_costs_nothing_witness:
  "\<exists>r s' p. send_order refusing demo_open_quote ''proxy_order_aaaaa'' ''bill_hold_aaaaaa'' 1800 shop1 = (r, s')
    \<and> credit_of 7 (bill (sys_db s')) = 2000 \<and> get_purchase ''proxy_order_aaaaa'' (sys_db s') = Some p \<and> po_status p = ''failed''"
proof -
  have b: "bill_reachable (bill demo_shop)" using shop0_start by (simp add: service_start_def shop0_def)
  have w: "get_wallet (pr_user_id demo_purchase) (bill demo_shop) \<noteq> None" "credit_of 7 (bill demo_shop) = 2000"
    "exact_existing (purchase_charge demo_purchase demo_open_quote ''proxy_order_aaaaa'') (bill demo_shop) = None"
    by (simp_all add: demo_shop_def demo_paid_def demo0_def get_wallet_def credit_of_def demo_purchase_def
        exact_existing_def reservation_by_idem_def)
  have e: "pv_execute refusing (pq_service_id demo_open_quote) (supplier_request (pq_request demo_open_quote)) (sys_world shop1)
      = (Inl (ProviderError ProviderRejectedError), sys_world shop1)" by (simp add: refusing_def mock_rejected_def)
  from refused_purchase_costs_nothing [OF b w(1,3) place_op_Inr [unfolded place_op_def] refl e] w(2)
  show ?thesis by (auto simp: credited_def demo_purchase_def)
qed

text \<open>C35: An order whose process died while its request was on the way is out of reach: without a
  supplier's order id it is never reconciled, by the worker or by hand, and every administrative
  resolution is refused, so its points stay held.\<close>

theorem crashed_order_is_stuck:
  assumes "get_purchase oid (sys_db s) = Some p" and "po_status p = ''reserved''" and "po_provider_order_id p = []"
  shows "reconcile_order pv oid t s = (Inr (public_purchase p (sys_db s)), s)
    \<and> resolve_unknown_order pv oid resolution pid actor t s = (Inl (PurchaseError ''ORDER_NOT_RESOLVABLE'' 409), s)"
proof -
  have "resolvable_row oid (sys_db s) = Inl (PurchaseError ''ORDER_NOT_RESOLVABLE'' 409)"
    using assms by (simp add: resolvable_row_def purchase_row_def resolvable_def)
  then have "resolve_unknown_order pv oid resolution pid actor t s = (Inl (PurchaseError ''ORDER_NOT_RESOLVABLE'' 409), s)"
    by (auto simp: resolve_unknown_order_def Let_def bindp_def atomically_def reading_def bind_provider_order_def
        confirm_not_ordered_def confirm_provider_refunded_def)
  then show ?thesis using assms by (simp add: reconcile_order_def bindp_def reading_def purchase_row_def)
qed

theorem crashed_order_is_stuck_witness:
  "\<exists>p. get_purchase ''proxy_order_aaaaa'' (sys_db shop1) = Some p \<and> po_reservation_id p = ''bill_hold_aaaaaa''
    \<and> resolve_unknown_order demo_supplier ''proxy_order_aaaaa'' ''confirm_not_ordered'' [] 1 9000 shop1
      = (Inl (PurchaseError ''ORDER_NOT_RESOLVABLE'' 409), shop1)"
proof -
  let ?p = "new_purchase demo_purchase demo_open_quote ''proxy_order_aaaaa'' ''bill_hold_aaaaaa'' 10 1800"
  have p: "get_purchase ''proxy_order_aaaaa'' (sys_db shop1) = Some ?p"
    using placed_row(1) [OF place_op_Inr [unfolded place_op_def]] .
  from crashed_order_is_stuck [OF p, of demo_supplier 9000 "''confirm_not_ordered''" "[]" 1] p show ?thesis
    by (auto simp: new_purchase_def)
qed

end
