(* ===== verification/ProxyRenewalProps.thy ===== *)
theory ProxyRenewalProps
  imports ProxyBuying ProxyDemo
begin

text \<open>
  The properties of automatic renewal: what is charged and when, and two ways a schedule stops
  renewing for good.  A schedule keeps its id for its whole life and every renewal of it holds
  points for the same subject, while the billing tables admit one reservation per subject.
\<close>

section \<open>What a renewal charges\<close>






section \<open>One renewal per schedule\<close>

lemma subject_kept:
  assumes "bill_reachable b" "bill_step\<^sup>*\<^sup>* b b'" "k \<in> subject_of ` set (db_reservations b)"
  shows "k \<in> subject_of ` set (db_reservations b')"
proof -
  from assms(3) obtain h where h: "h \<in> set (db_reservations b)" "k = subject_of h" by auto
  have "distinct (map r_id (db_reservations b))" using reachable_schema [OF assms(1)] by (simp add: schema_ok_def)
  then have "get_reservation (r_id h) b = Some h" unfolding get_reservation_def using h(1) by (rule reservations_tbl.get_in)
  moreover have "hold_history b b'" using bills_history [of "undefined\<lparr>bill := b\<rparr>" "undefined\<lparr>bill := b'\<rparr>"] assms(2) by (simp add: bills_def)
  ultimately obtain y where y: "get_reservation (r_id h) b' = Some y" "hold_edge\<^sup>*\<^sup>* h y" by (auto simp: hold_history_def)
  have "subject_of (hold_terms x) = subject_of x" for x by (simp add: subject_of_def hold_terms_def)
  then have "subject_of y = subject_of h" using hold_edges_path [OF y(2)] by metis
  then show ?thesis using in_table [OF y(1)] h(2) by (metis imageI)
qed

text \<open>C34: A schedule is renewed once.  After a first hold for a renewal, whatever the billing component does next,
  holding points for another renewal of the same schedule raises, for any price: the
  reservation of the first renewal occupies the subject for good.\<close>

theorem second_renewal_never_holds:
  assumes "bill_reachable (bill d)" and "hold_renewal r lease units t d = Inr (rid, d1)"
    and "exact_existing (renewal_charge r units) (bill d) = None"
    and "bill_step\<^sup>*\<^sup>* (bill d1) (bill d2)" and "rn_id r' = rn_id r"
    and "exact_existing (renewal_charge r' units') (bill d2) = None"
  shows "\<exists>e. hold_renewal r' lease' units' t' d2 = Inl e"
proof (cases "hold_renewal r' lease' units' t' d2")
  case (Inr y)
  obtain v b where "reserve_exact_cash_charge (renewal_charge r units) t (bill d) = Inr (v, b)" "bill d1 = b"
    using assms(2) by (auto simp: hold_renewal_def bindr_eq_Inr billing_Inr)
  with held_subject assms(3) have "(''proxy_renewal'', rn_id r, ''proxycheap_owned_proxy_renewal'') \<in> subject_of ` set (db_reservations (bill d1))"
    by (fastforce simp: renewal_charge_def)
  from subject_kept [OF _ assms(4) this] bills_reachable [OF renewal_bills(5) [OF assms(2)] assms(1)] have "(''proxy_renewal'', rn_id r', ''proxycheap_owned_proxy_renewal'') \<in> subject_of ` set (db_reservations (bill d2))"
    using assms(5) by simp
  moreover obtain v' b' where "reserve_exact_cash_charge (renewal_charge r' units') t' (bill d2) = Inr (v', b')"
    using Inr by (auto simp: hold_renewal_def bindr_eq_Inr billing_Inr)
  ultimately show ?thesis using held_subject [of "renewal_charge r' units'"] assms(6) by (fastforce simp: renewal_charge_def)
qed blast

definition demo_schedule :: "string \<Rightarrow> renewal" where
  "demo_schedule key = \<lparr>rn_id = ''sched'', rn_order_id = ''o'', rn_user_id = 7, rn_proxy_id = ''p'', rn_enabled = True,
     rn_status = ''quoting'', rn_next_attempt_at = 0, rn_expires_at = 5000, rn_idem = key, rn_reservation_id = [],
     rn_lease_token = ''l'', rn_lease_expires_at = 0, rn_provider_started_at = 0, rn_baseline_expires_at = 0,
     rn_created_at = 0, rn_updated_at = 0\<rparr>"

definition first_hold :: "(string \<times> pdb) res" where
  "first_hold = hold_renewal (demo_schedule ''renew:o:5000'') ''l'' 100 4900 demo_shop"

lemma first_hold_run: "case first_hold of Inr (rid, d) \<Rightarrow>
    map r_idem (db_reservations (bill d)) = [''cash-exact:7:renew:o:5000''] \<and> rid = ''bill_hold_aaaaa'' | Inl _ \<Rightarrow> False"
  by code_simp

lemma hold_facts: "(case r of Inr (i, d) \<Rightarrow> P d \<and> i = k | Inl _ \<Rightarrow> False) \<Longrightarrow> \<exists>d. r = Inr (k, d) \<and> P d"
  by (auto split: sum.splits)

theorem second_renewal_never_holds_witness:
  "\<exists>d. first_hold = Inr (''bill_hold_aaaaa'', d) \<and> (\<exists>e. hold_renewal (demo_schedule ''renew:o:9000'') ''l'' 100 8900 d = Inl e)"
proof -
  obtain d where d: "first_hold = Inr (''bill_hold_aaaaa'', d)" "map r_idem (db_reservations (bill d)) = [''cash-exact:7:renew:o:5000'']"
    using hold_facts [OF first_hold_run] by (elim exE conjE) (rule that)
  have b: "bill_reachable (bill demo_shop)" using shop0_start by (simp add: service_start_def shop0_def)
  have e: "exact_existing (renewal_charge (demo_schedule ''renew:o:5000'') 100) (bill demo_shop) = None"
    by (simp add: demo_shop_def demo_paid_def demo0_def exact_existing_def reservation_by_idem_def)
  have "exact_idem (renewal_charge (demo_schedule ''renew:o:9000'') 100) = ''cash-exact:7:renew:o:9000''"
    "strip (er_idem (renewal_charge (demo_schedule ''renew:o:9000'') 100)) = ''renew:o:9000''" by code_simp+
  with d(2) have e2: "exact_existing (renewal_charge (demo_schedule ''renew:o:9000'') 100) (bill d) = None"
    by (simp only: exact_existing_def reservation_by_idem_def) (auto simp only: map_eq_Cons_conv find_row_Cons find_row_Nil list.map option.case list.simps, simp_all)
  from second_renewal_never_holds [OF b d(1) [unfolded first_hold_def] e rtranclp.rtrancl_refl _ e2, of "''l''" 8900]
  show ?thesis using d(1) by (auto simp: demo_schedule_def)
qed

section \<open>A schedule that stops the worker\<close>

text \<open>C36: One schedule can keep every other one from being renewed.  If the first schedule whose extension is
  unconfirmed never held points (the supplier failed while it was being priced) and its
  expiry has moved on since, confirming it looks for a reservation without an id; the error is
  not caught, the worker's run ends with nothing written, and so does the next.\<close>

theorem poisoned_schedule_stops_renewals:
  assumes "\<forall>x \<in> set (pd_renewals (sys_db s)). rn_status x \<noteq> ''missing_expiry''"
    and "select_ordered (\<lambda>x. rn_enabled x \<and> rn_status x \<in> {''extending'', ''provider_unknown''}) rn_updated_at
      (clamp limit 100) (pd_renewals (sys_db s)) = r # rs"
    and "rn_reservation_id r = []" and "get_reservation [] (bill (sys_db s)) = None"
    and "pv_get_proxy pv (rn_proxy_id r) (sys_world s) = (Inr proxy, w)" and "proxy_expiry pv proxy = Inr actual"
    and "or_zero (rn_baseline_expires_at r) (rn_expires_at r) < actual"
  shows "process_due_renewals pv limit t s = (Inl (BillingError ''RESERVATION_NOT_FOUND'' 404), s\<lparr>sys_world := w\<rparr>)"
proof -
  have missing: "select_ordered (\<lambda>x. rn_enabled x \<and> rn_status x = ''missing_expiry'' \<and> rn_next_attempt_at x \<le> t) rn_next_attempt_at
      (clamp limit 100) (pd_renewals (sys_db s)) = []"
    using assms(1) by (auto simp: select_ordered_def filter_empty_conv)
  have "confirm_extension pv t r s = (Inl (BillingError ''RESERVATION_NOT_FOUND'' 404), s\<lparr>sys_world := w\<rparr>)"
    using assms(3-7) by (simp add: confirm_extension_def catching_def bindp_def asking_def done_with_def atomically_def
        settle_renewal_def billing_def settle_reservation_def)
  then have "for_each (confirm_extension pv t) (r # rs) s = (Inl (BillingError ''RESERVATION_NOT_FOUND'' 404), s\<lparr>sys_world := w\<rparr>)"
    by (simp add: bindp_def)
  then show ?thesis
    unfolding process_due_renewals_def Let_def bindp_def reading_def done_with_def
    by (simp only: missing assms(2) for_each.simps(1) done_with_def prod.case sum.case)
qed

definition poisoned_shop :: "mock_provider sys" where
  "poisoned_shop = shop0\<lparr>sys_db := demo_shop\<lparr>pd_renewals :=
     [(demo_schedule ''renew:o:5000'')\<lparr>rn_status := ''provider_unknown''\<rparr>,
      (demo_schedule ''renew:n:5000'')\<lparr>rn_id := ''due'', rn_order_id := ''n'', rn_status := ''scheduled''\<rparr>]\<rparr>\<rparr>"

definition extended_supplier :: "mock_provider supplier" where
  "extended_supplier = demo_supplier\<lparr>pv_get_proxy := (\<lambda>_ w. (Inr (mock_proxy ''o''), w))\<rparr>"

theorem poisoned_schedule_stops_renewals_witness:
  "process_due_renewals extended_supplier 20 6000 poisoned_shop = (Inl (BillingError ''RESERVATION_NOT_FOUND'' 404), poisoned_shop)"
proof -
  have e: "proxy_expiry extended_supplier (mock_proxy ''o'') = Inr 4070908800" by code_simp
  have "process_due_renewals extended_supplier 20 6000 poisoned_shop
      = (Inl (BillingError ''RESERVATION_NOT_FOUND'' 404), poisoned_shop\<lparr>sys_world := sys_world poisoned_shop\<rparr>)"
    by (rule poisoned_schedule_stops_renewals [OF _ _ _ _ _ e,
        where r = "(demo_schedule ''renew:o:5000'')\<lparr>rn_status := ''provider_unknown''\<rparr>" and rs = "[]"])
      (simp_all add: poisoned_shop_def demo_schedule_def select_ordered_def clamp_def demo_shop_def demo_paid_def demo0_def
        get_reservation_def extended_supplier_def or_zero_def)
  then show ?thesis by simp
qed

end
