(* ===== verification/ProxyEdgeProps.thy ===== *)
theory ProxyEdgeProps
  imports ProxyService ProxyCheap BillingDemo
begin

text \<open>
  Properties at the edges of the purchasing component: webhooks come in once and without
  secrets, a failed call to the supplier is classified, a search through an unknown payload ends.
\<close>

section \<open>Webhooks\<close>

lemma recorded_event:
  assumes "record_webhook hmac decode h secret stored t d = Inr (dup, d')"
  shows "(\<not> dup \<longrightarrow> (\<exists>e \<in> set (pd_events d'). ev_event_id e = wh_event_id h))
    \<and> ((\<exists>e \<in> set (pd_events d). ev_event_id e = wh_event_id h) \<longrightarrow> dup \<and> pd_events d' = pd_events d)"
proof -
  obtain i d1 where f: "fresh_id ''proxy_event'' d = (i, d1)" by (cases "fresh_id ''proxy_event'' d")
  from assms f obtain order_id proxy_id payload where
    "(\<not> fst (insert_event_or_ignore (new_event i h order_id proxy_id payload t) d1),
      snd (insert_event_or_ignore (new_event i h order_id proxy_id payload t) d1)) = (dup, d')"
    by (auto simp: record_webhook_def Let_def split_def bindr_eq_Inr split: if_splits option.splits pyval.splits)
  then have ins: "insert_event_or_ignore (new_event i h order_id proxy_id payload t) d1 = (\<not> dup, d')"
    by (auto simp: prod_eq_iff)
  have e: "ev_event_id (new_event i h order_id proxy_id payload t) = wh_event_id h" by (simp add: new_event_def)
  have "pd_events d1 = pd_events d" using fresh_id_fields [OF f] by simp
  with ins e show ?thesis by (auto simp: insert_event_or_ignore_def split: if_splits)
qed

text \<open>C37: A webhook is recorded once: after a delivery was recorded, delivering its event id again is reported as a
  duplicate and adds no event, whatever else the second delivery carries.\<close>

theorem webhook_recorded_once:
  assumes "record_webhook hmac decode h secret stored t d = Inr (False, d')" and "wh_event_id h' = wh_event_id h"
    and "record_webhook hmac decode h' secret' stored' t' d' = Inr (dup', d'')"
  shows "dup' \<and> pd_events d'' = pd_events d'"
  using recorded_event [OF assms(1)] recorded_event [OF assms(3)] assms(2) by simp

definition demo_hook :: "string \<Rightarrow> webhook" where
  "demo_hook sig = \<lparr>wh_body = ''{}'', wh_event_name = ''proxy.updated'', wh_event_id = ''e1'', wh_signature = sig\<rparr>"

definition demo_store :: pdb where
  "demo_store = \<lparr>bill = demo0, pd_configs = [], pd_quotes = [], pd_orders = [], pd_events = [], pd_renewals = [],
     pd_items = [], pd_proxies = []\<rparr>"

definition hook_op :: "string \<Rightarrow> int \<Rightarrow> pdb \<Rightarrow> (bool \<times> pdb) res" where
  "hook_op sig t = record_webhook (\<lambda>key message. key) (\<lambda>_. Some (PDict [(''orderId'', PStr ''o1'')])) (demo_hook sig)
     (Some sig) [] t"

lemma hook_run: "case hook_op ''aa'' 1000 demo_store of Inr (dup, d) \<Rightarrow> \<not> dup \<and> returned (hook_op ''bb'' 2000 d) | Inl _ \<Rightarrow> False"
  by code_simp

lemma returned_iff: "returned r \<longleftrightarrow> (\<exists>y. r = Inr y)"
  by (cases r) (simp_all add: returned_def)

lemma recorded_twice: "(case r of Inr (b, d) \<Rightarrow> \<not> b \<and> returned (f d) | Inl _ \<Rightarrow> False) \<Longrightarrow> \<exists>d y. r = Inr (False, d) \<and> f d = Inr y"
  unfolding returned_iff by (cases r) auto

theorem webhook_recorded_once_witness:
  "\<exists>d d'. hook_op ''bb'' 2000 d = Inr (True, d') \<and> pd_events d' = pd_events d"
proof -
  obtain d y where "hook_op ''aa'' 1000 demo_store = Inr (False, d)" "hook_op ''bb'' 2000 d = Inr y"
    using recorded_twice [OF hook_run] by blast
  then obtain dup' d' where r: "hook_op ''aa'' 1000 demo_store = Inr (False, d)" "hook_op ''bb'' 2000 d = Inr (dup', d')"
    by (cases y) simp
  from webhook_recorded_once [OF r(1) [unfolded hook_op_def] _ r(2) [unfolded hook_op_def]] r(2) show ?thesis
    by (auto simp: demo_hook_def)
qed



section \<open>Failures of the supplier\<close>






section \<open>Searching a payload\<close>

text \<open>The loop of \<open>_list_values\<close> with a bound on its rounds; \<open>None\<close> when the bound is hit.\<close>

fun search_rounds :: "nat \<Rightarrow> string list \<Rightarrow> pyval list \<Rightarrow> pydict list option" where
  "search_rounds n keys [] = Some []"
| "search_rounds 0 keys (current # queue) = None"
| "search_rounds (Suc n) keys (current # queue) =
     (case first_list keys current of
        Some xs \<Rightarrow> Some (map as_item xs)
      | None \<Rightarrow> search_rounds n keys (queue @ inner_values current))"

lemma enough_rounds:
  "sum_list (map pyval_weight queue) \<le> n \<Longrightarrow> search_rounds n keys queue = Some (search_queue keys queue)"
proof (induction n keys queue rule: search_rounds.induct)
  case (2 keys current queue)
  then show ?case by (cases current) auto
next
  case (3 n keys current queue)
  have "sum_list (map pyval_weight (queue @ inner_values current)) \<le> n"
    using 3(2) weight_inner [of current] by simp
  with 3(1) show ?case by (simp split: option.splits)
qed simp

text \<open>C40: The search through a supplier's answer ends for every answer: it visits at most as many values as the
  answer has.\<close>

theorem payload_search_ends: "search_rounds (pyval_weight payload) keys [payload] = Some (list_values payload keys)"
  using enough_rounds [of "[payload]"] by (simp add: list_values_def)

end
