(* ===== verification/SenderRotation.thy ===== *)
theory SenderRotation
  imports PyValue
begin

text \<open>
  The rotation of sending accounts (webapp/crm/account_rotation.py).  Every direct message that
  ends leaves an event of type \<open>sender_rotation_state\<close> on its account; the newest active event is
  the state of the account: how many messages in a row failed because the verified sender had no
  message composer, and whether the account is locked.  Three such failures lock the account, a
  confirmed reset unlocks it.  A row of crm_events carries its payload decoded
  (\<open>loads(payload_json, {})\<close>, where text that is no JSON is the empty dict); a payload is written
  with sorted keys.  The columns nothing here reads (workflow, import batch, legacy data) are
  left out.  Strings are UTF-8 bytes, lower case and white space are ASCII.
\<close>

section \<open>Tables\<close>

record sender_account =
  sa_id :: string
  sa_user :: int
  sa_platform :: string
  sa_username :: string

record crm_event =
  ce_id :: string
  ce_user :: int
  ce_lead :: string
  ce_type :: string
  ce_at :: int
  ce_payload :: pyval
  ce_active :: bool
  ce_created :: int
  ce_updated :: int

record crm_db =
  sender_accounts :: "sender_account list"
  crm_events :: "crm_event list"

definition ROTATION_EVENT_TYPE :: string where
  "ROTATION_EVENT_TYPE = ''sender_rotation_state''"

definition ROTATION_LOCK_THRESHOLD :: int where
  "ROTATION_LOCK_THRESHOLD = 3"

definition rotation_account :: "int \<Rightarrow> string \<Rightarrow> crm_db \<Rightarrow> sender_account res" where
  "rotation_account user acct db =
     (case find_row (\<lambda>a. sa_id a = acct \<and> sa_user a = user) (sender_accounts db) of
        None \<Rightarrow> Inl (CRMError ''crm_account_not_found'' 404)
      | Some a \<Rightarrow> Inr a)"

definition insert_crm_event :: "crm_event \<Rightarrow> crm_db \<Rightarrow> crm_db res" where
  "insert_crm_event e db =
     (if ce_id e \<in> ce_id ` set (crm_events db) then Inl IntegrityError
      else Inr (db\<lparr>crm_events := crm_events db @ [e]\<rparr>))"

section \<open>Why a message failed\<close>

definition login_markers :: "string list" where
  "login_markers =
    [''log in'', ''login'', ''password'', [CHR 0xE7, CHR 0x99, CHR 0xBB, CHR 0xE5, CHR 0x85, CHR 0xA5],
     [CHR 0xE5, CHR 0xAF, CHR 0x86, CHR 0xE7, CHR 0xA0, CHR 0x81],
     [CHR 0xE5, CHR 0xAF, CHR 0x86, CHR 0xE7, CHR 0xA2, CHR 0xBC]]"

definition contact_markers :: "string list" where
  "contact_markers =
    [''follow'', ''mutual'', ''cannot message'', ''can'' @ [CHR 0x27] @ ''t message'',
     ''not available'', ''contact safety'', ''blocked'',
     [CHR 0xE9, CHR 0x99, CHR 0x90, CHR 0xE5, CHR 0x88, CHR 0xB6],
     [CHR 0xE7, CHR 0x84, CHR 0xA1, CHR 0xE6, CHR 0xB3, CHR 0x95, CHR 0xE5, CHR 0x82, CHR 0xB3, CHR 0xE9, CHR 0x80, CHR 0x81],
     [CHR 0xE6, CHR 0x97, CHR 0xA0, CHR 0xE6, CHR 0xB3, CHR 0x95, CHR 0xE5, CHR 0x8F, CHR 0x91, CHR 0xE9, CHR 0x80, CHR 0x81],
     [CHR 0xE8, CHR 0xBF, CHR 0xBD, CHR 0xE8, CHR 0xB9, CHR 0xA4],
     [CHR 0xE5, CHR 0x85, CHR 0xB3, CHR 0xE6, CHR 0xB3, CHR 0xA8]]"

definition transient_markers :: "string list" where
  "transient_markers =
    [''timeout'', ''timed out'', ''something went wrong'', ''try again'', ''network'', ''load'',
     [CHR 0xE6, CHR 0x9A, CHR 0xAB, CHR 0xE6, CHR 0x99, CHR 0x82],
     [CHR 0xE7, CHR 0xA8, CHR 0x8D, CHR 0xE5, CHR 0xBE, CHR 0x8C],
     [CHR 0xE8, CHR 0xBD, CHR 0xBD, CHR 0xE5, CHR 0x85, CHR 0xA5],
     [CHR 0xE8, CHR 0xBC, CHR 0x89, CHR 0xE5, CHR 0x85, CHR 0xA5],
     [CHR 0xE7, CHR 0xBD, CHR 0x91, CHR 0xE7, CHR 0xBB, CHR 0x9C],
     [CHR 0xE7, CHR 0xB6, CHR 0xB2, CHR 0xE8, CHR 0xB7, CHR 0xAF]]"

definition composer_markers :: "string list" where
  "composer_markers =
    [''message composer was not visible'', ''composer was not visible'', ''composer not visible'',
     ''usable message composer'', ''private-message input'', ''private message input'',
     ''no message input'', ''no usable message input'']"

record message_failure =
  mf_category :: string
  mf_counts :: bool

definition any_marker :: "string list \<Rightarrow> string \<Rightarrow> bool" where
  "any_marker ms s = (\<exists>m \<in> set ms. contains s m)"

definition plain_username :: "string \<Rightarrow> string" where
  "plain_username s = lower (dropWhile (\<lambda>c. c = CHR ''@'') (strip s))"

definition classify_sender_message_failure ::
  "string \<Rightarrow> string \<Rightarrow> string \<Rightarrow> string \<Rightarrow> string \<Rightarrow> string \<Rightarrow> message_failure" where
  "classify_sender_message_failure platform warning status expected_username logged_in_username inspected_url =
     (let channel = lower (strip platform);
          normalized_status = lower (strip status);
          expected = plain_username expected_username;
          logged_in = plain_username logged_in_username;
          lowered = lower warning in
      if channel \<noteq> ''threads'' then \<lparr>mf_category = ''not_applicable'', mf_counts = False\<rparr>
      else if normalized_status \<in> {''needs_login'', ''mismatch''} \<or> any_marker login_markers lowered then
        \<lparr>mf_category = (if normalized_status = ''mismatch'' then ''account_mismatch'' else ''authentication_required''),
         mf_counts = False\<rparr>
      else if any_marker contact_markers lowered then
        \<lparr>mf_category = ''recipient_contact_restricted'', mf_counts = False\<rparr>
      else if any_marker transient_markers lowered then
        \<lparr>mf_category = ''transient_platform_error'', mf_counts = False\<rparr>
      else if any_marker composer_markers lowered then
        (let sender_verified = (expected \<noteq> [] \<and> logged_in \<noteq> [] \<and> expected = logged_in);
             inspected_message_surface = contains (lower inspected_url) ''/messages'';
             qualified = (sender_verified \<and> inspected_message_surface) in
         \<lparr>mf_category = (if qualified then ''sender_composer_unavailable'' else ''composer_unavailable_unqualified''),
          mf_counts = qualified\<rparr>)
      else \<lparr>mf_category = ''other_unverified_failure'', mf_counts = False\<rparr>)"

section \<open>The state of an account\<close>

record rotation_status =
  rs_account :: string
  rs_username :: string
  rs_platform :: string
  rs_count :: int
  rs_locked :: bool
  rs_follow :: bool
  rs_recipient :: string
  rs_warning :: string
  rs_category :: string
  rs_qualified :: bool
  rs_updated_at :: int
  rs_reset_at :: int

text \<open>\<open>ORDER BY occurred_at DESC, created_at DESC, rowid DESC LIMIT 1\<close>: rows stand in rowid order.\<close>

definition not_older :: "crm_event \<Rightarrow> crm_event \<Rightarrow> bool" where
  "not_older e x = (ce_at x < ce_at e \<or> ce_at x = ce_at e \<and> ce_created x \<le> ce_created e)"

definition newest_event :: "crm_event list \<Rightarrow> crm_event option" where
  "newest_event es =
     foldl (\<lambda>best e. case best of None \<Rightarrow> Some e | Some x \<Rightarrow> if not_older e x then Some e else best) None es"

definition rotation_events :: "int \<Rightarrow> string \<Rightarrow> crm_db \<Rightarrow> crm_event list" where
  "rotation_events user acct db =
     filter (\<lambda>e. ce_user e = user \<and> ce_lead e = acct \<and> ce_type e = ROTATION_EVENT_TYPE \<and> ce_active e)
       (crm_events db)"

definition rotation_payload :: "crm_event option \<Rightarrow> pydict" where
  "rotation_payload row = (case row of None \<Rightarrow> [] | Some e \<Rightarrow> (case ce_payload e of PDict d \<Rightarrow> d | _ \<Rightarrow> []))"

definition get_sender_rotation_status :: "int \<Rightarrow> string \<Rightarrow> crm_db \<Rightarrow> rotation_status res" where
  "get_sender_rotation_status user acct db =
     bindr (rotation_account user acct db) (\<lambda>account.
     let row = newest_event (rotation_events user acct db);
         payload = rotation_payload row in
     bindr (int_field (dget payload ''consecutive_composer_failures'')) (\<lambda>n.
     let consecutive = max 0 n;
         locked = (ROTATION_LOCK_THRESHOLD \<le> consecutive \<or> dget payload ''locked'' = PBool True) in
     bindr (int_field (dget payload ''reset_at'')) (\<lambda>reset_at.
     Inr \<lparr>rs_account = acct, rs_username = sa_username account, rs_platform = sa_platform account,
       rs_count = consecutive, rs_locked = locked,
       rs_follow = (locked \<or> dget payload ''requires_follow_action'' = PBool True),
       rs_recipient = str_field (dget payload ''last_recipient''),
       rs_warning = str_field (dget payload ''last_warning''),
       rs_category = str_field (dget payload ''last_failure_category''),
       rs_qualified = (dget payload ''last_failure_qualified_for_rotation'' = PBool True),
       rs_updated_at = (case row of None \<Rightarrow> 0 | Some e \<Rightarrow> ce_at e),
       rs_reset_at = reset_at\<rparr>)))"

text \<open>\<open>s[:n]\<close>: the first \<open>n\<close> code points; a byte \<open>10xxxxxx\<close> continues the one before it.\<close>

definition continues_char :: "char \<Rightarrow> bool" where
  "continues_char c = (let n = (of_char c :: nat) in 128 \<le> n \<and> n < 192)"

fun take_chars :: "nat \<Rightarrow> string \<Rightarrow> string" where
  "take_chars n [] = []"
| "take_chars n (c # cs) =
     (if continues_char c then c # take_chars n cs
      else case n of 0 \<Rightarrow> [] | Suc m \<Rightarrow> c # take_chars m cs)"

definition rotation_event :: "string \<Rightarrow> int \<Rightarrow> string \<Rightarrow> pydict \<Rightarrow> int \<Rightarrow> crm_event" where
  "rotation_event uuid user acct payload current =
     \<lparr>ce_id = ''crm_event_'' @ uuid, ce_user = user, ce_lead = acct, ce_type = ROTATION_EVENT_TYPE,
      ce_at = current, ce_payload = PDict payload, ce_active = True, ce_created = current, ce_updated = current\<rparr>"

text \<open>The outcome of one direct message, with the random identifier and the time of its event.\<close>

record send_result =
  sr_uuid :: string
  sr_now :: int
  sr_sent :: bool
  sr_warning :: string
  sr_status :: string
  sr_recipient :: string
  sr_logged_in :: string
  sr_url :: string

definition result_failure :: "sender_account \<Rightarrow> send_result \<Rightarrow> message_failure" where
  "result_failure account r =
     classify_sender_message_failure (sa_platform account) (sr_warning r) (sr_status r)
       (sa_username account) (sr_logged_in r) (sr_url r)"

definition qualified_failure :: "sender_account \<Rightarrow> send_result \<Rightarrow> bool" where
  "qualified_failure account r = (\<not> sr_sent r \<and> mf_counts (result_failure account r))"

definition update_sender_rotation_status ::
  "int \<Rightarrow> string \<Rightarrow> send_result \<Rightarrow> crm_db \<Rightarrow> (rotation_status \<times> crm_db) res" where
  "update_sender_rotation_status user acct r db =
     bindr (rotation_account user acct db) (\<lambda>account.
     bindr (get_sender_rotation_status user acct db) (\<lambda>previous.
     let failure = result_failure account r;
         qualified = qualified_failure account r;
         consecutive = (if qualified then rs_count previous + 1 else 0);
         payload =
           [(''account_id'', PStr acct),
            (''consecutive_composer_failures'', PInt consecutive),
            (''last_failure_category'', PStr (if sr_sent r then [] else mf_category failure)),
            (''last_failure_qualified_for_rotation'', PBool qualified),
            (''last_recipient'', PStr (take_chars 80 (dropWhile (\<lambda>c. c = CHR ''@'') (strip (sr_recipient r))))),
            (''last_warning'', PStr (take_chars 500 (sr_warning r))),
            (''locked'', PBool (ROTATION_LOCK_THRESHOLD \<le> consecutive)),
            (''platform'', PStr (sa_platform account)),
            (''requires_follow_action'', PBool (ROTATION_LOCK_THRESHOLD \<le> consecutive)),
            (''username'', PStr (sa_username account))] in
     bindr (insert_crm_event (rotation_event (sr_uuid r) user acct payload (sr_now r)) db) (\<lambda>db'.
     bindr (get_sender_rotation_status user acct db') (\<lambda>status. Inr (status, db')))))"

text \<open>\<open>evaluate_sender_rotation_sequence\<close>: the loop over recorded results, left at the first lock.\<close>

definition item_counts :: "string \<Rightarrow> string \<Rightarrow> pyval \<Rightarrow> bool" where
  "item_counts platform expected_username item =
     (let row = dict_or_empty item;
          failure = classify_sender_message_failure platform
            (str_field (py_or (vget row ''warning'') (vget row ''reason''))) (str_field (vget row ''status''))
            expected_username (str_field (vget row ''logged_in_username'')) (str_field (vget row ''inspected_url'')) in
      \<not> truthy (vget row ''sent'') \<and> mf_counts failure)"

fun rotation_loop :: "(pyval \<Rightarrow> bool) \<Rightarrow> int \<Rightarrow> pyval list \<Rightarrow> int \<times> bool" where
  "rotation_loop counts consecutive [] = (consecutive, False)"
| "rotation_loop counts consecutive (item # items) =
     (let consecutive' = (if counts item then consecutive + 1 else 0) in
      if ROTATION_LOCK_THRESHOLD \<le> consecutive' then (consecutive', True)
      else rotation_loop counts consecutive' items)"

record rotation_verdict =
  rv_platform :: string
  rv_count :: int
  rv_required :: bool
  rv_reason :: string

definition evaluate_sender_rotation_sequence :: "pyval list \<Rightarrow> string \<Rightarrow> string \<Rightarrow> rotation_verdict" where
  "evaluate_sender_rotation_sequence results platform expected_username =
     (let (consecutive, locked) = rotation_loop (item_counts platform expected_username) 0 results in
      \<lparr>rv_platform = lower platform, rv_count = consecutive, rv_required = locked,
       rv_reason = (if locked then ''three_consecutive_composer_failures'' else [])\<rparr>)"

definition reset_sender_rotation_status ::
  "int \<Rightarrow> string \<Rightarrow> bool \<Rightarrow> string \<Rightarrow> int \<Rightarrow> crm_db \<Rightarrow> (rotation_status \<times> crm_db) res" where
  "reset_sender_rotation_status user acct confirmed_follow_action uuid current db =
     (if \<not> confirmed_follow_action then
        Inl (CRMError ''crm_rotation_follow_confirmation_required'' 409)
      else
        bindr (rotation_account user acct db) (\<lambda>account.
        let payload =
           [(''account_id'', PStr acct),
            (''consecutive_composer_failures'', PInt 0),
            (''last_failure_category'', PStr []),
            (''last_failure_qualified_for_rotation'', PBool False),
            (''locked'', PBool False),
            (''platform'', PStr (sa_platform account)),
            (''requires_follow_action'', PBool False),
            (''reset_at'', PInt current),
            (''username'', PStr (sa_username account))] in
        bindr (insert_crm_event (rotation_event uuid user acct payload current) db) (\<lambda>db'.
        bindr (get_sender_rotation_status user acct db') (\<lambda>status. Inr (status, db')))))"

definition require_sender_rotation_unlocked :: "int \<Rightarrow> string \<Rightarrow> crm_db \<Rightarrow> rotation_status res" where
  "require_sender_rotation_unlocked user acct db =
     bindr (get_sender_rotation_status user acct db) (\<lambda>status.
       if rs_locked status then Inl (CRMError ''crm_sender_rotation_locked'' 409) else Inr status)"

section \<open>Imported states\<close>

text \<open>
  The importer (webapp/crm/importer.py) rewrites the rotation state of the old installation,
  found under three names, into the payload above.
\<close>

definition imported_failures :: "pydict \<Rightarrow> int res" where
  "imported_failures state =
     int_field (py_or (py_or (dget state ''consecutive_composer_failures'') (dget state ''consecutiveComposerFailures''))
       (dget state ''consecutiveFailures''))"

definition imported_rotation_payload :: "sender_account \<Rightarrow> pydict \<Rightarrow> pydict res" where
  "imported_rotation_payload account state =
     bindr (imported_failures state) (\<lambda>n. Inr
       [(''account_id'', PStr (sa_id account)),
        (''consecutive_composer_failures'', PInt n),
        (''last_failure_category'', PStr (str_field (py_or (dget state ''last_failure_category'') (dget state ''lastFailureCategory'')))),
        (''last_failure_qualified_for_rotation'',
         PBool (dget state ''last_failure_qualified_for_rotation'' = PBool True \<or> dget state ''lastFailureQualifiedForRotation'' = PBool True)),
        (''last_recipient'', PStr (str_field (py_or (dget state ''last_recipient'') (dget state ''lastRecipient'')))),
        (''last_warning'', PStr (str_field (py_or (dget state ''last_warning'') (dget state ''lastWarning'')))),
        (''locked'', PBool (dget state ''locked'' = PBool True \<or> 2 \<le> n)),
        (''platform'', PStr (sa_platform account)),
        (''requires_follow_action'',
         PBool (dget state ''requires_follow_action'' = PBool True \<or> dget state ''requiresFollowAction'' = PBool True \<or> 2 \<le> n)),
        (''username'', PStr (sa_username account))])"

definition import_rotation_event :: "sender_account \<Rightarrow> pydict \<Rightarrow> string \<Rightarrow> crm_db \<Rightarrow> crm_db res" where
  "import_rotation_event account state eid db =
     bindr (imported_rotation_payload account state) (\<lambda>payload. Inr
       (db\<lparr>crm_events := update_where (\<lambda>e. ce_id e = eid)
          (\<lambda>e. e\<lparr>ce_lead := sa_id account, ce_type := ROTATION_EVENT_TYPE, ce_payload := PDict payload\<rparr>)
          (crm_events db)\<rparr>))"

end
