(* ===== verification/SenderRotationProps.thy ===== *)
theory SenderRotationProps
  imports SenderRotation
begin

text \<open>
  What the recorded outcomes of direct messages do to a sending account: the account is locked
  exactly after three qualified failures in a row, as the evaluator of a sequence says.
\<close>

section \<open>The newest event\<close>

lemma newest_event_snoc:
  "newest_event (es @ [e]) =
     (case newest_event es of None \<Rightarrow> Some e | Some x \<Rightarrow> if not_older e x then Some e else Some x)"
  by (simp add: newest_event_def split: option.splits)

lemma newest_event_in: "newest_event es = Some x \<Longrightarrow> x \<in> set es"
  by (induction es rule: rev_induct) (auto simp: newest_event_snoc newest_event_def split: option.splits if_splits)

lemma newest_event_last: "\<forall>x \<in> set es. not_older e x \<Longrightarrow> newest_event (es @ [e]) = Some e"
  by (auto simp: newest_event_snoc dest!: newest_event_in split: option.splits)

text \<open>The clock has reached \<open>now\<close> when no event of the account is younger.\<close>

definition clock_reached :: "int \<Rightarrow> string \<Rightarrow> crm_db \<Rightarrow> int \<Rightarrow> bool" where
  "clock_reached user acct db now = (\<forall>e \<in> set (rotation_events user acct db). ce_at e \<le> now \<and> ce_created e \<le> now)"

lemma rotation_event_fields [simp]:
  "ce_id (rotation_event uuid user acct p now) = ''crm_event_'' @ uuid"
  "ce_user (rotation_event uuid user acct p now) = user"
  "ce_lead (rotation_event uuid user acct p now) = acct"
  "ce_type (rotation_event uuid user acct p now) = ROTATION_EVENT_TYPE"
  "ce_at (rotation_event uuid user acct p now) = now"
  "ce_created (rotation_event uuid user acct p now) = now"
  "ce_active (rotation_event uuid user acct p now)"
  "ce_payload (rotation_event uuid user acct p now) = PDict p"
  by (simp_all add: rotation_event_def)

definition with_event :: "crm_event \<Rightarrow> crm_db \<Rightarrow> crm_db" where
  "with_event e db = db\<lparr>crm_events := crm_events db @ [e]\<rparr>"

lemma insert_fresh: "ce_id e \<notin> ce_id ` set (crm_events db) \<Longrightarrow> insert_crm_event e db = Inr (with_event e db)"
  by (simp add: insert_crm_event_def with_event_def)

lemma account_with_event [simp]: "rotation_account user acct (with_event e db) = rotation_account user acct db"
  by (simp add: rotation_account_def with_event_def)

lemma events_with_event:
  "rotation_events user acct (with_event e db) = rotation_events user acct db @
     (if ce_user e = user \<and> ce_lead e = acct \<and> ce_type e = ROTATION_EVENT_TYPE \<and> ce_active e then [e] else [])"
  by (simp add: rotation_events_def with_event_def)

lemma status_other:
  "ce_user e \<noteq> user \<or> ce_lead e \<noteq> acct \<or> ce_type e \<noteq> ROTATION_EVENT_TYPE \<Longrightarrow>
     get_sender_rotation_status user acct (with_event e db) = get_sender_rotation_status user acct db"
  by (auto simp: get_sender_rotation_status_def events_with_event)

lemma newest_rotation_event:
  assumes "clock_reached user acct db now"
  shows "newest_event (rotation_events user acct (with_event (rotation_event uuid user acct p now) db))
    = Some (rotation_event uuid user acct p now)"
  using assms by (auto simp: events_with_event clock_reached_def not_older_def order.strict_iff_order intro!: newest_event_last)

lemma clock_with_event:
  "clock_reached user acct db now \<Longrightarrow> now \<le> t \<Longrightarrow> clock_reached user acct (with_event (rotation_event uuid user acct p now) db) t"
  by (auto simp: clock_reached_def events_with_event)

lemma status_count_nonneg: "get_sender_rotation_status user acct db = Inr st \<Longrightarrow> 0 \<le> rs_count st"
  by (auto simp: get_sender_rotation_status_def bindr_eq_Inr Let_def)

section \<open>One recorded outcome\<close>

definition next_count :: "bool \<Rightarrow> int \<Rightarrow> int" where
  "next_count qualified n = (if qualified then n + 1 else 0)"

lemma record_one:
  assumes "rotation_account user acct db = Inr a" and "get_sender_rotation_status user acct db = Inr st"
    and "clock_reached user acct db (sr_now r)" and "''crm_event_'' @ sr_uuid r \<notin> ce_id ` set (crm_events db)"
  shows "\<exists>st' p. update_sender_rotation_status user acct r db =
        Inr (st', with_event (rotation_event (sr_uuid r) user acct p (sr_now r)) db)
    \<and> get_sender_rotation_status user acct (with_event (rotation_event (sr_uuid r) user acct p (sr_now r)) db) = Inr st'
    \<and> rs_count st' = next_count (qualified_failure a r) (rs_count st)
    \<and> rs_locked st' = (3 \<le> rs_count st')"
  using assms status_count_nonneg [OF assms(2)]
  by (auto simp: update_sender_rotation_status_def Let_def insert_fresh next_count_def ROTATION_LOCK_THRESHOLD_def
      get_sender_rotation_status_def [of _ _ "with_event _ _"] newest_rotation_event rotation_payload_def)

section \<open>Many recorded outcomes\<close>

fun record_results :: "int \<Rightarrow> string \<Rightarrow> send_result list \<Rightarrow> crm_db \<Rightarrow> (rotation_status list \<times> crm_db) res" where
  "record_results user acct [] db = Inr ([], db)"
| "record_results user acct (r # rs) db =
     bindr (update_sender_rotation_status user acct r db) (\<lambda>(s, db').
     bindr (record_results user acct rs db') (\<lambda>(ss, db''). Inr (s # ss, db'')))"

text \<open>The outcomes arrive in the order of the clock, with identifiers of their own.\<close>

definition arrive :: "int \<Rightarrow> string \<Rightarrow> send_result list \<Rightarrow> crm_db \<Rightarrow> bool" where
  "arrive user acct rs db =
     (distinct (map sr_uuid rs) \<and> sorted (map sr_now rs)
      \<and> (\<forall>r \<in> set rs. ''crm_event_'' @ sr_uuid r \<notin> ce_id ` set (crm_events db) \<and> clock_reached user acct db (sr_now r)))"

lemma arrive_Cons:
  assumes "arrive user acct (r # rs) db"
  shows "arrive user acct rs (with_event (rotation_event (sr_uuid r) user acct p (sr_now r)) db)"
  using assms by (auto simp: arrive_def clock_with_event) (auto simp: with_event_def image_iff)

text \<open>The counts an account passes through.\<close>

fun strikes :: "int \<Rightarrow> bool list \<Rightarrow> int list" where
  "strikes n [] = []"
| "strikes n (q # qs) = next_count q n # strikes (next_count q n) qs"

lemma length_strikes [simp]: "length (strikes n qs) = length qs"
  by (induction qs arbitrary: n) auto

lemma record_all:
  assumes "rotation_account user acct db = Inr a" and "get_sender_rotation_status user acct db = Inr st"
    and "arrive user acct rs db"
  shows "\<exists>ss db'. record_results user acct rs db = Inr (ss, db')
    \<and> map rs_count ss = strikes (rs_count st) (map (qualified_failure a) rs)
    \<and> map rs_locked ss = map (\<lambda>n. 3 \<le> n) (strikes (rs_count st) (map (qualified_failure a) rs))"
  using assms
proof (induction rs arbitrary: db st)
  case (Cons r rs)
  let ?db = "\<lambda>p. with_event (rotation_event (sr_uuid r) user acct p (sr_now r)) db"
  obtain st' p where one: "update_sender_rotation_status user acct r db = Inr (st', ?db p)"
    "get_sender_rotation_status user acct (?db p) = Inr st'"
    "rs_count st' = next_count (qualified_failure a r) (rs_count st)" "rs_locked st' = (3 \<le> rs_count st')"
    using record_one [OF Cons.prems(1,2), of r] Cons.prems(3) by (auto simp: arrive_def)
  from Cons.IH [OF _ one(2) arrive_Cons [OF Cons.prems(3)]] Cons.prems(1) one show ?case
    by auto
qed simp

lemma strikes_step:
  "i < length qs \<Longrightarrow> strikes n qs ! i = next_count (qs ! i) (if i = 0 then n else strikes n qs ! (i - 1))"
proof (induction qs arbitrary: n i)
  case (Cons q qs)
  then show ?case by (cases i) (auto split: if_splits)
qed simp

lemma strikes_nonneg: "0 \<le> n \<Longrightarrow> i < length qs \<Longrightarrow> 0 \<le> strikes n qs ! i"
  by (induction i) (simp_all add: strikes_step next_count_def)

lemma strikes_three:
  assumes "i < length qs"
  shows "3 \<le> strikes 0 qs ! i \<longleftrightarrow> 2 \<le> i \<and> qs ! i \<and> qs ! (i - 1) \<and> qs ! (i - 2)"
proof -
  have *: "k \<le> i \<Longrightarrow> strikes 0 qs ! k = next_count (qs ! k) (if k = 0 then 0 else strikes 0 qs ! (k - 1))" for k
    using assms by (simp add: strikes_step)
  consider "i = 0" | "i = 1" | j where "i = Suc (Suc j)" by (metis One_nat_def not0_implies_Suc)
  then show ?thesis
  proof cases
    case 3
    have "0 \<le> (if j = 0 then 0 else strikes 0 qs ! (j - 1))"
      using strikes_nonneg [of 0 "j - 1" qs] assms 3 by auto
    then show ?thesis
      using * [of j] * [of "Suc j"] * [of "Suc (Suc j)"] by (auto simp: next_count_def 3)
  qed (use * [of 0] * [of 1] in \<open>auto simp: next_count_def\<close>)
qed

section \<open>The evaluator\<close>

lemma rotation_loop_required: "snd (rotation_loop counts n xs) = (\<exists>k \<in> set (strikes n (map counts xs)). 3 \<le> k)"
  by (induction xs arbitrary: n) (auto simp: Let_def next_count_def ROTATION_LOCK_THRESHOLD_def)

lemma rotation_loop_count:
  "\<not> snd (rotation_loop counts n xs) \<Longrightarrow> fst (rotation_loop counts n xs) = last (n # strikes n (map counts xs))"
  by (induction xs arbitrary: n) (auto simp: Let_def next_count_def ROTATION_LOCK_THRESHOLD_def split: if_splits)

text \<open>An outcome the way the evaluator receives it.\<close>

definition result_item :: "send_result \<Rightarrow> pyval" where
  "result_item r = PDict
     [(''sent'', PBool (sr_sent r)), (''status'', PStr (sr_status r)), (''warning'', PStr (sr_warning r)),
      (''logged_in_username'', PStr (sr_logged_in r)), (''inspected_url'', PStr (sr_url r))]"

lemma item_counts_result: "item_counts (sa_platform a) (sa_username a) (result_item r) = qualified_failure a r"
  by (auto simp: item_counts_def result_item_def qualified_failure_def result_failure_def Let_def py_or_def)

section \<open>Resets, other accounts, lifted locks\<close>

lemma update_other_account:
  assumes "update_sender_rotation_status user acct r db = Inr (s, db')" and "(user', acct') \<noteq> (user, acct)"
  shows "get_sender_rotation_status user' acct' db' = get_sender_rotation_status user' acct' db"
  using assms by (auto simp: update_sender_rotation_status_def bindr_eq_Inr Let_def insert_crm_event_def
      with_event_def [symmetric] status_other split: if_splits)

lemma reset_unlocks:
  assumes "rotation_account user acct db = Inr a" and "clock_reached user acct db now"
    and "''crm_event_'' @ uuid \<notin> ce_id ` set (crm_events db)"
  shows "\<exists>st db'. reset_sender_rotation_status user acct True uuid now db = Inr (st, db')
    \<and> rs_count st = 0 \<and> rs_reset_at st = now \<and> require_sender_rotation_unlocked user acct db' = Inr st"
  using assms by (auto simp: reset_sender_rotation_status_def Let_def insert_fresh require_sender_rotation_unlocked_def
      get_sender_rotation_status_def newest_rotation_event rotation_payload_def ROTATION_LOCK_THRESHOLD_def)

lemma unconfirmed_reset_raises:
  "reset_sender_rotation_status user acct False uuid now db = Inl (CRMError ''crm_rotation_follow_confirmation_required'' 409)"
  by (simp add: reset_sender_rotation_status_def)

text \<open>
  The lock is not kept by the recorder: an outcome that is no qualified failure, a time-out for
  example, recorded for a locked account opens it again, with no follow action confirmed.
\<close>

lemma lock_lifted_without_confirmation:
  assumes "rotation_account user acct db = Inr a" and "get_sender_rotation_status user acct db = Inr st"
    and "rs_locked st" and "clock_reached user acct db (sr_now r)"
    and "''crm_event_'' @ sr_uuid r \<notin> ce_id ` set (crm_events db)" and "\<not> qualified_failure a r"
  shows "require_sender_rotation_unlocked user acct db = Inl (CRMError ''crm_sender_rotation_locked'' 409)
    \<and> (\<exists>st' db'. update_sender_rotation_status user acct r db = Inr (st', db')
        \<and> require_sender_rotation_unlocked user acct db' = Inr st')"
  using record_one [OF assms(1,2,4,5)] assms(2,3,6)
  by (auto simp: require_sender_rotation_unlocked_def next_count_def)

text \<open>An imported state locks after two failures, one before a recorded one does.\<close>

lemma import_locks_after_two:
  assumes "imported_failures state = Inr 2"
  shows "\<exists>p. imported_rotation_payload a state = Inr p \<and> dget p ''locked'' = PBool True
    \<and> dget p ''consecutive_composer_failures'' = PInt 2"
  using assms by (simp add: imported_rotation_payload_def)

section \<open>Three in a row\<close>

text \<open>C26: Direct messages recorded one after the other on an account with no failure pending never raise; the account is
  locked after a message exactly when that message and the two before it failed because the verified sender had no
  composer, and the evaluator of the sequence asks for rotation exactly when the account was locked on the way.\<close>

theorem rotation_locks_after_three:
  assumes "rotation_account user acct db = Inr a" and "get_sender_rotation_status user acct db = Inr st"
    and "rs_count st = 0" and "arrive user acct rs db"
  shows "\<exists>ss db'. record_results user acct rs db = Inr (ss, db') \<and> length ss = length rs
    \<and> (\<forall>i < length rs. rs_locked (ss ! i) \<longleftrightarrow>
        2 \<le> i \<and> qualified_failure a (rs ! i) \<and> qualified_failure a (rs ! (i - 1)) \<and> qualified_failure a (rs ! (i - 2)))
    \<and> rv_required (evaluate_sender_rotation_sequence (map result_item rs) (sa_platform a) (sa_username a))
        = (\<exists>s \<in> set ss. rs_locked s)"
proof -
  let ?qs = "map (qualified_failure a) rs"
  obtain ss db' where run: "record_results user acct rs db = Inr (ss, db')"
    and locked: "map rs_locked ss = map (\<lambda>n. 3 \<le> n) (strikes 0 ?qs)"
    using record_all [OF assms(1,2,4)] assms(3) by auto
  have len: "length ss = length rs" using arg_cong [OF locked, of length] by simp
  have at: "rs_locked (ss ! i) \<longleftrightarrow> 3 \<le> strikes 0 ?qs ! i" if "i < length rs" for i
    using arg_cong [OF locked, of "\<lambda>xs. xs ! i"] that len by simp
  have qs: "map (item_counts (sa_platform a) (sa_username a)) (map result_item rs) = ?qs"
    by (simp add: item_counts_result)
  have "rv_required (evaluate_sender_rotation_sequence (map result_item rs) (sa_platform a) (sa_username a))
      = (\<exists>n \<in> set (strikes 0 ?qs). 3 \<le> n)"
    using rotation_loop_required [of "item_counts (sa_platform a) (sa_username a)" 0 "map result_item rs"]
    by (simp add: evaluate_sender_rotation_sequence_def qs split_beta del: map_map)
  also have "\<dots> = (True \<in> set (map (\<lambda>n. 3 \<le> n) (strikes 0 ?qs)))" by auto
  also have "\<dots> = (\<exists>s \<in> set ss. rs_locked s)" unfolding locked [symmetric] by auto
  finally show ?thesis
    using run len at strikes_three [of _ ?qs] by (auto simp: nth_map)
qed

section \<open>A concrete account\<close>

definition rotation_demo :: crm_db where
  "rotation_demo = \<lparr>sender_accounts = [\<lparr>sa_id = ''acc'', sa_user = 7, sa_platform = ''threads'', sa_username = ''sender''\<rparr>],
     crm_events = []\<rparr>"

definition no_composer :: "string \<Rightarrow> int \<Rightarrow> send_result" where
  "no_composer uuid now = \<lparr>sr_uuid = uuid, sr_now = now, sr_sent = False,
     sr_warning = ''no usable message composer'', sr_status = ''composer_unavailable'', sr_recipient = ''lead'',
     sr_logged_in = ''@Sender'', sr_url = ''www.threads.net/messages/123''\<rparr>"

definition demo_results :: "send_result list" where
  "demo_results = [no_composer ''a'' 100, no_composer ''b'' 160, no_composer ''c'' 220]"

lemma rotation_demo_account:
  "rotation_account 7 ''acc'' rotation_demo
    = Inr \<lparr>sa_id = ''acc'', sa_user = 7, sa_platform = ''threads'', sa_username = ''sender''\<rparr>"
  by (simp add: rotation_account_def rotation_demo_def)

lemma rotation_demo_status:
  "\<exists>st. get_sender_rotation_status 7 ''acc'' rotation_demo = Inr st \<and> rs_count st = 0"
  by (simp add: get_sender_rotation_status_def rotation_account_def rotation_events_def newest_event_def
      rotation_payload_def rotation_demo_def)

lemma no_composer_failure:
  "mf_counts (classify_sender_message_failure ''threads'' ''no usable message composer'' ''composer_unavailable''
     ''sender'' ''@Sender'' ''www.threads.net/messages/123'')"
  by code_simp

lemma no_composer_qualified:
  "qualified_failure \<lparr>sa_id = ''acc'', sa_user = 7, sa_platform = ''threads'', sa_username = ''sender''\<rparr> (no_composer u t)"
  using no_composer_failure by (simp add: qualified_failure_def result_failure_def no_composer_def)

lemma demo_arrive: "arrive 7 ''acc'' demo_results rotation_demo"
  by (simp add: arrive_def demo_results_def no_composer_def rotation_demo_def clock_reached_def rotation_events_def)

theorem rotation_locks_after_three_witness:
  "\<exists>ss db'. record_results 7 ''acc'' demo_results rotation_demo = Inr (ss, db') \<and> \<not> rs_locked (ss ! 1) \<and> rs_locked (ss ! 2)"
proof -
  obtain st where st: "get_sender_rotation_status 7 ''acc'' rotation_demo = Inr st" "rs_count st = 0"
    using rotation_demo_status by blast
  have "demo_results ! 0 = no_composer ''a'' 100" "demo_results ! 1 = no_composer ''b'' 160"
    "demo_results ! 2 = no_composer ''c'' 220" "length demo_results = 3"
    by (simp_all add: demo_results_def)
  then show ?thesis
    using rotation_locks_after_three [OF rotation_demo_account st demo_arrive] no_composer_qualified by auto
qed

end
