(* ===== verification/Spec2Isabelle.thy ===== *)
theory Spec2Isabelle
  imports BillingRefinementProps ProxyPurchaseProps ProxyRenewalProps ProxyEdgeProps
    SenderRotationProps
begin

text \<open>
  A verification development of the money paths of the web application: commercial billing
  (webapp/commercial_billing.py, tables in webapp/db.py) and the purchase of proxies on top of it
  (webapp/proxy_purchases.py, webapp/proxy_providers/, webapp/exchange_rates.py,
  webapp/proxy_market_credentials.py); and, of the CRM, of the rotation that stops a sending
  account (webapp/crm/account_rotation.py).  The rest of the repository is web routes, browser
  automation, media pipelines and front ends; PROJECT.json lists it part by part with the
  reason it is left out.

  \<^bold>\<open>The program.\<close>  Billing keeps a wallet per user (credit units, a part of them backed by cash,
  free image grants), an append-only ledger, orders for credit packs and subscriptions that an
  administrator approves or refunds, and reservations: a task holds points before it runs and
  settles or releases the hold afterwards.  Purchasing turns the price a supplier quotes into
  points that cover the cost (\<open>create_quote\<close>), holds the points and records the order in one
  transaction, asks the supplier exactly once, and then reconciles: a delivered proxy charges
  the hold, a refused order gives it back, an unknown outcome waits for an administrator.
  Renewal schedules, webhooks and sweeps of a worker run beside that.  Purchasing calls billing
  through \<open>reserve_exact_cash_charge\<close>, \<open>settle_reservation\<close>, \<open>release_reservation\<close> and
  \<open>refund_settled_exact_cash_charge\<close>; what it assumes of them is what the billing theories prove.

  The rotation stands by itself: each direct message that ends files an event on its account
  (\<open>update_sender_rotation_status\<close>), the newest event is the state of the account, and a
  locked account gets no further message until \<open>reset_sender_rotation_status\<close>.

  \<^bold>\<open>How code is modelled.\<close>  A Python value is a \<open>pyval\<close> (\<open>PyValue\<close>), an exception that leaves a
  function is \<open>Inl\<close> of a \<open>pyexc\<close>, a result \<open>Inr\<close> (\<open>Prelude\<close>).  A table is a list of rows in
  insertion order, read and written by the list operations the SQL statements compile to
  (\<open>keyed_table\<close>); UNIQUE, CHECK and trigger conditions are the conditions of the insert and
  update statements, which answer \<open>IntegrityError\<close>.  The billing database is the record \<open>bdb\<close>
  (\<open>BillingSchema\<close>), the purchasing one \<open>pdb\<close> contains it (\<open>ProxySchema\<close>).  A billing operation is
  a function from the database to a result and the new database; the caller rolls back when it
  raises.  A purchasing handler commits several times, so it is a \<open>proc\<close> over \<open>sys\<close> (database,
  outside world, calls that spend money) built from \<open>atomically\<close>, \<open>reading\<close>, \<open>asking\<close>,
  \<open>spending\<close> and \<open>catching\<close>.  Binary floats are rationals rounded by \<open>b64\<close> (\<open>Binary64\<close>),
  \<open>decimal\<close> values are exact coefficient and exponent with 28-digit rounding (\<open>Decimal28\<close>).

  \<^bold>\<open>Theories, in the order of the code.\<close>
  \<^item> \<open>Prelude\<close>, \<open>PyValue\<close>, \<open>Binary64\<close>, \<open>Decimal28\<close>, \<open>Calendar\<close>: results, list operations, values, numbers,
    calendar months in Shanghai time.
  \<^item> \<open>BillingSchema\<close>: rows and statements.  \<open>CatalogData\<close>, \<open>BillingCatalog\<close>, \<open>BillingVersions\<close>: the price
    catalog, its validation and its versions.  \<open>BillingPoints\<close>: points and units.
  \<^item> \<open>BillingWallet\<close>, \<open>BillingReservations\<close>, \<open>BillingSettlement\<close>: wallets, holds by rate and exact holds, their
    ends.  \<open>BillingOrders\<close>, \<open>BillingRefunds\<close>, \<open>BillingQueries\<close>, \<open>BillingMigrations\<close>: orders, refunds and
    terminations, reports, the start of the application and its migrations.
  \<^item> \<open>ExchangeRates\<close>, \<open>ProxyPricing\<close>, \<open>CityNames\<close>, \<open>ProxyPayloads\<close>: the reference rate, prices, reading what
    a supplier sends, redaction.  \<open>ProxySchema\<close>, \<open>ProxyConfig\<close>, \<open>ProxyQuotes\<close>, \<open>ProxyDelivery\<close>,
    \<open>ProxyOrders\<close>, \<open>ProxyRenewals\<close>, \<open>ProxyEvents\<close>: the purchasing operations.  \<open>ProxyMock\<close> and
    \<open>ProxyCheap\<close>: the two suppliers of webapp/proxy_providers, instances of the record \<open>supplier\<close>.
  \<^item> \<open>SenderRotation\<close>: the classification of failed messages, the rotation state and its operations over the
    record \<open>crm_db\<close> (social_accounts and crm_events), the imported states.

  \<^bold>\<open>Lemmas.\<close>  \<open>BillingBooks\<close> defines the books of a user (the wallet is the running sum of the
  ledger, what is outstanding is what reservations hold or charged); \<open>BillingPostings\<close>,
  \<open>BillingSafety\<close>, \<open>BillingCharges\<close>, \<open>BillingOrderSafety\<close> show that every operation keeps them.
  \<open>BillingReplay\<close> and \<open>BillingOrderFlow\<close> show what repeated requests and whole orders do.
  \<open>BillingStatements\<close> reduces every operation to a sequence of elementary statements, over which \<open>BillingInvariants\<close> proves the constraints and the life
  cycles of rows by a locale; \<open>BillingMachine\<close> is the step relation \<open>bill_step\<close> and reachability.
  \<open>BillingEndings\<close> and \<open>BillingImages\<close> compute what single operations do to balances;
  \<open>BillingAccounts\<close> is the abstract account that holds refine.  \<open>ProxyMachine\<close> is the purchasing
  component as a step relation whose steps are single transactions, so handlers interleave and
  a process may die while a request is in flight; \<open>ProxyMoney\<close> shows that its transactions are
  runs of billing, \<open>ProxySafety\<close> proves its invariant by the locale \<open>machine_invariant\<close>, \<open>ProxyRuns\<close>
  and \<open>ProxyService\<close> show with Hoare-like rules that every handler is a run of the machine, and
  \<open>ProxyOutcomes\<close> and \<open>ProxyBuying\<close> follow one purchase.  \<open>BillingStart\<close> is about the start and the
  migrations; \<open>BillingDemo\<close> and \<open>ProxyDemo\<close> are concrete states and runs for the witnesses.  \<open>SenderRotationProps\<close>
  reduces a sequence of recorded messages to the counts it runs through (\<open>strikes\<close>) and relates them to
  the evaluator of the code.  The properties C1 to C40 stand in \<open>BillingProps\<close>, \<open>BillingReservationProps\<close>,
  \<open>BillingOrderProps\<close>, \<open>BillingHistoryProps\<close>, \<open>BillingRefinementProps\<close>, \<open>ProxyPurchaseProps\<close>,
  \<open>ProxyRenewalProps\<close>, \<open>ProxyEdgeProps\<close>, \<open>SenderRotationProps\<close>.

  \<^bold>\<open>Assumptions.\<close>  \<open>uuids_ok\<close>: the random identifiers are different from each other, hexadecimal
  strings.  \<open>fresh_db\<close>: the installation starts with users and settings but no billing rows.
  \<open>plain_meta\<close>: the metadata of an exact hold does not claim unlimited compute, which both
  callers satisfy.  \<open>picks\<close>: \<open>next(iter(s))\<close> gives an element of \<open>s\<close>.  A billing operation that raises is rolled
  back, which is what the request handlers do.  The supplier, its world, the JSON decoder, the
  keyed digest, the ISO time parser, the vault and the HTTP session are arguments.  \<open>arrive\<close>: messages of
  one account are filed in the order of the clock under identifiers not used before.

  \<^bold>\<open>Bounds.\<close>  The shortest decimal form of a binary float is searched up to 17 digits, enough for
  every float (\<open>shortest_digits\<close> in \<open>PyValue\<close>).  The search through a supplier's answer is total; C40 bounds its rounds by
  the size of the answer.  No other recursion needs fuel.

  \<^bold>\<open>Not modelled.\<close>  Texts for people, the columns error_detail, last_error and request_hash, audit
  records and localized messages; listings for screens (list_orders, list_owned_assets,
  purchase_options, provider_options and the stored snapshot of offers); the choice of the
  supplier from the environment and the versions of its credentials; timeouts and headers of
  HTTP.  Lower case is ASCII, strings are sequences of bytes as \<open>char\<close>, decimal exponents have no
  limit.  The cache of the exchange rate is modelled in \<open>ExchangeRates\<close>; inside the handlers the
  rate is the component \<open>pv_fx\<close> of the supplier record.  One administrative route commits after
  an exception (webapp/proxy_purchase_api.py, listed among the findings); the machine has no
  step for it.
\<close>

end
